(* ===== verification/Go_Prelude.thy ===== *)
theory Go_Prelude
  imports "HOL-Library.Word" "HOL-Library.Finite_Map" "HOL-Library.Char_ord"
begin

text \<open>
  What every component of the development shares.

  \<^item> \<open>outcome\<close>: what a piece of Go code ends in. \<open>Return\<close> is a normal return,
    \<open>Panic\<close> a run-time panic (a nil dereference, an index out of range, a write to a nil map,
    a failed type assertion), \<open>NoFuel\<close> an exhausted recursion budget (used only where the
    source recurses with no bound of its own).
  \<^item> \<open>go\<close>: an effectful computation over a world \<open>'w\<close>. The world is
    whatever the program talks to (the API server, the clock, the network); it is a type
    variable, so nothing is assumed about it here.
  \<^item> \<open>gerror\<close>: a Go \<open>error\<close> value, with its text and the status reason that
    \<open>k8sErr.IsNotFound\<close> and \<open>k8sErr.IsConflict\<close> look for through \<open>%w\<close> wrapping.
  \<^item> the pieces of the Go standard library the program uses (\<open>fmt.Sprintf("%d")\<close>,
    \<open>strconv.Atoi\<close>, \<open>strings.Split\<close>, \<open>strings.HasPrefix\<close>, \<open>strings.TrimSuffix\<close>,
    \<open>strings.ToUpper\<close>).
\<close>

section \<open>Collections of facts\<close>

named_theorems go_run \<open>unfolding of the effect combinators on a world\<close>
named_theorems robo_consts \<open>the string constants of the program\<close>
named_theorems str_simps \<open>facts on the string routines of the standard library\<close>

section \<open>Outcomes and effects\<close>

datatype 'a outcome = Return 'a | Panic string | NoFuel

type_synonym ('w, 'a) go = "'w \<Rightarrow> 'a outcome \<times> 'w"

definition obind :: "'a outcome \<Rightarrow> ('a \<Rightarrow> 'b outcome) \<Rightarrow> 'b outcome" where
  "obind m f = (case m of Return x \<Rightarrow> f x | Panic s \<Rightarrow> Panic s | NoFuel \<Rightarrow> NoFuel)"

definition retg :: "'a \<Rightarrow> ('w, 'a) go" where
  "retg x = (\<lambda>w. (Return x, w))"

definition panicg :: "string \<Rightarrow> ('w, 'a) go" where
  "panicg s = (\<lambda>w. (Panic s, w))"

definition nofuelg :: "('w, 'a) go" where
  "nofuelg = (\<lambda>w. (NoFuel, w))"

definition bindg :: "('w, 'a) go \<Rightarrow> ('a \<Rightarrow> ('w, 'b) go) \<Rightarrow> ('w, 'b) go" where
  "bindg m f = (\<lambda>w. case m w of
       (Return x, w') \<Rightarrow> f x w'
     | (Panic s, w') \<Rightarrow> (Panic s, w')
     | (NoFuel, w') \<Rightarrow> (NoFuel, w'))"

definition callg :: "('w \<Rightarrow> 'a \<times> 'w) \<Rightarrow> ('w, 'a) go" where
  \<comment> \<open>a call of an operation outside the program, which always returns\<close>
  "callg op = (\<lambda>w. case op w of (x, w') \<Rightarrow> (Return x, w'))"

definition effg :: "('w \<Rightarrow> 'w) \<Rightarrow> ('w, unit) go" where
  \<comment> \<open>an outside operation with no result\<close>
  "effg op = (\<lambda>w. (Return (), op w))"

definition pureg :: "'a outcome \<Rightarrow> ('w, 'a) go" where
  \<comment> \<open>code that touches local data only\<close>
  "pureg r = (\<lambda>w. (r, w))"

text \<open>The run-time panics of the source, by their Go texts.\<close>

definition nil_deref :: string where
  "nil_deref = ''invalid memory address or nil pointer dereference''"
definition index_out_of_range :: string where
  "index_out_of_range = ''index out of range''"
definition nil_map_write :: string where
  "nil_map_write = ''assignment to entry in nil map''"
definition bad_assertion :: string where
  "bad_assertion = ''interface conversion''"

definition deref :: "'a option \<Rightarrow> 'a outcome" where
  \<comment> \<open>\<open>*p\<close>\<close>
  "deref p = (case p of None \<Rightarrow> Panic nil_deref | Some x \<Rightarrow> Return x)"

lemma deref_simps [simp]: "deref None = Panic nil_deref" "deref (Some x) = Return x"
  by (simp_all add: deref_def)

lemma deref_eq_Return [simp]: "deref p = Return x \<longleftrightarrow> p = Some x"
  by (cases p) simp_all

lemma deref_eq_Panic [simp]: "deref p = Panic s \<longleftrightarrow> p = None \<and> s = nil_deref"
  by (cases p) auto

lemma deref_neq_NoFuel [simp]: "deref p \<noteq> NoFuel"
  by (cases p) simp_all

lemma obind_simps [simp]:
  "obind (Return x) f = f x"
  "obind (Panic s) f = Panic s"
  "obind NoFuel f = NoFuel"
  by (simp_all add: obind_def)

lemma obind_assoc: "obind (obind m f) g = obind m (\<lambda>x. obind (f x) g)"
  by (cases m) simp_all

lemma obind_eq_Return [simp]:
  "obind m f = Return y \<longleftrightarrow> (\<exists>x. m = Return x \<and> f x = Return y)"
  by (cases m) simp_all

lemma retg_run [simp, go_run]: "retg x w = (Return x, w)"
  by (simp add: retg_def)

lemma panicg_run [simp, go_run]: "panicg s w = (Panic s, w)"
  by (simp add: panicg_def)

lemma nofuelg_run [simp, go_run]: "nofuelg w = (NoFuel, w)"
  by (simp add: nofuelg_def)

lemma pureg_run [simp, go_run]: "pureg r w = (r, w)"
  by (simp add: pureg_def)

lemma effg_run [simp, go_run]: "effg op w = (Return (), op w)"
  by (simp add: effg_def)

lemma callg_run [simp, go_run]: "callg op w = (Return (fst (op w)), snd (op w))"
  by (simp add: callg_def split: prod.split)

lemma bindg_run [go_run]:
  "bindg m f w = (case m w of
       (Return x, w') \<Rightarrow> f x w'
     | (Panic s, w') \<Rightarrow> (Panic s, w')
     | (NoFuel, w') \<Rightarrow> (NoFuel, w'))"
  by (simp add: bindg_def)

lemma bindg_simps [simp]:
  "bindg (retg x) f w = f x w"
  "bindg (panicg s) f w = (Panic s, w)"
  "bindg nofuelg f w = (NoFuel, w)"
  "bindg (pureg (Return x)) f w = f x w"
  "bindg (pureg (Panic s)) f w = (Panic s, w)"
  "bindg (effg op) (\<lambda>u. g u) w = g () (op w)"
  "bindg (callg c) f w = f (fst (c w)) (snd (c w))"
  by (simp_all add: bindg_def)

lemma bindg_assoc: "bindg (bindg m f) g = bindg m (\<lambda>x. bindg (f x) g)"
  by (rule ext) (simp add: bindg_def split: prod.split outcome.split)

lemma bindg_ReturnE:
  assumes "bindg m f w = (Return y, w')"
  obtains x w1 where "m w = (Return x, w1)" "f x w1 = (Return y, w')"
  using assms by (auto simp: bindg_def split: prod.splits outcome.splits)

lemma bindg_ReturnI:
  "m w = (Return x, w1) \<Longrightarrow> f x w1 = r \<Longrightarrow> bindg m f w = r"
  by (simp add: bindg_def)

text \<open>
  A predicate on worlds that a computation never breaks, and the rules that carry such a fact
  through the combinators.
\<close>

definition keeps :: "('w \<Rightarrow> bool) \<Rightarrow> ('w, 'a) go \<Rightarrow> bool" where
  "keeps P m \<longleftrightarrow> (\<forall>w. P w \<longrightarrow> P (snd (m w)))"

lemma keepsD: "keeps P m \<Longrightarrow> P w \<Longrightarrow> m w = (r, w') \<Longrightarrow> P w'"
  unfolding keeps_def by (metis snd_conv)

lemma keeps_retg [intro, simp]: "keeps P (retg x)"
  by (simp add: keeps_def)

lemma keeps_panicg [intro, simp]: "keeps P (panicg s)"
  by (simp add: keeps_def)

lemma keeps_nofuelg [intro, simp]: "keeps P nofuelg"
  by (simp add: keeps_def)

lemma keeps_pureg [intro, simp]: "keeps P (pureg r)"
  by (simp add: keeps_def)

lemma keeps_callg: "(\<And>w. P w \<Longrightarrow> P (snd (c w))) \<Longrightarrow> keeps P (callg c)"
  by (simp add: keeps_def)

lemma keeps_effg: "(\<And>w. P w \<Longrightarrow> P (op w)) \<Longrightarrow> keeps P (effg op)"
  by (simp add: keeps_def)

lemma keeps_bindg: "keeps P m \<Longrightarrow> (\<And>x. keeps P (f x)) \<Longrightarrow> keeps P (bindg m f)"
  unfolding keeps_def bindg_def by (fastforce split: prod.split outcome.split)

definition ends :: "'a outcome \<times> 'w \<Rightarrow> ('a \<Rightarrow> 'w \<Rightarrow> bool) \<Rightarrow> bool" where
  \<comment> \<open>the run returned, with a value and a world of this kind\<close>
  "ends m P = (case m of (Return x, w') \<Rightarrow> P x w' | _ \<Rightarrow> False)"

lemma endsE:
  assumes "ends m P"
  obtains x w' where "m = (Return x, w')" "P x w'"
  using assms by (auto simp: ends_def split: prod.splits outcome.splits)

lemma ends_run: "m = (Return x, w') \<Longrightarrow> ends m P = P x w'"
  by (simp add: ends_def)

section \<open>Loops\<close>

primrec foldo :: "('a \<Rightarrow> 'b \<Rightarrow> 'b outcome) \<Rightarrow> 'a list \<Rightarrow> 'b \<Rightarrow> 'b outcome" where
  \<comment> \<open>a \<open>range\<close> loop over local data whose body may panic\<close>
  "foldo f [] s = Return s"
| "foldo f (x # xs) s = obind (f x s) (foldo f xs)"

primrec foldg :: "('a \<Rightarrow> 'b \<Rightarrow> ('w, 'b) go) \<Rightarrow> 'a list \<Rightarrow> 'b \<Rightarrow> ('w, 'b) go" where
  \<comment> \<open>a \<open>range\<close> loop with effects\<close>
  "foldg f [] s = retg s"
| "foldg f (x # xs) s = bindg (f x s) (foldg f xs)"

lemma foldo_total: "(\<And>x s. f x s = Return (g x s)) \<Longrightarrow> foldo f xs s = Return (fold g xs s)"
  by (induction xs arbitrary: s) simp_all

lemma foldg_invariant:
  assumes "\<And>x s w s' w'. x \<in> set xs \<Longrightarrow> P s w \<Longrightarrow> f x s w = (Return s', w') \<Longrightarrow> P s' w'"
  shows "P s w \<Longrightarrow> foldg f xs s w = (Return s', w') \<Longrightarrow> P s' w'"
  using assms
proof (induction xs arbitrary: s w)
  case Nil
  then show ?case by simp
next
  case (Cons x xs)
  from Cons.prems(2) obtain s1 w1 where
    "f x s w = (Return s1, w1)" "foldg f xs s1 w1 = (Return s', w')"
    by (auto elim: bindg_ReturnE)
  with Cons show ?case by (metis list.set_intros)
qed

lemma keeps_foldg: "(\<And>x s. keeps P (f x s)) \<Longrightarrow> keeps P (foldg f xs s)"
  by (induction xs arbitrary: s) (auto intro: keeps_bindg)

lemma those_map_eq_Some:
  "those (map f xs) = Some ys \<longleftrightarrow> list_all2 (\<lambda>x y. f x = Some y) xs ys"
  by (induction xs arbitrary: ys)
    (auto simp: list_all2_Cons1 split: option.splits)

section \<open>Errors\<close>

datatype status_reason = ReasonNotFound | ReasonConflict | ReasonAlreadyExists | ReasonUnknown

record gerror =
  err_msg :: string
  err_reason :: status_reason

definition errorf :: "string \<Rightarrow> gerror" where
  \<comment> \<open>\<open>fmt.Errorf\<close> with no \<open>%w\<close>: a plain error, of no API status\<close>
  "errorf s = \<lparr>err_msg = s, err_reason = ReasonUnknown\<rparr>"

definition wrapf :: "string \<Rightarrow> gerror \<Rightarrow> gerror" where
  \<comment> \<open>\<open>fmt.Errorf("prefix%w", err)\<close>: the text gains the prefix, the wrapped status stays visible\<close>
  "wrapf pre e = e\<lparr>err_msg := pre @ err_msg e\<rparr>"

definition IsNotFound :: "gerror \<Rightarrow> bool" where
  "IsNotFound e \<longleftrightarrow> err_reason e = ReasonNotFound"

definition IsConflict :: "gerror \<Rightarrow> bool" where
  "IsConflict e \<longleftrightarrow> err_reason e = ReasonConflict"

lemma wrapf_reason [simp]: "err_reason (wrapf pre e) = err_reason e"
  by (simp add: wrapf_def)

lemma wrapf_msg [simp]: "err_msg (wrapf pre e) = pre @ err_msg e"
  by (simp add: wrapf_def)

lemma errorf_sel [simp]: "err_reason (errorf s) = ReasonUnknown" "err_msg (errorf s) = s"
  by (simp_all add: errorf_def)

lemma Is_wrapf [simp]:
  "IsNotFound (wrapf pre e) = IsNotFound e"
  "IsConflict (wrapf pre e) = IsConflict e"
  by (simp_all add: IsNotFound_def IsConflict_def)

lemma Is_errorf [simp]: "\<not> IsNotFound (errorf s)" "\<not> IsConflict (errorf s)"
  by (simp_all add: IsNotFound_def IsConflict_def)

lemma NotFound_not_Conflict: "IsNotFound e \<Longrightarrow> \<not> IsConflict e"
  by (simp add: IsNotFound_def IsConflict_def)

end
