(* ===== verification/Go_Strings.thy ===== *)
theory Go_Strings
  imports Go_Prelude
begin

text \<open>
  The routines of Go's \<open>strings\<close>, \<open>strconv\<close> and \<open>fmt\<close> packages that the program
  calls. A Go string is a sequence of bytes, which is what \<open>string\<close> is here.
  \<open>int32\<close> values are \<open>32 word\<close>, read signed by \<open>sint\<close>.
\<close>

type_synonym int32 = "32 word"
type_synonym int64 = "64 word"

section \<open>fmt.Sprintf("\%d", n)\<close>

definition digit_char :: "nat \<Rightarrow> char" where
  "digit_char d = char_of (48 + d)"

definition char_digit :: "char \<Rightarrow> nat" where
  "char_digit c = of_char c - 48"

definition is_digit :: "char \<Rightarrow> bool" where
  "is_digit c \<longleftrightarrow> 48 \<le> (of_char c :: nat) \<and> (of_char c :: nat) \<le> 57"

fun dec_nat :: "nat \<Rightarrow> string" where
  "dec_nat n = (if n < 10 then [digit_char n] else dec_nat (n div 10) @ [digit_char (n mod 10)])"

declare dec_nat.simps [simp del]

definition dec_int :: "int \<Rightarrow> string" where
  "dec_int i = (if i < 0 then CHR ''-'' # dec_nat (nat (- i)) else dec_nat (nat i))"

definition fmt_d :: "int32 \<Rightarrow> string" where
  "fmt_d n = dec_int (sint n)"

section \<open>strconv.Atoi\<close>

definition digits_val :: "string \<Rightarrow> nat" where
  "digits_val s = foldl (\<lambda>acc c. 10 * acc + char_digit c) 0 s"

definition max_int64 :: int where "max_int64 = 2 ^ 63 - 1"
definition min_int64 :: int where "min_int64 = - (2 ^ 63)"

definition clamp_int64 :: "int \<Rightarrow> int \<times> bool" where
  \<comment> \<open>out of range: the nearest bound and an error\<close>
  "clamp_int64 i =
     (if i > max_int64 then (max_int64, True)
      else if i < min_int64 then (min_int64, True) else (i, False))"

definition atoi :: "string \<Rightarrow> int \<times> bool" where
  \<comment> \<open>the value, and whether \<open>Atoi\<close> returns an error; the value of a syntax error is 0\<close>
  "atoi s =
     (let neg = (s \<noteq> [] \<and> hd s = CHR ''-'');
          t = (if s \<noteq> [] \<and> (hd s = CHR ''-'' \<or> hd s = CHR ''+'') then tl s else s)
      in if t = [] \<or> \<not> list_all is_digit t then (0, True)
         else clamp_int64 (if neg then - int (digits_val t) else int (digits_val t)))"

section \<open>strings\<close>

fun split_on :: "char \<Rightarrow> string \<Rightarrow> string list" where
  \<comment> \<open>\<open>strings.Split\<close> for a separator of one byte: never empty\<close>
  "split_on c [] = [[]]"
| "split_on c (x # xs) =
     (if x = c then [] # split_on c xs
      else (case split_on c xs of [] \<Rightarrow> [[x]] | y # ys \<Rightarrow> (x # y) # ys))"

definition HasPrefix :: "string \<Rightarrow> string \<Rightarrow> bool" where
  "HasPrefix s p \<longleftrightarrow> take (length p) s = p"

definition HasSuffix :: "string \<Rightarrow> string \<Rightarrow> bool" where
  "HasSuffix s p \<longleftrightarrow> length p \<le> length s \<and> drop (length s - length p) s = p"

definition TrimSuffix :: "string \<Rightarrow> string \<Rightarrow> string" where
  "TrimSuffix s p = (if HasSuffix s p then take (length s - length p) s else s)"

definition upper_char :: "char \<Rightarrow> char" where
  "upper_char c = (let n = of_char c :: nat in if 97 \<le> n \<and> n \<le> 122 then char_of (n - 32) else c)"

definition ToUpper :: "string \<Rightarrow> string" where
  \<comment> \<open>on ASCII strings, the only ones the program passes\<close>
  "ToUpper s = map upper_char s"

section \<open>Facts\<close>

lemma of_char_digit_char: "d < 10 \<Longrightarrow> (of_char (digit_char d) :: nat) = 48 + d"
  by (simp add: digit_char_def)

lemma is_digit_digit_char [str_simps]: "d < 10 \<Longrightarrow> is_digit (digit_char d)"
  by (simp add: is_digit_def of_char_digit_char)

lemma char_digit_digit_char [str_simps]: "d < 10 \<Longrightarrow> char_digit (digit_char d) = d"
  by (simp add: char_digit_def of_char_digit_char)

lemma not_digit_signs [str_simps]:
  "\<not> is_digit (CHR ''-'')" "\<not> is_digit (CHR ''+'')"
  by (simp_all add: is_digit_def)

lemma dec_nat_nonempty [str_simps]: "dec_nat n \<noteq> []"
  by (subst dec_nat.simps) simp

lemma dec_nat_digits [str_simps]: "list_all is_digit (dec_nat n)"
proof (induction n rule: dec_nat.induct)
  case (1 n)
  then show ?case
    by (cases "n < 10") (simp_all add: dec_nat.simps [of n] is_digit_digit_char)
qed

lemma digits_val_snoc: "digits_val (s @ [c]) = 10 * digits_val s + char_digit c"
  by (simp add: digits_val_def)

lemma digits_val_dec_nat [str_simps]: "digits_val (dec_nat n) = n"
proof (induction n rule: dec_nat.induct)
  case (1 n)
  show ?case
  proof (cases "n < 10")
    case True
    then show ?thesis
      by (simp add: dec_nat.simps [of n] digits_val_def char_digit_digit_char)
  next
    case False
    with 1 have "digits_val (dec_nat n) = 10 * (n div 10) + n mod 10"
      by (simp add: dec_nat.simps [of n] digits_val_snoc char_digit_digit_char)
    then show ?thesis by simp
  qed
qed

lemma hd_dec_nat: "is_digit (hd (dec_nat n))"
  using dec_nat_digits [of n] dec_nat_nonempty [of n] by (cases "dec_nat n") simp_all

lemma hd_dec_nat_sign: "hd (dec_nat n) \<noteq> CHR ''-''" "hd (dec_nat n) \<noteq> CHR ''+''"
  using hd_dec_nat [of n] not_digit_signs by auto

lemma atoi_dec_int: "min_int64 \<le> i \<Longrightarrow> i \<le> max_int64 \<Longrightarrow> atoi (dec_int i) = (i, False)"
  by (auto simp: atoi_def dec_int_def clamp_int64_def Let_def str_simps hd_dec_nat_sign)

lemma sint32_range: "- (2 ^ 31) \<le> sint (n :: int32)" "sint (n :: int32) < 2 ^ 31"
  using sint_ge [of n] sint_lt [of n] by simp_all

lemma atoi_fmt_d [str_simps]: "atoi (fmt_d n) = (sint n, False)"
  unfolding fmt_d_def
  by (rule atoi_dec_int) (use sint32_range [of n] in \<open>simp_all add: min_int64_def max_int64_def\<close>)

lemma dec_int_inject: 
  assumes "min_int64 \<le> i" "i \<le> max_int64" "min_int64 \<le> j" "j \<le> max_int64"
  shows "dec_int i = dec_int j \<longleftrightarrow> i = j"
  using assms atoi_dec_int by (metis fst_conv)

lemma fmt_d_inject [simp]: "fmt_d m = fmt_d n \<longleftrightarrow> m = n"
  by (metis atoi_fmt_d fst_conv signed_word_eqI)

lemma dec_nat_no_dash: "CHR ''-'' \<notin> set (dec_nat n)"
  using dec_nat_digits [of n] not_digit_signs(1) by (auto simp: list_all_iff)

lemma fmt_d_no_dash: "0 \<le> sint n \<Longrightarrow> CHR ''-'' \<notin> set (fmt_d n)"
  by (simp add: fmt_d_def dec_int_def dec_nat_no_dash)

lemma split_on_nonempty [simp]: "split_on c s \<noteq> []"
  by (cases s) (simp_all split: list.split)

lemma split_on_none [str_simps]: "c \<notin> set s \<Longrightarrow> split_on c s = [s]"
  by (induction s) auto

lemma split_on_append:
  "split_on c (s @ c # t) = split_on c s @ split_on c t"
proof (induction s)
  case Nil
  then show ?case by simp
next
  case (Cons x s)
  then show ?case by (cases "split_on c s") auto
qed

lemma last_split_on [str_simps]: "c \<notin> set t \<Longrightarrow> last (split_on c (s @ c # t)) = t"
  by (simp add: split_on_append split_on_none)

lemma concat_split_on: "c \<notin> \<Union> (set ` set (split_on c s))"
  by (induction s) (auto split: list.splits)

lemma HasPrefix_append [simp]: "HasPrefix (p @ s) p"
  by (simp add: HasPrefix_def)

lemma TrimSuffix_append [simp]: "TrimSuffix (s @ p) p = s"
  by (simp add: TrimSuffix_def HasSuffix_def)

lemma TrimSuffix_other: "\<not> HasSuffix s p \<Longrightarrow> TrimSuffix s p = s"
  by (simp add: TrimSuffix_def)

lemma ToUpper_get: "ToUpper ''get'' = ''GET''"
  by code_simp

lemma ToUpper_post: "ToUpper ''post'' = ''POST''"
  by code_simp

end
