(* ===== verification/Api_Common.thy ===== *)
theory Api_Common
  imports Go_Strings "HOL-Library.List_Lexorder"
begin

text \<open>
  \<open>api/v1/common.go\<close>: the phases, label keys and actions every component shares, the
  condition record, the two string-array helpers and the label edit \<open>BuildLabelObj\<close>. Also the
  object metadata of the Kubernetes API machinery (\<open>metav1.ObjectMeta\<close>), which the source uses
  as plain data through its getters and setters.

  A Go map of strings is a \<open>gomap\<close>, a finite map; where the source tells a nil map from an
  empty one the field is a \<open>gomap option\<close>, with \<open>None\<close> for nil. A slice is a list, nil and
  empty alike (\<open>Deep_Copy\<close> tells them apart). A time is its number of nanoseconds after Go's zero time, an \<open>int\<close>.
\<close>

section \<open>Data of the API machinery\<close>

type_synonym gomap = "(string, string) fmap"
type_synonym gotime = int

record owner_reference =
  or_kind :: string
  or_name :: string
  or_uid :: string
  or_controller :: bool

record object_meta =
  m_name :: string
  m_generateName :: string
  m_namespace :: string
  m_uid :: string
  m_resourceVersion :: string
  m_generation :: int64
  m_deletionTimestamp :: "gotime option"
  m_labels :: "gomap option"
  m_annotations :: "gomap option"
  m_ownerReferences :: "owner_reference list"
  m_finalizers :: "string list"

definition empty_meta :: object_meta where
  \<comment> \<open>the zero value of the struct\<close>
  "empty_meta = \<lparr>m_name = [], m_generateName = [], m_namespace = [], m_uid = [],
     m_resourceVersion = [], m_generation = 0, m_deletionTimestamp = None, m_labels = None,
     m_annotations = None, m_ownerReferences = [], m_finalizers = []\<rparr>"

definition has_label :: "object_meta \<Rightarrow> string \<Rightarrow> bool" where
  "has_label m k \<longleftrightarrow> (case m_labels m of None \<Rightarrow> False | Some l \<Rightarrow> fmlookup l k \<noteq> None)"

definition label_of :: "object_meta \<Rightarrow> string \<Rightarrow> string option" where
  "label_of m k = (case m_labels m of None \<Rightarrow> None | Some l \<Rightarrow> fmlookup l k)"

section \<open>Constants\<close>

definition GroupTypeLocation :: string where "GroupTypeLocation = ''location''"
definition GroupTypeSecurity :: string where "GroupTypeSecurity = ''Security''"
definition GroupTypeManagement :: string where "GroupTypeManagement = ''Management''"
definition StatusProvisioned :: string where "StatusProvisioned = ''Provisoned''"
definition StatusCompleted :: string where "StatusCompleted = ''Completed''"
definition StatusArchiving :: string where "StatusArchiving = ''Archiving''"
definition StatusRunning :: string where "StatusRunning = ''Running''"
definition StatusProvisioning :: string where "StatusProvisioning = ''Provisioning''"
definition StatusScheduled :: string where "StatusScheduled = ''Scheduled''"
definition StatusPending :: string where "StatusPending = ''Pending''"
definition StatusRetrying :: string where "StatusRetrying = ''Retrying''"
definition StatusFailed :: string where "StatusFailed = ''Failed''"

type_synonym resource_action = string

definition ResourceLabelAdd :: resource_action where "ResourceLabelAdd = ''LabelAdd''"
definition ResourceLabelDelete :: resource_action where "ResourceLabelDelete = ''LabelDelete''"

definition RoboKubeGroupKey :: string where "RoboKubeGroupKey = ''group.robokube.io/''"
definition RoboKubeModelKey :: string where "RoboKubeModelKey = ''model.robokube.io''"
definition RoboKubeIndexKey :: string where "RoboKubeIndexKey = ''index.model.robokube.io/''"
definition RoboKubeEntityKey :: string where "RoboKubeEntityKey = ''entity.robokube.io''"
definition RoboKubeNsKey :: string where "RoboKubeNsKey = ''robokube.io''"

lemmas phase_defs [robo_consts] =
  StatusProvisioned_def StatusCompleted_def StatusArchiving_def StatusRunning_def
  StatusProvisioning_def StatusScheduled_def StatusPending_def StatusRetrying_def
  StatusFailed_def

lemmas key_defs [robo_consts] =
  RoboKubeGroupKey_def RoboKubeModelKey_def RoboKubeIndexKey_def RoboKubeEntityKey_def
  RoboKubeNsKey_def

lemmas action_defs [robo_consts] = ResourceLabelAdd_def ResourceLabelDelete_def

lemmas group_type_defs [robo_consts] =
  GroupTypeLocation_def GroupTypeSecurity_def GroupTypeManagement_def

lemma phases_distinct:
  "distinct [StatusProvisioned, StatusCompleted, StatusArchiving, StatusRunning,
     StatusProvisioning, StatusScheduled, StatusPending, StatusRetrying, StatusFailed, []]"
  by (simp add: robo_consts)

section \<open>Condition\<close>

record condition =
  c_type :: string
  c_status :: string
  c_lastTransitionTime :: gotime
  c_reason :: string
  c_message :: string

section \<open>String arrays\<close>

fun AddToArrayUnique_scan :: "string list \<Rightarrow> string \<Rightarrow> bool" where
  \<comment> \<open>the loop with its early return: does a value equal the new one\<close>
  "AddToArrayUnique_scan [] v = False"
| "AddToArrayUnique_scan (x # xs) v = (if x = v then True else AddToArrayUnique_scan xs v)"

definition AddToArrayUnique :: "string list \<Rightarrow> string \<Rightarrow> string list" where
  "AddToArrayUnique array valueToAdd =
     (if AddToArrayUnique_scan array valueToAdd then array else array @ [valueToAdd])"

definition RemoveFromArray :: "string list \<Rightarrow> string \<Rightarrow> string list" where
  "RemoveFromArray array valueToRemove =
     foldl (\<lambda>newArray v. if v \<noteq> valueToRemove then newArray @ [v] else newArray) [] array"

lemma AddToArrayUnique_scan_iff [simp]: "AddToArrayUnique_scan xs v \<longleftrightarrow> v \<in> set xs"
  by (induction xs) auto

lemma foldl_snoc_filter: "foldl (\<lambda>acc v. if P v then acc @ [v] else acc) ys xs = ys @ filter P xs"
  by (induction xs arbitrary: ys) simp_all

lemma RemoveFromArray_filter: "RemoveFromArray xs v = filter (\<lambda>x. x \<noteq> v) xs"
  by (simp add: RemoveFromArray_def foldl_snoc_filter)

lemma set_AddToArrayUnique [simp]: "set (AddToArrayUnique xs v) = insert v (set xs)"
  by (auto simp: AddToArrayUnique_def)

lemma distinct_AddToArrayUnique: "distinct xs \<Longrightarrow> distinct (AddToArrayUnique xs v)"
  by (auto simp: AddToArrayUnique_def)

lemma set_RemoveFromArray [simp]: "set (RemoveFromArray xs v) = set xs - {v}"
  by (auto simp: RemoveFromArray_filter)

section \<open>Ranging over maps\<close>

type_synonym range_order = "gomap \<Rightarrow> string list"

definition range_contract :: "range_order \<Rightarrow> bool" where
  \<comment> \<open>the language's: every key once, in any order\<close>
  "range_contract ord \<longleftrightarrow> (\<forall>m. distinct (ord m) \<and> set (ord m) = fset (fmdom m))"

definition range_map :: "gomap option \<Rightarrow> gomap" where
  \<comment> \<open>ranging over a nil map visits nothing\<close>
  "range_map m = (case m of None \<Rightarrow> fmempty | Some l \<Rightarrow> l)"

definition key_order :: range_order where
  \<comment> \<open>a runtime that ranges in the order of the keys\<close>
  "key_order m = sorted_list_of_fset (fmdom m)"

lemma key_order_contract: "range_contract key_order"
  by (simp add: range_contract_def key_order_def sorted_list_of_fset.rep_eq)

section \<open>BuildLabelObj\<close>

definition BuildLabelObj :: "string \<Rightarrow> string \<Rightarrow> resource_action \<Rightarrow> object_meta \<Rightarrow> object_meta" where
  "BuildLabelObj key val action m =
     (let labels = (case m_labels m of None \<Rightarrow> fmempty | Some l \<Rightarrow> l)
      in if action = ResourceLabelDelete then m\<lparr>m_labels := Some (fmdrop key labels)\<rparr>
         else m\<lparr>m_labels := Some (fmupd key val labels)\<rparr>)"

lemma label_of_BuildLabelObj:
  "label_of (BuildLabelObj key val action m) k =
     (if k = key then (if action = ResourceLabelDelete then None else Some val) else label_of m k)"
  by (simp add: BuildLabelObj_def label_of_def Let_def split: option.split)

lemma has_label_iff: "has_label m k \<longleftrightarrow> label_of m k \<noteq> None"
  by (simp add: has_label_def label_of_def split: option.split)

lemma BuildLabelObj_frame [simp]:
  "m_name (BuildLabelObj key val action m) = m_name m"
  "m_namespace (BuildLabelObj key val action m) = m_namespace m"
  "m_ownerReferences (BuildLabelObj key val action m) = m_ownerReferences m"
  "m_finalizers (BuildLabelObj key val action m) = m_finalizers m"
  "m_annotations (BuildLabelObj key val action m) = m_annotations m"
  "m_generation (BuildLabelObj key val action m) = m_generation m"
  "m_deletionTimestamp (BuildLabelObj key val action m) = m_deletionTimestamp m"
  "m_resourceVersion (BuildLabelObj key val action m) = m_resourceVersion m"
  by (simp_all add: BuildLabelObj_def Let_def)

lemma BuildLabelObj_idem:
  "BuildLabelObj key val action (BuildLabelObj key val action m) = BuildLabelObj key val action m"
  by (simp add: BuildLabelObj_def Let_def fmap_ext)

lemma BuildLabelObj_add_delete:
  assumes "\<not> has_label m key" and "action \<noteq> ResourceLabelDelete"
  shows "BuildLabelObj key v ResourceLabelDelete (BuildLabelObj key val action m) =
      m\<lparr>m_labels := Some (case m_labels m of None \<Rightarrow> fmempty | Some l \<Rightarrow> l)\<rparr>"
proof -
  have "fmdrop key (fmupd key val l) = l" if "fmlookup l key = None" for l :: gomap
    using that by (intro fmap_ext) simp
  then show ?thesis
    using assms by (auto simp: BuildLabelObj_def has_label_def Let_def split: option.splits)
qed

end
