(* ===== verification/Rkube_Type.thy ===== *)
theory Rkube_Type
  imports Api_Common
begin

text \<open>
  The interface \<open>RkubeType\<close> of \<open>internal/controller/processor_handler.go\<close>: an object with
  status conditions and a phase. The locale states what the controllers rely on when they drive
  any of the four custom resources through it; \<open>Api_Types\<close> interprets it for each of them.
\<close>

locale rkube_type =
  fixes get_conditions :: "'r \<Rightarrow> condition list"
    and set_conditions :: "condition list \<Rightarrow> 'r \<Rightarrow> 'r"
    and get_phase :: "'r \<Rightarrow> string"
    and set_phase :: "string \<Rightarrow> 'r \<Rightarrow> 'r"
    and generation :: "'r \<Rightarrow> int64"
    and observed :: "'r \<Rightarrow> int64"
  assumes get_set_conditions: "get_conditions (set_conditions cs r) = cs"
    and get_set_phase: "get_phase (set_phase p r) = p"
    and phase_set_conditions: "get_phase (set_conditions cs r) = get_phase r"
    and conditions_set_phase: "get_conditions (set_phase p r) = get_conditions r"
    and generation_set_phase: "generation (set_phase p r) = generation r"
    and generation_set_conditions: "generation (set_conditions cs r) = generation r"
    and observed_set_conditions: "observed (set_conditions cs r) = observed r"
    and observed_set_phase:
      "observed (set_phase p r) = (if p = StatusProvisioned then generation r else observed r)"
begin

definition settled :: "'r \<Rightarrow> bool" where
  \<comment> \<open>the test of every reconciler's fast path: this generation has been provisioned\<close>
  "settled r \<longleftrightarrow> observed r = generation r \<and> get_phase r = StatusProvisioned"

definition add_condition :: "condition \<Rightarrow> 'r \<Rightarrow> 'r" where
  "add_condition c r = set_conditions (get_conditions r @ [c]) r"

lemma settled_set_phase: "settled (set_phase p r) \<longleftrightarrow> p = StatusProvisioned"
  by (simp add: settled_def get_set_phase generation_set_phase observed_set_phase)

lemma settled_add_condition: "settled (add_condition c r) = settled r"
  by (simp add: settled_def add_condition_def phase_set_conditions generation_set_conditions
      observed_set_conditions)

lemma add_condition_keeps_log: "get_conditions (add_condition c r) = get_conditions r @ [c]"
  by (simp add: add_condition_def get_set_conditions)

lemma add_conditions_log:
  "get_conditions (foldl (\<lambda>r c. add_condition c r) r cs) = get_conditions r @ cs"
  by (induction cs arbitrary: r) (simp_all add: add_condition_keeps_log)

lemma settled_add_conditions: "settled (foldl (\<lambda>r c. add_condition c r) r cs) = settled r"
  by (induction cs arbitrary: r) (simp_all add: settled_add_condition)

lemma leaves_settled: "settled r \<Longrightarrow> p \<noteq> StatusProvisioned \<Longrightarrow> \<not> settled (set_phase p r)"
  by (simp add: settled_set_phase)

end

end
