(* ===== verification/Api_Types.thy ===== *)
theory Api_Types
  imports Rkube_Type
begin

text \<open>
  The four custom resources, \<open>api/v1/entity_types.go\<close>, \<open>group_types.go\<close>,
  \<open>model_types.go\<close> and \<open>task_types.go\<close>, with the methods that make each of them a
  \<open>RkubeType\<close>. A pointer field is an option, with \<open>None\<close> for nil; \<open>int32\<close> and
  \<open>int64\<close> keep their width; raw JSON is its text. \<open>GetObjectsToDelete\<close>, which talks to
  the cluster, is modelled in \<open>Deletion_Handler\<close>.
\<close>

section \<open>Entity\<close>

record entity_spec =
  es_identity :: string
  es_organization :: string
  es_privileged :: bool
  es_onSecondary :: bool
  es_serialNumber :: string
  es_ordinalIndex :: "int32 option"
  es_model :: string
  es_secret :: string
  es_syncPeriod :: int32
  es_usage :: string
  es_decommissioned :: bool

record entity_status =
  et_urls :: "gomap option"
  et_podName :: string
  et_conditions :: "condition list"
  et_data :: string
  et_lastSyncTime :: gotime
  et_phase :: string
  et_observedGeneration :: int64

record entity =
  e_meta :: object_meta
  e_spec :: entity_spec
  e_status :: entity_status

definition Entity_GetConditions :: "entity \<Rightarrow> condition list" where
  "Entity_GetConditions e = et_conditions (e_status e)"

definition Entity_SetConditions :: "condition list \<Rightarrow> entity \<Rightarrow> entity" where
  "Entity_SetConditions cs e = e\<lparr>e_status := (e_status e)\<lparr>et_conditions := cs\<rparr>\<rparr>"

definition Entity_GetPhase :: "entity \<Rightarrow> string" where
  "Entity_GetPhase e = et_phase (e_status e)"

definition Entity_SetPhase :: "string \<Rightarrow> entity \<Rightarrow> entity" where
  "Entity_SetPhase phase e =
     (let e1 = e\<lparr>e_status := (e_status e)\<lparr>et_phase := phase\<rparr>\<rparr>
      in if phase = StatusProvisioned
         then e1\<lparr>e_status := (e_status e1)\<lparr>et_observedGeneration := m_generation (e_meta e1)\<rparr>\<rparr>
         else e1)"

section \<open>Targets and tasks\<close>

type_synonym target_type = string

definition TargetTypeEntity :: target_type where "TargetTypeEntity = ''Entity''"
definition TargetTypeGroup :: target_type where "TargetTypeGroup = ''Group''"
definition TargetTypeModel :: target_type where "TargetTypeModel = ''Model''"

lemmas target_type_defs [robo_consts] =
  TargetTypeEntity_def TargetTypeGroup_def TargetTypeModel_def

record target_ref =
  tr_type :: target_type
  tr_name :: string
  tr_action :: resource_action

record task_spec =
  ts_description :: string
  ts_dockerImage :: string
  ts_schedule :: string
  ts_runTime :: "gotime option"
  ts_offset :: int32
  ts_payload :: string
  ts_targets :: "target_ref list option"
  ts_dryRun :: bool
  ts_unConditonalRun :: bool
  ts_persistant :: bool

record task_status =
  tt_conditions :: "condition list"
  tt_observedGeneration :: int64
  tt_phase :: string
  tt_failedEntities :: "string list"
  tt_executeTime :: gotime
  tt_completedTime :: gotime

record task =
  t_meta :: object_meta
  t_spec :: task_spec
  t_status :: task_status

definition Task_GetConditions :: "task \<Rightarrow> condition list" where
  "Task_GetConditions t = tt_conditions (t_status t)"

definition Task_SetConditions :: "condition list \<Rightarrow> task \<Rightarrow> task" where
  "Task_SetConditions cs t = t\<lparr>t_status := (t_status t)\<lparr>tt_conditions := cs\<rparr>\<rparr>"

definition Task_GetPhase :: "task \<Rightarrow> string" where
  "Task_GetPhase t = tt_phase (t_status t)"

definition Task_SetPhase :: "string \<Rightarrow> task \<Rightarrow> task" where
  "Task_SetPhase phase t =
     (let t1 = t\<lparr>t_status := (t_status t)\<lparr>tt_phase := phase\<rparr>\<rparr>
      in if phase = StatusProvisioned
         then t1\<lparr>t_status := (t_status t1)\<lparr>tt_observedGeneration := m_generation (t_meta t1)\<rparr>\<rparr>
         else t1)"

section \<open>Group\<close>

record group_spec =
  gs_description :: string
  gs_owner :: string
  gs_contact :: string
  gs_lastTargets :: "target_ref list option"
  gs_type :: string

record group_status =
  gt_totalEntities :: int
  gt_conditions :: "condition list"
  gt_observedGeneration :: int64
  gt_phase :: string

record group =
  g_meta :: object_meta
  g_spec :: group_spec
  g_status :: group_status

definition Group_GetConditions :: "group \<Rightarrow> condition list" where
  "Group_GetConditions g = gt_conditions (g_status g)"

definition Group_SetConditions :: "condition list \<Rightarrow> group \<Rightarrow> group" where
  "Group_SetConditions cs g = g\<lparr>g_status := (g_status g)\<lparr>gt_conditions := cs\<rparr>\<rparr>"

definition Group_GetPhase :: "group \<Rightarrow> string" where
  "Group_GetPhase g = gt_phase (g_status g)"

definition Group_SetPhase :: "string \<Rightarrow> group \<Rightarrow> group" where
  "Group_SetPhase phase g =
     (let g1 = g\<lparr>g_status := (g_status g)\<lparr>gt_phase := phase\<rparr>\<rparr>
      in if phase = StatusProvisioned
         then g1\<lparr>g_status := (g_status g1)\<lparr>gt_observedGeneration := m_generation (g_meta g1)\<rparr>\<rparr>
         else g1)"

section \<open>Model\<close>

record model_spec =
  ms_modelNumber :: string
  ms_description :: string
  ms_dockerImage :: string
  ms_ingressUrl :: string
  ms_statefulSetName :: string
  ms_targetReplicas :: "int32 option"
  ms_taskEndpoint :: string
  ms_ctrlEndpoint :: string
  ms_statusEndpoint :: string
  ms_defaultSyncPeriod :: int32
  ms_enableSecondary :: bool

record model_status =
  mt_deactiveEntities :: "string list"
  mt_disconnectedEntities :: "string list"
  mt_conditions :: "condition list"
  mt_phase :: string
  mt_currentReplicas :: string
  mt_observedGeneration :: int64

record model =
  mo_meta :: object_meta
  mo_spec :: model_spec
  mo_status :: model_status

definition Model_GetConditions :: "model \<Rightarrow> condition list" where
  "Model_GetConditions m = mt_conditions (mo_status m)"

definition Model_SetConditions :: "condition list \<Rightarrow> model \<Rightarrow> model" where
  "Model_SetConditions cs m = m\<lparr>mo_status := (mo_status m)\<lparr>mt_conditions := cs\<rparr>\<rparr>"

definition Model_GetPhase :: "model \<Rightarrow> string" where
  "Model_GetPhase m = mt_phase (mo_status m)"

definition Model_SetPhase :: "string \<Rightarrow> model \<Rightarrow> model" where
  "Model_SetPhase phase m =
     (let m1 = m\<lparr>mo_status := (mo_status m)\<lparr>mt_phase := phase\<rparr>\<rparr>
      in if phase = StatusProvisioned
         then m1\<lparr>mo_status := (mo_status m1)\<lparr>mt_observedGeneration := m_generation (mo_meta m1)\<rparr>\<rparr>
         else m1)"

section \<open>Each custom resource implements RkubeType\<close>

lemmas entity_accessors =
  Entity_GetConditions_def Entity_SetConditions_def Entity_GetPhase_def Entity_SetPhase_def
lemmas task_accessors =
  Task_GetConditions_def Task_SetConditions_def Task_GetPhase_def Task_SetPhase_def
lemmas group_accessors =
  Group_GetConditions_def Group_SetConditions_def Group_GetPhase_def Group_SetPhase_def
lemmas model_accessors =
  Model_GetConditions_def Model_SetConditions_def Model_GetPhase_def Model_SetPhase_def

interpretation entity_rk: rkube_type Entity_GetConditions Entity_SetConditions Entity_GetPhase
  Entity_SetPhase "\<lambda>e. m_generation (e_meta e)" "\<lambda>e. et_observedGeneration (e_status e)"
  by unfold_locales (simp_all add: entity_accessors Let_def)

interpretation task_rk: rkube_type Task_GetConditions Task_SetConditions Task_GetPhase
  Task_SetPhase "\<lambda>t. m_generation (t_meta t)" "\<lambda>t. tt_observedGeneration (t_status t)"
  by unfold_locales (simp_all add: task_accessors Let_def)

interpretation group_rk: rkube_type Group_GetConditions Group_SetConditions Group_GetPhase
  Group_SetPhase "\<lambda>g. m_generation (g_meta g)" "\<lambda>g. gt_observedGeneration (g_status g)"
  by unfold_locales (simp_all add: group_accessors Let_def)

interpretation model_rk: rkube_type Model_GetConditions Model_SetConditions Model_GetPhase
  Model_SetPhase "\<lambda>m. m_generation (mo_meta m)" "\<lambda>m. mt_observedGeneration (mo_status m)"
  by unfold_locales (simp_all add: model_accessors Let_def)

lemma SetPhase_frame [simp]:
  "e_meta (Entity_SetPhase p e) = e_meta e" "e_spec (Entity_SetPhase p e) = e_spec e"
  "t_meta (Task_SetPhase p t) = t_meta t" "t_spec (Task_SetPhase p t) = t_spec t"
  "g_meta (Group_SetPhase p g) = g_meta g" "g_spec (Group_SetPhase p g) = g_spec g"
  "mo_meta (Model_SetPhase p m) = mo_meta m" "mo_spec (Model_SetPhase p m) = mo_spec m"
  by (simp_all add: entity_accessors task_accessors group_accessors model_accessors Let_def)

lemma SetConditions_frame [simp]:
  "e_meta (Entity_SetConditions cs e) = e_meta e" "e_spec (Entity_SetConditions cs e) = e_spec e"
  "t_meta (Task_SetConditions cs t) = t_meta t" "t_spec (Task_SetConditions cs t) = t_spec t"
  "g_meta (Group_SetConditions cs g) = g_meta g" "g_spec (Group_SetConditions cs g) = g_spec g"
  "mo_meta (Model_SetConditions cs m) = mo_meta m" "mo_spec (Model_SetConditions cs m) = mo_spec m"
  by (simp_all add: entity_accessors task_accessors group_accessors model_accessors)

end
