(* ===== verification/Cluster_Objects.thy ===== *)
theory Cluster_Objects
  imports Api_Types
begin

text \<open>
  The Kubernetes objects the program reads and writes, as data. The types are those of
  \<open>k8s.io/api\<close> and of cert-manager, which are not part of the repository: a record keeps the
  fields the source names and one text, \<open>..._rest\<close>, for all the fields it never looks into,
  so that comparing and copying whole specs (\<open>reflect.DeepEqual\<close>, \<open>DeepCopy\<close>) still means
  what it does in the source. \<open>obj\<close> is the interface \<open>client.Object\<close>: one constructor for
  each type the source uses behind it, and a type assertion is a match on the constructor.
\<close>

section \<open>Objects of the Kubernetes API\<close>

record k8s_condition =
  kc_type :: string
  kc_status :: string
  kc_reason :: string
  kc_message :: string

record pod_spec =
  ps_serviceAccountName :: string
  ps_rest :: string

record pod =
  p_meta :: object_meta
  p_spec :: pod_spec
  p_conditions :: "k8s_condition list"

record container =
  co_image :: string
  co_rest :: string

record sts_spec =
  ss_replicas :: "int32 option"
  ss_selector :: "gomap option option"
  ss_templateLabels :: "gomap option"
  ss_containers :: "container list"
  ss_rest :: string

record statefulset =
  st_meta :: object_meta
  st_spec :: sts_spec
  st_readyReplicas :: int32

record deployment =
  d_meta :: object_meta
  d_spec :: string
  d_conditions :: "k8s_condition list"

record rs_spec =
  rs_replicas :: "int32 option"
  rs_rest :: string

record replicaset =
  r_meta :: object_meta
  r_spec :: rs_spec
  r_readyReplicas :: int32

record namespace =
  n_meta :: object_meta
  n_spec :: string

record service_spec =
  sv_selector :: "gomap option"
  sv_rest :: string

record service =
  s_meta :: object_meta
  s_spec :: service_spec

record serviceaccount =
  sa_meta :: object_meta

record subject =
  su_kind :: string
  su_name :: string
  su_namespace :: string

record rolebinding =
  rb_meta :: object_meta
  rb_subjects :: "subject list"
  rb_roleRef :: string

record np_expr =
  ne_key :: string
  ne_rest :: string

record np_peer =
  pe_podSelector :: "np_expr list option"
  pe_rest :: string

record np_rule =
  ru_peers :: "np_peer list"
  ru_rest :: string

record np_spec =
  np_ingress :: "np_rule list"
  np_egress :: "np_rule list"
  np_rest :: string

record networkpolicy =
  np_meta :: object_meta
  np_nspec :: np_spec

record ing_tls =
  it_secretName :: string
  it_hosts :: "string list"

record ing_path =
  ip_service :: "string option"
  ip_rest :: string

record ing_rule =
  ir_host :: string
  ir_paths :: "ing_path list option"

record ing_spec =
  in_tls :: "ing_tls list"
  in_rules :: "ing_rule list"
  in_rest :: string

record ingress =
  i_meta :: object_meta
  i_spec :: ing_spec

record cert_spec =
  cs_secretName :: string
  cs_commonName :: string
  cs_rest :: string

record certificate =
  ct_meta :: object_meta
  ct_spec :: cert_spec

record cronjob =
  cj_meta :: object_meta
  cj_spec :: string

record secret =
  sc_meta :: object_meta
  sc_data :: string

section \<open>client.Object\<close>

datatype obj =
    OEntity entity | OGroup group | OModel model | OTask task
  | OPod pod | OStatefulSet statefulset | ODeployment deployment | OReplicaSet replicaset
  | ONamespace namespace | OService service | OServiceAccount serviceaccount
  | ORoleBinding rolebinding | ONetworkPolicy networkpolicy | OIngress ingress
  | OCertificate certificate | OCronJob cronjob | OSecret secret

datatype kind =
    KEntity | KGroup | KModel | KTask | KPod | KStatefulSet | KDeployment | KReplicaSet
  | KNamespace | KService | KServiceAccount | KRoleBinding | KNetworkPolicy | KIngress
  | KCertificate | KCronJob | KSecret

fun kind_of :: "obj \<Rightarrow> kind" where
  "kind_of (OEntity _) = KEntity"
| "kind_of (OGroup _) = KGroup"
| "kind_of (OModel _) = KModel"
| "kind_of (OTask _) = KTask"
| "kind_of (OPod _) = KPod"
| "kind_of (OStatefulSet _) = KStatefulSet"
| "kind_of (ODeployment _) = KDeployment"
| "kind_of (OReplicaSet _) = KReplicaSet"
| "kind_of (ONamespace _) = KNamespace"
| "kind_of (OService _) = KService"
| "kind_of (OServiceAccount _) = KServiceAccount"
| "kind_of (ORoleBinding _) = KRoleBinding"
| "kind_of (ONetworkPolicy _) = KNetworkPolicy"
| "kind_of (OIngress _) = KIngress"
| "kind_of (OCertificate _) = KCertificate"
| "kind_of (OCronJob _) = KCronJob"
| "kind_of (OSecret _) = KSecret"

fun type_text :: "kind \<Rightarrow> string" where
  \<comment> \<open>what \<open>%T\<close> prints for a pointer to the type: every package is imported as v1 or named so\<close>
  "type_text KEntity = ''*v1.Entity''"
| "type_text KGroup = ''*v1.Group''"
| "type_text KModel = ''*v1.Model''"
| "type_text KTask = ''*v1.Task''"
| "type_text KPod = ''*v1.Pod''"
| "type_text KStatefulSet = ''*v1.StatefulSet''"
| "type_text KDeployment = ''*v1.Deployment''"
| "type_text KReplicaSet = ''*v1.ReplicaSet''"
| "type_text KNamespace = ''*v1.Namespace''"
| "type_text KService = ''*v1.Service''"
| "type_text KServiceAccount = ''*v1.ServiceAccount''"
| "type_text KRoleBinding = ''*v1.RoleBinding''"
| "type_text KNetworkPolicy = ''*v1.NetworkPolicy''"
| "type_text KIngress = ''*v1.Ingress''"
| "type_text KCertificate = ''*v1.Certificate''"
| "type_text KCronJob = ''*v1.CronJob''"
| "type_text KSecret = ''*v1.Secret''"

fun meta_of :: "obj \<Rightarrow> object_meta" where
  "meta_of (OEntity x) = e_meta x"
| "meta_of (OGroup x) = g_meta x"
| "meta_of (OModel x) = mo_meta x"
| "meta_of (OTask x) = t_meta x"
| "meta_of (OPod x) = p_meta x"
| "meta_of (OStatefulSet x) = st_meta x"
| "meta_of (ODeployment x) = d_meta x"
| "meta_of (OReplicaSet x) = r_meta x"
| "meta_of (ONamespace x) = n_meta x"
| "meta_of (OService x) = s_meta x"
| "meta_of (OServiceAccount x) = sa_meta x"
| "meta_of (ORoleBinding x) = rb_meta x"
| "meta_of (ONetworkPolicy x) = np_meta x"
| "meta_of (OIngress x) = i_meta x"
| "meta_of (OCertificate x) = ct_meta x"
| "meta_of (OCronJob x) = cj_meta x"
| "meta_of (OSecret x) = sc_meta x"

fun map_meta :: "(object_meta \<Rightarrow> object_meta) \<Rightarrow> obj \<Rightarrow> obj" where
  "map_meta f (OEntity x) = OEntity (x\<lparr>e_meta := f (e_meta x)\<rparr>)"
| "map_meta f (OGroup x) = OGroup (x\<lparr>g_meta := f (g_meta x)\<rparr>)"
| "map_meta f (OModel x) = OModel (x\<lparr>mo_meta := f (mo_meta x)\<rparr>)"
| "map_meta f (OTask x) = OTask (x\<lparr>t_meta := f (t_meta x)\<rparr>)"
| "map_meta f (OPod x) = OPod (x\<lparr>p_meta := f (p_meta x)\<rparr>)"
| "map_meta f (OStatefulSet x) = OStatefulSet (x\<lparr>st_meta := f (st_meta x)\<rparr>)"
| "map_meta f (ODeployment x) = ODeployment (x\<lparr>d_meta := f (d_meta x)\<rparr>)"
| "map_meta f (OReplicaSet x) = OReplicaSet (x\<lparr>r_meta := f (r_meta x)\<rparr>)"
| "map_meta f (ONamespace x) = ONamespace (x\<lparr>n_meta := f (n_meta x)\<rparr>)"
| "map_meta f (OService x) = OService (x\<lparr>s_meta := f (s_meta x)\<rparr>)"
| "map_meta f (OServiceAccount x) = OServiceAccount (x\<lparr>sa_meta := f (sa_meta x)\<rparr>)"
| "map_meta f (ORoleBinding x) = ORoleBinding (x\<lparr>rb_meta := f (rb_meta x)\<rparr>)"
| "map_meta f (ONetworkPolicy x) = ONetworkPolicy (x\<lparr>np_meta := f (np_meta x)\<rparr>)"
| "map_meta f (OIngress x) = OIngress (x\<lparr>i_meta := f (i_meta x)\<rparr>)"
| "map_meta f (OCertificate x) = OCertificate (x\<lparr>ct_meta := f (ct_meta x)\<rparr>)"
| "map_meta f (OCronJob x) = OCronJob (x\<lparr>cj_meta := f (cj_meta x)\<rparr>)"
| "map_meta f (OSecret x) = OSecret (x\<lparr>sc_meta := f (sc_meta x)\<rparr>)"

fun as_entity :: "obj \<Rightarrow> entity option" where
  "as_entity (OEntity x) = Some x" | "as_entity _ = None"
fun as_group :: "obj \<Rightarrow> group option" where
  "as_group (OGroup x) = Some x" | "as_group _ = None"
fun as_model :: "obj \<Rightarrow> model option" where
  "as_model (OModel x) = Some x" | "as_model _ = None"
fun as_task :: "obj \<Rightarrow> task option" where
  "as_task (OTask x) = Some x" | "as_task _ = None"
fun as_pod :: "obj \<Rightarrow> pod option" where
  "as_pod (OPod x) = Some x" | "as_pod _ = None"
fun as_statefulset :: "obj \<Rightarrow> statefulset option" where
  "as_statefulset (OStatefulSet x) = Some x" | "as_statefulset _ = None"
fun as_deployment :: "obj \<Rightarrow> deployment option" where
  "as_deployment (ODeployment x) = Some x" | "as_deployment _ = None"
fun as_replicaset :: "obj \<Rightarrow> replicaset option" where
  "as_replicaset (OReplicaSet x) = Some x" | "as_replicaset _ = None"
fun as_namespace :: "obj \<Rightarrow> namespace option" where
  "as_namespace (ONamespace x) = Some x" | "as_namespace _ = None"

definition obj_name :: "obj \<Rightarrow> string" where "obj_name ob = m_name (meta_of ob)"
definition obj_ns :: "obj \<Rightarrow> string" where "obj_ns ob = m_namespace (meta_of ob)"

lemma meta_of_map_meta [simp]: "meta_of (map_meta f ob) = f (meta_of ob)"
  by (cases ob) simp_all

lemma kind_of_map_meta [simp]: "kind_of (map_meta f ob) = kind_of ob"
  by (cases ob) simp_all

lemma map_meta_comp: "map_meta f (map_meta g ob) = map_meta (f \<circ> g) ob"
  by (cases ob) simp_all

lemma map_meta_id: "map_meta (\<lambda>m. m) ob = ob"
  by (cases ob) simp_all

lemma as_SomeD:
  "as_entity ob = Some e \<Longrightarrow> ob = OEntity e" "as_group ob = Some g \<Longrightarrow> ob = OGroup g"
  "as_model ob = Some m \<Longrightarrow> ob = OModel m" "as_task ob = Some t \<Longrightarrow> ob = OTask t"
  "as_pod ob = Some p \<Longrightarrow> ob = OPod p" "as_statefulset ob = Some s \<Longrightarrow> ob = OStatefulSet s"
  by (cases ob; simp)+

lemma kind_of_crdE:
  "kind_of ob = KEntity \<Longrightarrow> \<exists>e. ob = OEntity e" "kind_of ob = KGroup \<Longrightarrow> \<exists>g. ob = OGroup g"
  "kind_of ob = KModel \<Longrightarrow> \<exists>m. ob = OModel m" "kind_of ob = KTask \<Longrightarrow> \<exists>t. ob = OTask t"
  by (cases ob; simp)+

end
