(* ===== verification/Client_Api.thy ===== *)
theory Client_Api
  imports Cluster_Objects
begin

text \<open>
  Everything the program calls that is not in the repository, gathered in one record: the client
  of controller-runtime (\<open>client.Client\<close>: \<open>Get\<close>, \<open>List\<close>, \<open>Create\<close>, \<open>Update\<close>,
  \<open>Status().Update\<close>, \<open>Delete\<close>), the event recorder, the clock, \<open>retry.RetryOnConflict\<close>,
  \<open>labels.Parse\<close>, \<open>ctrl.SetControllerReference\<close>, the finalizer helpers of
  \<open>controllerutil\<close>, the HTTP transport, the file system and the decoder of manifests. An
  \<open>env\<close> is an argument of every definition that uses it; the world \<open>'w\<close> is a type
  variable, so a call may change anything outside the program, other clients' writes included.

  \<open>Get\<close>, \<open>List\<close> and the writes return the object the call leaves behind its pointer
  argument; on an error that object is untouched, so the result carries the error alone.
  What a theorem relies on of this outside code is a named predicate on the record
  (\<open>retry_contract\<close>, \<open>get_contract\<close>, \<open>finalizer_contract\<close>), each the documented
  behaviour of the call.
\<close>

section \<open>The record of outside operations\<close>

text \<open>A label selector; \<open>SelAll\<close> is a nil one, which restricts nothing. \<open>fmt_pointer\<close> is the
  text \<open>fmt\<close> prints for an address, \<open>fmt_time\<close> the RFC 3339 text of a time in the local
  zone, and \<open>parse_schedule\<close> the cron parser, which gives the next time after a given one.\<close>

datatype selector = SelAll | SelExists string | SelEquals string string | SelOther string

record 'w env =
  c_get :: "kind \<Rightarrow> string \<Rightarrow> string \<Rightarrow> 'w \<Rightarrow> (gerror + obj) \<times> 'w"
  c_list :: "kind \<Rightarrow> string \<Rightarrow> selector \<Rightarrow> 'w \<Rightarrow> (gerror + obj list) \<times> 'w"
  c_create :: "obj \<Rightarrow> 'w \<Rightarrow> (gerror + obj) \<times> 'w"
  c_update :: "obj \<Rightarrow> 'w \<Rightarrow> (gerror + obj) \<times> 'w"
  c_status_update :: "obj \<Rightarrow> 'w \<Rightarrow> (gerror + obj) \<times> 'w"
  c_delete :: "obj \<Rightarrow> 'w \<Rightarrow> gerror option \<times> 'w"
  c_event :: "obj \<Rightarrow> string \<Rightarrow> string \<Rightarrow> string \<Rightarrow> 'w \<Rightarrow> 'w"
  c_now :: "'w \<Rightarrow> gotime \<times> 'w"
  c_sleep :: "int \<Rightarrow> 'w \<Rightarrow> 'w"
  c_uuid :: "'w \<Rightarrow> string \<times> 'w"
  c_retry :: "(obj \<Rightarrow> ('w, gerror option \<times> obj) go) \<Rightarrow> obj \<Rightarrow> ('w, gerror option \<times> obj) go"
  parse_selector :: "string \<Rightarrow> gerror + selector"
  set_controller_ref :: "obj \<Rightarrow> obj \<Rightarrow> gerror + obj"
  contains_finalizer :: "obj \<Rightarrow> string \<Rightarrow> bool"
  add_finalizer :: "string \<Rightarrow> obj \<Rightarrow> obj"
  remove_finalizer :: "string \<Rightarrow> obj \<Rightarrow> obj"
  http_new_request :: "string \<Rightarrow> string \<Rightarrow> string option \<Rightarrow> gerror option"
  http_do :: "string \<Rightarrow> string \<Rightarrow> string option \<Rightarrow> 'w \<Rightarrow> (gerror + int \<times> (gerror + string)) \<times> 'w"
  read_file :: "string \<Rightarrow> gerror + string"
  decode_object :: "string \<Rightarrow> gerror + obj"
  json_raw :: "string \<Rightarrow> gerror + string"
  ctx_err :: "'w \<Rightarrow> gerror option"
  fmt_pointer :: string
  fmt_time :: "gotime \<Rightarrow> string"
  parse_schedule :: "string \<Rightarrow> gerror + (gotime \<Rightarrow> gotime)"

section \<open>Typed reads\<close>

definition decode_error :: gerror where
  "decode_error = errorf ''object of another kind''"

definition get_as :: "'w env \<Rightarrow> kind \<Rightarrow> (obj \<Rightarrow> 'a option) \<Rightarrow> string \<Rightarrow> string \<Rightarrow> ('w, gerror + 'a) go" where
  \<comment> \<open>\<open>r.Get\<close> into a pointer of one type\<close>
  "get_as env k proj ns n =
     bindg (callg (c_get env k ns n)) (\<lambda>r. retg (case r of
         Inl e \<Rightarrow> Inl e
       | Inr ob \<Rightarrow> (case proj ob of None \<Rightarrow> Inl decode_error | Some x \<Rightarrow> Inr x)))"

definition list_as ::
  "'w env \<Rightarrow> kind \<Rightarrow> (obj \<Rightarrow> 'a option) \<Rightarrow> string \<Rightarrow> selector \<Rightarrow> ('w, gerror + 'a list) go" where
  \<comment> \<open>\<open>r.List\<close> into a typed list\<close>
  "list_as env k proj ns sel =
     bindg (callg (c_list env k ns sel)) (\<lambda>r. retg (case r of
         Inl e \<Rightarrow> Inl e
       | Inr obs \<Rightarrow> (case those (map proj obs) of None \<Rightarrow> Inl decode_error | Some xs \<Rightarrow> Inr xs)))"

lemma get_as_run [go_run]:
  "get_as env k proj ns n w =
     (Return (case fst (c_get env k ns n w) of Inl e \<Rightarrow> Inl e
        | Inr ob \<Rightarrow> (case proj ob of None \<Rightarrow> Inl decode_error | Some x \<Rightarrow> Inr x)),
      snd (c_get env k ns n w))"
  by (simp add: get_as_def)

lemma list_as_run [go_run]:
  "list_as env k proj ns sel w =
     (Return (case fst (c_list env k ns sel w) of Inl e \<Rightarrow> Inl e
        | Inr obs \<Rightarrow> (case those (map proj obs) of None \<Rightarrow> Inl decode_error | Some xs \<Rightarrow> Inr xs)),
      snd (c_list env k ns sel w))"
  by (simp add: list_as_def)

lemma those_map_Some: "those (map (\<lambda>x. Some (f x)) xs) = Some (map f xs)"
  by (induction xs) simp_all

section \<open>What is relied on of the outside\<close>

text \<open>
  \<open>RetryOnConflict\<close>: "If the update function returns a Conflict error, RetryOnConflict will
  wait some amount of time and then try again. On a non-Conflict error, or if it retries too many
  times and gives up, RetryOnConflict will return an error to the caller." One call of it is a run
  of \<open>attempts n\<close> for some bound \<open>n\<close> on the retries.
\<close>

fun attempts ::
  "nat \<Rightarrow> (obj \<Rightarrow> ('w, gerror option \<times> obj) go) \<Rightarrow> obj \<Rightarrow> ('w, gerror option \<times> obj) go" where
  "attempts 0 fn ob = fn ob"
| "attempts (Suc n) fn ob =
     bindg (fn ob) (\<lambda>(e, ob').
       (case e of
          None \<Rightarrow> retg (None, ob')
        | Some err \<Rightarrow> if IsConflict err then attempts n fn ob' else retg (Some err, ob')))"

definition retry_contract :: "'w env \<Rightarrow> bool" where
  "retry_contract env \<longleftrightarrow> (\<forall>fn ob w. \<exists>n. c_retry env fn ob w = attempts n fn ob w)"

definition get_contract :: "'w env \<Rightarrow> bool" where
  \<comment> \<open>an object that \<open>Get\<close> returns is the one asked for\<close>
  "get_contract env \<longleftrightarrow> (\<forall>k ns n w ob w'.
     c_get env k ns n w = (Inr ob, w') \<longrightarrow> kind_of ob = k \<and> obj_ns ob = ns \<and> obj_name ob = n)"

definition finalizer_contract :: "'w env \<Rightarrow> bool" where
  "finalizer_contract env \<longleftrightarrow>
     (\<forall>ob f. contains_finalizer env ob f = (f \<in> set (m_finalizers (meta_of ob))))
   \<and> (\<forall>ob f. add_finalizer env f ob =
        (if f \<in> set (m_finalizers (meta_of ob)) then ob
         else map_meta (\<lambda>m. m\<lparr>m_finalizers := m_finalizers m @ [f]\<rparr>) ob))
   \<and> (\<forall>ob f. remove_finalizer env f ob =
        map_meta (\<lambda>m. m\<lparr>m_finalizers := filter (\<lambda>x. x \<noteq> f) (m_finalizers m)\<rparr>) ob)"

text \<open>A call that returns ends in one attempt that did not fail with a conflict, or in the last
  one: either way its result is the result of one run of the function, on some object the
  earlier attempts produced.\<close>

lemma attempts_last:
  "attempts n fn ob w = (Return r, w') \<Longrightarrow>
     \<exists>ob1 w1. fn ob1 w1 = (Return r, w')"
proof (induction n arbitrary: ob w)
  case 0
  then show ?case by auto
next
  case (Suc n)
  from Suc.prems obtain e ob' w1 where
    first: "fn ob w = (Return (e, ob'), w1)" and
    next_: "(case e of None \<Rightarrow> retg (None, ob')
      | Some err \<Rightarrow> if IsConflict err then attempts n fn ob' else retg (Some err, ob')) w1
      = (Return r, w')"
    by (auto elim!: bindg_ReturnE)
  show ?case
  proof (cases "\<exists>err. e = Some err \<and> IsConflict err")
    case True
    with next_ have "attempts n fn ob' w1 = (Return r, w')" by auto
    then show ?thesis by (rule Suc.IH)
  next
    case False
    with next_ have "r = (e, ob') \<and> w' = w1" by (auto split: option.splits)
    with first show ?thesis by blast
  qed
qed

lemma attempts_invariant:
  assumes step: "\<And>ob w e ob' w'. P ob w \<Longrightarrow> fn ob w = (Return (e, ob'), w') \<Longrightarrow> P ob' w'"
  shows "P ob w \<Longrightarrow> attempts n fn ob w = (Return (e, ob'), w') \<Longrightarrow> P ob' w'"
proof (induction n arbitrary: ob w)
  case 0
  then show ?case by (auto intro: step)
next
  case (Suc n)
  from Suc.prems(2) obtain e1 ob1 w1 where
    first: "fn ob w = (Return (e1, ob1), w1)" and
    next_: "(case e1 of None \<Rightarrow> retg (None, ob1)
      | Some err \<Rightarrow> if IsConflict err then attempts n fn ob1 else retg (Some err, ob1)) w1
      = (Return (e, ob'), w')"
    by (auto elim!: bindg_ReturnE)
  have P1: "P ob1 w1" using Suc.prems(1) first by (rule step)
  from next_ P1 Suc.IH show ?case by (auto split: option.splits if_splits)
qed

lemma retry_last:
  assumes "retry_contract env" and "c_retry env fn ob w = (Return r, w')"
  obtains ob1 w1 where "fn ob1 w1 = (Return r, w')"
  using assms attempts_last unfolding retry_contract_def by metis

lemma retry_invariant:
  assumes "retry_contract env"
    and "\<And>ob w e ob' w'. P ob w \<Longrightarrow> fn ob w = (Return (e, ob'), w') \<Longrightarrow> P ob' w'"
    and "P ob w" and "c_retry env fn ob w = (Return (e, ob'), w')"
  shows "P ob' w'"
  using assms attempts_invariant [of P fn] unfolding retry_contract_def by metis

end
