(* ===== verification/Reference_Cluster.thy ===== *)
theory Reference_Cluster
  imports Client_Api
begin

text \<open>
  A small in-memory API server and transport. It models no file of the repository and no theorem
  about the program is about it: it is the concrete value of the parameter \<open>env\<close> at which the
  witnesses of the theorems run the program, and it shows that the named hypotheses on the outside
  (\<open>retry_contract\<close>, \<open>get_contract\<close>, \<open>finalizer_contract\<close>) hold together. It keeps
  resource versions and rejects a stale write with a conflict, splits \<open>Update\<close> from
  \<open>Status().Update\<close>, and defers the removal of an object that has finalizers.
\<close>

record mem =
  mem_objs :: "obj list"
  mem_events :: "(string \<times> string \<times> string) list"
  mem_requests :: "(string \<times> string \<times> string option) list"
  mem_routes :: "(string \<times> int \<times> string) list"
  mem_files :: "(string \<times> obj) list"
  mem_clock :: int

definition mem_key :: "kind \<Rightarrow> string \<Rightarrow> string \<Rightarrow> obj \<Rightarrow> bool" where
  "mem_key k ns n ob \<longleftrightarrow> kind_of ob = k \<and> obj_ns ob = ns \<and> obj_name ob = n"

definition mem_key_of :: "obj \<Rightarrow> obj \<Rightarrow> bool" where
  "mem_key_of a = mem_key (kind_of a) (obj_ns a) (obj_name a)"

definition err_not_found :: gerror where
  "err_not_found = \<lparr>err_msg = ''not found'', err_reason = ReasonNotFound\<rparr>"
definition err_conflict :: gerror where
  "err_conflict = \<lparr>err_msg = ''the object has been modified'', err_reason = ReasonConflict\<rparr>"
definition err_exists :: gerror where
  "err_exists = \<lparr>err_msg = ''already exists'', err_reason = ReasonAlreadyExists\<rparr>"

definition mem_get :: "kind \<Rightarrow> string \<Rightarrow> string \<Rightarrow> mem \<Rightarrow> (gerror + obj) \<times> mem" where
  "mem_get k ns n w =
     (case find (mem_key k ns n) (mem_objs w) of
        None \<Rightarrow> (Inl err_not_found, w) | Some ob \<Rightarrow> (Inr ob, w))"

fun mem_matches :: "selector \<Rightarrow> obj \<Rightarrow> bool" where
  "mem_matches SelAll ob = True"
| "mem_matches (SelExists k) ob = has_label (meta_of ob) k"
| "mem_matches (SelEquals k v) ob = (label_of (meta_of ob) k = Some v)"
| "mem_matches (SelOther s) ob = False"

definition mem_list :: "kind \<Rightarrow> string \<Rightarrow> selector \<Rightarrow> mem \<Rightarrow> (gerror + obj list) \<times> mem" where
  "mem_list k ns sel w =
     (Inr (filter (\<lambda>ob. kind_of ob = k \<and> (ns = [] \<or> obj_ns ob = ns) \<and> mem_matches sel ob)
        (mem_objs w)), w)"

definition mem_put :: "obj \<Rightarrow> mem \<Rightarrow> mem" where
  "mem_put ob w = w\<lparr>mem_objs := map (\<lambda>x. if mem_key_of ob x then ob else x) (mem_objs w)\<rparr>"

definition mem_drop :: "obj \<Rightarrow> mem \<Rightarrow> mem" where
  "mem_drop ob w = w\<lparr>mem_objs := filter (\<lambda>x. \<not> mem_key_of ob x) (mem_objs w)\<rparr>"

definition with_status_of :: "obj \<Rightarrow> obj \<Rightarrow> obj" where
  \<comment> \<open>the first object with the status of the second\<close>
  "with_status_of a b =
     (case a of
        OEntity x \<Rightarrow> (case as_entity b of None \<Rightarrow> a | Some y \<Rightarrow> OEntity (x\<lparr>e_status := e_status y\<rparr>))
      | OGroup x \<Rightarrow> (case as_group b of None \<Rightarrow> a | Some y \<Rightarrow> OGroup (x\<lparr>g_status := g_status y\<rparr>))
      | OModel x \<Rightarrow> (case as_model b of None \<Rightarrow> a | Some y \<Rightarrow> OModel (x\<lparr>mo_status := mo_status y\<rparr>))
      | OTask x \<Rightarrow> (case as_task b of None \<Rightarrow> a | Some y \<Rightarrow> OTask (x\<lparr>t_status := t_status y\<rparr>))
      | _ \<Rightarrow> a)"

definition bump_version :: "obj \<Rightarrow> obj" where
  "bump_version = map_meta (\<lambda>m. m\<lparr>m_resourceVersion := CHR ''v'' # m_resourceVersion m\<rparr>)"

definition mem_create :: "obj \<Rightarrow> mem \<Rightarrow> (gerror + obj) \<times> mem" where
  "mem_create ob w =
     (case find (mem_key_of ob) (mem_objs w) of
        Some _ \<Rightarrow> (Inl err_exists, w)
      | None \<Rightarrow> (let ob' = bump_version ob in (Inr ob', w\<lparr>mem_objs := mem_objs w @ [ob']\<rparr>)))"

definition mem_write :: "(obj \<Rightarrow> obj \<Rightarrow> obj) \<Rightarrow> obj \<Rightarrow> mem \<Rightarrow> (gerror + obj) \<times> mem" where
  "mem_write merge ob w =
     (case find (mem_key_of ob) (mem_objs w) of
        None \<Rightarrow> (Inl err_not_found, w)
      | Some cur \<Rightarrow>
          if m_resourceVersion (meta_of ob) \<noteq> m_resourceVersion (meta_of cur)
          then (Inl err_conflict, w)
          else let ob' = bump_version (merge ob cur)
            in (Inr ob',
                if m_deletionTimestamp (meta_of ob') \<noteq> None \<and> m_finalizers (meta_of ob') = []
                then mem_drop ob' w else mem_put ob' w))"

definition mem_update :: "obj \<Rightarrow> mem \<Rightarrow> (gerror + obj) \<times> mem" where
  "mem_update = mem_write with_status_of"

definition mem_status_update :: "obj \<Rightarrow> mem \<Rightarrow> (gerror + obj) \<times> mem" where
  "mem_status_update = mem_write (\<lambda>ob cur. with_status_of cur ob)"

definition mem_delete :: "obj \<Rightarrow> mem \<Rightarrow> gerror option \<times> mem" where
  "mem_delete ob w =
     (case find (mem_key_of ob) (mem_objs w) of
        None \<Rightarrow> (Some err_not_found, w)
      | Some cur \<Rightarrow>
          if m_finalizers (meta_of cur) = [] then (None, mem_drop cur w)
          else (None, mem_put
            (map_meta (\<lambda>m. m\<lparr>m_deletionTimestamp := Some (mem_clock w)\<rparr>) (bump_version cur)) w))"

definition mem_set_controller :: "obj \<Rightarrow> obj \<Rightarrow> gerror + obj" where
  "mem_set_controller owner ob =
     (if \<exists>r \<in> set (m_ownerReferences (meta_of ob)). or_controller r \<and> or_name r \<noteq> obj_name owner
      then Inl (errorf ''already owned'')
      else Inr (map_meta (\<lambda>m. m\<lparr>m_ownerReferences :=
        [\<lparr>or_kind = type_text (kind_of owner), or_name = obj_name owner,
          or_uid = m_uid (meta_of owner), or_controller = True\<rparr>]\<rparr>) ob))"

definition mem_env :: "mem env" where
  "mem_env = \<lparr>
     c_get = mem_get,
     c_list = mem_list,
     c_create = mem_create,
     c_update = mem_update,
     c_status_update = mem_status_update,
     c_delete = mem_delete,
     c_event = (\<lambda>ob ty reason msg w. w\<lparr>mem_events := mem_events w @ [(ty, reason, msg)]\<rparr>),
     c_now = (\<lambda>w. (mem_clock w, w)),
     c_sleep = (\<lambda>d w. w\<lparr>mem_clock := mem_clock w + d\<rparr>),
     c_uuid = (\<lambda>w. (''uuid'', w)),
     c_retry = attempts 4,
     parse_selector = (\<lambda>s. if CHR ''='' \<in> set s then Inl (errorf ''bad selector'') else Inr (SelExists s)),
     set_controller_ref = mem_set_controller,
     contains_finalizer = (\<lambda>ob f. f \<in> set (m_finalizers (meta_of ob))),
     add_finalizer = (\<lambda>f ob. if f \<in> set (m_finalizers (meta_of ob)) then ob
        else map_meta (\<lambda>m. m\<lparr>m_finalizers := m_finalizers m @ [f]\<rparr>) ob),
     remove_finalizer = (\<lambda>f. map_meta (\<lambda>m. m\<lparr>m_finalizers := filter (\<lambda>x. x \<noteq> f) (m_finalizers m)\<rparr>)),
     http_new_request = (\<lambda>meth url body. if url = [] then Some (errorf ''no url'') else None),
     http_do = (\<lambda>meth url body w. let w' = w\<lparr>mem_requests := mem_requests w @ [(meth, url, body)]\<rparr> in
        case map_of (mem_routes w) url of
          None \<Rightarrow> (Inl (errorf ''connection refused''), w')
        | Some (st, resp) \<Rightarrow> (Inr (st, Inr resp), w')),
     read_file = (\<lambda>f. Inr f),
     decode_object = (\<lambda>s. Inl (errorf ''no manifest'')),
     json_raw = (\<lambda>s. if s = [] then Inl (errorf ''bad json'') else Inr s),
     ctx_err = (\<lambda>w. None),
     fmt_pointer = ''0xc0000'',
     fmt_time = (\<lambda>t. ''time''),
     parse_schedule = (\<lambda>s. if s = ''@hourly'' then Inr (\<lambda>t. (t div 3600000000000 + 1) * 3600000000000)
        else Inl (errorf ''bad schedule''))\<rparr>"

lemmas mem_env_simps =
  mem_env_def mem_get_def mem_list_def mem_create_def mem_update_def mem_status_update_def
  mem_delete_def mem_write_def mem_put_def mem_drop_def mem_key_of_def mem_key_def
  bump_version_def with_status_of_def

lemma mem_retry_contract: "retry_contract mem_env"
  unfolding retry_contract_def by (auto simp: mem_env_def)

lemma mem_get_contract: "get_contract mem_env"
  unfolding get_contract_def
  by (auto simp: mem_env_def mem_get_def mem_key_def find_Some_iff split: option.splits)

lemma mem_finalizer_contract: "finalizer_contract mem_env"
  unfolding finalizer_contract_def by (simp add: mem_env_def)

section \<open>Sample objects for the witnesses\<close>

definition sample_meta :: "string \<Rightarrow> object_meta" where
  "sample_meta n = empty_meta\<lparr>m_name := n, m_namespace := ''ns'', m_uid := n\<rparr>"

definition sample_entity_spec :: "int32 option \<Rightarrow> entity_spec" where
  "sample_entity_spec i = \<lparr>es_identity = [], es_organization = [], es_privileged = False,
     es_onSecondary = False, es_serialNumber = [], es_ordinalIndex = i, es_model = ''arm'',
     es_secret = [], es_syncPeriod = 0, es_usage = [], es_decommissioned = False\<rparr>"

definition empty_entity_status :: entity_status where
  "empty_entity_status = \<lparr>et_urls = None, et_podName = [], et_conditions = [], et_data = [],
     et_lastSyncTime = 0, et_phase = [], et_observedGeneration = 0\<rparr>"

definition sample_entity :: "string \<Rightarrow> int32 option \<Rightarrow> entity" where
  \<comment> \<open>an entity of the model \<open>arm\<close>, with the index label when it has an index\<close>
  "sample_entity n i =
     \<lparr>e_meta = (sample_meta n)\<lparr>m_labels := map_option (\<lambda>j. fmap_of_list
          [(RoboKubeIndexKey @ ''arm'', fmt_d j)]) i\<rparr>,
      e_spec = sample_entity_spec i, e_status = empty_entity_status\<rparr>"

definition sample_world :: "obj list \<Rightarrow> mem" where
  "sample_world objs = \<lparr>mem_objs = objs, mem_events = [], mem_requests = [], mem_routes = [],
     mem_files = [], mem_clock = 0\<rparr>"

definition sample_model :: model where
  "sample_model = \<lparr>mo_meta = sample_meta ''arm'',
     mo_spec = \<lparr>ms_modelNumber = [], ms_description = [], ms_dockerImage = ''img'',
       ms_ingressUrl = ''example.com'', ms_statefulSetName = [], ms_targetReplicas = Some 2,
       ms_taskEndpoint = [], ms_ctrlEndpoint = [], ms_statusEndpoint = [],
       ms_defaultSyncPeriod = 0, ms_enableSecondary = False\<rparr>,
     mo_status = \<lparr>mt_deactiveEntities = [], mt_disconnectedEntities = [], mt_conditions = [],
       mt_phase = [], mt_currentReplicas = [], mt_observedGeneration = 0\<rparr>\<rparr>"

definition sample_sts :: "int32 \<Rightarrow> statefulset" where
  "sample_sts r = \<lparr>st_meta = sample_meta ''arm-sts'',
     st_spec = \<lparr>ss_replicas = Some r, ss_selector = None, ss_templateLabels = None,
       ss_containers = [], ss_rest = []\<rparr>, st_readyReplicas = 0\<rparr>"

lemmas sample_defs =
  sample_meta_def empty_meta_def sample_entity_spec_def empty_entity_status_def sample_entity_def
  sample_world_def sample_model_def sample_sts_def

end
