(* ===== verification/Index_Allocator.thy ===== *)
theory Index_Allocator
  imports Go_Strings
begin

text \<open>
  The search for a free ordinal index in \<open>EntityMutator.Handle\<close>
  (\<open>api/v1/entity_webhook.go\<close>): the loop over the sorted indices of a model's entities, on
  \<open>int32\<close> values, and the contract the admission of entities rests on.
\<close>

section \<open>The interface of an allocator\<close>

text \<open>
  What admission needs of an allocator: given the indices in use, a non-negative one that is not
  among them. The bound keeps \<open>int32\<close> arithmetic away from its wrap-around.
\<close>

locale index_allocator =
  fixes alloc :: "int32 list \<Rightarrow> int32"
  assumes alloc_fresh: "length xs < 2 ^ 31 - 1 \<Longrightarrow> alloc xs \<notin> set xs"
    and alloc_nonneg: "length xs < 2 ^ 31 - 1 \<Longrightarrow> 0 \<le> sint (alloc xs)"
begin

primrec admit_many :: "nat \<Rightarrow> int32 list \<Rightarrow> int32 list" where
  \<comment> \<open>one admission after another, each seeing the indices of the ones before\<close>
  "admit_many 0 used = used"
| "admit_many (Suc n) used = admit_many n (used @ [alloc used])"

lemma admit_many_distinct:
  "distinct used \<Longrightarrow> length used + n < 2 ^ 31 \<Longrightarrow> distinct (admit_many n used)"
proof (induction n arbitrary: used)
  case 0
  then show ?case by simp
next
  case (Suc n)
  then have "alloc used \<notin> set used" by (intro alloc_fresh) simp
  with Suc show ?case by simp
qed

lemma admit_many_extends: "\<exists>new. admit_many n used = used @ new \<and> length new = n"
proof (induction n arbitrary: used)
  case 0
  then show ?case by simp
next
  case (Suc n)
  obtain new where "admit_many n (used @ [alloc used]) = (used @ [alloc used]) @ new"
    "length new = n"
    using Suc.IH by blast
  then show ?case by (intro exI [of _ "alloc used # new"]) simp
qed

end

section \<open>The loop\<close>

fun scan_ordinal :: "int32 list \<Rightarrow> int32 \<times> int32 \<Rightarrow> int32 \<times> int32" where
  \<comment> \<open>the state is (\<open>ordinalIndex\<close>, \<open>maxOrdinalIndex\<close>); the branch is the \<open>break\<close>\<close>
  "scan_ordinal [] (ordinalIndex, maxOrdinalIndex) = (ordinalIndex, maxOrdinalIndex)"
| "scan_ordinal (x # xs) (ordinalIndex, maxOrdinalIndex) =
     (if sint x > sint (ordinalIndex + 1) then (ordinalIndex + 1, x)
      else scan_ordinal xs (ordinalIndex + 1, x))"

definition find_ordinal :: "int32 list \<Rightarrow> int32" where
  "find_ordinal xs =
     (case scan_ordinal (sort_key sint xs) (- 1, 0) of (ordinalIndex, maxOrdinalIndex) \<Rightarrow>
        if maxOrdinalIndex = ordinalIndex \<or> ordinalIndex = - 1 then ordinalIndex + 1
        else ordinalIndex)"

section \<open>What the loop finds\<close>

lemma sint_of_int_small: "- (2 ^ 31) \<le> j \<Longrightarrow> j < 2 ^ 31 \<Longrightarrow> sint (word_of_int j :: int32) = j"
  by (simp add: sint_sbintrunc' signed_take_bit_int_eq_self)

lemma of_int_Suc_step: "(word_of_int (int k - 1) :: int32) + 1 = word_of_int (int k)"
  by simp

text \<open>
  Started with \<open>k - 1\<close>, the loop either stops at the first position \<open>i\<close> whose value
  exceeds \<open>k + i\<close>, or runs through the whole list.
\<close>

lemma scan_ordinal_cases:
  assumes "k + length xs < 2 ^ 31"
  shows
   "(\<exists>ys x zs. xs = ys @ x # zs \<and> (\<forall>j < length ys. sint (ys ! j) \<le> int (k + j))
       \<and> int (k + length ys) < sint x
       \<and> scan_ordinal xs (word_of_int (int k - 1), m) = (word_of_int (int (k + length ys)), x))
  \<or> ((\<forall>j < length xs. sint (xs ! j) \<le> int (k + j))
       \<and> scan_ordinal xs (word_of_int (int k - 1), m)
         = (word_of_int (int (k + length xs) - 1), last (m # xs)))"
  using assms
proof (induction xs arbitrary: k m)
  case Nil
  then show ?case by simp
next
  case (Cons x xs)
  have "sint (word_of_int (int k) :: int32) = int k"
    using Cons.prems by (intro sint_of_int_small) simp_all
  then have s: "sint (word_of_nat k :: int32) = int k" by simp
  show ?case
  proof (cases "int k < sint x")
    case True
    then have "scan_ordinal (x # xs) (word_of_int (int k - 1), m) = (word_of_int (int k), x)"
      by (simp add: of_int_Suc_step s)
    with True show ?thesis
      by (intro disjI1 exI [of _ "[]"] exI [of _ x] exI [of _ xs]) simp
  next
    case False
    then have step: "scan_ordinal (x # xs) (word_of_int (int k - 1), m)
        = scan_ordinal xs (word_of_int (int (Suc k) - 1), x)"
      by (simp add: of_int_Suc_step s)
    have "Suc k + length xs < 2 ^ 31" using Cons.prems by simp
    from Cons.IH [OF this, of x] show ?thesis
    proof (elim disjE exE conjE)
      fix ys y zs
      assume a: "xs = ys @ y # zs" "\<forall>j<length ys. sint (ys ! j) \<le> int (Suc k + j)"
        "int (Suc k + length ys) < sint y"
        "scan_ordinal xs (word_of_int (int (Suc k) - 1), x)
          = (word_of_int (int (Suc k + length ys)), y)"
      have "\<forall>j<length (x # ys). sint ((x # ys) ! j) \<le> int (k + j)"
        using a(2) False by (auto simp: nth_Cons split: nat.split)
      with a step show ?thesis
        by (intro disjI1 exI [of _ "x # ys"] exI [of _ y] exI [of _ zs]) simp
    next
      assume a: "\<forall>j<length xs. sint (xs ! j) \<le> int (Suc k + j)"
        "scan_ordinal xs (word_of_int (int (Suc k) - 1), x)
          = (word_of_int (int (Suc k + length xs) - 1), last (x # xs))"
      have "\<forall>j<length (x # xs). sint ((x # xs) ! j) \<le> int (k + j)"
        using a(1) False by (auto simp: nth_Cons split: nat.split)
      with a(2) step show ?thesis by simp
    qed
  qed
qed

text \<open>Either outcome gives an index that no element of the list has.\<close>

lemma sorted_sint_append:
  "sorted (map sint (ys @ x # zs)) \<Longrightarrow> \<forall>z \<in> set zs. sint (x :: int32) \<le> sint z"
  by (auto simp: sorted_append)

lemma find_ordinal_cases:
  assumes "length xs < 2 ^ 31 - 1"
  obtains (gap) ys x zs where "sort_key sint xs = ys @ x # zs"
      "\<forall>j < length ys. sint (ys ! j) \<le> int j" "int (length ys) < sint x"
      "\<forall>z \<in> set zs. sint x \<le> sint z" "sint (find_ordinal xs) = int (length ys)"
    | (full) "xs \<noteq> []" "\<forall>j < length xs. sint (sort_key sint xs ! j) \<le> int j"
      "sint (find_ordinal xs) =
         (if sint (last (sort_key sint xs)) = int (length xs) - 1 then int (length xs)
          else int (length xs) - 1)"
    | (none) "xs = []" "find_ordinal xs = 0"
proof -
  let ?s = "sort_key sint xs"
  have len: "0 + length ?s < 2 ^ 31" using assms by simp
  have start: "(word_of_int (int 0 - 1) :: int32) = - 1" by simp
  have small: "sint (word_of_int j :: int32) = j" if "- 1 \<le> j" "j \<le> int (length xs)" for j
    using assms that by (intro sint_of_int_small) simp_all
  from scan_ordinal_cases [OF len, of 0] show ?thesis
  proof (elim disjE exE conjE)
    fix ys x zs
    assume a: "?s = ys @ x # zs" "\<forall>j<length ys. sint (ys ! j) \<le> int (0 + j)"
      "int (0 + length ys) < sint x"
      "scan_ordinal ?s (word_of_int (int 0 - 1), 0) = (word_of_int (int (0 + length ys)), x)"
    have "length ys < length xs" using a(1) length_sort [of sint xs] by simp
    then have ys: "sint (word_of_int (int (length ys)) :: int32) = int (length ys)"
      by (intro small) simp_all
    have neq: "x \<noteq> word_of_int (int (length ys))" "(word_of_int (int (length ys)) :: int32) \<noteq> - 1"
      using a(3) ys by auto
    have "find_ordinal xs = word_of_int (int (length ys))"
      using a(4) neq by (simp add: find_ordinal_def)
    then have "sint (find_ordinal xs) = int (length ys)" using ys by simp
    moreover have "\<forall>z \<in> set zs. sint x \<le> sint z"
      using sorted_sort_key [of sint xs] a(1) by (intro sorted_sint_append [of ys]) simp
    ultimately show ?thesis using a by (intro gap) simp_all
  next
    assume a: "\<forall>j<length ?s. sint (?s ! j) \<le> int (0 + j)"
      "scan_ordinal ?s (word_of_int (int 0 - 1), 0)
        = (word_of_int (int (0 + length ?s) - 1), last (0 # ?s))"
    show ?thesis
    proof (cases "xs = []")
      case True
      then show ?thesis by (intro none) (simp_all add: find_ordinal_def)
    next
      case False
      let ?n = "length xs"
      have ne: "?s \<noteq> []" using False by (metis length_0_conv length_sort)
      have n1: "sint (word_of_int (int ?n - 1) :: int32) = int ?n - 1"
        using False by (intro small) (simp_all add: Suc_le_eq)
      then have "(word_of_int (int ?n - 1) :: int32) \<noteq> - 1" using False by auto
      then have f: "find_ordinal xs = (if last ?s = word_of_int (int ?n - 1)
          then word_of_int (int ?n - 1) + 1 else word_of_int (int ?n - 1))"
        using a(2) ne by (simp add: find_ordinal_def)
      have "last ?s = word_of_int (int ?n - 1) \<longleftrightarrow> sint (last ?s) = int ?n - 1"
        using n1 by (metis signed_word_eqI)
      moreover have "sint ((word_of_int (int ?n - 1) :: int32) + 1) = int ?n"
        using small [of "int ?n"] by simp
      ultimately show ?thesis using False a(1) f n1 by (intro full) simp_all
    qed
  qed
qed

lemma find_ordinal_fresh:
  assumes "length xs < 2 ^ 31 - 1"
  shows "find_ordinal xs \<notin> set xs"
proof
  assume mem: "find_ordinal xs \<in> set xs"
  let ?s = "sort_key sint xs"
  have mem': "find_ordinal xs \<in> set ?s" using mem by simp
  from assms show False
  proof (cases rule: find_ordinal_cases)
    case (gap ys x zs)
    have "find_ordinal xs \<notin> set ys" using gap(2,5) by (auto simp: in_set_conv_nth)
    moreover have "find_ordinal xs \<noteq> x" "find_ordinal xs \<notin> set zs"
      using gap(3,4,5) by force+
    ultimately show False using mem' gap(1) by simp
  next
    case full
    have ne: "?s \<noteq> []" using full(1) by (metis length_0_conv length_sort)
    have le: "sint z \<le> sint (last ?s)" if "z \<in> set ?s" for z
    proof -
      from that obtain j where j: "j < length ?s" "?s ! j = z"
        unfolding in_set_conv_nth by blast
      then have "map sint ?s ! j \<le> map sint ?s ! (length ?s - 1)"
        by (intro sorted_nth_mono) simp_all
      with j ne show ?thesis by (simp add: last_conv_nth)
    qed
    have "sint (last ?s) \<le> int (length xs) - 1"
      using full(1) spec [OF full(2), of "length xs - 1"] ne
      by (simp add: last_conv_nth of_nat_diff Suc_le_eq)
    with le [OF mem'] full(3) show False by (auto split: if_splits)
  next
    case none
    with mem show False by simp
  qed
qed

lemma find_ordinal_nonneg:
  assumes "length xs < 2 ^ 31 - 1"
  shows "0 \<le> sint (find_ordinal xs)"
  using assms by (cases rule: find_ordinal_cases) (auto simp: Suc_le_eq)

lemma find_ordinal_le_length:
  assumes "length xs < 2 ^ 31 - 1"
  shows "sint (find_ordinal xs) \<le> int (length xs)"
  using assms
proof (cases rule: find_ordinal_cases)
  case (gap ys x zs)
  then have "length ys < length xs" using length_sort [of sint xs] by simp
  with gap(5) show ?thesis by simp
qed auto

text \<open>
  With indices that are distinct and not negative, as admission itself keeps them, every index
  below the one found is taken: the loop finds the least free index.
\<close>

lemma sorted_distinct_nth_ge:
  assumes "sorted (map sint s)" "distinct s" "\<forall>x \<in> set s. 0 \<le> sint (x :: int32)" "j < length s"
  shows "int j \<le> sint (s ! j)"
  using assms(4)
proof (induction j)
  case 0
  then show ?case using assms(3) by simp
next
  case (Suc j)
  have "map sint s ! j \<le> map sint s ! Suc j"
    using assms(1) Suc.prems by (intro sorted_nth_mono) simp_all
  moreover have "sint (s ! j) \<noteq> sint (s ! Suc j)"
    using assms(2) Suc.prems by (metis Suc_lessD n_not_Suc_n nth_eq_iff_index_eq signed_word_eqI)
  ultimately show ?case using Suc by simp
qed

lemma find_ordinal_least:
  assumes "length xs < 2 ^ 31 - 1" "distinct xs" "\<forall>x \<in> set xs. 0 \<le> sint x"
    and "0 \<le> i" "i < sint (find_ordinal xs)"
  shows "i \<in> sint ` set xs"
proof -
  let ?s = "sort_key sint xs"
  have ge: "int j \<le> sint (?s ! j)" if "j < length xs" for j
    using assms(2,3) that by (intro sorted_distinct_nth_ge) simp_all
  have take: "i \<in> sint ` set xs" if "nat i < length xs" "sint (?s ! nat i) = i"
  proof -
    have "?s ! nat i \<in> set ?s" using that(1) by (intro nth_mem) simp
    with that(2) show ?thesis by force
  qed
  from assms(1) show ?thesis
  proof (cases rule: find_ordinal_cases)
    case (gap ys x zs)
    have lt: "nat i < length ys" "nat i < length xs"
      using gap(1,5) assms(4,5) length_sort [of sint xs] by simp_all
    have "?s ! nat i = ys ! nat i" using gap(1) lt(1) by (simp only: nth_append if_True)
    then have "sint (?s ! nat i) \<le> int (nat i)" using gap(2) lt(1) by metis
    with ge [OF lt(2)] lt(2) assms(4) show ?thesis by (intro take) simp_all
  next
    case full
    have lt: "nat i < length xs"
      using full(1,3) assms(4,5) by (auto split: if_splits simp: Suc_le_eq)
    with ge [OF lt] full(2) assms(4) show ?thesis by (intro take) force+
  next
    case none
    with assms(4,5) show ?thesis by simp
  qed
qed

interpretation ordinal_alloc: index_allocator find_ordinal
  by unfold_locales (rule find_ordinal_fresh find_ordinal_nonneg; assumption)+

end
