(* ===== verification/Entity_Webhook.thy ===== *)
theory Entity_Webhook
  imports Reference_Cluster Index_Allocator
begin

text \<open>
  \<open>api/v1/entity_webhook.go\<close>: the admission of entities. The mutating webhook fills in the
  sync period, the identity and the ordinal index and labels the entity with its index; the
  validating webhook rejects an index that another entity has or that the model's stateful set
  cannot hold. Raw JSON and its codec (\<open>encoding/json\<close>) are a parameter.
\<close>

section \<open>Admission\<close>

record 'a codec =
  unmarshal :: "string \<Rightarrow> gerror + 'a"
  marshal :: "'a \<Rightarrow> gerror + string"

datatype admission_response =
    Errored nat gerror
  | Allowed string
  | PatchResponseFromRaw string string

definition StatusBadRequest :: nat where "StatusBadRequest = 400"
definition StatusInternalServerError :: nat where "StatusInternalServerError = 500"

definition codec_contract :: "'a codec \<Rightarrow> bool" where
  \<comment> \<open>decoding what was encoded gives the value back\<close>
  "codec_contract cod \<longleftrightarrow> (\<forall>x s. marshal cod x = Inr s \<longrightarrow> unmarshal cod s = Inr x)"

section \<open>The mutating webhook\<close>

abbreviation ordinal_of :: "entity \<Rightarrow> int32 option" where
  "ordinal_of e \<equiv> es_ordinalIndex (e_spec e)"

definition default_sync :: "entity \<Rightarrow> entity" where
  "default_sync e =
     (if sint (es_syncPeriod (e_spec e)) \<le> 0
      then e\<lparr>e_spec := (e_spec e)\<lparr>es_syncPeriod := 60\<rparr>\<rparr> else e)"

definition default_identity :: "'w env \<Rightarrow> entity \<Rightarrow> ('w, entity) go" where
  "default_identity env e =
     (if es_identity (e_spec e) = []
      then bindg (callg (c_uuid env)) (\<lambda>u. retg (e\<lparr>e_spec := (e_spec e)\<lparr>es_identity := u\<rparr>\<rparr>))
      else retg e)"

definition ordinals :: "entity list \<Rightarrow> int32 list outcome" where
  \<comment> \<open>the sort's comparisons and the loop read every index through its pointer\<close>
  "ordinals items =
     (case those (map ordinal_of items) of None \<Rightarrow> Panic nil_deref | Some xs \<Rightarrow> Return xs)"

definition default_ordinal :: "'w env \<Rightarrow> entity \<Rightarrow> ('w, admission_response + entity) go" where
  \<comment> \<open>a selector that does not parse is reported to no one: the list call then has a nil selector\<close>
  "default_ordinal env e =
     (if ordinal_of e \<noteq> None then retg (Inr e)
      else
        let labelSelector = (case parse_selector env (RoboKubeIndexKey @ es_model (e_spec e)) of
                Inl _ \<Rightarrow> SelAll | Inr sel \<Rightarrow> sel)
        in bindg (list_as env KEntity as_entity (m_namespace (e_meta e)) labelSelector) (\<lambda>r.
             case r of
               Inl err \<Rightarrow> retg (Inl (Errored StatusBadRequest (wrapf ''failed to list: '' err)))
             | Inr items \<Rightarrow> bindg (pureg (ordinals items)) (\<lambda>xs.
                 retg (Inr (e\<lparr>e_spec := (e_spec e)\<lparr>es_ordinalIndex := Some (find_ordinal xs)\<rparr>\<rparr>)))))"

definition label_ordinal :: "entity \<Rightarrow> entity outcome" where
  "label_ordinal e =
     obind (deref (ordinal_of e)) (\<lambda>i.
       let labels = (case m_labels (e_meta e) of None \<Rightarrow> fmempty | Some l \<Rightarrow> l)
       in Return (e\<lparr>e_meta := (e_meta e)\<lparr>m_labels :=
            Some (fmupd (RoboKubeIndexKey @ es_model (e_spec e)) (fmt_d i) labels)\<rparr>\<rparr>))"

definition entityMutator_Handle ::
  "'w env \<Rightarrow> entity codec \<Rightarrow> string \<Rightarrow> ('w, admission_response) go" where
  "entityMutator_Handle env cod raw =
     (case unmarshal cod raw of
        Inl err \<Rightarrow> retg (Errored StatusBadRequest (wrapf ''failed to decode entity: '' err))
      | Inr entity \<Rightarrow>
          bindg (default_identity env (default_sync entity)) (\<lambda>e1.
          bindg (default_ordinal env e1) (\<lambda>r.
            case r of
              Inl resp \<Rightarrow> retg resp
            | Inr e2 \<Rightarrow>
                bindg (pureg (label_ordinal e2)) (\<lambda>e3.
                  case marshal cod e3 of
                    Inl err \<Rightarrow> retg (Errored StatusInternalServerError err)
                  | Inr out \<Rightarrow> retg (PatchResponseFromRaw raw out)))))"

section \<open>The validating webhook\<close>

definition stsName_of :: "string \<Rightarrow> model \<Rightarrow> string" where
  \<comment> \<open>the model's own stateful set, or the one its name gives\<close>
  "stsName_of name model =
     (if ms_statefulSetName (mo_spec model) \<noteq> [] then ms_statefulSetName (mo_spec model)
      else name @ ''-sts'')"

definition entityValidator_ValidateCreate :: "'w env \<Rightarrow> obj \<Rightarrow> ('w, gerror option) go" where
  "entityValidator_ValidateCreate env ob =
     (case as_entity ob of
        None \<Rightarrow> retg (Some (errorf (''expected an Entity object, got '' @ type_text (kind_of ob))))
      | Some entity \<Rightarrow>
          if m_ownerReferences (e_meta entity) \<noteq> [] then retg None
          else
            let ns = m_namespace (e_meta entity); modelName = es_model (e_spec entity) in
            bindg (pureg (deref (ordinal_of entity))) (\<lambda>i.
            bindg (list_as env KEntity as_entity ns (SelEquals (RoboKubeIndexKey @ modelName) (fmt_d i)))
              (\<lambda>r. case r of
                Inl err \<Rightarrow>
                  retg (Some (wrapf ''Entity creation rejected: cannot list another entities: '' err))
              | Inr items \<Rightarrow>
                  if items \<noteq> [] then
                    retg (Some (errorf (''Entity creation rejected: the OrdinalIndex already taken by another entity: ''
                      @ fmt_pointer env)))
                  else
                    bindg (get_as env KModel as_model ns modelName) (\<lambda>rm. case rm of
                      Inl err \<Rightarrow> retg (Some (wrapf ''failed to get model: '' err))
                    | Inr model \<Rightarrow>
                        bindg (get_as env KStatefulSet as_statefulset ns (stsName_of modelName model))
                          (\<lambda>rs. case rs of
                            Inl err \<Rightarrow> retg (Some (wrapf ''failed to get StatefulSet: '' err))
                          | Inr sts \<Rightarrow>
                              bindg (pureg (deref (ss_replicas (st_spec sts)))) (\<lambda>replicas.
                                if sint i > sint (replicas + 1)
                                then retg (Some (errorf ''the index is out of range''))
                                else retg None))))))"

definition entityValidator_ValidateUpdate :: "obj \<Rightarrow> obj \<Rightarrow> gerror option" where
  "entityValidator_ValidateUpdate oldObj newObj =
     (case as_entity oldObj of
        None \<Rightarrow> Some (errorf (''expected an Entity object, got '' @ type_text (kind_of newObj)))
      | Some entity \<Rightarrow> None)"

definition entityValidator_ValidateDelete :: "obj \<Rightarrow> gerror option" where
  "entityValidator_ValidateDelete ob =
     (case as_entity ob of
        None \<Rightarrow> Some (errorf (''expected an Entity object, got '' @ type_text (kind_of ob)))
      | Some entity \<Rightarrow> None)"

section \<open>Facts on the mutating webhook\<close>

lemma default_sync_sel [simp]:
  "e_meta (default_sync e) = e_meta e" "es_model (e_spec (default_sync e)) = es_model (e_spec e)"
  "ordinal_of (default_sync e) = ordinal_of e"
  "es_identity (e_spec (default_sync e)) = es_identity (e_spec e)"
  by (simp_all add: default_sync_def)

lemma default_sync_pos: "0 < sint (es_syncPeriod (e_spec (default_sync e)))"
  by (simp add: default_sync_def)

lemma default_identity_ReturnE:
  assumes "default_identity env e w = (Return e', w')"
  obtains u where "e' = e\<lparr>e_spec := (e_spec e)\<lparr>es_identity := u\<rparr>\<rparr>"
    "es_identity (e_spec e) \<noteq> [] \<Longrightarrow> u = es_identity (e_spec e) \<and> w' = w"
    "es_identity (e_spec e) = [] \<Longrightarrow> c_uuid env w = (u, w')"
  using assms by (auto simp: default_identity_def split: if_splits)

lemma those_as_entity:
  "those (map as_entity obs) = Some items \<Longrightarrow> obs = map OEntity items"
proof (induction obs arbitrary: items)
  case Nil
  then show ?case by simp
next
  case (Cons ob obs)
  then show ?case by (cases ob) (auto split: option.splits)
qed

lemma those_ordinals:
  "those (map ordinal_of items) = Some xs \<Longrightarrow> map ordinal_of items = map Some xs"
  by (induction items arbitrary: xs) (auto split: option.splits)

text \<open>A default index is found among the entities one list call returned.\<close>

lemma default_ordinal_alloc:
  assumes "default_ordinal env e w = (Return (Inr e'), w')" and "ordinal_of e = None"
    and sel: "sel = (case parse_selector env (RoboKubeIndexKey @ es_model (e_spec e)) of
       Inl _ \<Rightarrow> SelAll | Inr s \<Rightarrow> s)"
  shows "\<exists>items xs. c_list env KEntity (m_namespace (e_meta e)) sel w = (Inr (map OEntity items), w')
    \<and> map ordinal_of items = map Some xs
    \<and> e' = e\<lparr>e_spec := (e_spec e)\<lparr>es_ordinalIndex := Some (find_ordinal xs)\<rparr>\<rparr>"
proof -
  obtain r w1 where call: "c_list env KEntity (m_namespace (e_meta e)) sel w = (r, w1)"
    by fastforce
  with assms(1,2) show ?thesis
    unfolding sel
    by (cases r)
      (auto simp: default_ordinal_def Let_def bindg_run list_as_run ordinals_def
        intro!: exI those_ordinals dest: those_as_entity split: option.splits)
qed

lemma default_ordinal_rejects:
  "default_ordinal env e w = (Return (Inl resp), w') \<Longrightarrow> \<exists>err. resp = Errored StatusBadRequest err"
  by (auto simp: default_ordinal_def Let_def bindg_run list_as_run
      split: if_splits sum.splits outcome.splits prod.splits)

lemma default_ordinal_given: "ordinal_of e \<noteq> None \<Longrightarrow> default_ordinal env e = retg (Inr e)"
  by (simp add: default_ordinal_def)

lemma label_ordinal_ReturnE:
  assumes "label_ordinal e = Return e'"
  obtains i where "ordinal_of e = Some i" "e_spec e' = e_spec e"
    "m_namespace (e_meta e') = m_namespace (e_meta e)"
    "\<And>k. label_of (e_meta e') k = (if k = RoboKubeIndexKey @ es_model (e_spec e)
        then Some (fmt_d i) else label_of (e_meta e) k)"
  using assms by (auto simp: label_ordinal_def Let_def label_of_def split: option.splits)

lemma entityMutator_patchE:
  assumes "entityMutator_Handle env cod raw w = (Return (PatchResponseFromRaw raw' cur), w')"
  obtains e e1 w1 e2 e3 where
    "unmarshal cod raw = Inr e" "default_identity env (default_sync e) w = (Return e1, w1)"
    "default_ordinal env e1 w1 = (Return (Inr e2), w')" "label_ordinal e2 = Return e3"
    "marshal cod e3 = Inr cur" "raw' = raw"
  using assms
  by (auto simp: entityMutator_Handle_def
      elim!: bindg_ReturnE split: sum.splits dest: default_ordinal_rejects)

section \<open>Properties of the mutating webhook\<close>

text \<open>C1: when an entity is submitted without an ordinal index and its admission succeeds, the
  patched entity has a non-negative index that no entity has which the webhook listed for the same
  model in the same namespace; and when the listed indices are distinct and not negative, it is the
  least index that is free.\<close>

theorem mutator_fresh_index:
  assumes patched: "entityMutator_Handle env cod raw w = (Return (PatchResponseFromRaw raw cur), w')"
    and entity: "unmarshal cod raw = Inr e" "ordinal_of e = None"
    and selector: "parse_selector env (RoboKubeIndexKey @ es_model (e_spec e)) = Inr sel"
    and bounded: "\<And>w1 obs. c_list env KEntity (m_namespace (e_meta e)) sel w1 = (Inr obs, w')
      \<Longrightarrow> length obs < 2 ^ 31 - 1"
  shows "\<exists>w1 items e' i.
      c_list env KEntity (m_namespace (e_meta e)) sel w1 = (Inr (map OEntity items), w')
    \<and> marshal cod e' = Inr cur \<and> ordinal_of e' = Some i \<and> 0 \<le> sint i
    \<and> Some i \<notin> ordinal_of ` set items
    \<and> (distinct (map ordinal_of items) \<and> (\<forall>j. Some j \<in> ordinal_of ` set items \<longrightarrow> 0 \<le> sint j) \<longrightarrow>
        (\<forall>j. 0 \<le> j \<and> j < sint i \<longrightarrow> (\<exists>k. Some k \<in> ordinal_of ` set items \<and> sint k = j)))"
proof -
  obtain e1 w1 e2 e3 where
    ident: "default_identity env (default_sync e) w = (Return e1, w1)" and
    ord: "default_ordinal env e1 w1 = (Return (Inr e2), w')" and
    lab: "label_ordinal e2 = Return e3" and out: "marshal cod e3 = Inr cur"
    using patched entity(1) by (auto elim!: entityMutator_patchE)
  have e1: "ordinal_of e1 = None" "e_meta e1 = e_meta e" "es_model (e_spec e1) = es_model (e_spec e)"
    using ident entity(2) by (auto elim!: default_identity_ReturnE)
  obtain items xs where
    call: "c_list env KEntity (m_namespace (e_meta e)) sel w1 = (Inr (map OEntity items), w')" and
    xs: "map ordinal_of items = map Some xs" and
    e2: "ordinal_of e2 = Some (find_ordinal xs)"
    using default_ordinal_alloc [OF ord e1(1), of sel] e1 selector by auto
  have len: "length xs < 2 ^ 31 - 1"
    using bounded [OF call] xs by (metis length_map)
  have set_xs: "ordinal_of ` set items = Some ` set xs"
    using xs by (metis image_set)
  have dist: "distinct xs" if "distinct (map ordinal_of items)"
    using that unfolding xs by (simp add: distinct_map)
  have e3: "ordinal_of e3 = Some (find_ordinal xs)"
    using lab e2 by (auto elim!: label_ordinal_ReturnE)
  have "\<exists>k. Some k \<in> ordinal_of ` set items \<and> sint k = j"
    if "distinct (map ordinal_of items)" "\<forall>j. Some j \<in> ordinal_of ` set items \<longrightarrow> 0 \<le> sint j"
      "0 \<le> j" "j < sint (find_ordinal xs)" for j
    using find_ordinal_least [OF len dist [OF that(1)] _ that(3,4)] that(2) set_xs by auto
  with call out e3 find_ordinal_nonneg [OF len] find_ordinal_fresh [OF len] set_xs
  show ?thesis
    by (intro exI [of _ w1] exI [of _ items] exI [of _ e3] exI [of _ "find_ordinal xs"]) auto
qed

definition sample_codec :: "entity \<Rightarrow> entity codec" where
  \<comment> \<open>knows one entity, under the text raw, and writes any as out\<close>
  "sample_codec e = \<lparr>unmarshal = (\<lambda>s. if s = ''raw'' then Inr e else Inl (errorf ''bad'')),
     marshal = (\<lambda>e'. Inr ''out'')\<rparr>"

definition sample_arms :: mem where
  \<comment> \<open>two entities of the model, with indices 2 and 0\<close>
  "sample_arms = sample_world
     [OEntity (sample_entity ''a'' (Some 2)), OEntity (sample_entity ''b'' (Some 0))]"

theorem mutator_fresh_index_witness:
  "\<exists>w1 items e' i.
      mem_list KEntity ''ns'' (SelExists (RoboKubeIndexKey @ ''arm'')) w1
        = (Inr (map OEntity items), sample_arms)
    \<and> marshal (sample_codec (sample_entity ''c'' None)) e' = Inr ''out''
    \<and> ordinal_of e' = Some i \<and> 0 \<le> sint i \<and> Some i \<notin> ordinal_of ` set items"
proof -
  let ?sel = "SelExists (RoboKubeIndexKey @ ''arm'')"
  have run: "entityMutator_Handle mem_env (sample_codec (sample_entity ''c'' None)) ''raw'' sample_arms
      = (Return (PatchResponseFromRaw ''raw'' ''out''), sample_arms)"
    by code_simp
  have bounded: "length obs < 2 ^ 31 - 1"
    if "c_list mem_env KEntity (m_namespace (e_meta (sample_entity ''c'' None))) ?sel w1
      = (Inr obs, sample_arms)" for w1 obs
  proof -
    have "length obs \<le> length (mem_objs sample_arms)"
      using that by (auto simp: mem_env_def mem_list_def)
    then show ?thesis by (simp add: sample_arms_def sample_world_def)
  qed
  have prems: "unmarshal (sample_codec (sample_entity ''c'' None)) ''raw''
      = Inr (sample_entity ''c'' None)" "ordinal_of (sample_entity ''c'' None) = None"
    "parse_selector mem_env (RoboKubeIndexKey @ es_model (e_spec (sample_entity ''c'' None)))
      = Inr ?sel"
    by (simp_all add: sample_codec_def sample_entity_def sample_entity_spec_def mem_env_def
        RoboKubeIndexKey_def)
  have "c_list mem_env = mem_list" "m_namespace (e_meta (sample_entity ''c'' None)) = ''ns''"
    by (simp_all add: mem_env_def sample_defs)
  with mutator_fresh_index [OF run prems bounded] show ?thesis by fastforce
qed

text \<open>What the webhook has settled about an entity it patched.\<close>

definition admitted :: "entity \<Rightarrow> bool" where
  "admitted e \<longleftrightarrow> 0 < sint (es_syncPeriod (e_spec e)) \<and> es_identity (e_spec e) \<noteq> [] \<and>
     (\<exists>i. ordinal_of e = Some i \<and>
        label_of (e_meta e) (RoboKubeIndexKey @ es_model (e_spec e)) = Some (fmt_d i))"

definition uuid_contract :: "'w env \<Rightarrow> bool" where
  \<comment> \<open>the text of a fresh UUID is not empty\<close>
  "uuid_contract env \<longleftrightarrow> (\<forall>w. fst (c_uuid env w) \<noteq> [])"

lemma mem_uuid_contract: "uuid_contract mem_env"
  by (simp add: uuid_contract_def mem_env_def)

lemma default_ordinal_frame:
  assumes "default_ordinal env e w = (Return (Inr e'), w')"
  shows "e_meta e' = e_meta e \<and> es_syncPeriod (e_spec e') = es_syncPeriod (e_spec e)
    \<and> es_identity (e_spec e') = es_identity (e_spec e) \<and> es_model (e_spec e') = es_model (e_spec e)
    \<and> (ordinal_of e \<noteq> None \<longrightarrow> e' = e)"
proof (cases "ordinal_of e = None")
  case True
  then show ?thesis using default_ordinal_alloc [OF assms True refl] by auto
next
  case False
  then show ?thesis using assms by (simp add: default_ordinal_given)
qed

lemma mutator_admits:
  assumes "entityMutator_Handle env cod raw w = (Return (PatchResponseFromRaw raw cur), w')"
    and "unmarshal cod raw = Inr e" and "uuid_contract env"
  shows "\<exists>e'. marshal cod e' = Inr cur \<and> admitted e' \<and> es_model (e_spec e') = es_model (e_spec e)
    \<and> m_namespace (e_meta e') = m_namespace (e_meta e)
    \<and> (ordinal_of e \<noteq> None \<longrightarrow> ordinal_of e' = ordinal_of e)
    \<and> (es_identity (e_spec e) \<noteq> [] \<longrightarrow> es_identity (e_spec e') = es_identity (e_spec e))"
proof -
  obtain e1 w1 e2 e3 where
    ident: "default_identity env (default_sync e) w = (Return e1, w1)" and
    ord: "default_ordinal env e1 w1 = (Return (Inr e2), w')" and
    lab: "label_ordinal e2 = Return e3" and out: "marshal cod e3 = Inr cur"
    using assms(1,2) by (auto elim!: entityMutator_patchE)
  have e1: "es_syncPeriod (e_spec e1) = es_syncPeriod (e_spec (default_sync e))"
    "es_identity (e_spec e1) \<noteq> []" "e_meta e1 = e_meta e" "ordinal_of e1 = ordinal_of e"
    "es_model (e_spec e1) = es_model (e_spec e)"
    "es_identity (e_spec e) \<noteq> [] \<longrightarrow> es_identity (e_spec e1) = es_identity (e_spec e)"
    using ident assms(3)
    by (auto elim!: default_identity_ReturnE simp: uuid_contract_def) (metis fst_conv)+
  note e2 = default_ordinal_frame [OF ord]
  from lab have e3: "admitted e3 \<and> es_model (e_spec e3) = es_model (e_spec e2)
      \<and> m_namespace (e_meta e3) = m_namespace (e_meta e2) \<and> ordinal_of e3 = ordinal_of e2
      \<and> es_identity (e_spec e3) = es_identity (e_spec e2)"
    using e1 e2 default_sync_pos [of e] by (auto elim!: label_ordinal_ReturnE simp: admitted_def)
  with out e1 e2 show ?thesis by auto
qed



lemma label_ordinal_admitted: "admitted e \<Longrightarrow> label_ordinal e = Return e"
  by (auto simp: admitted_def label_ordinal_def label_of_def Let_def fmap_ext split: option.splits
      intro!: entity.equality object_meta.equality fmap_ext)

text \<open>Admission is idempotent: submitting again what the webhook produced changes nothing, and
  neither reads the cluster nor draws a new identity.\<close>

theorem mutator_idempotent:
  assumes "entityMutator_Handle env cod raw w = (Return (PatchResponseFromRaw raw cur), w')"
    and "codec_contract cod" and "uuid_contract env"
  shows "entityMutator_Handle env cod cur v = (Return (PatchResponseFromRaw cur cur), v)"
proof -
  obtain e where "unmarshal cod raw = Inr e" using assms(1) by (auto elim!: entityMutator_patchE)
  then obtain e' where e': "marshal cod e' = Inr cur" "admitted e'"
    using mutator_admits [OF assms(1) _ assms(3)] by blast
  have "unmarshal cod cur = Inr e'" using e'(1) assms(2) by (simp add: codec_contract_def)
  moreover have "default_sync e' = e'" "default_identity env e' = retg e'"
    "default_ordinal env e' = retg (Inr e')"
    using e'(2) by (auto simp: admitted_def default_sync_def default_identity_def default_ordinal_def)
  ultimately show ?thesis
    by (simp add: entityMutator_Handle_def label_ordinal_admitted [OF e'(2)] e'(1))
qed

definition sample_admitted :: entity where
  \<comment> \<open>what admission makes of the third entity of the sample cluster\<close>
  "sample_admitted = (sample_entity ''c'' (Some 1))
     \<lparr>e_spec := (sample_entity_spec (Some 1))\<lparr>es_identity := ''uuid'', es_syncPeriod := 60\<rparr>\<rparr>"

definition sample_codec2 :: "entity codec" where
  "sample_codec2 =
     \<lparr>unmarshal = (\<lambda>s. if s = ''raw'' then Inr (sample_entity ''c'' None)
        else if s = ''cur'' then Inr sample_admitted else Inl (errorf ''bad'')),
      marshal = (\<lambda>e. if e = sample_admitted then Inr ''cur'' else Inl (errorf ''bad''))\<rparr>"

theorem mutator_idempotent_witness:
  "entityMutator_Handle mem_env sample_codec2 ''raw'' sample_arms
      = (Return (PatchResponseFromRaw ''raw'' ''cur''), sample_arms)
   \<and> entityMutator_Handle mem_env sample_codec2 ''cur'' sample_arms
      = (Return (PatchResponseFromRaw ''cur'' ''cur''), sample_arms)"
proof -
  have run: "entityMutator_Handle mem_env sample_codec2 ''raw'' sample_arms
      = (Return (PatchResponseFromRaw ''raw'' ''cur''), sample_arms)"
    by code_simp
  have "codec_contract sample_codec2"
    by (auto simp: codec_contract_def sample_codec2_def split: if_splits)
  from mutator_idempotent [OF run this mem_uuid_contract] run show ?thesis by simp
qed

section \<open>Properties of the validating webhook\<close>

lemma get_as_ReturnInr:
  "get_as env k proj ns n w = (Return (Inr x), w') \<longleftrightarrow>
     (\<exists>ob. c_get env k ns n w = (Inr ob, w') \<and> proj ob = Some x)"
  by (cases "c_get env k ns n w") (auto simp: get_as_run split: sum.splits option.splits)

lemma list_as_ReturnInr:
  "list_as env k proj ns sel w = (Return (Inr xs), w') \<longleftrightarrow>
     (\<exists>obs. c_list env k ns sel w = (Inr obs, w') \<and> those (map proj obs) = Some xs)"
  by (cases "c_list env k ns sel w") (auto simp: list_as_run split: sum.splits option.splits)

lemma get_as_key:
  assumes "get_contract env" and "get_as env k proj ns n w = (Return (Inr x), w')"
  shows "\<exists>ob. c_get env k ns n w = (Inr ob, w') \<and> proj ob = Some x
    \<and> kind_of ob = k \<and> obj_ns ob = ns \<and> obj_name ob = n"
  using assms unfolding get_contract_def get_as_ReturnInr by blast

text \<open>C32: an entity without an owner is accepted only when its index is set, no entity carries that
  index under the model's label, the model and its stateful set exist, and the index exceeds the
  set's replicas by at most one; \<open>int32\<close> wrap-around at the largest replica count never widens
  this.\<close>

theorem validator_accepts_only:
  assumes "entityValidator_ValidateCreate env (OEntity e) w = (Return None, w')"
    and "m_ownerReferences (e_meta e) = []"
  shows "\<exists>i w1 w2 m s r. ordinal_of e = Some i
    \<and> c_list env KEntity (m_namespace (e_meta e))
        (SelEquals (RoboKubeIndexKey @ es_model (e_spec e)) (fmt_d i)) w = (Inr [], w1)
    \<and> c_get env KModel (m_namespace (e_meta e)) (es_model (e_spec e)) w1 = (Inr (OModel m), w2)
    \<and> c_get env KStatefulSet (m_namespace (e_meta e)) (stsName_of (es_model (e_spec e)) m) w2
        = (Inr (OStatefulSet s), w')
    \<and> ss_replicas (st_spec s) = Some r \<and> sint i \<le> sint r + 1"
proof -
  have wrap: "sint i \<le> sint r + 1" if "\<not> sint i > sint (r + 1)" for i r :: int32
  proof (cases "sint r = 2 ^ 31 - 1")
    case True
    then show ?thesis using sint32_range(2) [of i] by simp
  next
    case False
    then have "sint r + 1 < 2 ^ 31" using sint32_range(2) [of r] by linarith
    then have "sint (r + 1) = sint r + 1"
      using sint32_range(1) [of r] sint_of_int_small [of "sint r + 1"] by simp
    with that show ?thesis by simp
  qed
  from assms obtain i items w1 where
    i: "ordinal_of e = Some i" and
    l: "list_as env KEntity as_entity (m_namespace (e_meta e))
      (SelEquals (RoboKubeIndexKey @ es_model (e_spec e)) (fmt_d i)) w = (Return (Inr items), w1)"
    by (auto simp: entityValidator_ValidateCreate_def Let_def elim!: bindg_ReturnE split: sum.splits)
  with assms obtain m s r w2 where "items = []"
    "get_as env KModel as_model (m_namespace (e_meta e)) (es_model (e_spec e)) w1
      = (Return (Inr m), w2)"
    "get_as env KStatefulSet as_statefulset (m_namespace (e_meta e))
      (stsName_of (es_model (e_spec e)) m) w2 = (Return (Inr s), w')"
    "ss_replicas (st_spec s) = Some r" "\<not> sint i > sint (r + 1)"
    by (auto simp: entityValidator_ValidateCreate_def Let_def elim!: bindg_ReturnE
        split: sum.splits if_splits)
  with i l wrap show ?thesis
    by (auto simp: get_as_ReturnInr list_as_ReturnInr those_map_eq_Some
        dest!: as_SomeD)
qed

text \<open>The witness accepts an index one beyond the next replica: index 3 of two replicas.\<close>

theorem validator_accepts_only_witness:
  "\<exists>i r :: int32. i = 3 \<and> r = 2 \<and> sint i \<le> sint r + 1
    \<and> entityValidator_ValidateCreate mem_env (OEntity (sample_entity ''c'' (Some i)))
        (sample_world [OModel sample_model, OStatefulSet (sample_sts r)])
      = (Return None, sample_world [OModel sample_model, OStatefulSet (sample_sts r)])"
proof -
  let ?w = "sample_world [OModel sample_model, OStatefulSet (sample_sts 2)]"
  have run: "entityValidator_ValidateCreate mem_env (OEntity (sample_entity ''c'' (Some 3))) ?w
      = (Return None, ?w)"
    by code_simp
  have own: "m_ownerReferences (e_meta (sample_entity ''c'' (Some 3))) = []"
    by (simp add: sample_defs)
  have "\<exists>i w1 w2 m s r. ordinal_of (sample_entity ''c'' (Some 3)) = Some i
      \<and> c_get mem_env KStatefulSet ''ns'' (stsName_of ''arm'' m) w2 = (Inr (OStatefulSet s), ?w)
      \<and> ss_replicas (st_spec s) = Some r \<and> sint i \<le> sint r + 1"
    using validator_accepts_only [OF run own] by (auto simp: sample_defs)
  with run show ?thesis by auto
qed

text \<open>With the index set and a stateful set that has a replica count, validation always returns a
  verdict; without the index it panics on the nil pointer before any call, unless the entity has an
  owner, which is accepted unseen.\<close>

theorem validator_total:
  "(m_ownerReferences (e_meta e) \<noteq> [] \<longrightarrow>
      entityValidator_ValidateCreate env (OEntity e) w = (Return None, w))
 \<and> (m_ownerReferences (e_meta e) = [] \<and> ordinal_of e = None \<longrightarrow>
      entityValidator_ValidateCreate env (OEntity e) w = (Panic nil_deref, w))
 \<and> (ordinal_of e \<noteq> None
     \<and> (\<forall>ns n v s. fst (c_get env KStatefulSet ns n v) = Inr (OStatefulSet s)
          \<longrightarrow> ss_replicas (st_spec s) \<noteq> None)
     \<longrightarrow> (\<exists>verdict w'. entityValidator_ValidateCreate env (OEntity e) w = (Return verdict, w')))"
  by (auto simp: entityValidator_ValidateCreate_def Let_def bindg_run list_as_run get_as_run
      split: sum.splits option.splits prod.splits outcome.splits if_splits dest!: as_SomeD)

text \<open>The witness: an owned entity, one with no index, and one whose index is taken.\<close>

definition sample_owned :: entity where
  "sample_owned = (sample_entity ''c'' None)\<lparr>e_meta := (sample_meta ''c'')
     \<lparr>m_ownerReferences := [\<lparr>or_kind = ''Model'', or_name = ''arm'', or_uid = ''arm'',
       or_controller = True\<rparr>]\<rparr>\<rparr>"

definition fixed_sts_env :: "mem env" where
  \<comment> \<open>the sample cluster with one stateful set, whatever is asked for\<close>
  "fixed_sts_env = mem_env\<lparr>c_get := (\<lambda>k ns n w.
     if k = KStatefulSet then (Inr (OStatefulSet (sample_sts 2)), w) else mem_get k ns n w)\<rparr>"

theorem validator_total_witness:
  "entityValidator_ValidateCreate fixed_sts_env (OEntity sample_owned) sample_arms
      = (Return None, sample_arms)
   \<and> entityValidator_ValidateCreate fixed_sts_env (OEntity (sample_entity ''c'' None)) sample_arms
      = (Panic nil_deref, sample_arms)
   \<and> (\<exists>verdict w'. entityValidator_ValidateCreate fixed_sts_env
        (OEntity (sample_entity ''c'' (Some 2))) sample_arms = (Return verdict, w'))"
proof -
  have sets: "ss_replicas (st_spec s) \<noteq> None"
    if "fst (c_get fixed_sts_env KStatefulSet ns n v) = Inr (OStatefulSet s)" for ns n v s
    using that by (auto simp: fixed_sts_env_def sample_sts_def)
  have "m_ownerReferences (e_meta sample_owned) \<noteq> []"
    "m_ownerReferences (e_meta (sample_entity ''c'' i)) = []"
    "ordinal_of (sample_entity ''c'' i) = i" for i
    by (simp_all add: sample_owned_def sample_defs)
  with sets show ?thesis
    using validator_total [of sample_owned fixed_sts_env sample_arms]
      validator_total [of "sample_entity ''c'' None" fixed_sts_env sample_arms]
      validator_total [of "sample_entity ''c'' (Some 2)" fixed_sts_env sample_arms]
    by auto
qed

end
