(* ===== verification/Crd_Webhooks.thy ===== *)
theory Crd_Webhooks
  imports Reference_Cluster
begin

text \<open>
  \<open>api/v1/group_webhook.go\<close>, \<open>model_webhook.go\<close> and \<open>task_webhook.go\<close>: defaulting
  and validation of groups, models and tasks. The API server runs the defaulting webhook before
  the validating one, on a creation and on every update, and stores the object only when
  validation has no error (\<open>admit_create\<close>, \<open>apply_update\<close>). The locale \<open>crd_webhook\<close>
  states what the three pairs of webhooks share; its lemmas describe the object that is stored
  after a creation and any sequence of update requests.
\<close>

section \<open>The life of a stored object\<close>

definition admit_create :: "('r \<Rightarrow> 'r) \<Rightarrow> ('r \<Rightarrow> gerror option) \<Rightarrow> 'r \<Rightarrow> 'r option" where
  "admit_create dflt vc r = (let r' = dflt r in if vc r' = None then Some r' else None)"

definition apply_update ::
  "('r \<Rightarrow> 'r) \<Rightarrow> ('r \<Rightarrow> obj \<Rightarrow> gerror option) \<Rightarrow> ('r \<Rightarrow> obj) \<Rightarrow> 'r \<Rightarrow> 'r \<Rightarrow> 'r" where
  \<comment> \<open>a rejected update leaves the stored object\<close>
  "apply_update dflt vu as_obj old r =
     (let r' = dflt r in if vu r' (as_obj old) = None then r' else old)"

locale crd_webhook =
  fixes dflt :: "'r \<Rightarrow> 'r"
    and validate_create :: "'r \<Rightarrow> gerror option"
    and validate_update :: "'r \<Rightarrow> obj \<Rightarrow> gerror option"
    and as_obj :: "'r \<Rightarrow> obj"
    and frozen :: "'r \<Rightarrow> 'k"
  assumes default_idem: "dflt (dflt r) = dflt r"
    and update_frozen: "validate_update r (as_obj old) = None \<Longrightarrow> frozen r = frozen old"
begin

lemma update_keeps_frozen:
  "frozen (apply_update dflt validate_update as_obj old r) = frozen old"
  using update_frozen [of "dflt r" old] by (simp add: apply_update_def Let_def)

lemma update_keeps_defaulted:
  "dflt old = old \<Longrightarrow>
     dflt (apply_update dflt validate_update as_obj old r) = apply_update dflt validate_update as_obj old r"
  by (simp add: apply_update_def Let_def default_idem)

lemma history_frozen:
  "frozen (foldl (apply_update dflt validate_update as_obj) r0 rs) = frozen r0"
  by (induction rs arbitrary: r0) (simp_all add: update_keeps_frozen)

lemma history_defaulted:
  "dflt r0 = r0 \<Longrightarrow> dflt (foldl (apply_update dflt validate_update as_obj) r0 rs)
     = foldl (apply_update dflt validate_update as_obj) r0 rs"
  by (induction rs arbitrary: r0) (simp_all add: update_keeps_defaulted)

lemma created_history:
  assumes "admit_create dflt validate_create r = Some r0"
  shows "dflt (foldl (apply_update dflt validate_update as_obj) r0 rs)
      = foldl (apply_update dflt validate_update as_obj) r0 rs
    \<and> frozen (foldl (apply_update dflt validate_update as_obj) r0 rs) = frozen (dflt r)
    \<and> validate_create (dflt r) = None"
proof -
  have "r0 = dflt r" "validate_create (dflt r) = None"
    using assms by (auto simp: admit_create_def Let_def split: if_splits)
  then show ?thesis using history_defaulted [of r0 rs] history_frozen [of r0 rs] by (simp add: default_idem)
qed

end

section \<open>Groups\<close>

definition isValidGroupType :: "string \<Rightarrow> bool" where
  "isValidGroupType groupType =
     (if groupType = GroupTypeLocation \<or> groupType = GroupTypeSecurity \<or> groupType = GroupTypeManagement
      then True else False)"

definition Group_Default :: "group \<Rightarrow> group" where
  "Group_Default r =
     (if gs_type (g_spec r) = [] then r\<lparr>g_spec := (g_spec r)\<lparr>gs_type := GroupTypeSecurity\<rparr>\<rparr> else r)"

definition Group_ValidateCreate :: "group \<Rightarrow> gerror option" where
  "Group_ValidateCreate r =
     (if \<not> isValidGroupType (gs_type (g_spec r))
      then Some (errorf (''invalid group type: '' @ gs_type (g_spec r)
        @ ''. Allowed values are: location, department, team''))
      else None)"

definition Group_ValidateUpdate :: "group \<Rightarrow> obj \<Rightarrow> gerror option" where
  "Group_ValidateUpdate r old =
     (case as_group old of
        None \<Rightarrow> Some (errorf ''failed to type assert old object to Group'')
      | Some oldGroup \<Rightarrow>
          if gs_type (g_spec r) \<noteq> gs_type (g_spec oldGroup)
          then Some (errorf ''group type is immutable and cannot be changed after creation'')
          else None)"

definition Group_ValidateDelete :: "group \<Rightarrow> gerror option" where
  "Group_ValidateDelete r = None"

interpretation group_webhook: crd_webhook Group_Default Group_ValidateCreate Group_ValidateUpdate
  OGroup "\<lambda>g. gs_type (g_spec g)"
  by unfold_locales
    (auto simp: Group_Default_def Group_ValidateUpdate_def robo_consts split: if_splits)

section \<open>Models\<close>

definition Model_Default :: "model \<Rightarrow> model" where
  "Model_Default r =
     (let labels = (case m_labels (mo_meta r) of None \<Rightarrow> fmempty | Some l \<Rightarrow> l)
      in r\<lparr>mo_meta := (mo_meta r)\<lparr>m_labels := Some (fmupd RoboKubeModelKey (m_name (mo_meta r)) labels)\<rparr>\<rparr>)"

definition Model_ValidateCreate :: "model \<Rightarrow> gerror option" where
  "Model_ValidateCreate r =
     (if ms_dockerImage (mo_spec r) = [] \<and> ms_statefulSetName (mo_spec r) = []
      then Some (errorf ''either dockerImage or statefulSetName must be provided'')
      else None)"

definition Model_ValidateUpdate :: "model \<Rightarrow> obj \<Rightarrow> gerror option" where
  "Model_ValidateUpdate r old = None"

definition Model_ValidateDelete :: "model \<Rightarrow> gerror option" where
  "Model_ValidateDelete r = None"

lemma fmupd_idem [simp]: "fmupd k v (fmupd k v m) = fmupd k v m"
  by (rule fmap_ext) simp

interpretation model_webhook: crd_webhook Model_Default Model_ValidateCreate Model_ValidateUpdate
  OModel "\<lambda>m. ()"
  by unfold_locales (simp_all add: Model_Default_def Let_def)

section \<open>Tasks\<close>

definition empty_task_status :: task_status where
  \<comment> \<open>\<open>TaskStatus{}\<close>\<close>
  "empty_task_status = \<lparr>tt_conditions = [], tt_observedGeneration = 0, tt_phase = [],
     tt_failedEntities = [], tt_executeTime = 0, tt_completedTime = 0\<rparr>"

definition Task_Default :: "task \<Rightarrow> task" where
  "Task_Default r =
     (let r1 = (if ts_offset (t_spec r) = 0 then r\<lparr>t_spec := (t_spec r)\<lparr>ts_offset := 60\<rparr>\<rparr> else r)
      in r1\<lparr>t_status := empty_task_status\<rparr>)"

definition Task_ValidateCreate :: "task \<Rightarrow> gerror option" where
  "Task_ValidateCreate r = None"

definition Task_ValidateUpdate :: "task \<Rightarrow> obj \<Rightarrow> gerror option" where
  "Task_ValidateUpdate r old = None"

definition Task_ValidateDelete :: "task \<Rightarrow> gerror option" where
  "Task_ValidateDelete r = None"

interpretation task_webhook: crd_webhook Task_Default Task_ValidateCreate Task_ValidateUpdate
  OTask "\<lambda>t. ()"
  by unfold_locales (simp_all add: Task_Default_def Let_def)

section \<open>Properties\<close>

text \<open>C38: whatever updates are requested after a group was created, the stored group has one of the
  three allowed types, and it is the type of its creation, with the empty type read as
  Security.\<close>

theorem group_type_immutable:
  assumes "admit_create Group_Default Group_ValidateCreate g = Some g0"
    and "stored = foldl (apply_update Group_Default Group_ValidateUpdate OGroup) g0 updates"
  shows "gs_type (g_spec stored) \<in> {GroupTypeLocation, GroupTypeSecurity, GroupTypeManagement}
    \<and> gs_type (g_spec stored)
      = (if gs_type (g_spec g) = [] then GroupTypeSecurity else gs_type (g_spec g))"
  using group_webhook.created_history [OF assms(1), of updates] unfolding assms(2)
  by (auto simp: Group_Default_def Group_ValidateCreate_def isValidGroupType_def split: if_splits)

definition sample_group :: "string \<Rightarrow> string \<Rightarrow> group" where
  "sample_group n ty = \<lparr>g_meta = sample_meta n,
     g_spec = \<lparr>gs_description = [], gs_owner = [], gs_contact = [], gs_lastTargets = None,
       gs_type = ty\<rparr>,
     g_status = \<lparr>gt_totalEntities = 0, gt_conditions = [], gt_observedGeneration = 0, gt_phase = []\<rparr>\<rparr>"

theorem group_type_immutable_witness:
  "gs_type (g_spec (foldl (apply_update Group_Default Group_ValidateUpdate OGroup)
      (Group_Default (sample_group ''g'' [])) [sample_group ''g'' ''location'', sample_group ''g'' []]))
    = GroupTypeSecurity"
proof -
  have "admit_create Group_Default Group_ValidateCreate (sample_group ''g'' [])
      = Some (Group_Default (sample_group ''g'' []))"
    by code_simp
  from group_type_immutable [OF this refl,
      of "[sample_group ''g'' ''location'', sample_group ''g'' []]"]
  show ?thesis by (simp add: sample_group_def)
qed

text \<open>A group is created exactly when its type is empty or one of the allowed ones, a model
  exactly when it names an image or a stateful set, and a task always.\<close>

theorem creation_verdicts:
  "(admit_create Group_Default Group_ValidateCreate g \<noteq> None \<longleftrightarrow>
      gs_type (g_spec g) \<in> {[], ''location'', ''Security'', ''Management''})
 \<and> (admit_create Model_Default Model_ValidateCreate m \<noteq> None \<longleftrightarrow>
      \<not> (ms_dockerImage (mo_spec m) = [] \<and> ms_statefulSetName (mo_spec m) = []))
 \<and> admit_create Task_Default Task_ValidateCreate t \<noteq> None"
  by (auto simp: admit_create_def Let_def Group_Default_def Group_ValidateCreate_def
      isValidGroupType_def robo_consts Model_Default_def Model_ValidateCreate_def
      Task_ValidateCreate_def)

text \<open>However a model is updated, the stored model carries its own name under the model label,
  which is what the list calls of the controllers select on.\<close>

theorem model_always_labelled:
  assumes "admit_create Model_Default Model_ValidateCreate m = Some m0"
    and "stored = foldl (apply_update Model_Default Model_ValidateUpdate OModel) m0 updates"
  shows "label_of (mo_meta stored) RoboKubeModelKey = Some (m_name (mo_meta stored))"
proof -
  have eq: "Model_Default stored = stored"
    using model_webhook.created_history [OF assms(1), of updates] assms(2) by simp
  have "label_of (mo_meta (Model_Default stored)) RoboKubeModelKey = Some (m_name (mo_meta stored))"
    by (simp add: Model_Default_def Let_def label_of_def)
  then show ?thesis unfolding eq .
qed

theorem model_always_labelled_witness:
  "label_of (mo_meta (foldl (apply_update Model_Default Model_ValidateUpdate OModel)
      (Model_Default sample_model) [sample_model])) RoboKubeModelKey = Some ''arm''"
proof -
  have "admit_create Model_Default Model_ValidateCreate sample_model = Some (Model_Default sample_model)"
    by code_simp
  from model_always_labelled [OF this refl, of "[sample_model]"] show ?thesis
    by (simp add: Model_Default_def Let_def apply_update_def Model_ValidateUpdate_def sample_defs)
qed

text \<open>A stored task always has a retry offset, sixty when none was asked for, and its status is
  the zero one, so that nothing a client writes there survives admission.\<close>

theorem task_admission:
  assumes "admit_create Task_Default Task_ValidateCreate t = Some t0"
    and "stored = foldl (apply_update Task_Default Task_ValidateUpdate OTask) t0 updates"
  shows "ts_offset (t_spec stored) \<noteq> 0 \<and> t_status stored = empty_task_status
    \<and> stored = Task_Default (last (t # updates))"
proof -
  have "stored = Task_Default (last (t # updates))"
    using assms(1) unfolding assms(2)
    by (induction updates rule: rev_induct)
      (auto simp: admit_create_def apply_update_def Task_ValidateCreate_def Task_ValidateUpdate_def
        Let_def)
  then show ?thesis by (simp add: Task_Default_def Let_def)
qed

definition sample_task :: "string \<Rightarrow> task" where
  "sample_task n = \<lparr>t_meta = sample_meta n,
     t_spec = \<lparr>ts_description = [], ts_dockerImage = [], ts_schedule = [], ts_runTime = None,
       ts_offset = 0, ts_payload = ''{}'', ts_targets = None, ts_dryRun = False,
       ts_unConditonalRun = False, ts_persistant = False\<rparr>,
     t_status = empty_task_status\<lparr>tt_phase := StatusCompleted\<rparr>\<rparr>"

theorem task_admission_witness:
  "t_status (Task_Default (sample_task ''t'')) = empty_task_status
   \<and> ts_offset (t_spec (Task_Default (sample_task ''t''))) = 60"
proof -
  have "admit_create Task_Default Task_ValidateCreate (sample_task ''t'')
      = Some (Task_Default (sample_task ''t''))"
    by (simp add: admit_create_def Let_def Task_ValidateCreate_def)
  from task_admission [OF this refl, of "[]"] show ?thesis
    by (simp add: Task_Default_def sample_task_def)
qed

end
