(* ===== verification/Pod_Webhook.thy ===== *)
theory Pod_Webhook
  imports Entity_Webhook
begin

text \<open>
  \<open>api/v1/pod_webhook.go\<close>: the mutation of the pods a model's stateful set creates. A pod is
  tied to the entity whose ordinal its name ends in: it gets the model's labels, the group labels
  of that entity and the entity's service account. The order in which Go ranges over a map is a
  parameter, \<open>ord\<close>.
\<close>

section \<open>Labels\<close>

definition write_label :: "string \<Rightarrow> string \<Rightarrow> pod \<Rightarrow> pod outcome" where
  \<comment> \<open>\<open>pod.Labels[key] = value\<close>\<close>
  "write_label key val pod =
     (case m_labels (p_meta pod) of
        None \<Rightarrow> Panic nil_map_write
      | Some l \<Rightarrow> Return (pod\<lparr>p_meta := (p_meta pod)\<lparr>m_labels := Some (fmupd key val l)\<rparr>\<rparr>))"

definition delete_label :: "string \<Rightarrow> pod \<Rightarrow> pod" where
  "delete_label key pod =
     pod\<lparr>p_meta := (p_meta pod)\<lparr>m_labels := map_option (fmdrop key) (m_labels (p_meta pod))\<rparr>\<rparr>"

section \<open>syncGroupLabels\<close>

definition group_labels :: "range_order \<Rightarrow> entity \<Rightarrow> gomap" where
  "group_labels ord entity =
     (let labels = range_map (m_labels (e_meta entity)) in
      fold (\<lambda>key groupLabels.
          if HasPrefix key RoboKubeGroupKey
          then fmupd key (the (fmlookup labels key)) groupLabels else groupLabels)
        (ord labels) fmempty)"

definition syncGroupLabels :: "range_order \<Rightarrow> entity \<Rightarrow> pod \<Rightarrow> pod outcome" where
  "syncGroupLabels ord entity pod =
     (let groupLabels = group_labels ord entity in
      obind (foldo (\<lambda>key p. write_label key (the (fmlookup groupLabels key)) p) (ord groupLabels) pod)
        (\<lambda>pod1. Return (fold (\<lambda>key p.
             if HasPrefix key RoboKubeGroupKey \<and> fmlookup groupLabels key = None
             then delete_label key p else p)
           (ord (range_map (m_labels (p_meta pod1)))) pod1)))"

section \<open>The handlers\<close>

definition findEntityForPod :: "'w env \<Rightarrow> model \<Rightarrow> string \<Rightarrow> ('w, entity option) go" where
  "findEntityForPod env model podName =
     (let parts = split_on (CHR ''-'') podName;
          sequenceNumber = fst (atoi (last parts))
      in bindg (list_as env KEntity as_entity (m_namespace (mo_meta model))
           (SelEquals (RoboKubeIndexKey @ m_name (mo_meta model)) (dec_int sequenceNumber))) (\<lambda>r.
         case r of
           Inl err \<Rightarrow> retg None
         | Inr items \<Rightarrow> (case items of [] \<Rightarrow> retg None | e # _ \<Rightarrow> retg (Some e))))"

definition first_owner :: "owner_reference list \<Rightarrow> owner_reference outcome" where
  \<comment> \<open>\<open>GetOwnerReferences()[0]\<close>\<close>
  "first_owner refs = (case refs of [] \<Rightarrow> Panic index_out_of_range | r # _ \<Rightarrow> Return r)"

definition mutate_pod :: "range_order \<Rightarrow> model \<Rightarrow> entity \<Rightarrow> pod \<Rightarrow> pod outcome" where
  \<comment> \<open>from the labels to the service account; a map entry is written after its value is computed\<close>
  "mutate_pod ord model entity pod =
     obind (deref (ordinal_of entity)) (\<lambda>i.
     obind (write_label (RoboKubeIndexKey @ m_name (mo_meta model)) (fmt_d i) pod) (\<lambda>pod1.
     obind (write_label RoboKubeModelKey (m_name (mo_meta model)) pod1) (\<lambda>pod2.
     obind (syncGroupLabels ord entity pod2) (\<lambda>pod3.
       Return (pod3\<lparr>p_spec := (p_spec pod3)
         \<lparr>ps_serviceAccountName := m_name (e_meta entity) @ ''-sa''\<rparr>\<rparr>)))))"

definition podMutator_Handle ::
  "range_order \<Rightarrow> 'w env \<Rightarrow> pod codec \<Rightarrow> string \<Rightarrow> string \<Rightarrow> ('w, admission_response) go" where
  \<comment> \<open>of the request, its namespace and its raw object; the owner is read before it is looked for\<close>
  "podMutator_Handle ord env cod ns raw =
     (case unmarshal cod raw of
        Inl err \<Rightarrow> retg (Errored StatusBadRequest (wrapf ''failed to decode pod: '' err))
      | Inr pod \<Rightarrow>
          bindg (pureg (first_owner (m_ownerReferences (p_meta pod)))) (\<lambda>owner.
          if \<not> length (m_ownerReferences (p_meta pod)) > 0 then retg (Allowed ''Sts has no owner'')
          else bindg (get_as env KStatefulSet as_statefulset ns (or_name owner)) (\<lambda>rs. case rs of
            Inl err \<Rightarrow> retg (Errored StatusInternalServerError (wrapf ''failed to get StatefulSet: '' err))
          | Inr sts \<Rightarrow>
              bindg (pureg (first_owner (m_ownerReferences (st_meta sts)))) (\<lambda>mowner.
              if \<not> length (m_ownerReferences (st_meta sts)) > 0
              then retg (Errored StatusInternalServerError (errorf ''Sts has no owner''))
              else bindg (get_as env KModel as_model ns (or_name mowner)) (\<lambda>rm. case rm of
                Inl err \<Rightarrow> retg (Errored StatusInternalServerError (wrapf ''failed to get Model: '' err))
              | Inr model \<Rightarrow>
                  bindg (findEntityForPod env model (m_name (p_meta pod))) (\<lambda>found. case found of
                    None \<Rightarrow> retg (Errored StatusInternalServerError (errorf ''no Entity found for Pod''))
                  | Some entity \<Rightarrow>
                      bindg (pureg (mutate_pod ord model entity pod)) (\<lambda>pod'.
                        case marshal cod pod' of
                          Inl err \<Rightarrow> retg (Errored StatusInternalServerError
                            (wrapf ''failed to marshal Pod to JSON: '' err))
                        | Inr podJSON \<Rightarrow> retg (PatchResponseFromRaw raw podJSON))))))))"

definition PodValidator_Handle :: admission_response where
  "PodValidator_Handle = Allowed []"

section \<open>Facts on the label loops\<close>

lemma fold_fmupd_lookup:
  "fmlookup (fold (\<lambda>k m. if P k then fmupd k (v k) m else m) ks m0) k =
     (if k \<in> set ks \<and> P k then Some (v k) else fmlookup m0 k)"
  by (induction ks arbitrary: m0) auto

lemma group_labels_lookup:
  assumes "range_contract ord"
  shows "fmlookup (group_labels ord entity) k =
     (if HasPrefix k RoboKubeGroupKey then label_of (e_meta entity) k else None)"
proof -
  let ?l = "range_map (m_labels (e_meta entity))"
  have "label_of (e_meta entity) k = fmlookup ?l k"
    by (simp add: label_of_def range_map_def split: option.split)
  moreover have "k \<in> set (ord ?l) \<longleftrightarrow> fmlookup ?l k \<noteq> None"
    using assms by (auto simp: range_contract_def fmdom_notD dest: fmdomI)
  ultimately show ?thesis
    by (auto simp: group_labels_def Let_def fold_fmupd_lookup)
qed

lemma foldo_write_label:
  "m_labels (p_meta pod) = Some l \<Longrightarrow>
     foldo (\<lambda>key p. write_label key (v key) p) ks pod
       = Return (pod\<lparr>p_meta := (p_meta pod)\<lparr>m_labels := Some (fold (\<lambda>k. fmupd k (v k)) ks l)\<rparr>\<rparr>)"
proof (induction ks arbitrary: pod l)
  case Nil
  then show ?case by simp
next
  case (Cons k ks)
  then show ?case by (simp add: write_label_def)
qed

lemma fold_delete_label:
  "m_labels (p_meta pod) = Some l \<Longrightarrow>
     fold (\<lambda>key p. if P key then delete_label key p else p) ks pod
       = pod\<lparr>p_meta := (p_meta pod)\<lparr>m_labels := Some (fold (\<lambda>k m. if P k then fmdrop k m else m) ks l)\<rparr>\<rparr>"
proof (induction ks arbitrary: pod l)
  case Nil
  then show ?case by simp
next
  case (Cons k ks)
  then show ?case by (simp add: delete_label_def)
qed

lemma fold_fmdrop_lookup:
  "fmlookup (fold (\<lambda>k m. if P k then fmdrop k m else m) ks m0) k =
     (if k \<in> set ks \<and> P k then None else fmlookup m0 k)"
  by (induction ks arbitrary: m0) auto

lemma syncGroupLabels_run:
  assumes ord: "range_contract ord" and l: "m_labels (p_meta pod) = Some l"
  shows "\<exists>l'. syncGroupLabels ord entity pod = Return (pod\<lparr>p_meta := (p_meta pod)\<lparr>m_labels := Some l'\<rparr>\<rparr>)
    \<and> (\<forall>k. fmlookup l' k =
        (if HasPrefix k RoboKubeGroupKey then label_of (e_meta entity) k else fmlookup l k))"
proof -
  obtain g where g: "g = group_labels ord entity" by blast
  obtain l1 where l1_def: "l1 = fold (\<lambda>k. fmupd k (the (fmlookup g k))) (ord g) l" by blast
  have dom: "k \<in> set (ord m) \<longleftrightarrow> fmlookup m k \<noteq> None" for m k
    using ord by (auto simp: range_contract_def fmdom_notD dest: fmdomI)
  have l1: "fmlookup l1 k = (case fmlookup g k of None \<Rightarrow> fmlookup l k | Some v \<Rightarrow> Some v)" for k
    using fold_fmupd_lookup [of "\<lambda>_. True" "\<lambda>k. the (fmlookup g k)" "ord g" l k] dom [of k g]
    by (auto simp: l1_def split: option.split)
  have g_lookup: "fmlookup g k =
      (if HasPrefix k RoboKubeGroupKey then label_of (e_meta entity) k else None)" for k
    unfolding g by (rule group_labels_lookup [OF ord])
  have "fmlookup (fold (\<lambda>k m. if HasPrefix k RoboKubeGroupKey \<and> fmlookup g k = None
          then fmdrop k m else m) (ord l1) l1) k =
      (if HasPrefix k RoboKubeGroupKey then label_of (e_meta entity) k else fmlookup l k)" for k
    unfolding fold_fmdrop_lookup dom by (auto simp: l1 g_lookup split: option.split)
  moreover have "syncGroupLabels ord entity pod = Return (pod\<lparr>p_meta := (p_meta pod)\<lparr>m_labels :=
      Some (fold (\<lambda>k m. if HasPrefix k RoboKubeGroupKey \<and> fmlookup g k = None
          then fmdrop k m else m) (ord l1) l1)\<rparr>\<rparr>)"
    by (simp add: syncGroupLabels_def Let_def foldo_write_label [OF l] fold_delete_label range_map_def
        l1_def [symmetric] g [symmetric])
  ultimately show ?thesis by blast
qed

section \<open>Properties\<close>

text \<open>After the group labels are synchronised the pod has exactly the group labels of its entity
  and every other label as before, in whatever order the runtime ranges over the maps.\<close>

theorem syncGroupLabels_exact:
  assumes "range_contract ord" and "m_labels (p_meta pod) = Some l"
  shows "\<exists>pod'. syncGroupLabels ord entity pod = Return pod'
    \<and> (\<forall>k. label_of (p_meta pod') k =
        (if HasPrefix k RoboKubeGroupKey then label_of (e_meta entity) k else label_of (p_meta pod) k))
    \<and> p_spec pod' = p_spec pod"
  using syncGroupLabels_run [OF assms, of entity] assms(2) by (auto simp: label_of_def)

definition sample_pod :: "string \<Rightarrow> owner_reference list \<Rightarrow> gomap option \<Rightarrow> pod" where
  "sample_pod n refs labels =
     \<lparr>p_meta = (sample_meta n)\<lparr>m_ownerReferences := refs, m_labels := labels\<rparr>,
      p_spec = \<lparr>ps_serviceAccountName = [], ps_rest = []\<rparr>, p_conditions = []\<rparr>"

definition in_groups :: "string list \<Rightarrow> gomap" where
  "in_groups gs = fmap_of_list (map (\<lambda>g. (RoboKubeGroupKey @ g, g)) gs)"

theorem syncGroupLabels_exact_witness:
  "\<exists>pod'. syncGroupLabels key_order
        ((sample_entity ''a'' None)\<lparr>e_meta := (sample_meta ''a'')\<lparr>m_labels := Some (in_groups [''new''])\<rparr>\<rparr>)
        (sample_pod ''arm-0'' [] (Some (in_groups [''old'']))) = Return pod'
    \<and> label_of (p_meta pod') (RoboKubeGroupKey @ ''new'') = Some ''new''
    \<and> label_of (p_meta pod') (RoboKubeGroupKey @ ''old'') = None"
proof -
  let ?e = "(sample_entity ''a'' None)\<lparr>e_meta := (sample_meta ''a'')\<lparr>m_labels := Some (in_groups [''new''])\<rparr>\<rparr>"
  let ?p = "sample_pod ''arm-0'' [] (Some (in_groups [''old'']))"
  have l: "m_labels (p_meta ?p) = Some (in_groups [''old''])" by (simp add: sample_pod_def)
  have e: "label_of (e_meta ?e) (RoboKubeGroupKey @ ''new'') = Some ''new''"
    "label_of (e_meta ?e) (RoboKubeGroupKey @ ''old'') = None"
    by (simp_all add: label_of_def in_groups_def)
  from syncGroupLabels_exact [OF key_order_contract l, of ?e] e show ?thesis by auto
qed

text \<open>What a pod that was patched has gone through.\<close>

lemma mutate_pod_ReturnE:
  assumes ord: "range_contract ord" and run: "mutate_pod ord model entity pod = Return pod'"
  shows "\<exists>i. ordinal_of entity = Some i
    \<and> ps_serviceAccountName (p_spec pod') = m_name (e_meta entity) @ ''-sa''
    \<and> (\<forall>k. label_of (p_meta pod') k =
        (if HasPrefix k RoboKubeGroupKey then label_of (e_meta entity) k
         else if k = RoboKubeModelKey then Some (m_name (mo_meta model))
         else if k = RoboKubeIndexKey @ m_name (mo_meta model) then Some (fmt_d i)
         else label_of (p_meta pod) k))"
proof -
  from run obtain i l where i: "ordinal_of entity = Some i" and l: "m_labels (p_meta pod) = Some l"
    by (auto simp: mutate_pod_def write_label_def split: option.splits)
  let ?l2 = "fmupd RoboKubeModelKey (m_name (mo_meta model))
    (fmupd (RoboKubeIndexKey @ m_name (mo_meta model)) (fmt_d i) l)"
  let ?pod2 = "pod\<lparr>p_meta := (p_meta pod)\<lparr>m_labels := Some ?l2\<rparr>\<rparr>"
  have "m_labels (p_meta ?pod2) = Some ?l2" by simp
  from syncGroupLabels_run [OF ord this, of entity] obtain l' where
    sync: "syncGroupLabels ord entity ?pod2 = Return (?pod2\<lparr>p_meta := (p_meta ?pod2)\<lparr>m_labels := Some l'\<rparr>\<rparr>)"
    and l': "\<And>k. fmlookup l' k =
      (if HasPrefix k RoboKubeGroupKey then label_of (e_meta entity) k else fmlookup ?l2 k)"
    by blast
  from run sync i l have "p_meta pod' = (p_meta pod)\<lparr>m_labels := Some l'\<rparr>"
    "ps_serviceAccountName (p_spec pod') = m_name (e_meta entity) @ ''-sa''"
    by (auto simp: mutate_pod_def write_label_def)
  with i l l' show ?thesis by (auto simp: label_of_def)
qed

lemma podMutator_patchE:
  assumes "podMutator_Handle ord env cod ns raw w = (Return (PatchResponseFromRaw raw' cur), w')"
  shows "\<exists>pod owner refs sts mowner mrefs model entity pod' w1 w2 w3.
      unmarshal cod raw = Inr pod \<and> m_ownerReferences (p_meta pod) = owner # refs
    \<and> get_as env KStatefulSet as_statefulset ns (or_name owner) w = (Return (Inr sts), w1)
    \<and> m_ownerReferences (st_meta sts) = mowner # mrefs
    \<and> get_as env KModel as_model ns (or_name mowner) w1 = (Return (Inr model), w2)
    \<and> findEntityForPod env model (m_name (p_meta pod)) w2 = (Return (Some entity), w')
    \<and> mutate_pod ord model entity pod = Return pod' \<and> marshal cod pod' = Inr cur"
  using assms
  by (auto simp: podMutator_Handle_def first_owner_def elim!: bindg_ReturnE
      split: sum.splits option.splits list.splits)

text \<open>A pod looks for the entity of the ordinal that its name ends in.\<close>

lemma findEntityForPod_list:
  assumes "findEntityForPod env model (base @ ''-'' @ fmt_d n) w = (Return (Some entity), w')" and "0 \<le> sint n"
  shows "\<exists>rest. c_list env KEntity (m_namespace (mo_meta model))
      (SelEquals (RoboKubeIndexKey @ m_name (mo_meta model)) (fmt_d n)) w = (Inr (OEntity entity # rest), w')"
proof -
  have "last (split_on (CHR ''-'') (base @ ''-'' @ fmt_d n)) = fmt_d n"
    using assms(2) last_split_on [OF fmt_d_no_dash] by simp
  then have "dec_int (fst (atoi (last (split_on (CHR ''-'') (base @ ''-'' @ fmt_d n))))) = fmt_d n"
    by (simp add: atoi_fmt_d) (simp add: fmt_d_def)
  with assms(1) show ?thesis
    by (auto simp: findEntityForPod_def Let_def list_as_ReturnInr elim!: bindg_ReturnE
        split: sum.splits list.splits dest!: those_as_entity)
qed

text \<open>C22: a pod that the webhook patches belongs to a model through its stateful set, and is tied to
  the first entity listed under the model's index label with the number the pod's name ends in: the
  patched pod carries the model's label and the entity's ordinal, has exactly the entity's group
  labels, and runs under the entity's service account.\<close>

theorem pod_tied_to_entity:
  assumes "podMutator_Handle ord env cod ns raw w = (Return (PatchResponseFromRaw raw cur), w')"
    and "range_contract ord" and "unmarshal cod raw = Inr pod"
    and "m_name (p_meta pod) = base @ ''-'' @ fmt_d n" and "0 \<le> sint n"
  shows "\<exists>(model :: model) entity rest pod' i w2.
      c_list env KEntity (m_namespace (mo_meta model))
        (SelEquals (RoboKubeIndexKey @ m_name (mo_meta model)) (fmt_d n)) w2
        = (Inr (OEntity entity # rest), w')
    \<and> marshal cod pod' = Inr cur \<and> ordinal_of entity = Some i
    \<and> ps_serviceAccountName (p_spec pod') = m_name (e_meta entity) @ ''-sa''
    \<and> (\<forall>k. label_of (p_meta pod') k =
        (if HasPrefix k RoboKubeGroupKey then label_of (e_meta entity) k
         else if k = RoboKubeModelKey then Some (m_name (mo_meta model))
         else if k = RoboKubeIndexKey @ m_name (mo_meta model) then Some (fmt_d i)
         else label_of (p_meta pod) k))"
proof -
  from podMutator_patchE [OF assms(1)] assms(3) obtain model entity pod' w2 where
    found: "findEntityForPod env model (m_name (p_meta pod)) w2 = (Return (Some entity), w')" and
    mut: "mutate_pod ord model entity pod = Return pod'" and out: "marshal cod pod' = Inr cur"
    by auto
  from findEntityForPod_list [OF found [unfolded assms(4)] assms(5)]
  obtain rest where listed: "c_list env KEntity (m_namespace (mo_meta model))
      (SelEquals (RoboKubeIndexKey @ m_name (mo_meta model)) (fmt_d n)) w2
      = (Inr (OEntity entity # rest), w')" by blast
  from mutate_pod_ReturnE [OF assms(2) mut] obtain i where "ordinal_of entity = Some i
    \<and> ps_serviceAccountName (p_spec pod') = m_name (e_meta entity) @ ''-sa''
    \<and> (\<forall>k. label_of (p_meta pod') k =
        (if HasPrefix k RoboKubeGroupKey then label_of (e_meta entity) k
         else if k = RoboKubeModelKey then Some (m_name (mo_meta model))
         else if k = RoboKubeIndexKey @ m_name (mo_meta model) then Some (fmt_d i)
         else label_of (p_meta pod) k))" by blast
  with listed out show ?thesis
    by (intro exI [of _ model] exI [of _ entity] exI [of _ rest] exI [of _ pod'] exI [of _ i]
        exI [of _ w2] conjI) simp_all
qed

definition sample_pod_codec :: "pod \<Rightarrow> pod codec" where
  "sample_pod_codec p = \<lparr>unmarshal = (\<lambda>s. if s = ''raw'' then Inr p else Inl (errorf ''bad'')),
     marshal = (\<lambda>p'. Inr ''out'')\<rparr>"

definition sample_owner :: "string \<Rightarrow> owner_reference" where
  "sample_owner n = \<lparr>or_kind = ''Model'', or_name = n, or_uid = n, or_controller = True\<rparr>"

definition sample_owned_sts :: statefulset where
  "sample_owned_sts = (sample_sts 2)\<lparr>st_meta := (sample_meta ''arm-sts'')
     \<lparr>m_ownerReferences := [sample_owner ''arm'']\<rparr>\<rparr>"

definition sample_fleet :: mem where
  \<comment> \<open>the model, its stateful set, and entities with the ordinals 0 and 2\<close>
  "sample_fleet = sample_world
     [OModel sample_model, OStatefulSet sample_owned_sts,
      OEntity (sample_entity ''b'' (Some 0)), OEntity (sample_entity ''a'' (Some 2))]"

lemma sample_pod_patched:
  "podMutator_Handle key_order mem_env
      (sample_pod_codec (sample_pod ''arm-sts-2'' [sample_owner ''arm-sts''] (Some fmempty)))
      ''ns'' ''raw'' sample_fleet = (Return (PatchResponseFromRaw ''raw'' ''out''), sample_fleet)"
  by code_simp

theorem pod_tied_to_entity_witness:
  "\<exists>(model :: model) entity rest (pod' :: pod) i w2.
      c_list mem_env KEntity (m_namespace (mo_meta model))
        (SelEquals (RoboKubeIndexKey @ m_name (mo_meta model)) (fmt_d 2)) w2
        = (Inr (OEntity entity # rest), sample_fleet)
    \<and> ordinal_of entity = Some i
    \<and> label_of (p_meta pod') RoboKubeModelKey = Some (m_name (mo_meta model))"
proof -
  let ?p = "sample_pod ''arm-sts-2'' [sample_owner ''arm-sts''] (Some fmempty)"
  have dec: "unmarshal (sample_pod_codec ?p) ''raw'' = Inr ?p"
    by (simp add: sample_pod_codec_def)
  have nm: "m_name (p_meta ?p) = ''arm-sts'' @ ''-'' @ fmt_d 2"
    by code_simp
  have pos: "0 \<le> sint (2 :: int32)" by simp
  have key: "\<not> HasPrefix RoboKubeModelKey RoboKubeGroupKey" by code_simp
  from pod_tied_to_entity [OF sample_pod_patched key_order_contract dec nm pos]
  obtain model :: model and entity rest i w2 and pod' :: pod where
    listed: "c_list mem_env KEntity (m_namespace (mo_meta model))
        (SelEquals (RoboKubeIndexKey @ m_name (mo_meta model)) (fmt_d 2)) w2
        = (Inr (OEntity entity # rest), sample_fleet)" and
    i: "ordinal_of entity = Some i" and
    labels: "\<forall>k. label_of (p_meta pod') k =
        (if HasPrefix k RoboKubeGroupKey then label_of (e_meta entity) k
         else if k = RoboKubeModelKey then Some (m_name (mo_meta model))
         else if k = RoboKubeIndexKey @ m_name (mo_meta model) then Some (fmt_d i)
         else label_of (p_meta ?p) k)"
    by (elim exE conjE)
  from labels key have "label_of (p_meta pod') RoboKubeModelKey = Some (m_name (mo_meta model))"
    by simp
  with listed i show ?thesis by blast
qed

text \<open>A pod, or a stateful set, with no owner is never admitted as unowned: reading the first
  owner panics before the test for one, so the branch that allows an unowned pod is dead.\<close>

theorem unowned_pod_panics:
  "(unmarshal cod raw = Inr pod \<and> m_ownerReferences (p_meta pod) = [] \<longrightarrow>
      podMutator_Handle ord env cod ns raw w = (Panic index_out_of_range, w))
   \<and> podMutator_Handle ord env cod ns raw w \<noteq> (Return (Allowed reason), w')"
  by (auto simp: podMutator_Handle_def first_owner_def bindg_run
      split: sum.splits option.splits list.splits prod.splits outcome.splits)

theorem unowned_pod_panics_witness:
  "podMutator_Handle key_order mem_env (sample_pod_codec (sample_pod ''p'' [] None)) ''ns'' ''raw''
     sample_fleet = (Panic index_out_of_range, sample_fleet)"
  using unowned_pod_panics [of "sample_pod_codec (sample_pod ''p'' [] None)" "''raw''"
      "sample_pod ''p'' [] None" key_order mem_env "''ns''" sample_fleet]
  by (simp add: sample_pod_codec_def sample_pod_def)

end
