(* ===== verification/Handler_Api.thy ===== *)
theory Handler_Api
  imports Reference_Cluster
begin

text \<open>
  \<open>internal/controller/handler/handler.go\<close> and the result type of
  \<open>cluster_resource_processor.go\<close>: the interface through which the controllers act on one
  object. The source's \<open>Handle\<close> returns a \<open>*Result\<close> and an error and may change the object
  it is given; here it returns the three of them. A \<open>func(client.Object)\<close> edits the object
  behind the interface and may read the clock, so it is an effectful map on objects.

  The locale \<open>handler\<close> is the interface, with the law the controllers rely on when they copy a
  result into an object's conditions. The read-modify-write attempt that \<open>UpdateObj\<close> and
  \<open>UpdateStatus\<close> both retry is defined once, with its specification.
\<close>

section \<open>Results and modifications\<close>

type_synonym resource_type = string

record result =
  re_name :: string
  re_type :: resource_type
  re_reason :: string
  re_message :: string
  re_status :: string

type_synonym 'w modfn = "obj \<Rightarrow> ('w, obj) go"

type_synonym handled = "result option \<times> gerror option \<times> obj"

type_synonym 'w procfn = "obj \<Rightarrow> 'w modfn option \<Rightarrow> ('w, handled) go"

definition pure_mod :: "(obj \<Rightarrow> obj) \<Rightarrow> 'w modfn" where
  "pure_mod f = (\<lambda>ob. retg (f ob))"

primrec apply_all :: "'w modfn list \<Rightarrow> 'w modfn" where
  \<comment> \<open>\<open>for _, f := range fns { f(res) }\<close>\<close>
  "apply_all [] ob = retg ob"
| "apply_all (f # fs) ob = bindg (f ob) (apply_all fs)"

definition same_key :: "obj \<Rightarrow> obj \<Rightarrow> bool" where
  "same_key a b \<longleftrightarrow> kind_of a = kind_of b \<and> obj_ns a = obj_ns b \<and> obj_name a = obj_name b"

lemma same_key_refl [simp]: "same_key a a"
  by (simp add: same_key_def)

lemma same_key_trans: "same_key a b \<Longrightarrow> same_key b c \<Longrightarrow> same_key a c"
  by (simp add: same_key_def)

lemma same_key_sym: "same_key a b \<Longrightarrow> same_key b a"
  by (simp add: same_key_def)

definition keeps_key :: "'w modfn \<Rightarrow> bool" where
  \<comment> \<open>the edit leaves kind, namespace and name, as every one the program passes does\<close>
  "keeps_key f \<longleftrightarrow> (\<forall>ob w ob' w'. f ob w = (Return ob', w') \<longrightarrow> same_key ob ob')"

lemma keeps_key_pure: "(\<And>ob. same_key ob (f ob)) \<Longrightarrow> keeps_key (pure_mod f)"
  by (simp add: keeps_key_def pure_mod_def)

lemma keeps_key_apply_all: "(\<And>f. f \<in> set fs \<Longrightarrow> keeps_key f) \<Longrightarrow> keeps_key (apply_all fs)"
proof (induction fs)
  case Nil
  then show ?case by (simp add: keeps_key_def)
next
  case (Cons f fs)
  then have f: "keeps_key f" and fs: "keeps_key (apply_all fs)" by simp_all
  show ?case
    unfolding keeps_key_def
    by (auto elim!: bindg_ReturnE) (metis f fs keeps_key_def same_key_trans)
qed

section \<open>The interface\<close>

locale handler =
  fixes handle :: "'w procfn"
  assumes success_status: "handle ob f w = (Return (Some r, None, ob'), w') \<Longrightarrow> re_status r = ''Success''"
    and failure_status: "handle ob f w = (Return (Some r, Some e, ob'), w') \<Longrightarrow> re_status r = ''Failed''"
begin

lemma status_decides:
  assumes "handle ob f w = (Return (Some r, e, ob'), w')"
  shows "re_status r = ''Success'' \<longleftrightarrow> e = None"
  using assms success_status failure_status by (cases e) force+

end

section \<open>Read, modify, write\<close>

definition rmw_attempt ::
  "'w env \<Rightarrow> (obj \<Rightarrow> 'w \<Rightarrow> (gerror + obj) \<times> 'w) \<Rightarrow> 'w modfn list \<Rightarrow>
     obj \<Rightarrow> ('w, gerror option \<times> obj) go" where
  \<comment> \<open>the function under \<open>RetryOnConflict\<close>: the error it returns, and the object it leaves\<close>
  "rmw_attempt env write fns res =
     bindg (callg (c_get env (kind_of res) (obj_ns res) (obj_name res))) (\<lambda>r. case r of
       Inl err \<Rightarrow> retg (Some (wrapf ''cloud not retrieve the object from cluster, '' err), res)
     | Inr cur \<Rightarrow>
         bindg (apply_all fns cur) (\<lambda>ob.
         bindg (callg (write ob)) (\<lambda>u. case u of
           Inl err \<Rightarrow> retg (Some err, ob)
         | Inr ob' \<Rightarrow> retg (None, ob'))))"

definition write_contract :: "(obj \<Rightarrow> 'w \<Rightarrow> (gerror + obj) \<times> 'w) \<Rightarrow> bool" where
  \<comment> \<open>the object a successful write leaves behind is the one that was written\<close>
  "write_contract write \<longleftrightarrow>
     (\<forall>ob w ob' w'. write ob w = (Inr ob', w') \<longrightarrow> same_key ob ob')"

definition wrote ::
  "'w env \<Rightarrow> (obj \<Rightarrow> 'w \<Rightarrow> (gerror + obj) \<times> 'w) \<Rightarrow> 'w modfn list \<Rightarrow> obj \<Rightarrow> obj \<Rightarrow> 'w \<Rightarrow> bool" where
  \<comment> \<open>the last thing that was done: the stored object was read, edited and written, with no error\<close>
  "wrote env write fns res ob' w' \<longleftrightarrow>
     (\<exists>w1 cur w2 ob w3.
        c_get env (kind_of res) (obj_ns res) (obj_name res) w1 = (Inr cur, w2)
      \<and> apply_all fns cur w2 = (Return ob, w3) \<and> write ob w3 = (Inr ob', w'))"

lemma rmw_attempt_key:
  assumes "get_contract env" and "write_contract write" and "\<And>f. f \<in> set fns \<Longrightarrow> keeps_key f"
    and "rmw_attempt env write fns res w = (Return (e, ob'), w')"
  shows "same_key res ob'"
proof -
  have get: "same_key res cur"
    if "c_get env (kind_of res) (obj_ns res) (obj_name res) w1 = (Inr cur, w2)" for cur w1 w2
    using that assms(1) by (metis get_contract_def same_key_def)
  have edit: "same_key a b" if "apply_all fns a w1 = (Return b, w2)" for a b w1 w2
    using that keeps_key_apply_all [of fns, OF assms(3)] by (auto simp: keeps_key_def)
  have written: "same_key a b" if "write a w1 = (Inr b, w2)" for a b w1 w2
    using that assms(2) by (auto simp: write_contract_def)
  from assms(4) show ?thesis
    unfolding rmw_attempt_def
    by (auto elim!: bindg_ReturnE split: sum.splits)
      (metis get edit written prod.collapse same_key_trans)+
qed

lemma rmw_attempt_None:
  assumes "rmw_attempt env write fns res w = (Return (None, ob'), w')"
  shows "wrote env write fns res ob' w'"
proof -
  from assms obtain cur w2 where
    g: "c_get env (kind_of res) (obj_ns res) (obj_name res) w = (Inr cur, w2)" and
    rest: "bindg (apply_all fns cur) (\<lambda>ob. bindg (callg (write ob)) (\<lambda>u. case u of
           Inl err \<Rightarrow> retg (Some err, ob) | Inr ob' \<Rightarrow> retg (None, ob'))) w2
      = (Return (None, ob'), w')"
    by (cases "c_get env (kind_of res) (obj_ns res) (obj_name res) w")
      (auto simp: rmw_attempt_def split: sum.splits)
  from rest obtain ob w3 where a: "apply_all fns cur w2 = (Return ob, w3)" and
    u: "bindg (callg (write ob)) (\<lambda>u. case u of
           Inl err \<Rightarrow> retg (Some err, ob) | Inr ob' \<Rightarrow> retg (None, ob')) w3
      = (Return (None, ob'), w')"
    by (auto elim: bindg_ReturnE)
  from u have "write ob w3 = (Inr ob', w')"
    by (cases "write ob w3") (auto split: sum.splits)
  with g a show ?thesis unfolding wrote_def by blast
qed

lemma retry_rmw:
  assumes "retry_contract env" and "get_contract env" and "write_contract write"
    and "\<And>f. f \<in> set fns \<Longrightarrow> keeps_key f"
    and "c_retry env (rmw_attempt env write fns) res w = (Return (e, ob'), w')"
  shows "same_key res ob' \<and> (e = None \<longrightarrow> wrote env write fns res ob' w')"
proof -
  let ?P = "\<lambda>ob w. same_key res ob"
  have step: "?P ob' w'" if "?P ob w" "rmw_attempt env write fns ob w = (Return (e, ob'), w')"
    for ob w e ob' w'
    using that rmw_attempt_key [OF assms(2-4)] same_key_trans by blast
  have last: "\<exists>ob1 w1. same_key res ob1 \<and> rmw_attempt env write fns ob1 w1 = (Return (e, ob'), w')"
    if "attempts n (rmw_attempt env write fns) ob w = (Return (e, ob'), w')" "same_key res ob" for n ob w
    using that
  proof (induction n arbitrary: ob w)
    case 0
    then show ?case by auto
  next
    case (Suc n)
    then show ?case
      by (auto elim!: bindg_ReturnE split: option.splits if_splits) (metis step)+
  qed
  obtain n where "attempts n (rmw_attempt env write fns) res w = (Return (e, ob'), w')"
    using assms(1,5) unfolding retry_contract_def by metis
  from last [OF this] obtain ob1 w1 where key: "same_key res ob1" and
    run: "rmw_attempt env write fns ob1 w1 = (Return (e, ob'), w')"
    by auto
  have "wrote env write fns res ob' w'" if "e = None"
    using rmw_attempt_None run key that by (simp add: wrote_def same_key_def)
  with step [OF key run] show ?thesis by blast
qed

section \<open>The reference cluster\<close>

lemma same_key_bump [simp]: "same_key a (bump_version b) = same_key a b"
  by (simp add: same_key_def bump_version_def obj_ns_def obj_name_def)

lemma same_key_with_status [simp]: "same_key a (with_status_of b c) = same_key a b"
  by (cases b) (auto simp: same_key_def with_status_of_def obj_ns_def obj_name_def split: option.split)

lemma mem_key_of_same_key: "mem_key_of a b = same_key a b"
  by (auto simp: mem_key_of_def mem_key_def same_key_def)

lemma mem_write_contracts:
  "write_contract (c_update mem_env)" "write_contract (c_status_update mem_env)"
  by (auto simp: write_contract_def mem_env_def mem_update_def mem_status_update_def mem_write_def
      find_Some_iff mem_key_of_same_key Let_def split: option.splits if_splits)

end
