(* ===== verification/Object_Handler.thy ===== *)
theory Object_Handler
  imports Handler_Api
begin

text \<open>
  \<open>internal/controller/handler/cluster_object_processor.go\<close>: the handler that deletes an
  existing object or edits it, and \<open>UpdateObj\<close>, the edit under a retry on conflicts.
\<close>

section \<open>UpdateObj\<close>

definition UpdateObj ::
  "'w env \<Rightarrow> obj \<Rightarrow> 'w modfn option list \<Rightarrow> ('w, gerror option \<times> obj) go" where
  \<comment> \<open>nil functions among the edits are skipped\<close>
  "UpdateObj env res updateFns =
     bindg (c_retry env (rmw_attempt env (c_update env) (List.map_filter id updateFns)) res)
       (\<lambda>(err, ob). retg (map_option (wrapf ''failed to update resource, '') err, ob))"

section \<open>ObjectHandler\<close>

record object_params =
  op_ResourceType :: resource_type
  op_Action :: string
  op_IsDelete :: bool

record object_handler =
  oh_ResourceType :: resource_type
  oh_Action :: string
  oh_IsDelete :: bool

definition NewObjectHandler :: "obj option \<Rightarrow> object_params \<Rightarrow> object_handler" where
  "NewObjectHandler parent paral =
     \<lparr>oh_ResourceType = op_ResourceType paral, oh_Action = op_Action paral,
      oh_IsDelete = op_IsDelete paral\<rparr>"

definition ObjectHandler_Handle :: "'w env \<Rightarrow> object_handler \<Rightarrow> 'w procfn" where
  "ObjectHandler_Handle env h ob f =
     bindg (if oh_IsDelete h
            then bindg (callg (c_delete env ob)) (\<lambda>internalErr.
              retg (map_option (wrapf ''failed to delete object: '') internalErr, ob))
            else bindg (UpdateObj env ob [f]) (\<lambda>(internalErr, ob').
              retg (map_option (wrapf ''failed to update object: '') internalErr, ob')))
       (\<lambda>(err, ob'). case err of
          Some e \<Rightarrow> retg
            (Some \<lparr>re_name = obj_name ob', re_type = oh_ResourceType h, re_reason = oh_Action h,
               re_message = ''Resource '' @ obj_name ob' @ '' is failed to modify.'',
               re_status = ''Failed''\<rparr>, Some e, ob')
        | None \<Rightarrow> retg
            (Some \<lparr>re_name = obj_name ob', re_type = oh_ResourceType h, re_reason = oh_Action h,
               re_message = ''Resource '' @ obj_name ob' @ '' is successfully modify.'',
               re_status = ''Success''\<rparr>, None, ob'))"

interpretation object_handler: handler "ObjectHandler_Handle env h" for env h
  by unfold_locales
    (auto simp: ObjectHandler_Handle_def elim!: bindg_ReturnE split: option.splits)

section \<open>Properties\<close>

lemma UpdateObj_spec:
  assumes "retry_contract env" "get_contract env" "write_contract (c_update env)"
    and "\<And>f. Some f \<in> set fns \<Longrightarrow> keeps_key f"
    and "UpdateObj env res fns w = (Return (e, ob'), w')"
  shows "same_key res ob' \<and> (e = None \<longrightarrow>
     wrote env (c_update env) (List.map_filter id fns) res ob' w')"
proof -
  have keep: "keeps_key f" if "f \<in> set (List.map_filter id fns)" for f
    using that assms(4) by (auto simp: List.map_filter_def)
  from assms(5) obtain e1 where
    "c_retry env (rmw_attempt env (c_update env) (List.map_filter id fns)) res w = (Return (e1, ob'), w')"
    "e = map_option (wrapf ''failed to update resource, '') e1"
    unfolding UpdateObj_def by (auto elim!: bindg_ReturnE)
  with retry_rmw [OF assms(1-3) keep] show ?thesis by auto
qed

lemma ObjectHandler_edit:
  assumes "retry_contract env" "get_contract env" "write_contract (c_update env)" "keeps_key f"
    and "ObjectHandler_Handle env \<lparr>oh_ResourceType = ty, oh_Action = act, oh_IsDelete = False\<rparr> ob (Some f) w
      = (Return (r, None, ob'), w')"
  shows "(\<exists>w1 cur w2 edited w3.
      c_get env (kind_of ob) (obj_ns ob) (obj_name ob) w1 = (Inr cur, w2)
    \<and> f cur w2 = (Return edited, w3) \<and> c_update env edited w3 = (Inr ob', w'))
    \<and> r = Some \<lparr>re_name = obj_name ob, re_type = ty, re_reason = act,
          re_message = ''Resource '' @ obj_name ob @ '' is successfully modify.'',
          re_status = ''Success''\<rparr>"
proof -
  from assms(5) have "UpdateObj env ob [Some f] w = (Return (None, ob'), w')" and
    r: "r = Some \<lparr>re_name = obj_name ob', re_type = ty, re_reason = act,
          re_message = ''Resource '' @ obj_name ob' @ '' is successfully modify.'',
          re_status = ''Success''\<rparr>"
    by (auto simp: ObjectHandler_Handle_def elim!: bindg_ReturnE split: option.splits)
  from UpdateObj_spec [OF assms(1-3) _ this(1)] assms(4)
  have "same_key ob ob'" "wrote env (c_update env) [f] ob ob' w'"
    by (auto simp: List.map_filter_def)
  with r show ?thesis
    by (auto simp: wrote_def same_key_def elim!: bindg_ReturnE) blast
qed

text \<open>C9: an edit through the object handler that reports success ends with a write of the object as
  it was stored, with the edit applied to it and nothing else: whatever the caller's copy said, no
  concurrent change of another field is lost, and a conflict is retried and never reported as
  success.\<close>

theorem object_edit_read_modify_write:
  assumes "retry_contract env" "get_contract env" "write_contract (c_update env)" "keeps_key f"
    and "ObjectHandler_Handle env \<lparr>oh_ResourceType = ty, oh_Action = act, oh_IsDelete = False\<rparr> ob (Some f) w
      = (Return (r, None, ob'), w')"
  shows "(\<exists>w1 cur w2 edited w3.
      c_get env (kind_of ob) (obj_ns ob) (obj_name ob) w1 = (Inr cur, w2)
    \<and> f cur w2 = (Return edited, w3) \<and> c_update env edited w3 = (Inr ob', w'))
    \<and> r = Some \<lparr>re_name = obj_name ob, re_type = ty, re_reason = act,
          re_message = ''Resource '' @ obj_name ob @ '' is successfully modify.'',
          re_status = ''Success''\<rparr>"
  using ObjectHandler_edit [OF assms] .

definition add_group_label :: "obj \<Rightarrow> obj" where
  "add_group_label = map_meta (BuildLabelObj (RoboKubeGroupKey @ ''g'') ''g'' ResourceLabelAdd)"

theorem object_edit_read_modify_write_witness:
  "\<exists>cur edited ob' w1 w2 w3 w'.
      mem_get KEntity ''ns'' ''a'' w1 = (Inr cur, w2) \<and> edited = add_group_label cur
    \<and> mem_update edited w3 = (Inr ob', w') \<and> has_label (meta_of ob') (RoboKubeGroupKey @ ''g'')"
proof -
  let ?w = "sample_world [OEntity (sample_entity ''a'' (Some 0))]"
  let ?stale = "OEntity ((sample_entity ''a'' (Some 0))\<lparr>e_meta := (sample_meta ''a'')
    \<lparr>m_resourceVersion := ''stale''\<rparr>\<rparr>)"
  obtain r ob' w' where run: "ObjectHandler_Handle mem_env
      \<lparr>oh_ResourceType = ''Entity'', oh_Action = ''LabelAdd'', oh_IsDelete = False\<rparr> ?stale
      (Some (pure_mod add_group_label)) ?w = (Return (r, None, ob'), w')"
    and labelled: "has_label (meta_of ob') (RoboKubeGroupKey @ ''g'')"
  proof -
    have "ends (ObjectHandler_Handle mem_env
        \<lparr>oh_ResourceType = ''Entity'', oh_Action = ''LabelAdd'', oh_IsDelete = False\<rparr> ?stale
        (Some (pure_mod add_group_label)) ?w)
        (\<lambda>(r, e, ob') w'. e = None \<and> has_label (meta_of ob') (RoboKubeGroupKey @ ''g''))"
      by code_simp
    then show ?thesis by (elim endsE) (auto intro: that)
  qed
  have keep: "keeps_key (pure_mod add_group_label)"
    by (rule keeps_key_pure) (simp add: same_key_def add_group_label_def obj_ns_def obj_name_def)
  have "kind_of ?stale = KEntity" "obj_ns ?stale = ''ns''" "obj_name ?stale = ''a''"
    by (simp_all add: obj_ns_def obj_name_def sample_meta_def)
  with object_edit_read_modify_write [OF mem_retry_contract mem_get_contract mem_write_contracts(1)
      keep run] labelled
  show ?thesis by (auto simp: mem_env_def pure_mod_def)
qed

end
