(* ===== verification/Request_Handler.thy ===== *)
theory Request_Handler
  imports Handler_Api
begin

text \<open>
  \<open>internal/controller/handler/request_processor.go\<close>: the handler that calls the agent beside
  a pod over HTTP. Whether the URL is valid (\<open>http.NewRequestWithContext\<close>) and the exchange
  (\<open>http.DefaultClient.Do\<close>, \<open>io.ReadAll\<close>) are outside.
\<close>

record request_params =
  rp_ResourceType :: resource_type
  rp_TargetName :: string
  rp_ErrorCondtion :: bool
  rp_DryRun :: bool

record request_handler =
  rh_Payload :: "string option"
  rh_RequestMethod :: string
  rh_RequestUrl :: string
  rh_ResourceType :: resource_type
  rh_TargetName :: string
  rh_ErrorCondtion :: bool
  rh_DryRun :: bool

definition NewRequestHandler ::
  "string option \<Rightarrow> string \<Rightarrow> string \<Rightarrow> request_params \<Rightarrow> request_handler" where
  "NewRequestHandler payload url action paras =
     \<lparr>rh_Payload = payload, rh_RequestMethod = action, rh_RequestUrl = url,
      rh_ResourceType = rp_ResourceType paras, rh_TargetName = rp_TargetName paras,
      rh_ErrorCondtion = rp_ErrorCondtion paras, rh_DryRun = rp_DryRun paras\<rparr>"

definition request_of :: "request_handler \<Rightarrow> (string \<times> string option) outcome" where
  \<comment> \<open>method and body: anything that is not a GET is a POST of the payload, read through its
    pointer\<close>
  "request_of p =
     (if ToUpper (rh_RequestMethod p) \<noteq> ''GET''
      then obind (deref (rh_Payload p)) (\<lambda>raw. Return (''POST'', Some raw))
      else Return (''GET'', None))"

definition StatusOK :: int where "StatusOK = 200"

definition RequestHandler_Handle :: "'w env \<Rightarrow> request_handler \<Rightarrow> 'w procfn" where
  "RequestHandler_Handle env p ob f =
     bindg (pureg (request_of p)) (\<lambda>(meth, body).
       case http_new_request env meth (rh_RequestUrl p) body of
         Some err \<Rightarrow> retg (None, Some (wrapf ''failed to create request: '' err), ob)
       | None \<Rightarrow>
           if \<not> rh_DryRun p then
             bindg (callg (http_do env meth (rh_RequestUrl p) body)) (\<lambda>resp. case resp of
               Inl err \<Rightarrow> retg (None, Some (wrapf ''failed to send request: '' err), ob)
             | Inr (statusCode, read) \<Rightarrow> (case read of
                 Inl err \<Rightarrow> retg (None, Some (wrapf ''failed to read response body: '' err), ob)
               | Inr text \<Rightarrow>
                   if statusCode \<noteq> StatusOK
                   then retg (None, Some (errorf (''request failed with status code: ''
                     @ dec_int statusCode @ '', body: '' @ text)), ob)
                   else retg (Some \<lparr>re_name = rh_TargetName p, re_type = rh_ResourceType p,
                     re_reason = ''Get response successful'', re_message = text,
                     re_status = ''Success''\<rparr>, None, ob)))
           else retg (Some \<lparr>re_name = rh_TargetName p, re_type = rh_ResourceType p,
             re_reason = ''If you have gone this far, dryrun is good'', re_message = ''{}'',
             re_status = ''Success''\<rparr>, None, ob))"

interpretation request_handler: handler "RequestHandler_Handle env p" for env p
  by unfold_locales
    (auto simp: RequestHandler_Handle_def elim!: bindg_ReturnE split: option.splits sum.splits if_splits)

section \<open>Properties\<close>

text \<open>A request that is no dry run is answered with a result exactly when the exchange took
  place with status 200 and its body could be read; the result carries that body. Every other
  outcome is an error and no result, and the object handed in is never changed.\<close>

theorem request_result_iff:
  assumes "request_of p = Return (meth, body)" and "\<not> rh_DryRun p"
    and "http_new_request env meth (rh_RequestUrl p) body = None"
  shows "\<exists>r e. RequestHandler_Handle env p ob f w
        = (Return (r, e, ob), snd (http_do env meth (rh_RequestUrl p) body w))
    \<and> (r = None \<longleftrightarrow> e \<noteq> None)
    \<and> (\<forall>text. r = Some \<lparr>re_name = rh_TargetName p, re_type = rh_ResourceType p,
          re_reason = ''Get response successful'', re_message = text, re_status = ''Success''\<rparr>
        \<longleftrightarrow> fst (http_do env meth (rh_RequestUrl p) body w) = Inr (200, Inr text))"
  using assms
  by (auto simp: RequestHandler_Handle_def StatusOK_def split: sum.splits prod.splits)

definition sample_request :: "bool \<Rightarrow> string \<Rightarrow> request_handler" where
  "sample_request dry meth = \<lparr>rh_Payload = Some ''{}'', rh_RequestMethod = meth,
     rh_RequestUrl = ''http://a/task'', rh_ResourceType = ''Entity'', rh_TargetName = ''a'',
     rh_ErrorCondtion = False, rh_DryRun = dry\<rparr>"

definition routed_world :: "int \<Rightarrow> mem" where
  "routed_world st = (sample_world [])\<lparr>mem_routes := [(''http://a/task'', st, ''done'')]\<rparr>"

theorem request_result_iff_witness:
  "\<exists>r e. RequestHandler_Handle mem_env (sample_request False ''post'') (OModel sample_model) None (routed_world 200)
        = (Return (r, e, OModel sample_model), snd (http_do mem_env ''POST'' ''http://a/task'' (Some ''{}'') (routed_world 200)))
    \<and> r = Some \<lparr>re_name = ''a'', re_type = ''Entity'', re_reason = ''Get response successful'',
          re_message = ''done'', re_status = ''Success''\<rparr>"
proof -
  have p: "request_of (sample_request False ''post'') = Return (''POST'', Some ''{}'')"
    by (simp add: request_of_def sample_request_def ToUpper_post)
  have dry: "\<not> rh_DryRun (sample_request False ''post'')" by (simp add: sample_request_def)
  have new: "http_new_request mem_env ''POST'' (rh_RequestUrl (sample_request False ''post'')) (Some ''{}'')
      = None" by (simp add: sample_request_def mem_env_def)
  have resp: "fst (http_do mem_env ''POST'' ''http://a/task'' (Some ''{}'') (routed_world 200))
      = Inr (200, Inr ''done'')"
    by (simp add: mem_env_def routed_world_def Let_def)
  from request_result_iff [OF p dry new, of "OModel sample_model" None "routed_world 200"] resp
  show ?thesis
    unfolding sample_request_def request_handler.simps by blast
qed

text \<open>A dry run sends nothing: with a well-formed URL it succeeds and leaves the world as it
  was, and a request with a payload to post but none given panics instead of being sent.\<close>

theorem dry_run_sends_nothing:
  "rh_DryRun p \<longrightarrow> snd (RequestHandler_Handle env p ob f w) = w
    \<and> (\<forall>meth body. request_of p = Return (meth, body)
        \<and> http_new_request env meth (rh_RequestUrl p) body = None \<longrightarrow>
        (\<exists>r. fst (RequestHandler_Handle env p ob f w) = Return (Some r, None, ob)
          \<and> re_status r = ''Success'' \<and> re_message r = ''{}''))"
  by (auto simp: RequestHandler_Handle_def bindg_run split: option.splits outcome.splits)

theorem dry_run_sends_nothing_witness:
  "snd (RequestHandler_Handle mem_env (sample_request True ''get'') (OModel sample_model) None (routed_world 500))
     = routed_world 500"
  using dry_run_sends_nothing [of "sample_request True ''get''" mem_env "OModel sample_model" None "routed_world 500"]
  by (simp add: sample_request_def)

end
