(* ===== verification/Deletion_Handler.thy ===== *)
theory Deletion_Handler
  imports Handler_Api
begin

text \<open>
  \<open>internal/controller/handler/deletion_handler.go\<close> and the \<open>GetObjectsToDelete\<close> methods
  of \<open>api/v1\<close>: what is taken down when a custom resource goes. A method returns a list of
  clean-up functions, which the handler runs in order up to the first error.
\<close>

section \<open>GetObjectsToDelete\<close>

type_synonym 'w cleanup = "('w, gerror option) go"

definition empty_pod :: "string \<Rightarrow> string \<Rightarrow> pod" where
  \<comment> \<open>\<open>&corev1.Pod{}\<close> with a name and a namespace\<close>
  "empty_pod n ns = \<lparr>p_meta = empty_meta\<lparr>m_name := n, m_namespace := ns\<rparr>,
     p_spec = \<lparr>ps_serviceAccountName = [], ps_rest = []\<rparr>, p_conditions = []\<rparr>"

definition Entity_GetObjectsToDelete :: "'w env \<Rightarrow> entity \<Rightarrow> 'w cleanup list" where
  "Entity_GetObjectsToDelete env e =
     [callg (c_delete env (OPod (empty_pod (et_podName (e_status e)) (m_namespace (e_meta e)))))]"

fun unlabel_all :: "'w env \<Rightarrow> string \<Rightarrow> obj list \<Rightarrow> 'w cleanup" where
  \<comment> \<open>the loop over the listed items: drop the label, update, stop at the first error\<close>
  "unlabel_all env key [] = retg None"
| "unlabel_all env key (ob # obs) =
     bindg (callg (c_update env (map_meta (BuildLabelObj key [] ResourceLabelDelete) ob))) (\<lambda>r.
       case r of
         Inl err \<Rightarrow> retg (Some (wrapf ''failed to update entity: '' err))
       | Inr _ \<Rightarrow> unlabel_all env key obs)"

definition unlabel_members :: "'w env \<Rightarrow> kind \<Rightarrow> group \<Rightarrow> 'w cleanup" where
  \<comment> \<open>for the group's entities, and again for its pods\<close>
  "unlabel_members env k e =
     (let key = RoboKubeGroupKey @ m_name (g_meta e) in
      case parse_selector env key of
        Inl err \<Rightarrow> retg (Some (errorf ''failed to create label selector''))
      | Inr labelSelector \<Rightarrow>
          bindg (callg (c_list env k (m_namespace (g_meta e)) labelSelector)) (\<lambda>r. case r of
            Inl err \<Rightarrow> retg (Some (wrapf ''failed to list entities: '' err))
          | Inr items \<Rightarrow> unlabel_all env key items))"

definition delete_netpol :: "'w env \<Rightarrow> group \<Rightarrow> 'w cleanup" where
  "delete_netpol env e =
     bindg (callg (c_get env KNetworkPolicy (m_namespace (g_meta e)) (m_name (g_meta e) @ ''-netpol'')))
       (\<lambda>r. case r of
         Inl err \<Rightarrow> retg (Some (wrapf ''failed to get entity: '' err))
       | Inr np \<Rightarrow> callg (c_delete env np))"

definition Group_GetObjectsToDelete :: "'w env \<Rightarrow> group \<Rightarrow> 'w cleanup list" where
  "Group_GetObjectsToDelete env e =
     [delete_netpol env e, unlabel_members env KEntity e, unlabel_members env KPod e]"

definition Model_GetObjectsToDelete :: "'w env \<Rightarrow> model \<Rightarrow> 'w cleanup list" where
  "Model_GetObjectsToDelete env m = []"

definition Task_GetObjectsToDelete :: "'w env \<Rightarrow> task \<Rightarrow> 'w cleanup list" where
  "Task_GetObjectsToDelete env t = []"

fun GetObjectsToDelete :: "'w env \<Rightarrow> obj \<Rightarrow> 'w cleanup list option" where
  \<comment> \<open>the assertion to \<open>Deletable\<close>: the four custom resources have the method\<close>
  "GetObjectsToDelete env (OEntity e) = Some (Entity_GetObjectsToDelete env e)"
| "GetObjectsToDelete env (OGroup g) = Some (Group_GetObjectsToDelete env g)"
| "GetObjectsToDelete env (OModel m) = Some (Model_GetObjectsToDelete env m)"
| "GetObjectsToDelete env (OTask t) = Some (Task_GetObjectsToDelete env t)"
| "GetObjectsToDelete env _ = None"

section \<open>DeletionHandler\<close>

fun run_cleanups :: "'w cleanup list \<Rightarrow> 'w cleanup" where
  "run_cleanups [] = retg None"
| "run_cleanups (fn # fns) =
     bindg fn (\<lambda>e. case e of Some err \<Rightarrow> retg (Some err) | None \<Rightarrow> run_cleanups fns)"

definition DeletionHandler_Handle :: "'w env \<Rightarrow> 'w procfn" where
  "DeletionHandler_Handle env ob f =
     (case GetObjectsToDelete env ob of
        None \<Rightarrow> retg (None, Some (errorf ''object is not Deletable''), ob)
      | Some deleteFns \<Rightarrow> bindg (run_cleanups deleteFns) (\<lambda>e. retg (None, e, ob)))"

fun delete_secrets :: "'w env \<Rightarrow> obj list \<Rightarrow> 'w cleanup" where
  "delete_secrets env [] = retg None"
| "delete_secrets env (secret # rest) =
     bindg (callg (c_delete env secret)) (\<lambda>r. case r of
       Some err \<Rightarrow> retg (Some (wrapf (''failed to delete secret '' @ obj_name secret @ '': '') err))
     | None \<Rightarrow> delete_secrets env rest)"

definition DeleteK8sCert :: "'w env \<Rightarrow> obj \<Rightarrow> 'w cleanup" where
  \<comment> \<open>in every namespace: the list call is given no namespace\<close>
  "DeleteK8sCert env res =
     bindg (callg (c_list env KSecret [] (SelEquals ''model'' (obj_name res)))) (\<lambda>r. case r of
       Inl err \<Rightarrow> retg (Some (wrapf ''failed to list secrets: '' err))
     | Inr items \<Rightarrow> delete_secrets env items)"

interpretation deletion_handler: handler "DeletionHandler_Handle env" for env
  by unfold_locales
    (auto simp: DeletionHandler_Handle_def elim!: bindg_ReturnE split: option.splits)

section \<open>Facts\<close>

lemma unlabel_all_None:
  "unlabel_all env key obs w = (Return None, w') \<Longrightarrow>
     \<forall>ob \<in> set obs. \<exists>w1 ob' w2.
       c_update env (map_meta (BuildLabelObj key [] ResourceLabelDelete) ob) w1 = (Inr ob', w2)"
proof (induction obs arbitrary: w)
  case Nil
  then show ?case by simp
next
  case (Cons ob obs)
  let ?ob = "map_meta (BuildLabelObj key [] ResourceLabelDelete) ob"
  obtain r w1 where u: "c_update env ?ob w = (r, w1)" by fastforce
  with Cons.prems obtain ob' where r: "r = Inr ob'" and rest: "unlabel_all env key obs w1 = (Return None, w')"
    by (cases r) auto
  from Cons.IH [OF rest] u r show ?case by auto
qed

lemma unlabel_members_None:
  assumes "unlabel_members env k g w = (Return None, w')"
  shows "\<exists>sel items w1. parse_selector env (RoboKubeGroupKey @ m_name (g_meta g)) = Inr sel
    \<and> c_list env k (m_namespace (g_meta g)) sel w = (Inr items, w1)
    \<and> (\<forall>ob \<in> set items. \<exists>w2 ob' w3.
        c_update env (map_meta (BuildLabelObj (RoboKubeGroupKey @ m_name (g_meta g)) [] ResourceLabelDelete) ob) w2
          = (Inr ob', w3))"
proof -
  from assms obtain sel where sel: "parse_selector env (RoboKubeGroupKey @ m_name (g_meta g)) = Inr sel"
    by (auto simp: unlabel_members_def Let_def split: sum.splits)
  obtain r w1 where l: "c_list env k (m_namespace (g_meta g)) sel w = (r, w1)" by fastforce
  with assms sel obtain items where r: "r = Inr items" and
    u: "unlabel_all env (RoboKubeGroupKey @ m_name (g_meta g)) items w1 = (Return None, w')"
    by (cases r) (auto simp: unlabel_members_def Let_def)
  from sel l r unlabel_all_None [OF u] show ?thesis by auto
qed

lemma delete_netpol_None:
  assumes "delete_netpol env g w = (Return None, w')"
  shows "\<exists>np w1. c_get env KNetworkPolicy (m_namespace (g_meta g)) (m_name (g_meta g) @ ''-netpol'') w
      = (Inr np, w1) \<and> c_delete env np w1 = (None, w')"
  using assms
  by (cases "c_get env KNetworkPolicy (m_namespace (g_meta g)) (m_name (g_meta g) @ ''-netpol'') w")
    (auto simp: delete_netpol_def split: sum.splits intro: prod_eqI)

section \<open>Properties\<close>


definition sample_dgroup :: group where
  "sample_dgroup = \<lparr>g_meta = sample_meta ''g'',
     g_spec = \<lparr>gs_description = [], gs_owner = [], gs_contact = [], gs_lastTargets = None,
       gs_type = GroupTypeSecurity\<rparr>,
     g_status = \<lparr>gt_totalEntities = 0, gt_conditions = [], gt_observedGeneration = 0, gt_phase = []\<rparr>\<rparr>"

definition sample_netpol :: networkpolicy where
  "sample_netpol = \<lparr>np_meta = sample_meta ''g-netpol'',
     np_nspec = \<lparr>np_ingress = [], np_egress = [], np_rest = []\<rparr>\<rparr>"

definition grouped_world :: mem where
  \<comment> \<open>one entity in the group\<close>
  "grouped_world = sample_world [ONetworkPolicy sample_netpol,
     OEntity ((sample_entity ''a'' (Some 0))\<lparr>e_meta := (sample_meta ''a'')
       \<lparr>m_labels := Some (fmap_of_list [(RoboKubeGroupKey @ ''g'', ''id'')])\<rparr>\<rparr>)]"


text \<open>A group whose network policy cannot be read is not cleaned up at all: the handler returns
  the error, of the same API status, after that one read, so no label is removed.\<close>

theorem group_deletion_needs_netpol:
  assumes "c_get env KNetworkPolicy (m_namespace (g_meta g)) (m_name (g_meta g) @ ''-netpol'') w = (Inl e, w')"
  shows "DeletionHandler_Handle env (OGroup g) f w
    = (Return (None, Some (wrapf ''failed to get entity: '' e), OGroup g), w')"
  using assms
  by (simp add: DeletionHandler_Handle_def Group_GetObjectsToDelete_def delete_netpol_def bindg_run)

theorem group_deletion_needs_netpol_witness:
  "DeletionHandler_Handle mem_env (OGroup sample_dgroup) None (sample_world [])
    = (Return (None, Some (wrapf ''failed to get entity: '' err_not_found), OGroup sample_dgroup),
       sample_world [])"
  by (rule group_deletion_needs_netpol) code_simp

text \<open>Models and tasks have nothing to take down and their clean-up always succeeds without
  touching the cluster; an entity's clean-up is the deletion of the pod its status names; anything
  but the four custom resources is refused.\<close>

theorem deletion_by_kind:
  "DeletionHandler_Handle env (OModel m) f w = (Return (None, None, OModel m), w)
 \<and> DeletionHandler_Handle env (OTask t) f w = (Return (None, None, OTask t), w)
 \<and> (\<exists>p. meta_of (OPod p) = empty_meta\<lparr>m_name := et_podName (e_status e), m_namespace := m_namespace (e_meta e)\<rparr>
      \<and> DeletionHandler_Handle env (OEntity e) f w
        = (Return (None, fst (c_delete env (OPod p) w), OEntity e), snd (c_delete env (OPod p) w)))
 \<and> (kind_of ob \<notin> {KEntity, KGroup, KModel, KTask} \<longrightarrow>
      DeletionHandler_Handle env ob f w
        = (Return (None, Some (errorf ''object is not Deletable''), ob), w))"
proof (intro conjI)
  show "\<exists>p. meta_of (OPod p) = empty_meta\<lparr>m_name := et_podName (e_status e), m_namespace := m_namespace (e_meta e)\<rparr>
      \<and> DeletionHandler_Handle env (OEntity e) f w
        = (Return (None, fst (c_delete env (OPod p) w), OEntity e), snd (c_delete env (OPod p) w))"
    by (rule exI [of _ "empty_pod (et_podName (e_status e)) (m_namespace (e_meta e))"])
      (auto simp: empty_pod_def DeletionHandler_Handle_def Entity_GetObjectsToDelete_def bindg_run
        split: option.splits)
  show "kind_of ob \<notin> {KEntity, KGroup, KModel, KTask} \<longrightarrow>
      DeletionHandler_Handle env ob f w
        = (Return (None, Some (errorf ''object is not Deletable''), ob), w)"
    by (cases ob) (simp_all add: DeletionHandler_Handle_def)
qed (simp_all add: DeletionHandler_Handle_def Model_GetObjectsToDelete_def Task_GetObjectsToDelete_def)

theorem deletion_by_kind_witness:
  "DeletionHandler_Handle mem_env (OPod (empty_pod ''p'' ''ns'')) None grouped_world
    = (Return (None, Some (errorf ''object is not Deletable''), OPod (empty_pod ''p'' ''ns'')), grouped_world)"
  using deletion_by_kind [of mem_env _ None grouped_world _ _ "OPod (empty_pod ''p'' ''ns'')"] by simp

end
