(* ===== verification/Cluster_Resource_Handler.thy ===== *)
theory Cluster_Resource_Handler
  imports Handler_Api
begin

text \<open>
  \<open>internal/controller/handler/cluster_resource_processor.go\<close>: the handler that provisions one
  Kubernetes object. \<open>Build\<close> decodes a template and edits it; \<open>Handle\<close> gives the object
  its name, namespace, labels and owner, creates it, or updates the one that exists when its spec
  differs, starting over when the update conflicts. The restart is a recursion with no bound of its
  own, so the model gives it fuel; \<open>cluster_handler_returns\<close> says how much is enough.

  A spec is compared with \<open>reflect.DeepEqual\<close> and copied with \<open>DeepCopy\<close>: equality and
  assignment of the record that stands for it.
\<close>

section \<open>Resource types\<close>

definition ResourceTypeEntity :: resource_type where "ResourceTypeEntity = ''Entity''"
definition ResourceTypeStatefulSet :: resource_type where "ResourceTypeStatefulSet = ''StatefulSet''"
definition ResourceTypeDeployment :: resource_type where "ResourceTypeDeployment = ''Deployment''"
definition ResourceTypeReplicaSet :: resource_type where "ResourceTypeReplicaSet = ''ReplicaSet''"
definition ResourceTypePod :: resource_type where "ResourceTypePod = ''Pod''"
definition ResourceTypeNamespace :: resource_type where "ResourceTypeNamespace = ''Namespace''"
definition ResourceTypeIngress :: resource_type where "ResourceTypeIngress = ''Ingress''"
definition ResourceTypeNetPol :: resource_type where "ResourceTypeNetPol = ''NetworkPolicy''"
definition ResourceTypeCert :: resource_type where "ResourceTypeCert = ''Certificate''"
definition ResourceTypeCronJob :: resource_type where "ResourceTypeCronJob = ''CronJob''"
definition ResourceTypeService :: resource_type where "ResourceTypeService = ''Service''"
definition ResourceTypeServiceAccount :: resource_type where
  "ResourceTypeServiceAccount = ''ServiceAccount''"
definition ResourceTypeRoleBinding :: resource_type where "ResourceTypeRoleBinding = ''RoleBinding''"
definition TemplatePath :: string where "TemplatePath = ''../internal/controller/template''"

lemmas resource_type_defs [robo_consts] =
  ResourceTypeEntity_def ResourceTypeStatefulSet_def ResourceTypeDeployment_def
  ResourceTypeReplicaSet_def ResourceTypePod_def ResourceTypeNamespace_def ResourceTypeIngress_def
  ResourceTypeNetPol_def ResourceTypeCert_def ResourceTypeCronJob_def ResourceTypeService_def
  ResourceTypeServiceAccount_def ResourceTypeRoleBinding_def

fun as_ingress :: "obj \<Rightarrow> ingress option" where
  "as_ingress (OIngress x) = Some x" | "as_ingress _ = None"
fun as_networkpolicy :: "obj \<Rightarrow> networkpolicy option" where
  "as_networkpolicy (ONetworkPolicy x) = Some x" | "as_networkpolicy _ = None"
fun as_certificate :: "obj \<Rightarrow> certificate option" where
  "as_certificate (OCertificate x) = Some x" | "as_certificate _ = None"
fun as_cronjob :: "obj \<Rightarrow> cronjob option" where
  "as_cronjob (OCronJob x) = Some x" | "as_cronjob _ = None"
fun as_service :: "obj \<Rightarrow> service option" where
  "as_service (OService x) = Some x" | "as_service _ = None"
fun as_rolebinding :: "obj \<Rightarrow> rolebinding option" where
  "as_rolebinding (ORoleBinding x) = Some x" | "as_rolebinding _ = None"

section \<open>The handler\<close>

record cluster_params =
  cp_ResourceType :: resource_type
  cp_TargetName :: string
  cp_Namespace :: string
  cp_InjectLabels :: "gomap option"
  cp_NeedVerify :: bool
  cp_SetOwnerReferences :: bool
  cp_Template :: string

text \<open>\<open>InitObject\<close> starts as the zero value of a type and is only ever filled by \<open>Get\<close>: the
  handler keeps its type.\<close>

record cluster_handler =
  ch_ResourceType :: resource_type
  ch_TargetName :: string
  ch_Namespace :: string
  ch_InjectLabels :: "gomap option"
  ch_ParentObject :: obj
  ch_InitObject :: kind
  ch_NeedVerify :: bool
  ch_TemplateName :: string
  ch_SetOwnerReferences :: bool

definition empty_object :: "resource_type \<Rightarrow> kind outcome" where
  "empty_object rt =
     (if rt = ResourceTypeEntity then Return KEntity
      else if rt = ResourceTypeStatefulSet then Return KStatefulSet
      else if rt = ResourceTypeDeployment then Return KDeployment
      else if rt = ResourceTypeReplicaSet then Return KReplicaSet
      else if rt = ResourceTypePod then Return KPod
      else if rt = ResourceTypeNamespace then Return KNamespace
      else if rt = ResourceTypeIngress then Return KIngress
      else if rt = ResourceTypeNetPol then Return KNetworkPolicy
      else if rt = ResourceTypeCert then Return KCertificate
      else if rt = ResourceTypeCronJob then Return KCronJob
      else if rt = ResourceTypeService then Return KService
      else if rt = ResourceTypeServiceAccount then Return KServiceAccount
      else if rt = ResourceTypeRoleBinding then Return KRoleBinding
      else Panic (''unsupported resource type: '' @ rt))"

definition NewClusterResourceHandler :: "obj \<Rightarrow> cluster_params \<Rightarrow> cluster_handler outcome" where
  "NewClusterResourceHandler parent paras =
     obind (empty_object (cp_ResourceType paras)) (\<lambda>empty. Return
       \<lparr>ch_ResourceType = cp_ResourceType paras, ch_TargetName = cp_TargetName paras,
        ch_Namespace = cp_Namespace paras, ch_InjectLabels = cp_InjectLabels paras,
        ch_ParentObject = parent, ch_InitObject = empty, ch_NeedVerify = cp_NeedVerify paras,
        ch_TemplateName = cp_Template paras,
        ch_SetOwnerReferences = cp_SetOwnerReferences paras\<rparr>)"

section \<open>Build\<close>

definition buildable :: "kind \<Rightarrow> bool" where
  \<comment> \<open>the cases of the type switch\<close>
  "buildable k \<longleftrightarrow> k \<in> {KEntity, KStatefulSet, KDeployment, KReplicaSet, KPod, KNamespace, KIngress,
     KNetworkPolicy, KCertificate, KCronJob, KService, KServiceAccount, KRoleBinding}"

definition call_fn :: "'w modfn option \<Rightarrow> 'w modfn" where
  \<comment> \<open>\<open>f(obj)\<close>, which panics for a nil function\<close>
  "call_fn f ob = (case f of None \<Rightarrow> panicg nil_deref | Some g \<Rightarrow> g ob)"

definition ClusterResourceHandler_Build ::
  "'w env \<Rightarrow> cluster_handler \<Rightarrow> obj \<Rightarrow> 'w modfn option \<Rightarrow> ('w, gerror + obj) go" where
  "ClusterResourceHandler_Build env h ob f =
     (if ch_TemplateName h = [] then retg (Inl (errorf ''template name is empty''))
      else (case read_file env (TemplatePath @ ''/'' @ ch_TemplateName h) of
        Inl err \<Rightarrow> retg (Inl err)
      | Inr templateBytes \<Rightarrow> (case decode_object env templateBytes of
          Inl err \<Rightarrow> retg (Inl err)
        | Inr object \<Rightarrow>
            if buildable (kind_of object)
            then bindg (call_fn f object) (\<lambda>typedObj. retg (Inr typedObj))
            else retg (Inl (errorf (''unsupported resource type: '' @ type_text (kind_of object)))))))"

section \<open>Handle\<close>

definition inject_labels :: "cluster_handler \<Rightarrow> obj \<Rightarrow> obj" where
  "inject_labels h ob =
     (case ch_InjectLabels h of
        None \<Rightarrow> ob
      | Some inject \<Rightarrow>
          map_meta (\<lambda>m. m\<lparr>m_labels := Some (fmadd (case m_labels m of None \<Rightarrow> fmempty | Some l \<Rightarrow> l) inject)\<rparr>) ob)"

definition target_object :: "cluster_handler \<Rightarrow> obj \<Rightarrow> obj" where
  "target_object h ob =
     map_meta (\<lambda>m. m\<lparr>m_name := ch_TargetName h, m_namespace := ch_Namespace h\<rparr>) (inject_labels h ob)"

definition failed_result :: "cluster_handler \<Rightarrow> string \<Rightarrow> string \<Rightarrow> result" where
  "failed_result h msg reason =
     \<lparr>re_name = ch_TargetName h, re_type = ch_ResourceType h, re_reason = reason,
      re_message = msg @ ch_TargetName h @ ''.'', re_status = ''Failed''\<rparr>"

definition ready_result :: "cluster_handler \<Rightarrow> result" where
  "ready_result h =
     \<lparr>re_name = ch_TargetName h, re_type = ch_ResourceType h, re_reason = ''provision successfuly'',
      re_message = ''Resource '' @ ch_TargetName h @ '' is ready.'', re_status = ''Success''\<rparr>"

datatype sync = Unchanged | Synced obj | Mismatch gerror

definition sync_field ::
  "(obj \<Rightarrow> 'a option) \<Rightarrow> ('a \<Rightarrow> obj) \<Rightarrow> ('a \<Rightarrow> 's) \<Rightarrow> ('s \<Rightarrow> 'a \<Rightarrow> 'a) \<Rightarrow> string \<Rightarrow> obj \<Rightarrow> obj \<Rightarrow> sync outcome" where
  \<comment> \<open>one case of the switch: assert both types, compare, copy\<close>
  "sync_field proj mk get put msg initObject ob =
     (case proj initObject of
        None \<Rightarrow> Return (Mismatch (errorf msg))
      | Some x \<Rightarrow> (case proj ob of
          None \<Rightarrow> Panic bad_assertion
        | Some y \<Rightarrow> if get x = get y then Return Unchanged else Return (Synced (mk (put (get y) x)))))"

definition sync_spec :: "resource_type \<Rightarrow> obj \<Rightarrow> obj \<Rightarrow> sync outcome" where
  "sync_spec rt initObject ob =
     (if rt = ResourceTypeEntity then
        sync_field as_entity OEntity e_spec (\<lambda>s x. x\<lparr>e_spec := s\<rparr>) ''InitObject is not a Entity'' initObject ob
      else if rt = ResourceTypeStatefulSet then
        sync_field as_statefulset OStatefulSet st_spec (\<lambda>s x. x\<lparr>st_spec := s\<rparr>)
          ''InitObject is not a StatefulSet'' initObject ob
      else if rt = ResourceTypeDeployment then
        sync_field as_deployment ODeployment d_spec (\<lambda>s x. x\<lparr>d_spec := s\<rparr>)
          ''InitObject is not a Deployment'' initObject ob
      else if rt = ResourceTypeReplicaSet then
        sync_field as_replicaset OReplicaSet r_spec (\<lambda>s x. x\<lparr>r_spec := s\<rparr>)
          ''InitObject is not a ReplicaSet'' initObject ob
      else if rt = ResourceTypePod then
        sync_field as_pod OPod p_spec (\<lambda>s x. x\<lparr>p_spec := s\<rparr>) ''InitObject is not a Pod'' initObject ob
      else if rt = ResourceTypeNamespace then
        sync_field as_namespace ONamespace n_spec (\<lambda>s x. x\<lparr>n_spec := s\<rparr>)
          ''InitObject is not a Namespace'' initObject ob
      else if rt = ResourceTypeIngress then
        sync_field as_ingress OIngress i_spec (\<lambda>s x. x\<lparr>i_spec := s\<rparr>)
          ''InitObject is not an Ingress'' initObject ob
      else if rt = ResourceTypeNetPol then
        sync_field as_networkpolicy ONetworkPolicy np_nspec (\<lambda>s x. x\<lparr>np_nspec := s\<rparr>)
          ''InitObject is not a NetworkPolicy'' initObject ob
      else if rt = ResourceTypeCronJob then
        sync_field as_cronjob OCronJob cj_spec (\<lambda>s x. x\<lparr>cj_spec := s\<rparr>)
          ''InitObject is not a CronJob'' initObject ob
      else if rt = ResourceTypeService then
        sync_field as_service OService s_spec (\<lambda>s x. x\<lparr>s_spec := s\<rparr>)
          ''InitObject is not a Service'' initObject ob
      else if rt = ResourceTypeServiceAccount then Return Unchanged
      else if rt = ResourceTypeRoleBinding then
        sync_field as_rolebinding ORoleBinding rb_roleRef (\<lambda>s x. x\<lparr>rb_roleRef := s\<rparr>)
          ''InitObject is not a RoleBinding'' initObject ob
      else if rt = ResourceTypeCert then
        sync_field as_certificate OCertificate ct_spec (\<lambda>s x. x\<lparr>ct_spec := s\<rparr>)
          ''InitObject is not a Service'' initObject ob
      else Return (Mismatch (errorf (''unsupported resource type: '' @ rt))))"

definition adopt_meta :: "obj \<Rightarrow> obj \<Rightarrow> obj" where
  \<comment> \<open>labels, annotations and owners of the wanted object on the existing one\<close>
  "adopt_meta want cur =
     map_meta (\<lambda>m. m\<lparr>m_labels := m_labels (meta_of want), m_annotations := m_annotations (meta_of want),
       m_ownerReferences := m_ownerReferences (meta_of want)\<rparr>) cur"

section \<open>Verification\<close>

definition verify_conditions :: "string \<Rightarrow> string \<Rightarrow> k8s_condition list \<Rightarrow> gerror option" where
  "verify_conditions what ready conditions =
     (if conditions = [] then Some (errorf (what @ '' has no conditions yet''))
      else let lastCondition = last conditions in
        if kc_type lastCondition = ready \<and> kc_status lastCondition = ''True'' then None
        else Some (errorf (what @ '' is not yet ready (reason: '' @ kc_reason lastCondition
          @ '', message: '' @ kc_message lastCondition @ '')'')))"

definition verify_get ::
  "'w env \<Rightarrow> cluster_handler \<Rightarrow> kind \<Rightarrow> (obj \<Rightarrow> 'a option) \<Rightarrow> string \<Rightarrow>
     ('a \<Rightarrow> gerror option outcome) \<Rightarrow> ('w, gerror option) go" where
  "verify_get env h k proj what check =
     bindg (get_as env k proj (ch_Namespace h) (ch_TargetName h)) (\<lambda>r. case r of
       Inl err \<Rightarrow> retg (Some (wrapf (''failed to get '' @ what @ '': '') err))
     | Inr x \<Rightarrow> pureg (check x))"

definition verifyDeploymentReady :: "'w env \<Rightarrow> cluster_handler \<Rightarrow> ('w, gerror option) go" where
  "verifyDeploymentReady env h =
     verify_get env h KDeployment as_deployment ''Deployment''
       (\<lambda>d. Return (verify_conditions ''deployment'' ''Available'' (d_conditions d)))"

definition verifyPodReady :: "'w env \<Rightarrow> cluster_handler \<Rightarrow> ('w, gerror option) go" where
  "verifyPodReady env h =
     verify_get env h KPod as_pod ''Pod''
       (\<lambda>p. Return (verify_conditions ''pod'' ''Ready'' (p_conditions p)))"

definition verifyReplicaSetReady :: "'w env \<Rightarrow> cluster_handler \<Rightarrow> ('w, gerror option) go" where
  "verifyReplicaSetReady env h =
     verify_get env h KReplicaSet as_replicaset ''ReplicaSet''
       (\<lambda>rs. obind (deref (rs_replicas (r_spec rs))) (\<lambda>n. Return
          (if r_readyReplicas rs = n then None else Some (errorf ''replicaset is not yet ready''))))"

definition verifyStatefulSetReady :: "'w env \<Rightarrow> cluster_handler \<Rightarrow> ('w, gerror option) go" where
  "verifyStatefulSetReady env h =
     verify_get env h KStatefulSet as_statefulset ''StatefulSet''
       (\<lambda>sts. obind (deref (ss_replicas (st_spec sts))) (\<lambda>n. Return
          (if st_readyReplicas sts = n then None else Some (errorf ''statefulset is not yet ready''))))"

definition verify_target :: "'w env \<Rightarrow> cluster_handler \<Rightarrow> ('w, gerror option) go" where
  "verify_target env h =
     (let rt = ch_ResourceType h in
      if rt = ResourceTypeDeployment then verifyDeploymentReady env h
      else if rt = ResourceTypePod then verifyPodReady env h
      else if rt = ResourceTypeReplicaSet then verifyReplicaSetReady env h
      else if rt = ResourceTypeStatefulSet then verifyStatefulSetReady env h
      else retg (Some (errorf (''verification not implemented for resource type: '' @ rt))))"

definition second :: int where "second = 1000000000"

definition verify_and_finish :: "'w env \<Rightarrow> cluster_handler \<Rightarrow> obj \<Rightarrow> ('w, handled) go" where
  \<comment> \<open>from the verification to the end: there is no loop around the select\<close>
  "verify_and_finish env h ob =
     (if ch_NeedVerify h then
        bindg (\<lambda>w. (Return (ctx_err env w), w)) (\<lambda>done. case done of
          Some e \<Rightarrow> retg (None, Some e, ob)
        | None \<Rightarrow> bindg (verify_target env h) (\<lambda>err. case err of
            None \<Rightarrow> retg (Some (ready_result h), None, ob)
          | Some e \<Rightarrow> bindg (effg (c_sleep env (10 * second))) (\<lambda>_.
              retg (Some (ready_result h), None, ob))))
      else retg (Some (ready_result h), None, ob))"

section \<open>One attempt, and the restart on a conflict\<close>

definition create_target :: "'w env \<Rightarrow> cluster_handler \<Rightarrow> obj \<Rightarrow> ('w, obj + handled) go" where
  "create_target env h ob =
     bindg (callg (c_create env ob)) (\<lambda>r. case r of
       Inl err \<Rightarrow> retg (Inr (Some (failed_result h ''Failed to create new Object '' ''Create Object failed''),
         Some err, ob))
     | Inr ob' \<Rightarrow> bindg (verify_and_finish env h ob') (\<lambda>x. retg (Inr x)))"

definition update_target :: "'w env \<Rightarrow> cluster_handler \<Rightarrow> obj \<Rightarrow> obj \<Rightarrow> ('w, obj + handled) go" where
  "update_target env h ob cur =
     bindg (pureg (sync_spec (ch_ResourceType h) (adopt_meta ob cur) ob)) (\<lambda>s. case s of
       Unchanged \<Rightarrow> retg (Inr (None, None, ob))
     | Mismatch err \<Rightarrow> retg (Inr (Some (failed_result h ''Initial Object mismatch '' ''Initalize Object failed''),
         Some err, ob))
     | Synced new \<Rightarrow>
         bindg (callg (c_update env new)) (\<lambda>r. case r of
           Inl err \<Rightarrow>
             if IsConflict err then retg (Inl ob)
             else retg (Inr (Some (failed_result h ''Failed to update existing Object '' ''Update Object failed''),
               Some err, ob))
         | Inr _ \<Rightarrow> bindg (verify_and_finish env h ob) (\<lambda>x. retg (Inr x))))"

definition handle_attempt :: "'w env \<Rightarrow> cluster_handler \<Rightarrow> obj \<Rightarrow> ('w, obj + handled) go" where
  \<comment> \<open>\<open>Inl\<close>: start over with this object\<close>
  "handle_attempt env h ob =
     (let ob1 = target_object h ob in
      case (if ch_SetOwnerReferences h then set_controller_ref env (ch_ParentObject h) ob1 else Inr ob1) of
        Inl err \<Rightarrow> retg (Inr (Some (failed_result h ''Faile to set owner reference to '' ''Owner Reference failed''),
          Some err, ob1))
      | Inr ob2 \<Rightarrow>
          bindg (callg (c_get env (ch_InitObject h) (ch_Namespace h) (ch_TargetName h))) (\<lambda>r. case r of
            Inl _ \<Rightarrow> create_target env h ob2
          | Inr cur \<Rightarrow> update_target env h ob2 cur))"

primrec ClusterResourceHandler_Handle :: "nat \<Rightarrow> 'w env \<Rightarrow> cluster_handler \<Rightarrow> 'w procfn" where
  "ClusterResourceHandler_Handle 0 env h ob f = nofuelg"
| "ClusterResourceHandler_Handle (Suc n) env h ob f =
     bindg (handle_attempt env h ob) (\<lambda>r. case r of
       Inl ob' \<Rightarrow> ClusterResourceHandler_Handle n env h ob' f
     | Inr x \<Rightarrow> retg x)"

section \<open>Facts on the parts\<close>

lemma target_object_sel [simp]:
  "obj_name (target_object h ob) = ch_TargetName h" "obj_ns (target_object h ob) = ch_Namespace h"
  "kind_of (target_object h ob) = kind_of ob"
  by (simp_all add: target_object_def obj_name_def obj_ns_def inject_labels_def split: option.split)

lemma target_object_label:
  "label_of (meta_of (target_object h ob)) k =
     (case ch_InjectLabels h of None \<Rightarrow> label_of (meta_of ob) k
      | Some l \<Rightarrow> (case fmlookup l k of None \<Rightarrow> label_of (meta_of ob) k | Some v \<Rightarrow> Some v))"
  by (auto simp: target_object_def inject_labels_def label_of_def fmdom_notD dest: fmdomI
      split: option.split)

lemma adopt_meta_sel [simp]:
  "kind_of (adopt_meta want cur) = kind_of cur" "obj_name (adopt_meta want cur) = obj_name cur"
  "obj_ns (adopt_meta want cur) = obj_ns cur"
  "m_resourceVersion (meta_of (adopt_meta want cur)) = m_resourceVersion (meta_of cur)"
  "m_labels (meta_of (adopt_meta want cur)) = m_labels (meta_of want)"
  "m_ownerReferences (meta_of (adopt_meta want cur)) = m_ownerReferences (meta_of want)"
  by (simp_all add: adopt_meta_def obj_name_def obj_ns_def)

lemma as_SomeD_more:
  "as_deployment ob = Some d \<Longrightarrow> ob = ODeployment d" "as_replicaset ob = Some r \<Longrightarrow> ob = OReplicaSet r"
  "as_namespace ob = Some n \<Longrightarrow> ob = ONamespace n" "as_ingress ob = Some i \<Longrightarrow> ob = OIngress i"
  "as_networkpolicy ob = Some np \<Longrightarrow> ob = ONetworkPolicy np"
  "as_certificate ob = Some c \<Longrightarrow> ob = OCertificate c" "as_cronjob ob = Some cj \<Longrightarrow> ob = OCronJob cj"
  "as_service ob = Some s \<Longrightarrow> ob = OService s" "as_rolebinding ob = Some rb \<Longrightarrow> ob = ORoleBinding rb"
  by (cases ob; simp)+

definition sync_ok :: "(obj \<Rightarrow> obj \<Rightarrow> sync outcome) \<Rightarrow> bool" where
  \<comment> \<open>what was synchronised is unchanged when looked at again, and keeps type and metadata\<close>
  "sync_ok F \<longleftrightarrow> (\<forall>a b c. F a b = Return (Synced c) \<longrightarrow>
     F c b = Return Unchanged \<and> meta_of c = meta_of a \<and> kind_of c = kind_of a)"

lemma sync_ok_if: "sync_ok F \<Longrightarrow> sync_ok G \<Longrightarrow> sync_ok (\<lambda>a b. if t then F a b else G a b)"
  by (simp add: sync_ok_def)

lemma sync_ok_const: "sync_ok (\<lambda>a b. Return Unchanged)" "sync_ok (\<lambda>a b. Return (Mismatch e))"
  by (simp_all add: sync_ok_def)

lemma sync_ok_field:
  assumes "\<And>x. proj (mk x) = Some x" "\<And>s x. get (put s x) = s"
    and "\<And>a x s. proj a = Some x \<Longrightarrow> meta_of (mk (put s x)) = meta_of a \<and> kind_of (mk (put s x)) = kind_of a"
  shows "sync_ok (\<lambda>a b. sync_field proj mk get put msg a b)"
  unfolding sync_ok_def sync_field_def using assms
  by (fastforce split: option.splits if_splits)

lemma sync_ok_spec: "sync_ok (\<lambda>a b. sync_spec rt a b)"
  unfolding sync_spec_def
  by (intro sync_ok_if sync_ok_const sync_ok_field; (drule as_SomeD as_SomeD_more)?; simp)

lemma sync_spec_Synced:
  "sync_spec rt a b = Return (Synced c) \<Longrightarrow>
     sync_spec rt c b = Return Unchanged \<and> meta_of c = meta_of a \<and> kind_of c = kind_of a"
  using sync_ok_spec [of rt] unfolding sync_ok_def by blast

definition owner_contract :: "'w env \<Rightarrow> bool" where
  \<comment> \<open>\<open>SetControllerReference\<close> changes the owner references only\<close>
  "owner_contract env \<longleftrightarrow> (\<forall>owner ob ob'. set_controller_ref env owner ob = Inr ob' \<longrightarrow>
     (\<exists>refs. ob' = map_meta (\<lambda>m. m\<lparr>m_ownerReferences := refs\<rparr>) ob))"

lemma mem_owner_contract: "owner_contract mem_env"
  by (auto simp: owner_contract_def mem_env_def mem_set_controller_def split: if_splits)

lemma handle_attempt_status:
  assumes "handle_attempt env h ob w = (Return (Inr (Some r, e, ob')), w')"
  shows "re_status r = (if e = None then ''Success'' else ''Failed'')"
  using assms
  by (auto simp: handle_attempt_def Let_def create_target_def update_target_def verify_and_finish_def
      failed_result_def ready_result_def bindg_run
      split: if_splits sum.splits sync.splits outcome.splits prod.splits option.splits)

lemma ClusterResourceHandler_last:
  assumes "ClusterResourceHandler_Handle n env h ob f w = (Return x, w')"
  shows "\<exists>ob1 w1. handle_attempt env h ob1 w1 = (Return (Inr x), w')"
  using assms
proof (induction n arbitrary: ob w)
  case 0
  then show ?case by simp
next
  case (Suc n)
  then show ?case by (auto elim!: bindg_ReturnE split: sum.splits) blast
qed

interpretation cluster_handler: handler "ClusterResourceHandler_Handle n env h" for n env h
proof unfold_locales
  show "re_status r = ''Success''"
    if "ClusterResourceHandler_Handle n env h ob f w = (Return (Some r, None, ob'), w')" for ob f w r ob' w'
    using ClusterResourceHandler_last [OF that] handle_attempt_status by fastforce
  show "re_status r = ''Failed''"
    if "ClusterResourceHandler_Handle n env h ob f w = (Return (Some r, Some e, ob'), w')"
    for ob f w r e ob' w'
    using ClusterResourceHandler_last [OF that] handle_attempt_status by fastforce
qed

section \<open>What one run achieves\<close>

definition provisioned :: "'w env \<Rightarrow> cluster_handler \<Rightarrow> obj \<Rightarrow> 'w \<Rightarrow> result option \<Rightarrow> 'w \<Rightarrow> bool" where
  \<comment> \<open>the wanted object was created; or it was there with the wanted spec and nothing was written;
    or the stored object was updated, from the version that was read, to the wanted labels, owners
    and spec\<close>
  "provisioned env h want w r w' \<longleftrightarrow>
     (\<exists>e w1 ob'. c_get env (ch_InitObject h) (ch_Namespace h) (ch_TargetName h) w = (Inl e, w1)
        \<and> c_create env want w1 = (Inr ob', w') \<and> r = Some (ready_result h))
   \<or> (\<exists>cur. c_get env (ch_InitObject h) (ch_Namespace h) (ch_TargetName h) w = (Inr cur, w')
        \<and> sync_spec (ch_ResourceType h) (adopt_meta want cur) want = Return Unchanged \<and> r = None)
   \<or> (\<exists>cur w1 new stored. c_get env (ch_InitObject h) (ch_Namespace h) (ch_TargetName h) w = (Inr cur, w1)
        \<and> meta_of new = meta_of (adopt_meta want cur) \<and> kind_of new = kind_of cur
        \<and> sync_spec (ch_ResourceType h) new want = Return Unchanged
        \<and> c_update env new w1 = (Inr stored, w') \<and> r = Some (ready_result h))"

definition wanted :: "cluster_handler \<Rightarrow> obj \<Rightarrow> obj \<Rightarrow> bool" where
  \<comment> \<open>the object that is provisioned: the given one up to metadata, under the handler's name, with
    its labels\<close>
  "wanted h ob want \<longleftrightarrow> (\<exists>g. want = map_meta g ob) \<and> kind_of want = kind_of ob
     \<and> obj_name want = ch_TargetName h
     \<and> obj_ns want = ch_Namespace h
     \<and> (\<forall>l k v. ch_InjectLabels h = Some l \<and> fmlookup l k = Some v \<longrightarrow> label_of (meta_of want) k = Some v)"

lemma owned_wanted:
  assumes "owner_contract env"
    and "(if ch_SetOwnerReferences h then set_controller_ref env (ch_ParentObject h) (target_object h ob)
          else Inr (target_object h ob)) = Inr ob2"
  shows "wanted h ob ob2"
proof -
  obtain g where g: "ob2 = map_meta g (target_object h ob)"
    "\<And>m. m_name (g m) = m_name m \<and> m_namespace (g m) = m_namespace m \<and> m_labels (g m) = m_labels m"
  proof (cases "ch_SetOwnerReferences h")
    case True
    with assms obtain refs where "ob2 = map_meta (\<lambda>m. m\<lparr>m_ownerReferences := refs\<rparr>) (target_object h ob)"
      unfolding owner_contract_def by (simp split: if_splits) blast
    then show ?thesis using that [of "\<lambda>m. m\<lparr>m_ownerReferences := refs\<rparr>"] by simp
  next
    case False
    with assms show ?thesis using that [of "\<lambda>m. m"] by (simp add: map_meta_id)
  qed
  have "label_of (meta_of ob2) k = label_of (meta_of (target_object h ob)) k" for k
    using g by (simp add: label_of_def)
  moreover have "obj_name ob2 = obj_name (target_object h ob)" "obj_ns ob2 = obj_ns (target_object h ob)"
    "kind_of ob2 = kind_of (target_object h ob)"
    using g by (simp_all add: obj_name_def obj_ns_def)
  moreover have "\<exists>f. ob2 = map_meta f ob"
    unfolding g(1) target_object_def inject_labels_def by (auto simp: map_meta_comp split: option.split)
  ultimately show ?thesis by (simp add: wanted_def target_object_label)
qed

lemma wanted_trans: "wanted h a b \<Longrightarrow> wanted h b c \<Longrightarrow> wanted h a c"
  unfolding wanted_def using map_meta_comp by metis

lemma no_verify: "\<not> ch_NeedVerify h \<Longrightarrow> verify_and_finish env h ob = retg (Some (ready_result h), None, ob)"
  by (simp add: verify_and_finish_def)

lemma create_target_run:
  assumes "create_target env h ob w = (Return (Inr (r, None, ob')), w')" "\<not> ch_NeedVerify h"
  shows "c_create env ob w = (Inr ob', w') \<and> r = Some (ready_result h)"
  using assms by (cases "c_create env ob w") (auto simp: create_target_def no_verify split: sum.splits)

lemma update_target_run:
  assumes "update_target env h want cur w = (Return (Inr (r, None, ob')), w')" "\<not> ch_NeedVerify h"
  shows "(sync_spec (ch_ResourceType h) (adopt_meta want cur) want = Return Unchanged \<and> r = None \<and> w' = w)
   \<or> (\<exists>new stored. sync_spec (ch_ResourceType h) (adopt_meta want cur) want = Return (Synced new)
        \<and> c_update env new w = (Inr stored, w') \<and> r = Some (ready_result h))"
proof -
  from assms(1) obtain s where s: "sync_spec (ch_ResourceType h) (adopt_meta want cur) want = Return s"
    unfolding update_target_def by (auto elim!: bindg_ReturnE)
  show ?thesis
  proof (cases s)
    case (Synced new)
    with assms s show ?thesis
      by (cases "c_update env new w")
        (auto simp: update_target_def no_verify split: sum.splits if_splits)
  qed (use assms s in \<open>auto simp: update_target_def\<close>)
qed

lemma handle_attempt_done:
  assumes "handle_attempt env h ob w = (Return (Inr (r, None, ob')), w')"
    and "\<not> ch_NeedVerify h" and "owner_contract env"
  shows "\<exists>want. wanted h ob want \<and> provisioned env h want w r w'"
proof -
  let ?own = "if ch_SetOwnerReferences h then set_controller_ref env (ch_ParentObject h) (target_object h ob)
          else Inr (target_object h ob)"
  from assms(1) obtain ob2 where own: "?own = Inr ob2"
    by (cases ?own) (auto simp: handle_attempt_def Let_def)
  obtain g w1 where g: "c_get env (ch_InitObject h) (ch_Namespace h) (ch_TargetName h) w = (g, w1)"
    by fastforce
  have "provisioned env h ob2 w r w'"
  proof (cases g)
    case (Inl e)
    with assms(1) own g have "create_target env h ob2 w1 = (Return (Inr (r, None, ob')), w')"
      by (simp add: handle_attempt_def Let_def)
    from create_target_run [OF this assms(2)] g Inl show ?thesis by (auto simp: provisioned_def)
  next
    case (Inr cur)
    with assms(1) own g have "update_target env h ob2 cur w1 = (Return (Inr (r, None, ob')), w')"
      by (simp add: handle_attempt_def Let_def)
    from update_target_run [OF this assms(2)] g Inr show ?thesis
      using sync_spec_Synced [of "ch_ResourceType h" "adopt_meta ob2 cur" ob2]
      unfolding provisioned_def by fastforce
  qed
  with owned_wanted [OF assms(3) own] show ?thesis by blast
qed

lemma handle_attempt_again:
  "handle_attempt env h ob w = (Return (Inl ob'), w') \<Longrightarrow>
     (if ch_SetOwnerReferences h then set_controller_ref env (ch_ParentObject h) (target_object h ob)
          else Inr (target_object h ob)) = Inr ob'"
  by (auto simp: handle_attempt_def Let_def create_target_def update_target_def
      elim!: bindg_ReturnE split: sum.splits sync.splits if_splits)

text \<open>Through the restarts: the last attempt is the one that counts.\<close>

lemma ClusterResourceHandler_done:
  assumes "ClusterResourceHandler_Handle n env h ob f w = (Return (r, None, ob'), w')"
    and "\<not> ch_NeedVerify h" and "owner_contract env"
  shows "\<exists>want w1. wanted h ob want \<and> provisioned env h want w1 r w'"
  using assms(1)
proof (induction n arbitrary: ob w)
  case 0
  then show ?case by simp
next
  case (Suc n)
  then obtain x w1 where a: "handle_attempt env h ob w = (Return x, w1)" and
    rest: "(case x of Inl ob' \<Rightarrow> ClusterResourceHandler_Handle n env h ob' f | Inr x \<Rightarrow> retg x) w1
      = (Return (r, None, ob'), w')"
    by (auto elim: bindg_ReturnE)
  show ?case
  proof (cases x)
    case (Inl ob1)
    with rest have "ClusterResourceHandler_Handle n env h ob1 f w1 = (Return (r, None, ob'), w')" by simp
    from Suc.IH [OF this] obtain want w2 where "wanted h ob1 want" "provisioned env h want w2 r w'" by blast
    moreover have "wanted h ob ob1"
      using owned_wanted [OF assms(3) handle_attempt_again] a Inl by simp
    ultimately show ?thesis using wanted_trans by blast
  next
    case (Inr y)
    with a rest have "handle_attempt env h ob w = (Return (Inr (r, None, ob')), w')" by auto
    from handle_attempt_done [OF this assms(2,3)] show ?thesis by blast
  qed
qed

section \<open>Properties\<close>

text \<open>C7: a run of the cluster resource handler without verification that reports no error has
  provisioned its target: an object of the given type under the handler's name and namespace, with the
  injected labels, was created; or one with the wanted spec was there and nothing was written; or the
  stored object was updated, from the version that was read, to the wanted labels, owners and spec.
  This holds however many conflicts made it start over.\<close>

theorem cluster_handler_provisions:
  assumes "ClusterResourceHandler_Handle n env h ob f w = (Return (r, None, ob'), w')"
    and "\<not> ch_NeedVerify h" and "owner_contract env"
  shows "\<exists>want w1. wanted h ob want \<and> provisioned env h want w1 r w'"
  using assms by (rule ClusterResourceHandler_done)

definition netpol_handler :: cluster_handler where
  "netpol_handler = \<lparr>ch_ResourceType = ResourceTypeNetPol, ch_TargetName = ''g-netpol'',
     ch_Namespace = ''ns'', ch_InjectLabels = Some (fmap_of_list [(''app'', ''robo'')]),
     ch_ParentObject = OModel sample_model, ch_InitObject = KNetworkPolicy, ch_NeedVerify = False,
     ch_TemplateName = ''np-group.yml'', ch_SetOwnerReferences = True\<rparr>"

definition plain_netpol :: "string \<Rightarrow> obj" where
  "plain_netpol rest = ONetworkPolicy \<lparr>np_meta = empty_meta\<lparr>m_name := ''g-netpol'', m_namespace := ''ns''\<rparr>,
     np_nspec = \<lparr>np_ingress = [], np_egress = [], np_rest = rest\<rparr>\<rparr>"

theorem cluster_handler_provisions_witness:
  "\<exists>want w1 w'. wanted netpol_handler (plain_netpol ''new'') want
    \<and> provisioned mem_env netpol_handler want w1 (Some (ready_result netpol_handler)) w'"
proof -
  have "ends (ClusterResourceHandler_Handle 1 mem_env netpol_handler (plain_netpol ''new'') None
      (sample_world [plain_netpol ''old'']))
    (\<lambda>(r, e, ob') w'. e = None \<and> r = Some (ready_result netpol_handler))"
    by code_simp
  then obtain ob' w' where "ClusterResourceHandler_Handle 1 mem_env netpol_handler (plain_netpol ''new'') None
      (sample_world [plain_netpol ''old'']) = (Return (Some (ready_result netpol_handler), None, ob'), w')"
    by (elim endsE) auto
  from cluster_handler_provisions [OF this _ mem_owner_contract] show ?thesis
    by (auto simp: netpol_handler_def)
qed

text \<open>An existing object whose spec is the wanted one is never written: the handler returns
  neither a result nor an error after the one read. So a change of labels, annotations or owners alone
  does not reach the cluster.\<close>

theorem equal_spec_writes_nothing:
  assumes "c_get env (ch_InitObject h) (ch_Namespace h) (ch_TargetName h) w = (Inr cur, w1)"
    and "\<not> ch_SetOwnerReferences h"
    and "sync_spec (ch_ResourceType h) (adopt_meta (target_object h ob) cur) (target_object h ob) = Return Unchanged"
  shows "ClusterResourceHandler_Handle (Suc n) env h ob f w = (Return (None, None, target_object h ob), w1)"
  using assms by (simp add: handle_attempt_def Let_def update_target_def bindg_run)

theorem equal_spec_writes_nothing_witness:
  "label_of (meta_of (target_object (netpol_handler\<lparr>ch_SetOwnerReferences := False\<rparr>) (plain_netpol ''same'')))
      ''app'' = Some ''robo''
   \<and> ClusterResourceHandler_Handle 1 mem_env (netpol_handler\<lparr>ch_SetOwnerReferences := False\<rparr>)
        (plain_netpol ''same'') None (sample_world [plain_netpol ''same''])
      = (Return (None, None, target_object (netpol_handler\<lparr>ch_SetOwnerReferences := False\<rparr>) (plain_netpol ''same'')),
         sample_world [plain_netpol ''same''])"
proof -
  let ?h = "netpol_handler\<lparr>ch_SetOwnerReferences := False\<rparr>"
  have g: "c_get mem_env (ch_InitObject ?h) (ch_Namespace ?h) (ch_TargetName ?h)
      (sample_world [plain_netpol ''same'']) = (Inr (plain_netpol ''same''), sample_world [plain_netpol ''same''])"
    by code_simp
  have s: "sync_spec (ch_ResourceType ?h) (adopt_meta (target_object ?h (plain_netpol ''same'')) (plain_netpol ''same''))
      (target_object ?h (plain_netpol ''same'')) = Return Unchanged"
    by code_simp
  have l: "label_of (meta_of (target_object ?h (plain_netpol ''same''))) ''app'' = Some ''robo''"
    by code_simp
  have "\<not> ch_SetOwnerReferences ?h" by simp
  from equal_spec_writes_nothing [OF g this s, of 0 None] l show ?thesis
    unfolding One_nat_def by blast
qed

definition conflict_budget :: "'w env \<Rightarrow> ('w \<Rightarrow> nat) \<Rightarrow> bool" where
  \<comment> \<open>an update from the version just read conflicts only finitely often: each time the budget sinks\<close>
  "conflict_budget env \<mu> \<longleftrightarrow> (\<forall>k ns n w cur w1 new e w2.
     c_get env k ns n w = (Inr cur, w1) \<and> same_key cur new
     \<and> m_resourceVersion (meta_of new) = m_resourceVersion (meta_of cur)
     \<and> c_update env new w1 = (Inl e, w2) \<and> IsConflict e \<longrightarrow> \<mu> w2 < \<mu> w)"

lemma sync_field_fuel: "sync_field proj mk get put msg a b \<noteq> NoFuel"
  by (simp add: sync_field_def split: option.split)

lemma sync_spec_fuel: "sync_spec rt a b \<noteq> NoFuel"
  by (simp add: sync_spec_def sync_field_fuel)

lemma verify_get_fuel:
  "(\<And>x. check x \<noteq> NoFuel) \<Longrightarrow> verify_get env h k proj what check w \<noteq> (NoFuel, w')"
  by (auto simp: verify_get_def bindg_run get_as_run split: sum.splits)

lemma verify_target_fuel: "verify_target env h w \<noteq> (NoFuel, w')"
proof -
  have "obind (deref p) g \<noteq> NoFuel" if "\<And>x. g x \<noteq> NoFuel" for p :: "int32 option" and g :: "int32 \<Rightarrow> gerror option outcome"
    using that by (cases p) simp_all
  then show ?thesis
    by (simp add: verify_target_def Let_def verifyDeploymentReady_def verifyPodReady_def
        verifyReplicaSetReady_def verifyStatefulSetReady_def verify_get_fuel)
qed

lemma verify_and_finish_fuel: "verify_and_finish env h ob w \<noteq> (NoFuel, w')"
  using verify_target_fuel [of env h w]
  by (auto simp: verify_and_finish_def bindg_run split: option.splits prod.splits outcome.splits)

lemma bindg_fuel:
  "fst (m w) \<noteq> NoFuel \<Longrightarrow> (\<And>x w'. fst (g x w') \<noteq> NoFuel) \<Longrightarrow> fst (bindg m g w) \<noteq> NoFuel"
  by (cases "m w"; cases "fst (m w)") (simp_all add: bindg_run)

lemma finish_fuel: "fst (bindg (verify_and_finish env h ob) (\<lambda>x. retg (Inr x)) w) \<noteq> NoFuel"
proof (rule bindg_fuel)
  show "fst (verify_and_finish env h ob w) \<noteq> NoFuel"
    using verify_and_finish_fuel [of env h ob w] by (metis prod.collapse)
qed simp

lemma create_target_fuel: "fst (create_target env h ob w) \<noteq> NoFuel"
  by (simp add: create_target_def finish_fuel split: sum.split)

lemma update_target_fuel: "fst (update_target env h ob cur w) \<noteq> NoFuel"
  unfolding update_target_def
  by (rule bindg_fuel) (auto simp: sync_spec_fuel finish_fuel split: sync.split sum.split)

lemma handle_attempt_fuel: "fst (handle_attempt env h ob w) \<noteq> NoFuel"
  unfolding handle_attempt_def Let_def
  by (simp add: create_target_fuel update_target_fuel split: sum.split)

lemma handle_attempt_conflict:
  assumes "handle_attempt env h ob w = (Return (Inl ob'), w')" and "conflict_budget env \<mu>"
  shows "\<mu> w' < \<mu> w"
proof -
  obtain g w1 where g: "c_get env (ch_InitObject h) (ch_Namespace h) (ch_TargetName h) w = (g, w1)"
    by fastforce
  note own = handle_attempt_again [OF assms(1)]
  have "\<not> create_target env h ob' w1 = (Return (Inl ob'), w')"
    by (auto simp: create_target_def elim!: bindg_ReturnE split: sum.splits)
  with assms(1) own g obtain cur where cur: "g = Inr cur" and
    u: "update_target env h ob' cur w1 = (Return (Inl ob'), w')"
    by (cases g) (auto simp: handle_attempt_def Let_def)
  from u obtain new e where new: "sync_spec (ch_ResourceType h) (adopt_meta ob' cur) ob' = Return (Synced new)"
    and e: "c_update env new w1 = (Inl e, w')" "IsConflict e"
    by (auto simp: update_target_def elim!: bindg_ReturnE split: sync.splits sum.splits if_splits)
      (metis prod.collapse)
  have "same_key cur new" "m_resourceVersion (meta_of new) = m_resourceVersion (meta_of cur)"
    using sync_spec_Synced [OF new] adopt_meta_sel [of ob' cur]
    by (simp_all add: same_key_def obj_ns_def obj_name_def)
  with g cur e assms(2) show ?thesis unfolding conflict_budget_def by blast
qed

text \<open>Verification never gates: when the readiness check fails the handler logs, sleeps ten
  seconds, and still reports that the resource is ready.\<close>

theorem failed_verification_succeeds:
  assumes "ch_NeedVerify h" and "ctx_err env w = None" and "verify_target env h w = (Return (Some e), w1)"
  shows "verify_and_finish env h ob w
    = (Return (Some (ready_result h), None, ob), c_sleep env (10 * second) w1)"
  using assms by (simp add: verify_and_finish_def bindg_run)

theorem failed_verification_succeeds_witness:
  "verify_and_finish mem_env (netpol_handler\<lparr>ch_NeedVerify := True\<rparr>) (OModel sample_model) (sample_world [])
    = (Return (Some (ready_result (netpol_handler\<lparr>ch_NeedVerify := True\<rparr>)), None, OModel sample_model),
       c_sleep mem_env (10 * second) (sample_world []))"
proof -
  let ?h = "netpol_handler\<lparr>ch_NeedVerify := True\<rparr>"
  have v: "verify_target mem_env ?h (sample_world [])
      = (Return (Some (errorf (''verification not implemented for resource type: '' @ ResourceTypeNetPol))), sample_world [])"
    by (simp add: verify_target_def netpol_handler_def robo_consts)
  show ?thesis by (rule failed_verification_succeeds [OF _ _ v]) (simp_all add: mem_env_def)
qed

text \<open>A handler that was constructed for a known resource type never finds its objects of the
  wrong type: when the existing object and the wanted one have the type of its initial object, the
  comparison of the specs neither panics nor reports a mismatch.\<close>

theorem constructed_handler_types_agree:
  assumes "NewClusterResourceHandler parent paras = Return h"
    and "kind_of cur = ch_InitObject h" and "kind_of want = ch_InitObject h"
  shows "sync_spec (ch_ResourceType h) (adopt_meta want cur) want = Return Unchanged
    \<or> (\<exists>new. sync_spec (ch_ResourceType h) (adopt_meta want cur) want = Return (Synced new)
        \<and> kind_of new = ch_InitObject h)"
proof -
  from assms(1) have e: "empty_object (ch_ResourceType h) = Return (ch_InitObject h)"
    by (auto simp: NewClusterResourceHandler_def)
  let ?rt = "ch_ResourceType h"
  obtain a where a: "a = adopt_meta want cur" and ka: "kind_of a = ch_InitObject h"
    using assms(2) by simp
  have "sync_spec ?rt a want = Return Unchanged \<or> (\<exists>new. sync_spec ?rt a want = Return (Synced new))"
    using e ka assms(3) unfolding empty_object_def
    by (cases a; cases want)
      (auto simp: sync_spec_def sync_field_def robo_consts split: if_splits)
  then show ?thesis using sync_spec_Synced ka unfolding a by metis
qed

theorem constructed_handler_types_agree_witness:
  "\<exists>h. NewClusterResourceHandler (OModel sample_model)
      \<lparr>cp_ResourceType = ResourceTypeNetPol, cp_TargetName = ''g-netpol'', cp_Namespace = ''ns'',
       cp_InjectLabels = None, cp_NeedVerify = False, cp_SetOwnerReferences = False,
       cp_Template = ''np-group.yml''\<rparr> = Return h
    \<and> (sync_spec (ch_ResourceType h) (adopt_meta (plain_netpol ''new'') (plain_netpol ''old'')) (plain_netpol ''new'')
          = Return Unchanged
      \<or> (\<exists>new. sync_spec (ch_ResourceType h) (adopt_meta (plain_netpol ''new'') (plain_netpol ''old''))
          (plain_netpol ''new'') = Return (Synced new) \<and> kind_of new = ch_InitObject h))"
proof -
  let ?p = "\<lparr>cp_ResourceType = ResourceTypeNetPol, cp_TargetName = ''g-netpol'', cp_Namespace = ''ns'',
       cp_InjectLabels = None, cp_NeedVerify = False, cp_SetOwnerReferences = False,
       cp_Template = ''np-group.yml''\<rparr>"
  obtain h where h: "NewClusterResourceHandler (OModel sample_model) ?p = Return h"
    and k: "ch_InitObject h = KNetworkPolicy"
    by (simp add: NewClusterResourceHandler_def empty_object_def robo_consts)
  have "kind_of (plain_netpol x) = ch_InitObject h" for x by (simp add: k plain_netpol_def)
  from constructed_handler_types_agree [OF h this this] h show ?thesis by blast
qed

text \<open>A role binding that exists is only ever given the wanted role reference: its subjects stay
  those of the stored object, whatever the wanted object lists.\<close>

theorem rolebinding_subjects_kept:
  "sync_spec ResourceTypeRoleBinding (ORoleBinding cur) (ORoleBinding want) =
     Return (if rb_roleRef cur = rb_roleRef want then Unchanged
       else Synced (ORoleBinding (cur\<lparr>rb_roleRef := rb_roleRef want\<rparr>)))"
  by (simp add: sync_spec_def sync_field_def robo_consts)

text \<open>A template that decodes to an object of a supported type is built into that object with the
  edit applied; groups, models, tasks and secrets are refused with the edit never run; and a nil edit
  panics exactly for the supported types.\<close>

theorem build_verdict:
  assumes "ch_TemplateName h \<noteq> []" and "read_file env (TemplatePath @ ''/'' @ ch_TemplateName h) = Inr bytes"
    and "decode_object env bytes = Inr object"
  shows "(buildable (kind_of object) \<longrightarrow>
        ClusterResourceHandler_Build env h res (Some (pure_mod g)) w = (Return (Inr (g object)), w)
      \<and> ClusterResourceHandler_Build env h res None w = (Panic nil_deref, w))
    \<and> (kind_of object \<in> {KGroup, KModel, KTask, KSecret} \<longrightarrow>
        (\<exists>e. ClusterResourceHandler_Build env h res f w = (Return (Inl e), w)))"
  using assms
  by (auto simp: ClusterResourceHandler_Build_def buildable_def call_fn_def pure_mod_def bindg_run)

definition template_env :: "obj \<Rightarrow> mem env" where
  \<comment> \<open>every template decodes to this object\<close>
  "template_env ob = mem_env\<lparr>decode_object := (\<lambda>s. Inr ob)\<rparr>"

theorem build_verdict_witness:
  "ClusterResourceHandler_Build (template_env (plain_netpol ''t'')) netpol_handler (OModel sample_model) None (sample_world [])
     = (Panic nil_deref, sample_world [])
   \<and> (\<exists>e. ClusterResourceHandler_Build (template_env (OModel sample_model)) netpol_handler (OModel sample_model) None (sample_world [])
     = (Return (Inl e), sample_world []))"
proof -
  have t: "ch_TemplateName netpol_handler \<noteq> []" by (simp add: netpol_handler_def)
  have r: "read_file (template_env ob) path = Inr path" for ob path
    by (simp add: template_env_def mem_env_def)
  have d: "decode_object (template_env ob) b = Inr ob" for ob b
    by (simp add: template_env_def)
  from build_verdict [OF t r d] build_verdict [OF t r d]
  have "buildable (kind_of (plain_netpol ''t'')) \<longrightarrow>
      ClusterResourceHandler_Build (template_env (plain_netpol ''t'')) netpol_handler (OModel sample_model) None (sample_world [])
        = (Panic nil_deref, sample_world [])"
    "kind_of (OModel sample_model) \<in> {KGroup, KModel, KTask, KSecret} \<longrightarrow>
      (\<exists>e. ClusterResourceHandler_Build (template_env (OModel sample_model)) netpol_handler (OModel sample_model) None (sample_world [])
        = (Return (Inl e), sample_world []))"
    by blast+
  then show ?thesis by (simp add: buildable_def plain_netpol_def)
qed

text \<open>C25: the restart ends: when conflicts on a version just read are bounded, one unit of fuel more
  than the bound is enough for the handler to return (or panic), and more fuel never changes what it
  returned.\<close>

theorem cluster_handler_returns:
  assumes "conflict_budget env \<mu>" and "\<mu> w < n"
  shows "fst (ClusterResourceHandler_Handle n env h ob f w) \<noteq> NoFuel
    \<and> ClusterResourceHandler_Handle (n + k) env h ob f w = ClusterResourceHandler_Handle n env h ob f w"
  using assms(2)
proof (induction n arbitrary: ob w)
  case 0
  then show ?case by simp
next
  case (Suc n)
  obtain x w1 where a: "handle_attempt env h ob w = (x, w1)" by fastforce
  with handle_attempt_fuel [of env h ob w] have "x \<noteq> NoFuel" by simp
  moreover have "fst (ClusterResourceHandler_Handle n env h ob1 f w1) \<noteq> NoFuel
      \<and> ClusterResourceHandler_Handle (n + k) env h ob1 f w1 = ClusterResourceHandler_Handle n env h ob1 f w1"
    if "x = Return (Inl ob1)" for ob1
    using Suc handle_attempt_conflict [OF _ assms(1)] a that by fastforce
  ultimately show ?case
    by (cases x) (auto simp: bindg_run a split: sum.splits)
qed

definition flaky_env :: "mem env" where
  \<comment> \<open>the sample cluster, where the first two updates lose a race\<close>
  "flaky_env = mem_env\<lparr>c_update := (\<lambda>ob w.
     if length (mem_requests w) < 2
     then (Inl err_conflict, w\<lparr>mem_requests := mem_requests w @ [([], [], None)]\<rparr>)
     else mem_update ob w)\<rparr>"

lemma flaky_budget: "conflict_budget flaky_env (\<lambda>w. 2 - length (mem_requests w))"
proof -
  have "\<not> IsConflict e"
    if "mem_get k ns n w = (Inr cur, w1)" "same_key cur new"
      "m_resourceVersion (meta_of new) = m_resourceVersion (meta_of cur)"
      "mem_update new w1 = (Inl e, w2)" for k ns n w cur w1 new e w2
  proof -
    have f: "find (mem_key k ns n) (mem_objs w) = Some cur" and w1: "w1 = w"
      using that(1) by (auto simp: mem_get_def split: option.splits)
    then have "mem_key k ns n = mem_key_of new"
      using that(2) by (auto simp: find_Some_iff mem_key_def mem_key_of_def same_key_def fun_eq_iff)
    with f w1 that(3,4) show ?thesis
      by (auto simp: mem_update_def mem_write_def Let_def split: if_splits)
  qed
  moreover have "mem_get k ns n w = (Inr cur, w1) \<Longrightarrow> w1 = w" for k ns n w cur w1
    by (auto simp: mem_get_def split: option.splits)
  ultimately have "2 - length (mem_requests w2) < 2 - length (mem_requests w)"
    if "mem_get k ns n w = (Inr cur, w1)" "same_key cur new"
      "m_resourceVersion (meta_of new) = m_resourceVersion (meta_of cur)"
      "c_update flaky_env new w1 = (Inl e, w2)" "IsConflict e" for k ns n w cur w1 new e w2
    using that by (cases "length (mem_requests w1) < 2") (fastforce simp: flaky_env_def)+
  moreover have "c_get flaky_env = mem_get" by (simp add: flaky_env_def mem_env_def)
  ultimately show ?thesis unfolding conflict_budget_def by simp blast
qed

theorem cluster_handler_returns_witness:
  "fst (ClusterResourceHandler_Handle 3 flaky_env netpol_handler (plain_netpol ''new'') None
      (sample_world [plain_netpol ''old''])) \<noteq> NoFuel
   \<and> fst (ClusterResourceHandler_Handle 2 flaky_env netpol_handler (plain_netpol ''new'') None
      (sample_world [plain_netpol ''old''])) = NoFuel"
proof -
  have "2 - length (mem_requests (sample_world [plain_netpol ''old''])) < (3 :: nat)"
    by (simp add: sample_world_def)
  moreover have "fst (ClusterResourceHandler_Handle 2 flaky_env netpol_handler (plain_netpol ''new'') None
      (sample_world [plain_netpol ''old''])) = NoFuel"
    by code_simp
  ultimately show ?thesis using cluster_handler_returns [OF flaky_budget] by blast
qed

end
