(* ===== verification/Processor.thy ===== *)
theory Processor
  imports Object_Handler Request_Handler Deletion_Handler Cluster_Resource_Handler
begin

text \<open>
  \<open>internal/controller/processor_handler.go\<close>: what every reconciler is made of. \<open>Processor\<close>
  obtains an object (the one given, a built one, or the resource itself), hands it to a handler and
  records the handler's result in the resource's status; \<open>UpdateStatus\<close> is the status write
  under a retry on conflicts; \<open>ErrorDelegateHandler\<close> turns an error into the outcome of a
  reconcile; \<open>handleFinalizer\<close> guards the deletion of a resource.

  The source works on pointers: a resource \<open>res\<close> that a call changes is returned by its model,
  and where the processed object is the resource itself the model returns the same object twice.
\<close>

section \<open>RkubeType behind client.Object\<close>

fun SetPhase :: "string \<Rightarrow> obj \<Rightarrow> obj" where
  \<comment> \<open>objects that are no \<open>RkubeType\<close> are left alone\<close>
  "SetPhase p (OEntity e) = OEntity (Entity_SetPhase p e)"
| "SetPhase p (OGroup g) = OGroup (Group_SetPhase p g)"
| "SetPhase p (OModel m) = OModel (Model_SetPhase p m)"
| "SetPhase p (OTask t) = OTask (Task_SetPhase p t)"
| "SetPhase p ob = ob"

fun AppendCondition :: "condition \<Rightarrow> obj \<Rightarrow> obj" where
  \<comment> \<open>\<open>SetConditions(append(GetConditions(), c))\<close>\<close>
  "AppendCondition c (OEntity e) = OEntity (Entity_SetConditions (Entity_GetConditions e @ [c]) e)"
| "AppendCondition c (OGroup g) = OGroup (Group_SetConditions (Group_GetConditions g @ [c]) g)"
| "AppendCondition c (OModel m) = OModel (Model_SetConditions (Model_GetConditions m @ [c]) m)"
| "AppendCondition c (OTask t) = OTask (Task_SetConditions (Task_GetConditions t @ [c]) t)"
| "AppendCondition c ob = ob"

definition is_rkube :: "obj \<Rightarrow> bool" where
  "is_rkube ob \<longleftrightarrow> kind_of ob \<in> {KEntity, KGroup, KModel, KTask}"

section \<open>Status updates\<close>

definition UpdateStatus :: "'w env \<Rightarrow> obj \<Rightarrow> 'w modfn list \<Rightarrow> ('w, gerror option \<times> obj) go" where
  "UpdateStatus env res updateFns =
     bindg (c_retry env (rmw_attempt env (c_status_update env) updateFns) res)
       (\<lambda>(err, ob). retg (map_option (wrapf ''failed to update resource, '') err, ob))"

definition updateStatusPhase :: "string \<Rightarrow> 'w modfn" where
  "updateStatusPhase phase = pure_mod (SetPhase phase)"

definition append_condition_now :: "'w env \<Rightarrow> string \<Rightarrow> string \<Rightarrow> string \<Rightarrow> 'w modfn" where
  \<comment> \<open>the clock is only read behind the type assertion\<close>
  "append_condition_now env status reason message ob =
     (if is_rkube ob
      then bindg (callg (c_now env)) (\<lambda>t. retg (AppendCondition
        \<lparr>c_type = [], c_status = status, c_lastTransitionTime = t, c_reason = reason,
         c_message = message\<rparr> ob))
      else retg ob)"

definition setErrorCondition :: "'w env \<Rightarrow> string \<Rightarrow> string \<Rightarrow> string \<Rightarrow> 'w modfn" where
  "setErrorCondition env health reason message = append_condition_now env health reason message"

definition setCondition :: "'w env \<Rightarrow> result \<Rightarrow> 'w modfn" where
  "setCondition env result =
     append_condition_now env (re_status result) (re_reason result) (re_message result)"

definition json_error_text :: string where
  "json_error_text = ''{'' @ [CHR 0x22] @ ''error'' @ [CHR 0x22] @ '': '' @ [CHR 0x22]
     @ ''Failed to parse JSON data'' @ [CHR 0x22] @ ''}''"

definition SetStatusData :: "'w env \<Rightarrow> result \<Rightarrow> 'w modfn" where
  "SetStatusData env result ob =
     (case as_entity ob of
        None \<Rightarrow> retg ob
      | Some e \<Rightarrow>
          let data = (case json_raw env (re_message result) of Inl err \<Rightarrow> json_error_text | Inr raw \<Rightarrow> raw)
          in bindg (callg (c_now env)) (\<lambda>t. retg (OEntity (e\<lparr>e_status := (e_status e)
               \<lparr>et_data := data, et_lastSyncTime := t\<rparr>\<rparr>))))"

section \<open>ErrorDelegateHandler\<close>

record ctrl_result =
  rr_Requeue :: bool
  rr_RequeueAfter :: int

definition no_requeue :: ctrl_result where
  "no_requeue = \<lparr>rr_Requeue = False, rr_RequeueAfter = 0\<rparr>"

definition requeue_after :: "int \<Rightarrow> ctrl_result" where
  "requeue_after d = \<lparr>rr_Requeue = False, rr_RequeueAfter = d\<rparr>"

definition DefaultRequeueDelay :: int where "DefaultRequeueDelay = 10 * second"
definition EntityRequeueDelay :: int where "EntityRequeueDelay = 60 * second"

type_synonym reconciled = "ctrl_result \<times> gerror option"

definition ErrorDelegateHandler :: "'w env \<Rightarrow> obj \<Rightarrow> gerror \<Rightarrow> ('w, reconciled \<times> obj) go" where
  \<comment> \<open>the deferred status update runs after the switch has chosen what to return\<close>
  "ErrorDelegateHandler env res err =
     (let ret = (if IsNotFound err then (no_requeue, None)
                 else if IsConflict err then (requeue_after DefaultRequeueDelay, Some err)
                 else (no_requeue, None))
      in bindg (UpdateStatus env res
             [updateStatusPhase StatusFailed, setErrorCondition env ''Failed'' ''Errored'' (err_msg err)])
           (\<lambda>(updateErr, res'). retg (ret, res')))"

section \<open>Processor\<close>

type_synonym 'w buildfn = "obj \<Rightarrow> 'w modfn option \<Rightarrow> ('w, gerror + obj) go"

definition maybe_edit :: "'w modfn option \<Rightarrow> 'w modfn" where
  "maybe_edit f ob = (case f of None \<Rightarrow> retg ob | Some g \<Rightarrow> g ob)"

definition process :: "'w env \<Rightarrow> obj \<Rightarrow> bool \<Rightarrow> obj \<Rightarrow> 'w modfn option \<Rightarrow> 'w procfn \<Rightarrow>
    (result \<Rightarrow> 'w modfn) option \<Rightarrow> ('w, (result option \<times> gerror option) \<times> obj \<times> obj option) go" where
  \<comment> \<open>from the handler on; \<open>same\<close>: the object is the resource itself\<close>
  "process env res same ob f procFn updateFn =
     bindg (procFn ob f) (\<lambda>(result, err, ob').
       let res1 = (if same then ob' else res) in
       case err of
         Some e \<Rightarrow> retg ((None, Some e), res1, Some ob')
       | None \<Rightarrow> (case (result, updateFn) of
           (Some r, Some u) \<Rightarrow>
             bindg (UpdateStatus env res1 [u r]) (\<lambda>(uerr, res2).
               let ob2 = (if same then res2 else ob') in
               case uerr of
                 Some e \<Rightarrow> retg ((None, Some (wrapf ''failed to update status: '' e)), res2, Some ob2)
               | None \<Rightarrow> retg ((Some r, None), res2, Some ob2))
         | _ \<Rightarrow> retg ((result, None), res1, Some ob')))"

definition Processor :: "'w env \<Rightarrow> obj \<Rightarrow> obj option \<Rightarrow> 'w buildfn option \<Rightarrow> 'w modfn option \<Rightarrow> 'w procfn \<Rightarrow>
    (result \<Rightarrow> 'w modfn) option \<Rightarrow> ('w, (result option \<times> gerror option) \<times> obj \<times> obj option) go" where
  \<comment> \<open>result and error, the resource, and the object that was processed\<close>
  "Processor env res ob buildFn f procFn updateFn =
     (case ob of
        Some ob0 \<Rightarrow> bindg (maybe_edit f ob0) (\<lambda>ob1. process env res False ob1 f procFn updateFn)
      | None \<Rightarrow> (case buildFn of
          Some build \<Rightarrow> bindg (build res f) (\<lambda>b. case b of
            Inl err \<Rightarrow> retg ((None, Some err), res, None)
          | Inr ob1 \<Rightarrow> process env res False ob1 f procFn updateFn)
        | None \<Rightarrow> bindg (maybe_edit f res) (\<lambda>ob1. process env ob1 True ob1 f procFn updateFn)))"

section \<open>handleFinalizer\<close>

definition finalize :: "'w env \<Rightarrow> obj \<Rightarrow> string \<Rightarrow> ('w, reconciled \<times> obj) go" where
  \<comment> \<open>the second half: the object has the finalizer and may be on its way out\<close>
  "finalize env res finalizer =
     (if m_deletionTimestamp (meta_of res) = None then retg ((no_requeue, None), res)
      else bindg (UpdateStatus env res [updateStatusPhase ''Deleting'']) (\<lambda>(err, res1). case err of
        Some e \<Rightarrow> ErrorDelegateHandler env res1 (wrapf ''failed to set resource to Processing state, '' e)
      | None \<Rightarrow> bindg (DeletionHandler_Handle env res1 None) (\<lambda>(_, derr, res2). case derr of
          Some e \<Rightarrow> retg ((no_requeue, Some e), res2)
        | None \<Rightarrow>
            if contains_finalizer env res2 finalizer then
              let res3 = remove_finalizer env finalizer res2 in
              bindg (callg (c_update env res3)) (\<lambda>u. case u of
                Inl e \<Rightarrow> ErrorDelegateHandler env res3 (wrapf ''failed to remove finalizer, '' e)
              | Inr res4 \<Rightarrow> retg ((no_requeue, None), res4))
            else retg ((no_requeue, None), res2))))"

definition handleFinalizer :: "'w env \<Rightarrow> obj \<Rightarrow> string \<Rightarrow> ('w, reconciled \<times> obj) go" where
  "handleFinalizer env res finalizer =
     (if \<not> contains_finalizer env res finalizer then
        let res1 = add_finalizer env finalizer res in
        bindg (callg (c_update env res1)) (\<lambda>u. case u of
          Inl e \<Rightarrow> ErrorDelegateHandler env res1 (wrapf ''failed to add finalizer, '' e)
        | Inr res2 \<Rightarrow> finalize env res2 finalizer)
      else finalize env res finalizer)"

section \<open>Facts\<close>

fun phase_of :: "obj \<Rightarrow> string option" where
  "phase_of (OEntity e) = Some (Entity_GetPhase e)"
| "phase_of (OGroup g) = Some (Group_GetPhase g)"
| "phase_of (OModel m) = Some (Model_GetPhase m)"
| "phase_of (OTask t) = Some (Task_GetPhase t)"
| "phase_of _ = None"

fun conditions_of :: "obj \<Rightarrow> condition list" where
  "conditions_of (OEntity e) = Entity_GetConditions e"
| "conditions_of (OGroup g) = Group_GetConditions g"
| "conditions_of (OModel m) = Model_GetConditions m"
| "conditions_of (OTask t) = Task_GetConditions t"
| "conditions_of _ = []"

fun settled_obj :: "obj \<Rightarrow> bool" where
  \<comment> \<open>the reconcilers' test for work that is done\<close>
  "settled_obj (OEntity e) = entity_rk.settled e"
| "settled_obj (OGroup g) = group_rk.settled g"
| "settled_obj (OModel m) = model_rk.settled m"
| "settled_obj (OTask t) = task_rk.settled t"
| "settled_obj _ = False"

lemma SetPhase_meta [simp]: "meta_of (SetPhase p ob) = meta_of ob" "kind_of (SetPhase p ob) = kind_of ob"
  by (cases ob; simp)+

lemma AppendCondition_meta [simp]:
  "meta_of (AppendCondition c ob) = meta_of ob" "kind_of (AppendCondition c ob) = kind_of ob"
  by (cases ob; simp)+

lemma phase_of_SetPhase: "is_rkube ob \<Longrightarrow> phase_of (SetPhase p ob) = Some p"
  by (cases ob) (simp_all add: is_rkube_def entity_rk.get_set_phase group_rk.get_set_phase
      model_rk.get_set_phase task_rk.get_set_phase)

lemma phase_of_AppendCondition [simp]: "phase_of (AppendCondition c ob) = phase_of ob"
  by (cases ob) (simp_all add: entity_rk.phase_set_conditions group_rk.phase_set_conditions
      model_rk.phase_set_conditions task_rk.phase_set_conditions)

lemma conditions_of_SetPhase [simp]: "conditions_of (SetPhase p ob) = conditions_of ob"
  by (cases ob) (simp_all add: entity_rk.conditions_set_phase group_rk.conditions_set_phase
      model_rk.conditions_set_phase task_rk.conditions_set_phase)

lemma conditions_of_AppendCondition:
  "is_rkube ob \<Longrightarrow> conditions_of (AppendCondition c ob) = conditions_of ob @ [c]"
  by (cases ob) (simp_all add: is_rkube_def entity_rk.get_set_conditions group_rk.get_set_conditions
      model_rk.get_set_conditions task_rk.get_set_conditions)

lemma settled_SetPhase: "is_rkube ob \<Longrightarrow> settled_obj (SetPhase p ob) \<longleftrightarrow> p = StatusProvisioned"
  by (cases ob) (simp_all add: is_rkube_def entity_rk.settled_set_phase group_rk.settled_set_phase
      model_rk.settled_set_phase task_rk.settled_set_phase)

lemma is_rkube_SetPhase [simp]: "is_rkube (SetPhase p ob) = is_rkube ob"
  by (simp add: is_rkube_def)

lemma keeps_key_meta: "(\<And>ob w ob' w'. f ob w = (Return ob', w') \<Longrightarrow>
     meta_of ob' = meta_of ob \<and> kind_of ob' = kind_of ob) \<Longrightarrow> keeps_key f"
  by (fastforce simp: keeps_key_def same_key_def obj_ns_def obj_name_def)

lemma keeps_key_updateStatusPhase [intro, simp]: "keeps_key (updateStatusPhase p)"
  by (rule keeps_key_meta) (auto simp: updateStatusPhase_def pure_mod_def)

lemma append_condition_now_run:
  "append_condition_now env st re msg ob w =
     (if is_rkube ob then (Return (AppendCondition \<lparr>c_type = [], c_status = st,
        c_lastTransitionTime = fst (c_now env w), c_reason = re, c_message = msg\<rparr> ob), snd (c_now env w))
      else (Return ob, w))"
  by (simp add: append_condition_now_def)

lemma keeps_key_append_condition [intro, simp]: "keeps_key (append_condition_now env st re msg)"
  by (rule keeps_key_meta) (auto simp: append_condition_now_run split: if_splits)

lemma keeps_key_conditions [intro, simp]:
  "keeps_key (setCondition env r)" "keeps_key (setErrorCondition env h re msg)"
  by (simp_all add: setCondition_def setErrorCondition_def)

lemma keeps_key_SetStatusData [intro, simp]: "keeps_key (SetStatusData env r)"
  by (rule keeps_key_meta) (auto simp: SetStatusData_def Let_def split: option.splits dest!: as_SomeD)

lemma UpdateStatus_spec:
  assumes "retry_contract env" "get_contract env" "write_contract (c_status_update env)"
    and "\<And>f. f \<in> set fns \<Longrightarrow> keeps_key f"
    and "UpdateStatus env res fns w = (Return (e, ob'), w')"
  shows "same_key res ob' \<and> (e = None \<longrightarrow> wrote env (c_status_update env) fns res ob' w')"
proof -
  from assms(5) obtain e1 where
    "c_retry env (rmw_attempt env (c_status_update env) fns) res w = (Return (e1, ob'), w')"
    "e = map_option (wrapf ''failed to update resource, '') e1"
    unfolding UpdateStatus_def by (auto elim!: bindg_ReturnE)
  with retry_rmw [OF assms(1-4)] show ?thesis by auto
qed

lemma get_is_rkube:
  "get_contract env \<Longrightarrow> c_get env (kind_of res) ns n w = (Inr cur, w') \<Longrightarrow> is_rkube res \<Longrightarrow> is_rkube cur"
  unfolding get_contract_def is_rkube_def by metis

text \<open>Through any handler, a condition that \<open>Processor\<close> records says Success.\<close>

context handler
begin

lemma processor_records_success:
  assumes "retry_contract env" "get_contract env" "write_contract (c_status_update env)"
    and "Processor env res ob build f handle (Some (setCondition env)) w = (Return ((Some r, None), res', ob'), w')"
  shows "re_status r = ''Success''
    \<and> (\<exists>res1. (ob \<noteq> None \<or> build \<noteq> None \<longrightarrow> res1 = res)
        \<and> wrote env (c_status_update env) [setCondition env r] res1 res' w')"
proof -
  have step: "re_status r = ''Success''
      \<and> (\<exists>res1. (same \<or> res1 = r0) \<and> wrote env (c_status_update env) [setCondition env r] res1 res' w')"
    if run: "process env r0 same ob0 f handle (Some (setCondition env)) v = (Return ((Some r, None), res', ob'), w')"
    for r0 same ob0 v
  proof -
    from run obtain r1 e ob1 w1 where h: "handle ob0 f v = (Return (r1, e, ob1), w1)" and
      rest: "(let res1 = if same then ob1 else r0 in case e of
           Some e \<Rightarrow> retg ((None, Some e), res1, Some ob1)
         | None \<Rightarrow> (case (r1, Some (setCondition env)) of
             (Some r, Some u) \<Rightarrow> bindg (UpdateStatus env res1 [u r]) (\<lambda>(uerr, res2).
               let ob2 = (if same then res2 else ob1) in
               case uerr of
                 Some e \<Rightarrow> retg ((None, Some (wrapf ''failed to update status: '' e)), res2, Some ob2)
               | None \<Rightarrow> retg ((Some r, None), res2, Some ob2))
           | _ \<Rightarrow> retg ((r1, None), res1, Some ob1))) w1 = (Return ((Some r, None), res', ob'), w')"
      unfolding process_def by (auto elim!: bindg_ReturnE)
    from rest have e: "e = None" and r1: "r1 = Some r"
      by (auto simp: Let_def elim!: bindg_ReturnE split: option.splits)
    from rest e r1 have "UpdateStatus env (if same then ob1 else r0) [setCondition env r] w1
        = (Return (None, res'), w')"
      by (auto simp: Let_def elim!: bindg_ReturnE split: option.splits)
    from UpdateStatus_spec [OF assms(1-3) _ this] success_status [of ob0 f v r ob1 w1] h e r1
    show ?thesis by (auto split: if_splits)
  qed
  show ?thesis
  proof (cases ob)
    case (Some ob0)
    with assms(4) obtain ob1 v where
      "process env res False ob1 f handle (Some (setCondition env)) v = (Return ((Some r, None), res', ob'), w')"
      by (auto simp: Processor_def elim!: bindg_ReturnE)
    from step [OF this] Some show ?thesis by auto
  next
    case None
    show ?thesis
    proof (cases build)
      case None
      with \<open>ob = None\<close> assms(4) obtain ob1 v where
        "process env ob1 True ob1 f handle (Some (setCondition env)) v = (Return ((Some r, None), res', ob'), w')"
        by (auto simp: Processor_def elim!: bindg_ReturnE)
      from step [OF this] None \<open>ob = None\<close> show ?thesis by auto
    next
      case (Some b)
      with \<open>ob = None\<close> assms(4) obtain ob1 v where
        "process env res False ob1 f handle (Some (setCondition env)) v = (Return ((Some r, None), res', ob'), w')"
        by (auto simp: Processor_def elim!: bindg_ReturnE split: sum.splits)
      from step [OF this] Some show ?thesis by auto
    qed
  qed
qed

end

section \<open>Properties\<close>



abbreviation failure_edits :: "'w env \<Rightarrow> gerror \<Rightarrow> 'w modfn list" where
  "failure_edits env err \<equiv> [updateStatusPhase StatusFailed, setErrorCondition env ''Failed'' ''Errored'' (err_msg err)]"

lemma ErrorDelegateHandler_ReturnE:
  assumes "ErrorDelegateHandler env res err w = (Return (ret, res'), w')"
  obtains uerr where "UpdateStatus env res (failure_edits env err) w = (Return (uerr, res'), w')"
    "ret = (if IsConflict err then (requeue_after (10 * second), Some err) else (no_requeue, None))"
  using assms by (auto simp: ErrorDelegateHandler_def Let_def DefaultRequeueDelay_def NotFound_not_Conflict
      elim!: bindg_ReturnE)

lemma failure_written:
  assumes "retry_contract env" "get_contract env" "write_contract (c_status_update env)" "is_rkube res"
    and "UpdateStatus env res (failure_edits env err) w = (Return (None, res'), w')"
  obtains w1 cur w2 c v where "c_get env (kind_of res) (obj_ns res) (obj_name res) w1 = (Inr cur, w2)" "is_rkube cur"
    "c_status c = ''Failed''" "c_message c = err_msg err"
    "c_status_update env (AppendCondition c (SetPhase StatusFailed cur)) v = (Inr res', w')"
proof -
  have "wrote env (c_status_update env) (failure_edits env err) res res' w'"
    using UpdateStatus_spec [OF assms(1-3) _ assms(5)] by auto
  then obtain w1 cur w2 where g: "c_get env (kind_of res) (obj_ns res) (obj_name res) w1 = (Inr cur, w2)"
    and wr: "\<exists>ob v. apply_all (failure_edits env err) cur w2 = (Return ob, v) \<and> c_status_update env ob v = (Inr res', w')"
    by (auto simp: wrote_def)
  have k: "is_rkube cur" using get_is_rkube [OF assms(2) g assms(4)] .
  from wr k have "c_status_update env (AppendCondition \<lparr>c_type = [], c_status = ''Failed'',
      c_lastTransitionTime = fst (c_now env w2), c_reason = ''Errored'', c_message = err_msg err\<rparr>
      (SetPhase StatusFailed cur)) (snd (c_now env w2)) = (Inr res', w')"
    by (auto simp: updateStatusPhase_def pure_mod_def setErrorCondition_def append_condition_now_run
        elim!: bindg_ReturnE)
  from that [OF g k _ _ this] show thesis by simp
qed

text \<open>The outcome of a failed reconcile depends on the error alone: a conflict is requeued after
  ten seconds and reported, every other error, also one that is not found, ends the reconcile without
  a requeue and without an error. When the status could be written, the object that was stored last is
  unsettled, in the failed phase, with one more condition that carries the error's text.\<close>

theorem error_delegate_outcome:
  assumes "retry_contract env" "get_contract env" "write_contract (c_status_update env)"
    and "ErrorDelegateHandler env res err w = (Return (ret, res'), w')" and "is_rkube res"
  shows "ret = (if IsConflict err then (requeue_after (10 * second), Some err) else (no_requeue, None))
    \<and> (\<exists>uerr. UpdateStatus env res [updateStatusPhase StatusFailed,
            setErrorCondition env ''Failed'' ''Errored'' (err_msg err)] w = (Return (uerr, res'), w')
        \<and> (uerr = None \<longrightarrow> (\<exists>cur written v. c_status_update env written v = (Inr res', w')
            \<and> phase_of written = Some StatusFailed \<and> \<not> settled_obj written
            \<and> (\<exists>c. conditions_of written = conditions_of cur @ [c] \<and> c_status c = ''Failed''
                  \<and> c_message c = err_msg err))))"
proof -
  from ErrorDelegateHandler_ReturnE [OF assms(4)] obtain uerr where
    u: "UpdateStatus env res (failure_edits env err) w = (Return (uerr, res'), w')" and
    ret: "ret = (if IsConflict err then (requeue_after (10 * second), Some err) else (no_requeue, None))" .
  have "\<exists>cur written v. c_status_update env written v = (Inr res', w')
            \<and> phase_of written = Some StatusFailed \<and> \<not> settled_obj written
            \<and> (\<exists>c. conditions_of written = conditions_of cur @ [c] \<and> c_status c = ''Failed''
                  \<and> c_message c = err_msg err)" if "uerr = None"
  proof -
    from failure_written [OF assms(1-3,5) u [unfolded that]] obtain w1 cur w2 c v where k: "is_rkube cur" and
      c: "c_status c = ''Failed''" "c_message c = err_msg err" and
      up: "c_status_update env (AppendCondition c (SetPhase StatusFailed cur)) v = (Inr res', w')" .
    let ?ob = "AppendCondition c (SetPhase StatusFailed cur)"
    have "phase_of ?ob = Some StatusFailed" using k by (simp add: phase_of_SetPhase)
    moreover have "\<not> settled_obj ?ob"
      using k by (cases cur) (auto simp: is_rkube_def entity_rk.settled_def group_rk.settled_def
          model_rk.settled_def task_rk.settled_def entity_accessors group_accessors model_accessors
          task_accessors Let_def robo_consts)
    moreover have "conditions_of ?ob = conditions_of cur @ [c]"
      using k by (simp add: conditions_of_AppendCondition)
    ultimately show ?thesis using up c by blast
  qed
  with u ret show ?thesis by blast
qed

theorem error_delegate_outcome_witness:
  "\<exists>res' w'. ErrorDelegateHandler mem_env (OModel sample_model) err_conflict (sample_world [OModel sample_model])
      = (Return ((requeue_after (10 * second), Some err_conflict), res'), w')
    \<and> ErrorDelegateHandler mem_env (OModel sample_model) err_not_found (sample_world [])
      = (Return ((no_requeue, None), OModel sample_model), sample_world [])"
proof -
  have k: "is_rkube (OModel sample_model)" by (simp add: is_rkube_def)
  note out = error_delegate_outcome [OF mem_retry_contract mem_get_contract mem_write_contracts(2) _ k]
  have "ends (ErrorDelegateHandler mem_env (OModel sample_model) err_conflict (sample_world [OModel sample_model]))
      (\<lambda>x w'. True)"
    by code_simp
  then obtain ret res' w' where run: "ErrorDelegateHandler mem_env (OModel sample_model) err_conflict
      (sample_world [OModel sample_model]) = (Return (ret, res'), w')"
    by (elim endsE) auto
  have run2: "ErrorDelegateHandler mem_env (OModel sample_model) err_not_found (sample_world [])
      = (Return ((no_requeue, None), OModel sample_model), sample_world [])"
    by code_simp
  have "IsConflict err_conflict" by (simp add: IsConflict_def err_conflict_def)
  with out [OF run] run run2 show ?thesis by auto
qed

text \<open>\<open>Processor\<close> never records a failure as a condition: when it provisions an object through the
  cluster resource handler and records the result, the condition it appends to the stored resource
  says Success.\<close>

theorem processor_records_only_success:
  assumes "retry_contract env" "get_contract env" "write_contract (c_status_update env)" "is_rkube res"
    and "Processor env res None (Some (ClusterResourceHandler_Build env h)) f
      (ClusterResourceHandler_Handle n env h) (Some (setCondition env)) w
      = (Return ((Some r, None), res', ob'), w')"
  shows "re_status r = ''Success'' \<and> (\<exists>cur written v c. c_status_update env written v = (Inr res', w')
    \<and> conditions_of written = conditions_of cur @ [c] \<and> c_status c = ''Success''
    \<and> c_reason c = re_reason r \<and> phase_of written = phase_of cur)"
proof -
  from cluster_handler.processor_records_success [OF assms(1-3,5)]
  have st: "re_status r = ''Success''" and wr: "wrote env (c_status_update env) [setCondition env r] res res' w'"
    by auto
  then obtain w1 cur w2 ob v where g: "c_get env (kind_of res) (obj_ns res) (obj_name res) w1 = (Inr cur, w2)"
    and a: "setCondition env r cur w2 = (Return ob, v)" and u: "c_status_update env ob v = (Inr res', w')"
    by (auto simp: wrote_def elim!: bindg_ReturnE)
  have "is_rkube cur" using get_is_rkube [OF assms(2) g assms(4)] .
  with a have "ob = AppendCondition \<lparr>c_type = [], c_status = re_status r,
      c_lastTransitionTime = fst (c_now env w2), c_reason = re_reason r, c_message = re_message r\<rparr> cur"
    by (simp add: setCondition_def append_condition_now_run)
  with st u \<open>is_rkube cur\<close> show ?thesis
    by (intro conjI exI [of _ cur] exI [of _ ob] exI [of _ v] exI) (auto simp: conditions_of_AppendCondition)
qed

theorem processor_records_only_success_witness:
  "\<exists>cur written v c res' w'. c_status_update (template_env (plain_netpol ''new'')) written v = (Inr res', w')
    \<and> conditions_of written = conditions_of cur @ [c] \<and> c_status c = ''Success''
    \<and> c_reason c = ''provision successfuly''"
proof -
  let ?env = "template_env (plain_netpol ''new'')"
  let ?w = "sample_world [OModel sample_model]"
  have "ends (Processor ?env (OModel sample_model) None (Some (ClusterResourceHandler_Build ?env netpol_handler))
      (Some (pure_mod (\<lambda>ob. ob))) (ClusterResourceHandler_Handle 1 ?env netpol_handler)
      (Some (setCondition ?env)) ?w)
    (\<lambda>((r, e), res', ob') w'. r = Some (ready_result netpol_handler) \<and> e = None)"
    by code_simp
  then obtain res' ob' w' where run: "Processor ?env (OModel sample_model) None
      (Some (ClusterResourceHandler_Build ?env netpol_handler))
      (Some (pure_mod (\<lambda>ob. ob))) (ClusterResourceHandler_Handle 1 ?env netpol_handler)
      (Some (setCondition ?env)) ?w
      = (Return ((Some (ready_result netpol_handler), None), res', ob'), w')"
    by (elim endsE) auto
  have e: "c_retry ?env = c_retry mem_env" "c_get ?env = c_get mem_env"
    "c_status_update ?env = c_status_update mem_env"
    by (simp_all add: template_env_def)
  have c: "retry_contract ?env" "get_contract ?env" "write_contract (c_status_update ?env)"
    using mem_retry_contract mem_get_contract mem_write_contracts(2)
    unfolding retry_contract_def get_contract_def e by simp_all
  have "is_rkube (OModel sample_model)" by (simp add: is_rkube_def)
  from processor_records_only_success [OF c this run] show ?thesis
    by (simp add: ready_result_def) blast
qed


definition dying_group :: group where
  "dying_group = sample_dgroup\<lparr>g_meta := (sample_meta ''g'')
     \<lparr>m_finalizers := [''robokube.io/finalizer''], m_deletionTimestamp := Some 1\<rparr>\<rparr>"


text \<open>A resource without the finalizer gets it before anything else happens to it: the first call
  writes the resource with the finalizer appended. When that write fails, the resource is marked
  failed instead, and no clean-up is run.\<close>

theorem finalizer_added_first:
  assumes "finalizer_contract env" and "fin \<notin> set (m_finalizers (meta_of res))"
    and "res1 = map_meta (\<lambda>m. m\<lparr>m_finalizers := m_finalizers m @ [fin]\<rparr>) res"
  shows "handleFinalizer env res fin w = (case c_update env res1 w of
      (Inr res2, w2) \<Rightarrow> finalize env res2 fin w2
    | (Inl e, w2) \<Rightarrow> ErrorDelegateHandler env res1 (wrapf ''failed to add finalizer, '' e) w2)"
  using assms
  by (auto simp: handleFinalizer_def finalizer_contract_def Let_def bindg_run split: prod.split sum.split)

theorem finalizer_added_first_witness:
  "\<exists>res2 w2. handleFinalizer mem_env (OModel sample_model) ''robokube.io/finalizer''
      (sample_world [OModel sample_model]) = (Return ((no_requeue, None), res2), w2)
    \<and> ''robokube.io/finalizer'' \<in> set (m_finalizers (meta_of res2))"
proof -
  let ?r = "map_meta (\<lambda>m. m\<lparr>m_finalizers := m_finalizers m @ [''robokube.io/finalizer'']\<rparr>) (OModel sample_model)"
  have "''robokube.io/finalizer'' \<notin> set (m_finalizers (meta_of (OModel sample_model)))"
    by (simp add: sample_defs)
  note eq = finalizer_added_first [OF mem_finalizer_contract this refl]
  have "case c_update mem_env ?r (sample_world [OModel sample_model]) of
      (Inr res2, w2) \<Rightarrow> m_deletionTimestamp (meta_of res2) = None
        \<and> ''robokube.io/finalizer'' \<in> set (m_finalizers (meta_of res2))
    | _ \<Rightarrow> False"
    by code_simp
  then show ?thesis by (auto simp: eq finalize_def split: prod.splits sum.splits)
qed

text \<open>\<open>handleFinalizer\<close> never asks for an immediate requeue. The reconcilers stop after it
  only on an error or such a requeue, so after a clean-up that succeeded, and after a failed finalizer
  write that is no conflict, they go on with the resource.\<close>

theorem finalizer_never_stops_reconcile:
  assumes "handleFinalizer env res fin w = (Return ((r, e), res'), w')"
  shows "\<not> rr_Requeue r"
  using assms
  by (auto simp: handleFinalizer_def finalize_def Let_def ErrorDelegateHandler_def no_requeue_def
      requeue_after_def elim!: bindg_ReturnE split: if_splits option.splits sum.splits prod.splits)

theorem finalizer_never_stops_reconcile_witness:
  "\<exists>r e res2 w2. handleFinalizer mem_env (OGroup dying_group) ''robokube.io/finalizer''
      (sample_world [OGroup dying_group, ONetworkPolicy sample_netpol]) = (Return ((r, e), res2), w2)
    \<and> e = None \<and> \<not> rr_Requeue r"
proof -
  have "ends (handleFinalizer mem_env (OGroup dying_group) ''robokube.io/finalizer''
      (sample_world [OGroup dying_group, ONetworkPolicy sample_netpol])) (\<lambda>((r, e), res2) w2. e = None)"
    by code_simp
  then obtain r res2 w2 where run: "handleFinalizer mem_env (OGroup dying_group) ''robokube.io/finalizer''
      (sample_world [OGroup dying_group, ONetworkPolicy sample_netpol]) = (Return ((r, None), res2), w2)"
    by (elim endsE) auto
  from finalizer_never_stops_reconcile [OF run] run show ?thesis by blast
qed

end
