(* ===== verification/Group_Controller.thy ===== *)
theory Group_Controller
  imports Processor
begin

text \<open>
  \<open>internal/controller/group_controller.go\<close>: the reconciler of groups. A group owns a network
  policy that selects on its label; its targets are resolved to entities, whose labels (and whose
  pods' labels) are edited through the object handler. \<open>GetEntityListForTarget\<close> is shared with
  the task controller.
\<close>

section \<open>BuildNp\<close>

definition finalizer :: string where "finalizer = ''robokube.meliazeng.github.io/finalizer''"

definition set_peer_key :: "string \<Rightarrow> np_rule \<Rightarrow> np_rule outcome" where
  \<comment> \<open>the key of the first expression of the first peer, when it has a pod selector\<close>
  "set_peer_key key rule =
     (case ru_peers rule of
        [] \<Rightarrow> Return rule
      | peer # peers \<Rightarrow> (case pe_podSelector peer of
          None \<Rightarrow> Return rule
        | Some [] \<Rightarrow> Panic index_out_of_range
        | Some (ex # exprs) \<Rightarrow> Return (rule\<lparr>ru_peers :=
            peer\<lparr>pe_podSelector := Some (ex\<lparr>ne_key := key\<rparr> # exprs)\<rparr> # peers\<rparr>)))"

primrec map_rules :: "(np_rule \<Rightarrow> np_rule outcome) \<Rightarrow> np_rule list \<Rightarrow> np_rule list outcome" where
  \<comment> \<open>\<open>for i := range rules\<close>, editing in place\<close>
  "map_rules f [] = Return []"
| "map_rules f (r # rs) = obind (f r) (\<lambda>r'. obind (map_rules f rs) (\<lambda>rs'. Return (r' # rs')))"

definition BuildNp :: "string \<Rightarrow> string \<Rightarrow> obj \<Rightarrow> obj outcome" where
  "BuildNp key val ob =
     (case as_networkpolicy ob of
        None \<Rightarrow> Panic bad_assertion
      | Some target \<Rightarrow>
          obind (map_rules (set_peer_key key) (np_egress (np_nspec target))) (\<lambda>egress.
          obind (map_rules (set_peer_key key) (np_ingress (np_nspec target))) (\<lambda>ingress.
            Return (ONetworkPolicy (target\<lparr>np_nspec := (np_nspec target)
              \<lparr>np_egress := egress, np_ingress := ingress\<rparr>\<rparr>)))))"

definition lift_mod :: "(obj \<Rightarrow> obj outcome) \<Rightarrow> 'w modfn" where
  \<comment> \<open>an edit that may panic\<close>
  "lift_mod f ob = pureg (f ob)"

section \<open>GetEntityListForTarget\<close>

definition list_labelled :: "'w env \<Rightarrow> string \<Rightarrow> string \<Rightarrow> ('w, gerror + entity list) go" where
  \<comment> \<open>parse the label key as a selector and list\<close>
  "list_labelled env ns key =
     (case parse_selector env key of
        Inl err \<Rightarrow> retg (Inl (errorf ''failed to create label selector''))
      | Inr labelSelector \<Rightarrow>
          bindg (list_as env KEntity as_entity ns labelSelector) (\<lambda>r. retg (case r of
            Inl err \<Rightarrow> Inl (wrapf ''failed to list entities: '' err)
          | Inr items \<Rightarrow> Inr items)))"

definition GetEntityListForTarget ::
  "'w env \<Rightarrow> string \<Rightarrow> target_ref \<Rightarrow> ('w, gerror + entity list) go" where
  "GetEntityListForTarget env ns lastTarget =
     (if tr_type lastTarget = TargetTypeEntity then
        bindg (get_as env KEntity as_entity ns (tr_name lastTarget)) (\<lambda>r. retg (case r of
          Inl err \<Rightarrow> Inl (wrapf ''failed to get entity: '' err)
        | Inr e \<Rightarrow> Inr [e]))
      else if tr_type lastTarget = TargetTypeGroup then
        list_labelled env ns (RoboKubeGroupKey @ tr_name lastTarget)
      else if tr_type lastTarget = TargetTypeModel then
        list_labelled env ns (RoboKubeIndexKey @ tr_name lastTarget)
      else retg (Inl (errorf (''unsupported target type: '' @ tr_type lastTarget))))"

section \<open>updateLabelsForEntities\<close>

definition label_processor :: object_handler where
  "label_processor = NewObjectHandler None
     \<lparr>op_ResourceType = ResourceTypeEntity, op_Action = ''Update Label'', op_IsDelete = False\<rparr>"

definition label_edit :: "string \<Rightarrow> entity \<Rightarrow> target_ref \<Rightarrow> 'w modfn" where
  "label_edit name entity lastTarget =
     pure_mod (map_meta (BuildLabelObj (RoboKubeGroupKey @ name) (es_identity (e_spec entity))
       (tr_action lastTarget)))"

definition obj_entity :: "obj option \<Rightarrow> entity \<Rightarrow> entity" where
  \<comment> \<open>the list item, as the processor left it\<close>
  "obj_entity ob e = (case ob of Some (OEntity e') \<Rightarrow> e' | _ \<Rightarrow> e)"

definition label_entity ::
  "'w env \<Rightarrow> obj \<Rightarrow> entity \<Rightarrow> target_ref \<Rightarrow> ('w, gerror option \<times> obj) go" where
  \<comment> \<open>the body of the loop: the entity, then its pod\<close>
  "label_entity env res entity lastTarget =
     bindg (Processor env res (Some (OEntity entity)) None (Some (label_edit (obj_name res) entity lastTarget))
         (ObjectHandler_Handle env label_processor) (Some (setCondition env))) (\<lambda>((_, err), res1, ob).
     case err of
       Some e \<Rightarrow> retg (Some (wrapf ''failed to update label on entity: '' e), res1)
     | None \<Rightarrow>
         let entity1 = obj_entity ob entity in
         if Entity_GetPhase entity1 \<noteq> StatusProvisioned then retg (None, res1)
         else bindg (callg (c_get env KPod (m_namespace (e_meta entity1)) (et_podName (e_status entity1)))) (\<lambda>r.
           case r of
             Inl e \<Rightarrow> retg (Some (wrapf ''failed to get pod: '' e), res1)
           | Inr pod \<Rightarrow>
               bindg (Processor env res1 (Some pod) None (Some (label_edit (obj_name res1) entity1 lastTarget))
                   (ObjectHandler_Handle env label_processor) (Some (setCondition env))) (\<lambda>((_, err2), res2, _).
               case err2 of
                 Some e \<Rightarrow> retg (Some (wrapf ''failed to update label on pod: '' e), res2)
               | None \<Rightarrow> retg (None, res2))))"

primrec updateLabelsForEntities ::
  "'w env \<Rightarrow> obj \<Rightarrow> entity list \<Rightarrow> target_ref \<Rightarrow> ('w, gerror option \<times> obj) go" where
  "updateLabelsForEntities env res [] lastTarget = retg (None, res)"
| "updateLabelsForEntities env res (e # es) lastTarget =
     bindg (label_entity env res e lastTarget) (\<lambda>(err, res1). case err of
       Some x \<Rightarrow> retg (Some x, res1)
     | None \<Rightarrow> updateLabelsForEntities env res1 es lastTarget)"

section \<open>Reconcile\<close>

definition delegate :: "'w env \<Rightarrow> obj \<Rightarrow> gerror \<Rightarrow> ('w, reconciled) go" where
  \<comment> \<open>\<open>return ErrorDelegateHandler(...)\<close>\<close>
  "delegate env res err = bindg (ErrorDelegateHandler env res err) (\<lambda>(ret, _). retg ret)"

primrec apply_targets :: "'w env \<Rightarrow> obj \<Rightarrow> target_ref list \<Rightarrow> ('w, gerror option \<times> obj) go" where
  \<comment> \<open>the loop over the targets; the error is already wrapped\<close>
  "apply_targets env res [] = retg (None, res)"
| "apply_targets env res (t # ts) =
     bindg (GetEntityListForTarget env (obj_ns res) t) (\<lambda>r. case r of
       Inl err \<Rightarrow> retg (Some (wrapf ''failed to get entity list: '' err), res)
     | Inr items \<Rightarrow> bindg (updateLabelsForEntities env res items t) (\<lambda>(err, res1). case err of
         Some e \<Rightarrow> retg (Some (wrapf ''failed to update labels: '' e), res1)
       | None \<Rightarrow> apply_targets env res1 ts))"

definition set_total :: "nat \<Rightarrow> obj \<Rightarrow> obj" where
  "set_total n ob = (case as_group ob of None \<Rightarrow> ob
     | Some g \<Rightarrow> OGroup (g\<lparr>g_status := (g_status g)\<lparr>gt_totalEntities := int n\<rparr>\<rparr>))"

definition group_netpol_params :: "obj \<Rightarrow> cluster_params" where
  "group_netpol_params res =
     \<lparr>cp_ResourceType = ResourceTypeNetPol, cp_TargetName = obj_name res @ ''-netpol'',
      cp_Namespace = obj_ns res, cp_InjectLabels = None, cp_NeedVerify = False,
      cp_SetOwnerReferences = False, cp_Template = ''np-group.yml''\<rparr>"

definition provision_netpol :: "nat \<Rightarrow> 'w env \<Rightarrow> obj \<Rightarrow> ('w, gerror option \<times> obj) go" where
  \<comment> \<open>the network policy and the provisioned phase\<close>
  "provision_netpol fuel env res =
     bindg (pureg (NewClusterResourceHandler res (group_netpol_params res))) (\<lambda>h.
     bindg (Processor env res None (Some (ClusterResourceHandler_Build env h))
         (Some (lift_mod (BuildNp (RoboKubeGroupKey @ obj_name res) ''true'')))
         (ClusterResourceHandler_Handle fuel env h) (Some (setCondition env))) (\<lambda>((_, err), res1, _).
     case err of
       Some e \<Rightarrow> retg (Some (wrapf ''failed to create netpol, '' e), res1)
     | None \<Rightarrow> bindg (UpdateStatus env res1 [updateStatusPhase StatusProvisioned]) (\<lambda>(uerr, res2).
         retg (map_option (wrapf ''failed to set resource to progressing state, '') uerr, res2))))"

definition group_phase :: "obj \<Rightarrow> string" where
  "group_phase res = (case as_group res of None \<Rightarrow> [] | Some g \<Rightarrow> Group_GetPhase g)"

definition group_targets :: "obj \<Rightarrow> target_ref list" where
  \<comment> \<open>a nil list of targets is skipped\<close>
  "group_targets res = (case as_group res of None \<Rightarrow> []
     | Some g \<Rightarrow> (case gs_lastTargets (g_spec g) of None \<Rightarrow> [] | Some ts \<Rightarrow> ts))"

definition finish_group :: "'w env \<Rightarrow> obj \<Rightarrow> ('w, reconciled) go" where
  \<comment> \<open>targets, member count, last phase update\<close>
  "finish_group env res =
     bindg (apply_targets env res (group_targets res)) (\<lambda>(err, res1). case err of
       Some e \<Rightarrow> delegate env res1 e
     | None \<Rightarrow> (case parse_selector env (RoboKubeGroupKey @ obj_name res1) of
         Inl _ \<Rightarrow> delegate env res1 (errorf ''failed to create label selector'')
       | Inr labelSelector \<Rightarrow>
           bindg (list_as env KEntity as_entity (obj_ns res1) labelSelector) (\<lambda>r. case r of
             Inl e \<Rightarrow> delegate env res1 (wrapf ''failed to list entities: '' e)
           | Inr items \<Rightarrow>
               bindg (UpdateStatus env res1
                   [pure_mod (set_total (length items)), updateStatusPhase StatusProvisioned]) (\<lambda>(uerr, res2).
               case uerr of
                 Some e \<Rightarrow> delegate env res2 (wrapf ''failed to update resource phase to Complete: '' e)
               | None \<Rightarrow> retg (no_requeue, None)))))"

definition reconcile_group :: "nat \<Rightarrow> 'w env \<Rightarrow> obj \<Rightarrow> ('w, reconciled) go" where
  \<comment> \<open>after the finalizer\<close>
  "reconcile_group fuel env res =
     bindg (if group_phase res = [] then
              bindg (UpdateStatus env res [updateStatusPhase StatusProvisioning]) (\<lambda>(uerr, res1).
                retg (map_option (wrapf ''failed to set resource to progressing state, '') uerr, res1))
            else retg (None, res)) (\<lambda>(err, res1). case err of
       Some e \<Rightarrow> delegate env res1 e
     | None \<Rightarrow>
         bindg (if group_phase res1 \<noteq> StatusProvisioned then provision_netpol fuel env res1
                else retg (None, res1)) (\<lambda>(err2, res2). case err2 of
           Some e \<Rightarrow> delegate env res2 e
         | None \<Rightarrow> finish_group env res2))"

definition empty_group :: group where
  \<comment> \<open>\<open>robokubev1.Group{}\<close>\<close>
  "empty_group = \<lparr>g_meta = empty_meta,
     g_spec = \<lparr>gs_description = [], gs_owner = [], gs_contact = [], gs_lastTargets = None, gs_type = []\<rparr>,
     g_status = \<lparr>gt_totalEntities = 0, gt_conditions = [], gt_observedGeneration = 0, gt_phase = []\<rparr>\<rparr>"

definition GroupReconciler_Reconcile :: "nat \<Rightarrow> 'w env \<Rightarrow> string \<Rightarrow> string \<Rightarrow> ('w, reconciled) go" where
  "GroupReconciler_Reconcile fuel env ns name =
     bindg (get_as env KGroup as_group ns name) (\<lambda>r. case r of
       Inl err \<Rightarrow> delegate env (OGroup empty_group) (wrapf ''resource could not be found, '' err)
     | Inr g \<Rightarrow>
         if gt_observedGeneration (g_status g) = m_generation (g_meta g) \<and> Group_GetPhase g = StatusProvisioned
         then retg (no_requeue, None)
         else bindg (handleFinalizer env (OGroup g) finalizer) (\<lambda>((ret, err), res). 
           if err \<noteq> None \<or> rr_Requeue ret then retg (ret, err)
           else reconcile_group fuel env res))"

section \<open>Properties\<close>

lemma delegate_outcome:
  "delegate env res err w = (Return (ret, e), w') \<Longrightarrow>
     (e = None \<and> ret = no_requeue) \<or> (\<exists>x. e = Some x \<and> IsConflict x \<and> ret = requeue_after (10 * second))"
  by (auto simp: delegate_def ErrorDelegateHandler_def Let_def DefaultRequeueDelay_def
      elim!: bindg_ReturnE split: if_splits)

definition clean_outcome :: "'w env \<Rightarrow> reconciled \<Rightarrow> bool" where
  \<comment> \<open>nothing to do, a conflict to retry, or a failed clean-up\<close>
  "clean_outcome env r \<longleftrightarrow> (case r of
       (ret, None) \<Rightarrow> ret = no_requeue
     | (ret, Some e) \<Rightarrow> (IsConflict e \<and> ret = requeue_after (10 * second))
         \<or> (ret = no_requeue \<and> (\<exists>res v x res' v'. DeletionHandler_Handle env res None v = (Return (x, Some e, res'), v'))))"

lemma delegate_clean: "delegate env res err w = (Return r, w') \<Longrightarrow> clean_outcome env r"
  using delegate_outcome [of env res err w "fst r" "snd r" w'] by (auto simp: clean_outcome_def split: prod.split)

lemma ErrorDelegate_clean:
  "ErrorDelegateHandler env res err w = (Return (r, res'), w') \<Longrightarrow> clean_outcome env r"
  by (rule delegate_clean [of env res err w r w']) (simp add: delegate_def bindg_run)

lemma clean_outcome_done [simp]: "clean_outcome env (no_requeue, None)"
  by (simp add: clean_outcome_def)

lemma finalize_clean:
  assumes "finalize env res fin w = (Return (r, res'), w')"
  shows "clean_outcome env r"
proof -
  have err: "clean_outcome env (no_requeue, Some e)"
    if "DeletionHandler_Handle env a None v = (Return (x, Some e, b), v')" for a v x e b v'
    using that by (auto simp: clean_outcome_def)
  from assms show ?thesis
    by (auto simp: finalize_def Let_def elim!: bindg_ReturnE split: if_splits option.splits sum.splits)
      (erule ErrorDelegate_clean err)+
qed

lemma handleFinalizer_clean:
  assumes "handleFinalizer env res fin w = (Return (r, res'), w')"
  shows "clean_outcome env r"
  using assms
  by (auto simp: handleFinalizer_def Let_def elim!: bindg_ReturnE split: if_splits sum.splits)
    (erule ErrorDelegate_clean finalize_clean)+

lemma finish_group_clean: "finish_group env res w = (Return r, w') \<Longrightarrow> clean_outcome env r"
  by (auto simp: finish_group_def elim!: bindg_ReturnE split: option.splits sum.splits)
    (erule delegate_clean)+

lemma reconcile_group_clean: "reconcile_group fuel env res w = (Return r, w') \<Longrightarrow> clean_outcome env r"
  by (auto simp: reconcile_group_def elim!: bindg_ReturnE split: option.splits)
    (erule delegate_clean finish_group_clean)+

text \<open>A reconcile of a group reports an error only for a write conflict, which is requeued after
  ten seconds, or for a clean-up that failed; every other failure ends without an error and without a
  requeue, so the controller does not come back to it by itself.\<close>

theorem group_reconcile_errors:
  assumes "GroupReconciler_Reconcile fuel env ns name w = (Return (ret, err), w')"
  shows "(err = None \<and> ret = no_requeue)
   \<or> (\<exists>e. err = Some e \<and> IsConflict e \<and> ret = requeue_after (10 * second))
   \<or> (\<exists>e res v x res' v'. err = Some e \<and> ret = no_requeue
        \<and> DeletionHandler_Handle env res None v = (Return (x, Some e, res'), v'))"
proof -
  from assms have "clean_outcome env (ret, err)"
    by (auto simp: GroupReconciler_Reconcile_def elim!: bindg_ReturnE split: sum.splits if_splits)
      (erule delegate_clean handleFinalizer_clean reconcile_group_clean)+
  then show ?thesis by (cases err) (auto simp: clean_outcome_def)
qed

theorem group_reconcile_errors_witness:
  "\<exists>ret err w'. GroupReconciler_Reconcile 1 mem_env ''ns'' ''g'' (sample_world []) = (Return (ret, err), w')
    \<and> ((err = None \<and> ret = no_requeue)
     \<or> (\<exists>e. err = Some e \<and> IsConflict e \<and> ret = requeue_after (10 * second))
     \<or> (\<exists>e res v x res' v'. err = Some e \<and> ret = no_requeue
        \<and> DeletionHandler_Handle mem_env res None v = (Return (x, Some e, res'), v')))"
proof -
  have "ends (GroupReconciler_Reconcile 1 mem_env ''ns'' ''g'' (sample_world [])) (\<lambda>r w'. True)"
    by code_simp
  then obtain ret err w' where run:
    "GroupReconciler_Reconcile 1 mem_env ''ns'' ''g'' (sample_world []) = (Return (ret, err), w')"
    by (elim endsE) (metis prod.collapse)
  from run group_reconcile_errors [OF run] show ?thesis by blast
qed

section \<open>Labels of the members\<close>

lemma process_given:
  assumes "retry_contract env" "get_contract env" "write_contract (c_status_update env)"
    and pr: "process env res False ob1 f procFn (Some (setCondition env)) v = (Return ((r, None), res', ob'), w')"
  shows "same_key res res' \<and> (\<exists>r1 ob2 v2. procFn ob1 f v = (Return (r1, None, ob2), v2) \<and> ob' = Some ob2)"
proof -
  from pr obtain r1 e ob2 v2 where h: "procFn ob1 f v = (Return (r1, e, ob2), v2)"
    unfolding process_def by (auto elim!: bindg_ReturnE)
  with pr have e: "e = None" "ob' = Some ob2"
    by (auto simp: process_def Let_def bindg_run elim!: bindg_ReturnE split: option.splits)
      (auto split: prod.splits outcome.splits option.splits)
  have "same_key res res'"
  proof (cases r1)
    case None
    with pr h e show ?thesis by (simp add: process_def Let_def bindg_run)
  next
    case (Some x)
    with pr h e obtain uerr where "UpdateStatus env res [setCondition env x] v2 = (Return (uerr, res'), w')"
      by (auto simp: process_def Let_def bindg_run [of "procFn ob1 f"] elim!: bindg_ReturnE
          split: option.splits)
    from UpdateStatus_spec [OF assms(1-3) _ this] show ?thesis by auto
  qed
  with h e show ?thesis by blast
qed

lemma Processor_given:
  assumes c: "retry_contract env" "get_contract env" "write_contract (c_status_update env)"
    and "Processor env res (Some ob) None (Some f) procFn (Some (setCondition env)) w
      = (Return ((r, None), res', ob'), w')"
  shows "same_key res res' \<and> (\<exists>ob1 v r1 ob2 v2. f ob w = (Return ob1, v)
    \<and> procFn ob1 (Some f) v = (Return (r1, None, ob2), v2) \<and> ob' = Some ob2)"
proof -
  from assms(4) obtain ob1 v where f: "f ob w = (Return ob1, v)" and
    pr: "process env res False ob1 (Some f) procFn (Some (setCondition env)) v = (Return ((r, None), res', ob'), w')"
    by (auto simp: Processor_def maybe_edit_def elim!: bindg_ReturnE)
  from process_given [OF c pr] f show ?thesis by blast
qed

definition relabelled :: "'w env \<Rightarrow> kind \<Rightarrow> string \<Rightarrow> string \<Rightarrow> (object_meta \<Rightarrow> object_meta) \<Rightarrow> bool" where
  \<comment> \<open>the object was read and written back with this edit of its metadata, without an error\<close>
  "relabelled env k ns n edit \<longleftrightarrow> (\<exists>cur v1 v2 stored v3. c_get env k ns n v1 = (Inr cur, v2)
     \<and> c_update env (map_meta edit cur) v2 = (Inr stored, v3))"

lemma same_key_map_meta:
  "(\<And>m. m_name (edit m) = m_name m \<and> m_namespace (edit m) = m_namespace m) \<Longrightarrow> same_key a (map_meta edit a)"
  by (simp add: same_key_def obj_ns_def obj_name_def)

lemma label_step:
  assumes c: "retry_contract env" "get_contract env" "write_contract (c_status_update env)"
      "write_contract (c_update env)"
    and "Processor env res (Some ob) None (Some (label_edit name e t)) (ObjectHandler_Handle env label_processor)
      (Some (setCondition env)) w = (Return ((r, None), res', ob'), w')"
  shows "same_key res res' \<and> relabelled env (kind_of ob) (obj_ns ob) (obj_name ob)
      (BuildLabelObj (RoboKubeGroupKey @ name) (es_identity (e_spec e)) (tr_action t))"
proof -
  let ?edit = "BuildLabelObj (RoboKubeGroupKey @ name) (es_identity (e_spec e)) (tr_action t)"
  have run: "label_edit name e t a v = (Return (map_meta ?edit a), v)" for a and v :: 'a
    by (simp add: label_edit_def pure_mod_def)
  have keep: "keeps_key (label_edit name e t :: 'a modfn)"
    unfolding label_edit_def by (rule keeps_key_pure) (simp add: same_key_map_meta)
  have lp: "label_processor = \<lparr>oh_ResourceType = ResourceTypeEntity, oh_Action = ''Update Label'', oh_IsDelete = False\<rparr>"
    by (simp add: label_processor_def NewObjectHandler_def)
  from Processor_given [OF c(1-3) assms(5)] obtain r1 ob2 v2 where k: "same_key res res'" and
    h: "ObjectHandler_Handle env label_processor (map_meta ?edit ob) (Some (label_edit name e t)) w
      = (Return (r1, None, ob2), v2)"
    by (auto simp: run)
  have "same_key ob (map_meta ?edit ob)" by (simp add: same_key_map_meta)
  then have key: "kind_of (map_meta ?edit ob) = kind_of ob" "obj_ns (map_meta ?edit ob) = obj_ns ob"
    "obj_name (map_meta ?edit ob) = obj_name ob"
    by (simp_all add: same_key_def)
  from ObjectHandler_edit [OF c(1,2,4) keep h [unfolded lp], unfolded run key] k
  show ?thesis unfolding relabelled_def by blast
qed

lemma label_entity_step:
  assumes c: "retry_contract env" "get_contract env" "write_contract (c_status_update env)"
      "write_contract (c_update env)"
    and "label_entity env res e t w = (Return (None, res'), w')"
  shows "same_key res res' \<and> relabelled env KEntity (m_namespace (e_meta e)) (m_name (e_meta e))
      (BuildLabelObj (RoboKubeGroupKey @ obj_name res) (es_identity (e_spec e)) (tr_action t))"
proof -
  from assms(5) obtain r res1 ob1 w1 where
    p: "Processor env res (Some (OEntity e)) None (Some (label_edit (obj_name res) e t))
      (ObjectHandler_Handle env label_processor) (Some (setCondition env)) w = (Return ((r, None), res1, ob1), w1)"
    and rest: "res' = res1 \<or> (\<exists>pod e1 r2 ob2 v v'. Processor env res1 (Some pod) None
      (Some (label_edit (obj_name res1) e1 t)) (ObjectHandler_Handle env label_processor)
      (Some (setCondition env)) v = (Return ((r2, None), res', ob2), v'))"
    unfolding label_entity_def
    by (auto simp: Let_def elim!: bindg_ReturnE split: option.splits if_splits sum.splits) blast+
  from label_step [OF c p] have k: "same_key res res1" and
    l: "relabelled env KEntity (m_namespace (e_meta e)) (m_name (e_meta e))
      (BuildLabelObj (RoboKubeGroupKey @ obj_name res) (es_identity (e_spec e)) (tr_action t))"
    by (simp_all add: obj_ns_def obj_name_def)
  from rest have "same_key res1 res'"
    using label_step [OF c] by auto
  with k l show ?thesis using same_key_trans by blast
qed


definition in_group_world :: mem where
  "in_group_world = sample_world [OGroup sample_dgroup, OEntity (sample_entity ''a'' (Some 0))]"


section \<open>The network policy\<close>

definition keyed :: "string \<Rightarrow> np_rule \<Rightarrow> np_rule \<Rightarrow> bool" where
  \<comment> \<open>the first expression of the first peer's pod selector has the key; nothing else changed\<close>
  "keyed key r r' \<longleftrightarrow> (case ru_peers r of
       [] \<Rightarrow> r' = r
     | p # ps \<Rightarrow> (case pe_podSelector p of
         None \<Rightarrow> r' = r
       | Some exprs \<Rightarrow> (\<exists>ex es. exprs = ex # es
           \<and> r' = r\<lparr>ru_peers := p\<lparr>pe_podSelector := Some (ex\<lparr>ne_key := key\<rparr> # es)\<rparr> # ps\<rparr>)))"

lemma set_peer_key_keyed: "set_peer_key key r = Return r' \<longleftrightarrow> keyed key r r'"
  by (auto simp: set_peer_key_def keyed_def split: list.splits option.splits)

lemma map_rules_keyed: "map_rules (set_peer_key key) rs = Return rs' \<longleftrightarrow> list_all2 (keyed key) rs rs'"
  by (induction rs arbitrary: rs') (auto simp: set_peer_key_keyed list_all2_Cons1)

lemma keyed_again: "keyed key r r' \<Longrightarrow> keyed key r' r'"
  by (auto simp: keyed_def split: list.splits option.splits)

lemma keyed_exists:
  assumes "\<forall>p ps. ru_peers r = p # ps \<longrightarrow> pe_podSelector p \<noteq> Some []"
  shows "\<exists>r'. keyed key r r'"
proof (cases "ru_peers r")
  case (Cons p ps)
  with assms show ?thesis
    by (cases "pe_podSelector p") (auto simp: keyed_def neq_Nil_conv)
qed (simp add: keyed_def)

text \<open>The edit of a group's network policy succeeds on every policy whose first peers have no empty
  list of match expressions, sets exactly the key of the first expression of the first peer of every
  ingress and egress rule, and is idempotent; on any other object it panics.\<close>

theorem BuildNp_keys_rules:
  "(\<forall>np. (\<forall>r \<in> set (np_ingress (np_nspec np) @ np_egress (np_nspec np)).
        \<forall>p ps. ru_peers r = p # ps \<longrightarrow> pe_podSelector p \<noteq> Some []) \<longrightarrow>
      (\<exists>np'. BuildNp key val (ONetworkPolicy np) = Return (ONetworkPolicy np')
        \<and> list_all2 (keyed key) (np_ingress (np_nspec np)) (np_ingress (np_nspec np'))
        \<and> list_all2 (keyed key) (np_egress (np_nspec np)) (np_egress (np_nspec np'))
        \<and> np_meta np' = np_meta np \<and> np_rest (np_nspec np') = np_rest (np_nspec np)
        \<and> BuildNp key val (ONetworkPolicy np') = Return (ONetworkPolicy np')))
   \<and> (kind_of ob \<noteq> KNetworkPolicy \<longrightarrow> BuildNp key val ob = Panic bad_assertion)"
proof (intro conjI allI impI)
  fix np :: networkpolicy
  assume ok: "\<forall>r \<in> set (np_ingress (np_nspec np) @ np_egress (np_nspec np)).
        \<forall>p ps. ru_peers r = p # ps \<longrightarrow> pe_podSelector p \<noteq> Some []"
  have ex: "\<exists>rs'. list_all2 (keyed key) rs rs'"
    if "\<forall>r \<in> set rs. \<forall>p ps. ru_peers r = p # ps \<longrightarrow> pe_podSelector p \<noteq> Some []" for rs
    using that
  proof (induction rs)
    case Nil
    then show ?case by simp
  next
    case (Cons r rs)
    then obtain rs' where "list_all2 (keyed key) rs rs'" by auto
    moreover obtain r' where "keyed key r r'" using keyed_exists [of r key] Cons.prems by auto
    ultimately show ?case by (metis list_all2_Cons)
  qed
  obtain is' where i: "list_all2 (keyed key) (np_ingress (np_nspec np)) is'"
    using ex [of "np_ingress (np_nspec np)"] ok by auto
  obtain es' where e: "list_all2 (keyed key) (np_egress (np_nspec np)) es'"
    using ex [of "np_egress (np_nspec np)"] ok by auto
  have again: "list_all2 (keyed key) rs' rs'" if "list_all2 (keyed key) rs rs'" for rs rs'
    using that by (induction rule: list_all2_induct) (auto intro: keyed_again)
  let ?np' = "np\<lparr>np_nspec := (np_nspec np)\<lparr>np_egress := es', np_ingress := is'\<rparr>\<rparr>"
  have "BuildNp key val (ONetworkPolicy np) = Return (ONetworkPolicy ?np')"
    using i e by (auto simp: BuildNp_def as_networkpolicy.simps map_rules_keyed)
  moreover have "BuildNp key val (ONetworkPolicy ?np') = Return (ONetworkPolicy ?np')"
    using again [OF i] again [OF e] by (auto simp: BuildNp_def map_rules_keyed)
  ultimately show "\<exists>np'. BuildNp key val (ONetworkPolicy np) = Return (ONetworkPolicy np')
        \<and> list_all2 (keyed key) (np_ingress (np_nspec np)) (np_ingress (np_nspec np'))
        \<and> list_all2 (keyed key) (np_egress (np_nspec np)) (np_egress (np_nspec np'))
        \<and> np_meta np' = np_meta np \<and> np_rest (np_nspec np') = np_rest (np_nspec np)
        \<and> BuildNp key val (ONetworkPolicy np') = Return (ONetworkPolicy np')"
    using i e by (intro exI [of _ ?np']) simp
next
  assume "kind_of ob \<noteq> KNetworkPolicy"
  then show "BuildNp key val ob = Panic bad_assertion" by (cases ob) (simp_all add: BuildNp_def)
qed

definition template_netpol :: networkpolicy where
  \<comment> \<open>the template of the repository: one peer each way, selecting on a label key\<close>
  "template_netpol = (let rule = \<lparr>ru_peers = [\<lparr>pe_podSelector =
       Some [\<lparr>ne_key = ''your-label-key'', ne_rest = ''Exists''\<rparr>], pe_rest = []\<rparr>], ru_rest = []\<rparr> in
     \<lparr>np_meta = empty_meta\<lparr>m_name := ''m-group''\<rparr>,
      np_nspec = \<lparr>np_ingress = [rule], np_egress = [rule], np_rest = []\<rparr>\<rparr>)"

theorem BuildNp_keys_rules_witness:
  "\<exists>np'. BuildNp ''k'' ''true'' (ONetworkPolicy template_netpol) = Return (ONetworkPolicy np')
    \<and> BuildNp ''k'' ''true'' (OModel sample_model) = Panic bad_assertion"
proof -
  have t: "\<forall>r \<in> set (np_ingress (np_nspec template_netpol) @ np_egress (np_nspec template_netpol)).
        \<forall>p ps. ru_peers r = p # ps \<longrightarrow> pe_podSelector p \<noteq> Some []"
    by (simp add: template_netpol_def Let_def)
  note k = BuildNp_keys_rules [of "''k''" "''true''" "OModel sample_model"]
  from mp [OF spec [OF conjunct1 [OF k]] t] mp [OF conjunct2 [OF k]] show ?thesis by auto
qed

section \<open>Whole reconciles\<close>

text \<open>Once a group is settled, provisioned in its current generation, a reconcile of it is the one
  read and nothing else.\<close>

theorem settled_group_untouched:
  assumes "c_get env KGroup ns name w = (Inr (OGroup g), w1)" and "settled_obj (OGroup g)"
  shows "GroupReconciler_Reconcile fuel env ns name w = (Return (no_requeue, None), w1)"
  using assms
  by (simp add: GroupReconciler_Reconcile_def bindg_run get_as_run group_rk.settled_def)

theorem settled_group_untouched_witness:
  "GroupReconciler_Reconcile 1 mem_env ''ns'' ''g'' (sample_world [OGroup (Group_SetPhase StatusProvisioned sample_dgroup)])
    = (Return (no_requeue, None), sample_world [OGroup (Group_SetPhase StatusProvisioned sample_dgroup)])"
proof (rule settled_group_untouched)
  show "c_get mem_env KGroup ''ns'' ''g'' (sample_world [OGroup (Group_SetPhase StatusProvisioned sample_dgroup)])
      = (Inr (OGroup (Group_SetPhase StatusProvisioned sample_dgroup)),
         sample_world [OGroup (Group_SetPhase StatusProvisioned sample_dgroup)])"
    by code_simp
qed (simp add: group_rk.settled_set_phase)

text \<open>The reconcile that cleans a group up does not end there. After the finalizer of a deleted
  group was removed without an error, the same call goes on to provision the group's network policy
  again, since the phase it reads back is the one of the deletion.\<close>

theorem deleted_group_provisioned_again:
  assumes "c_get env KGroup ns name w = (Inr (OGroup g), w1)" and "\<not> settled_obj (OGroup g)"
    and "handleFinalizer env (OGroup g) finalizer w1 = (Return ((ret, None), OGroup g2), w2)"
    and "\<not> rr_Requeue ret" and "Group_GetPhase g2 = ''Deleting''"
  shows "GroupReconciler_Reconcile fuel env ns name w =
    bindg (provision_netpol fuel env (OGroup g2)) (\<lambda>(err, res). case err of
      Some e \<Rightarrow> delegate env res e | None \<Rightarrow> finish_group env res) w2"
  using assms
  by (auto simp: GroupReconciler_Reconcile_def bindg_run get_as_run group_rk.settled_def
      reconcile_group_def group_phase_def robo_consts)

definition deleted_group_world :: mem where
  \<comment> \<open>a group on its way out, with its network policy\<close>
  "deleted_group_world = sample_world
     [OGroup (dying_group\<lparr>g_meta := (g_meta dying_group)\<lparr>m_finalizers := [finalizer]\<rparr>\<rparr>),
      ONetworkPolicy sample_netpol]"

text \<open>The witness runs the whole reconcile: afterwards the group is gone and the cluster holds the
  network policy it just created again.\<close>

theorem deleted_group_provisioned_again_witness:
  "\<exists>r w'. GroupReconciler_Reconcile 1 (template_env (ONetworkPolicy template_netpol)) ''ns'' ''g'' deleted_group_world
      = (Return r, w')
    \<and> map kind_of (mem_objs w') = [KNetworkPolicy]"
proof -
  let ?env = "template_env (ONetworkPolicy template_netpol)"
  let ?g = "dying_group\<lparr>g_meta := (g_meta dying_group)\<lparr>m_finalizers := [finalizer]\<rparr>\<rparr>"
  have g: "c_get ?env KGroup ''ns'' ''g'' deleted_group_world = (Inr (OGroup ?g), deleted_group_world)"
    by code_simp
  have ns: "\<not> settled_obj (OGroup ?g)"
    by (simp add: group_rk.settled_def dying_group_def sample_dgroup_def group_accessors robo_consts)
  have "ends (handleFinalizer ?env (OGroup ?g) finalizer deleted_group_world) (\<lambda>((ret, err), res) w2.
      err = None \<and> \<not> rr_Requeue ret \<and> (case as_group res of None \<Rightarrow> False
        | Some g2 \<Rightarrow> Group_GetPhase g2 = ''Deleting''
          \<and> ends (bindg (provision_netpol 1 ?env (OGroup g2)) (\<lambda>(err, res). case err of
              Some e \<Rightarrow> delegate ?env res e | None \<Rightarrow> finish_group ?env res) w2)
            (\<lambda>r w'. map kind_of (mem_objs w') = [KNetworkPolicy])))"
    by code_simp
  then obtain ret g2 w2 r w' where
    f: "handleFinalizer ?env (OGroup ?g) finalizer deleted_group_world = (Return ((ret, None), OGroup g2), w2)"
      "\<not> rr_Requeue ret" "Group_GetPhase g2 = ''Deleting''" and
    p: "bindg (provision_netpol 1 ?env (OGroup g2)) (\<lambda>(err, res). case err of
              Some e \<Rightarrow> delegate ?env res e | None \<Rightarrow> finish_group ?env res) w2 = (Return r, w')"
      "map kind_of (mem_objs w') = [KNetworkPolicy]"
    by (auto elim!: endsE split: option.splits dest!: as_SomeD)
  from deleted_group_provisioned_again [OF g ns f, of 1] p show ?thesis by auto
qed

end
