(* ===== verification/Early_Return.thy ===== *)
theory Early_Return
  imports Group_Controller
begin

text \<open>
  The shape of a step of a reconciler: do something that may fail, and on an error return from
  \<open>Reconcile\<close> at once, through \<open>ErrorDelegateHandler\<close> or with the error as it is; otherwise
  go on with the resource. The three reconcilers after the group's are written with it.
\<close>

section \<open>Steps\<close>

datatype run_outcome = Ran obj | Stop reconciled

definition or_delegate :: "'w env \<Rightarrow> ('w, gerror option \<times> obj) go \<Rightarrow> string \<Rightarrow> ('w, run_outcome) go" where
  \<comment> \<open>\<open>if err := m; err != nil { return ErrorDelegateHandler(..., fmt.Errorf(msg + "%w", err)) }\<close>\<close>
  "or_delegate env m msg =
     bindg m (\<lambda>(err, res1). case err of
       Some e \<Rightarrow> bindg (delegate env res1 (wrapf msg e)) (\<lambda>r. retg (Stop r))
     | None \<Rightarrow> retg (Ran res1))"

definition or_return :: "('w, gerror option \<times> obj) go \<Rightarrow> ('w, run_outcome) go" where
  \<comment> \<open>\<open>if err := m; err != nil { return ctrl.Result{}, err }\<close>\<close>
  "or_return m =
     bindg m (\<lambda>(err, res1). case err of
       Some e \<Rightarrow> retg (Stop (no_requeue, Some e)) | None \<Rightarrow> retg (Ran res1))"

definition update_or_delegate :: "'w env \<Rightarrow> obj \<Rightarrow> 'w modfn list \<Rightarrow> string \<Rightarrow> ('w, run_outcome) go" where
  "update_or_delegate env res fns msg = or_delegate env (UpdateStatus env res fns) msg"

definition stop_run :: "('w, run_outcome) go \<Rightarrow> (obj \<Rightarrow> ('w, reconciled) go) \<Rightarrow> ('w, reconciled) go" where
  "stop_run m k = bindg m (\<lambda>x. case x of Stop r \<Rightarrow> retg r | Ran res \<Rightarrow> k res)"

definition then_run :: "('w, run_outcome) go \<Rightarrow> (obj \<Rightarrow> ('w, run_outcome) go) \<Rightarrow> ('w, run_outcome) go" where
  "then_run m k = bindg m (\<lambda>x. case x of Stop r \<Rightarrow> retg (Stop r) | Ran res \<Rightarrow> k res)"

lemma then_run_RanE:
  assumes "then_run m k w = (Return (Ran res'), w')"
  obtains res v where "m w = (Return (Ran res), v)" "k res v = (Return (Ran res'), w')"
  using assms by (auto simp: then_run_def elim!: bindg_ReturnE split: run_outcome.splits)

lemma or_delegate_Ran: "or_delegate env m msg w = (Return (Ran res'), w') \<Longrightarrow> m w = (Return (None, res'), w')"
  by (auto simp: or_delegate_def elim!: bindg_ReturnE split: option.splits)

lemma or_return_Ran: "or_return m w = (Return (Ran res'), w') \<Longrightarrow> m w = (Return (None, res'), w')"
  by (auto simp: or_return_def elim!: bindg_ReturnE split: option.splits)

section \<open>Which errors come out\<close>

definition error_ok :: "'w env \<Rightarrow> reconciled \<Rightarrow> bool" where
  "error_ok env r \<longleftrightarrow> snd r = None \<or> clean_outcome env r"

lemma error_ok_None [simp]: "error_ok env (ret, None)"
  by (simp add: error_ok_def)

lemma handleFinalizer_ok: "handleFinalizer env res fin w = (Return (r, res'), w') \<Longrightarrow> error_ok env r"
  by (simp add: error_ok_def handleFinalizer_clean)

lemma delegate_ok: "delegate env res err w = (Return r, w') \<Longrightarrow> error_ok env r"
  by (simp add: error_ok_def delegate_clean)

lemma or_delegate_ok: "or_delegate env m msg w = (Return (Stop r), w') \<Longrightarrow> error_ok env r"
  by (auto simp: or_delegate_def elim!: bindg_ReturnE split: option.splits) (erule delegate_ok)

lemma update_or_delegate_ok:
  "update_or_delegate env res fns msg w = (Return (Stop r), w') \<Longrightarrow> error_ok env r"
  unfolding update_or_delegate_def by (rule or_delegate_ok)

lemma stop_run_ok:
  assumes "stop_run m k w = (Return r, w')"
    and "\<And>r v. m w = (Return (Stop r), v) \<Longrightarrow> error_ok env r"
    and "\<And>res v. k res v = (Return r, w') \<Longrightarrow> error_ok env r"
  shows "error_ok env r"
proof -
  from assms(1) obtain x v where m: "m w = (Return x, v)" and
    k: "(case x of Stop r \<Rightarrow> retg r | Ran res \<Rightarrow> k res) v = (Return r, w')"
    unfolding stop_run_def by (elim bindg_ReturnE)
  show ?thesis
  proof (cases x)
    case (Ran res)
    with k assms(3) show ?thesis by simp
  next
    case (Stop r1)
    with m k assms(2) [of r1 v] show ?thesis by simp
  qed
qed

lemma then_run_ok:
  assumes "then_run m k w = (Return (Stop r), w')"
    and "\<And>v. m w = (Return (Stop r), v) \<Longrightarrow> error_ok env r"
    and "\<And>res v. k res v = (Return (Stop r), w') \<Longrightarrow> error_ok env r"
  shows "error_ok env r"
proof -
  from assms(1) obtain x v where m: "m w = (Return x, v)" and
    k: "(case x of Stop r \<Rightarrow> retg (Stop r) | Ran res \<Rightarrow> k res) v = (Return (Stop r), w')"
    unfolding then_run_def by (elim bindg_ReturnE)
  show ?thesis
  proof (cases x)
    case (Ran res)
    with k assms(3) show ?thesis by simp
  next
    case (Stop r1)
    with m k assms(2) [of v] show ?thesis by simp
  qed
qed

end
