(* ===== verification/Task_Controller.thy ===== *)
theory Task_Controller
  imports Early_Return "HOL-Library.Multiset"
begin

text \<open>
  \<open>internal/controller/task_controller.go\<close>: the reconciler of tasks. A task is sent, as one
  HTTP request, to each entity its targets resolve to, at once or at the time its spec sets; then
  it is archived and deleted. The source starts one goroutine for each entity and waits for all of
  them. The model runs them one after the other, in an order \<open>sched\<close> that is a parameter;
  \<open>Task_Goroutines\<close> interleaves their steps.
\<close>

section \<open>checkEntityPhase\<close>

fun checkEntityPhase :: "entity list \<Rightarrow> string \<Rightarrow> bool" where
  "checkEntityPhase [] phase = True"
| "checkEntityPhase (entity # rest) phase =
     (if et_phase (e_status entity) \<noteq> phase then False else checkEntityPhase rest phase)"

section \<open>processEntities\<close>

definition empty_task :: task where
  \<comment> \<open>\<open>robokubev1.Task{}\<close>\<close>
  "empty_task = \<lparr>t_meta = empty_meta,
     t_spec = \<lparr>ts_description = [], ts_dockerImage = [], ts_schedule = [], ts_runTime = None,
       ts_offset = 0, ts_payload = [], ts_targets = None, ts_dryRun = False,
       ts_unConditonalRun = False, ts_persistant = False\<rparr>,
     t_status = \<lparr>tt_conditions = [], tt_observedGeneration = 0, tt_phase = [],
       tt_failedEntities = [], tt_executeTime = 0, tt_completedTime = 0\<rparr>\<rparr>"

definition the_task :: "obj \<Rightarrow> task" where
  \<comment> \<open>the resource is a \<open>Task\<close> by its Go type\<close>
  "the_task res = (case as_task res of None \<Rightarrow> empty_task | Some t \<Rightarrow> t)"

definition task_request :: "bool \<Rightarrow> obj \<Rightarrow> entity \<Rightarrow> request_handler" where
  \<comment> \<open>a missing URL reads as the empty string\<close>
  "task_request dryRun res entity =
     NewRequestHandler (Some (ts_payload (t_spec (the_task res))))
       (case et_urls (e_status entity) of None \<Rightarrow> []
        | Some urls \<Rightarrow> (case fmlookup urls ''task'' of None \<Rightarrow> [] | Some u \<Rightarrow> u))
       ''post''
       \<lparr>rp_ResourceType = ResourceTypeEntity, rp_TargetName = m_name (e_meta entity),
        rp_ErrorCondtion = True, rp_DryRun = dryRun\<rparr>"

definition tasking_condition :: "string \<Rightarrow> string \<Rightarrow> string \<Rightarrow> condition" where
  "tasking_condition status reason message =
     \<lparr>c_type = ''Tasking'', c_status = status, c_lastTransitionTime = 0, c_reason = reason,
      c_message = message\<rparr>"

definition failed_text :: "string \<Rightarrow> string \<Rightarrow> string" where
  "failed_text entity task = ''Entity '' @ entity @ '' failed being tasked by Task '' @ task"

primrec task_attempts ::
  "'w env \<Rightarrow> bool \<Rightarrow> entity \<Rightarrow> nat list \<Rightarrow> obj \<Rightarrow> ('w, string list \<times> obj) go" where
  \<comment> \<open>the loop over the retry counts: what was sent on the channel of failed entities, and the task\<close>
  "task_attempts env dryRun entity [] res = retg ([], res)"
| "task_attempts env dryRun entity (retryCount # rest) res =
     bindg (Processor env res (Some (OEntity entity)) None None
         (RequestHandler_Handle env (task_request dryRun res entity)) (Some (setCondition env))) (\<lambda>((_, err), res1, _).
     bindg (if err = None then retg False
            else bindg (effg (c_sleep env (5 * second))) (\<lambda>_.
              if retryCount = 2 then
                bindg (UpdateStatus env (OEntity entity) [pure_mod (AppendCondition
                  (tasking_condition ''False'' ''TaskingFailed'' (failed_text (m_name (e_meta entity)) (obj_name res1))))]) (\<lambda>_.
                bindg (effg (c_event env res1 ''Warning'' ''TaskingFailed''
                  (failed_text (m_name (e_meta entity)) (obj_name res1)))) (\<lambda>_.
                retg True))
              else retg False)) (\<lambda>failed.
     if failed then
       bindg (task_attempts env dryRun entity rest res1) (\<lambda>(fs, res2). retg (m_name (e_meta entity) # fs, res2))
     else
       bindg (callg (c_now env)) (\<lambda>now.
       bindg (effg (c_event env res1 ''Normal'' ''Tasking''
         (''Entity '' @ m_name (e_meta entity) @ '' is being tasked by '' @ obj_name res1 @ '' - '' @ fmt_time env now @ '' ''))) (\<lambda>_.
       bindg (UpdateStatus env (OEntity entity) [pure_mod (AppendCondition
         (tasking_condition ''True'' ''Tasking''
           (''Entity '' @ m_name (e_meta entity) @ '' is being tasked by Task '' @ obj_name res1)))]) (\<lambda>_.
       retg ([], res1))))))"

definition task_entity :: "'w env \<Rightarrow> bool \<Rightarrow> entity \<Rightarrow> obj \<Rightarrow> ('w, string list \<times> obj) go" where
  \<comment> \<open>one goroutine\<close>
  "task_entity env dryRun entity res = task_attempts env dryRun entity [0, 1, 2] res"

primrec task_entities :: "'w env \<Rightarrow> bool \<Rightarrow> entity list \<Rightarrow> obj \<Rightarrow> ('w, string list \<times> obj) go" where
  "task_entities env dryRun [] res = retg ([], res)"
| "task_entities env dryRun (e # es) res =
     bindg (task_entity env dryRun e res) (\<lambda>(fs, res1).
     bindg (task_entities env dryRun es res1) (\<lambda>(gs, res2). retg (fs @ gs, res2)))"

definition set_failed :: "string list \<Rightarrow> obj \<Rightarrow> obj" where
  "set_failed fs ob = (case as_task ob of None \<Rightarrow> ob
     | Some t \<Rightarrow> OTask (t\<lparr>t_status := (t_status t)\<lparr>tt_failedEntities := fs\<rparr>\<rparr>))"

definition set_completed :: "gotime \<Rightarrow> obj \<Rightarrow> obj" where
  "set_completed now ob = (case as_task ob of None \<Rightarrow> ob
     | Some t \<Rightarrow> OTask (t\<lparr>t_status := (t_status t)\<lparr>tt_failedEntities := [], tt_completedTime := now\<rparr>\<rparr>))"

definition complete_now :: "'w env \<Rightarrow> 'w modfn" where
  "complete_now env ob =
     (case as_task ob of None \<Rightarrow> retg ob
      | Some _ \<Rightarrow> bindg (callg (c_now env)) (\<lambda>now. retg (set_completed now ob)))"

type_synonym schedule = "entity list \<Rightarrow> entity list"

definition schedule_contract :: "schedule \<Rightarrow> bool" where
  \<comment> \<open>every goroutine runs once, in any order\<close>
  "schedule_contract sched \<longleftrightarrow> (\<forall>es. mset (sched es) = mset es)"

definition finish_entities :: "'w env \<Rightarrow> string list \<Rightarrow> obj \<Rightarrow> ('w, gerror option \<times> obj) go" where
  \<comment> \<open>after \<open>wg.Wait()\<close>, with what the channel held\<close>
  "finish_entities env failed res1 =
     (if failed \<noteq> [] then
       bindg (UpdateStatus env (set_failed failed res1)
           [pure_mod (set_failed failed), updateStatusPhase StatusFailed]) (\<lambda>(err, res2).
         retg (map_option (wrapf ''failed to set resource to failed state: '') err, res2))
     else
       bindg (effg (c_sleep env (10 * second))) (\<lambda>_.
       bindg (UpdateStatus env res1 [complete_now env, updateStatusPhase StatusCompleted]) (\<lambda>(err, res2).
         retg (map_option (wrapf ''failed to set resource to completed state: '') err, res2))))"

definition processEntities ::
  "'w env \<Rightarrow> schedule \<Rightarrow> obj \<Rightarrow> entity list \<Rightarrow> ('w, gerror option \<times> obj) go" where
  "processEntities env sched res items =
     bindg (task_entities env (ts_dryRun (t_spec (the_task res))) (sched items) res) (\<lambda>(failed, res1).
       finish_entities env failed res1)"

section \<open>Reconcile\<close>

definition deletionDelay :: int where "deletionDelay = 3600 * second"

primrec collect_targets ::
  "'w env \<Rightarrow> string \<Rightarrow> target_ref list \<Rightarrow> ('w, gerror + entity list) go" where
  "collect_targets env ns [] = retg (Inr [])"
| "collect_targets env ns (t # ts) =
     bindg (GetEntityListForTarget env ns t) (\<lambda>r. case r of
       Inl err \<Rightarrow> retg (Inl (wrapf ''failed to get entity list: '' err))
     | Inr es \<Rightarrow> bindg (collect_targets env ns ts) (\<lambda>r2. case r2 of
         Inl err \<Rightarrow> retg (Inl err) | Inr es2 \<Rightarrow> retg (Inr (es @ es2))))"

definition run_task :: "'w env \<Rightarrow> schedule \<Rightarrow> obj \<Rightarrow> target_ref list \<Rightarrow> ('w, run_outcome) go" where
  \<comment> \<open>resolve the targets, check their phases, send the task\<close>
  "run_task env sched res targets =
     bindg (collect_targets env (obj_ns res) targets) (\<lambda>r. case r of
       Inl err \<Rightarrow> bindg (delegate env res err) (\<lambda>x. retg (Stop x))
     | Inr items \<Rightarrow>
         if \<not> ts_unConditonalRun (t_spec (the_task res)) \<and> \<not> checkEntityPhase items StatusProvisioned
         then retg (Stop (requeue_after (30 * second), None))
         else bindg (update_or_delegate env res [updateStatusPhase StatusRunning]
               ''failed to set resource to progressing state, '') (\<lambda>o1. case o1 of
           Stop x \<Rightarrow> retg (Stop x)
         | Ran res1 \<Rightarrow> bindg (processEntities env sched res1 items) (\<lambda>(err, res2). case err of
             Some e \<Rightarrow> bindg (delegate env res2 e) (\<lambda>x. retg (Stop x))
           | None \<Rightarrow> retg (Ran res2))))"

definition plan_task :: "'w env \<Rightarrow> task_spec \<Rightarrow> gotime \<Rightarrow> gerror + gotime \<times> bool" where
  \<comment> \<open>the next run, and whether the plan is over; the zero time when nothing is planned\<close>
  "plan_task env spec now =
     (if ts_schedule spec \<noteq> [] then (case parse_schedule env (ts_schedule spec) of
         Inl err \<Rightarrow> Inl (wrapf ''invalid task schedule: '' err)
       | Inr next \<Rightarrow> Inr (next now, (case ts_runTime spec of None \<Rightarrow> False | Some t \<Rightarrow> next now > t)))
      else (case ts_runTime spec of None \<Rightarrow> Inr (0, False) | Some t \<Rightarrow> Inr (t, t < now)))"

definition task_window :: "int32 \<Rightarrow> gotime \<Rightarrow> gotime \<times> gotime" where
  \<comment> \<open>from the next run to the termination time\<close>
  "task_window offset nextRun =
     (if sint offset > 0 then (nextRun, nextRun + sint offset * second)
      else (nextRun + sint offset * second, nextRun))"

definition set_execute_time :: "gotime \<Rightarrow> obj \<Rightarrow> obj" where
  "set_execute_time t ob = (case as_task ob of None \<Rightarrow> ob
     | Some x \<Rightarrow> OTask (x\<lparr>t_status := (t_status x)\<lparr>tt_executeTime := t\<rparr>\<rparr>))"

definition schedule_task :: "'w env \<Rightarrow> obj \<Rightarrow> gotime \<Rightarrow> gotime \<Rightarrow> ('w, reconciled) go" where
  \<comment> \<open>from the offset to the end\<close>
  "schedule_task env res now next =
     (let (nextRun, terminationTime) = task_window (ts_offset (t_spec (the_task res))) next in
      stop_run (update_or_delegate env res [pure_mod (set_execute_time nextRun), updateStatusPhase StatusScheduled]
          ''failed to set resource to progressing state, '') (\<lambda>res1.
        if nextRun > now then retg (requeue_after (fst (clamp_int64 (nextRun - now))), None)
        else if terminationTime > now then
          stop_run (update_or_delegate env res1 [pure_mod (set_failed []), updateStatusPhase StatusScheduled]
            ''failed to set resource to failed state, '') (\<lambda>_. retg (requeue_after (60 * second), None))
        else retg (no_requeue, None)))"

definition finish_task :: "'w env \<Rightarrow> obj \<Rightarrow> bool \<Rightarrow> ('w, reconciled) go" where
  \<comment> \<open>from \<open>now := time.Now()\<close> on\<close>
  "finish_task env res isCompleted =
     bindg (callg (c_now env)) (\<lambda>now.
       case plan_task env (t_spec (the_task res)) now of
         Inl err \<Rightarrow> delegate env res err
       | Inr (nextRun, over) \<Rightarrow>
           if isCompleted \<or> over then
             if ts_persistant (t_spec (the_task res)) then retg (no_requeue, None)
             else stop_run (update_or_delegate env res [updateStatusPhase StatusArchiving]
               ''failed to set resource to progressing state, '') (\<lambda>_. retg (requeue_after deletionDelay, None))
           else schedule_task env res now nextRun)"

definition planned :: "task_spec \<Rightarrow> bool" where
  "planned spec \<longleftrightarrow> ts_runTime spec \<noteq> None \<or> ts_schedule spec \<noteq> []"

definition reconcile_task :: "'w env \<Rightarrow> schedule \<Rightarrow> obj \<Rightarrow> ('w, reconciled) go" where
  \<comment> \<open>after the finalizer and the deletion of an archived task\<close>
  "reconcile_task env sched res =
     (case ts_targets (t_spec (the_task res)) of
        None \<Rightarrow> stop_run (update_or_delegate env res [updateStatusPhase StatusCompleted]
          ''failed to set resource to progressing state, '') (\<lambda>_. retg (no_requeue, None))
      | Some targets \<Rightarrow>
          if \<not> planned (t_spec (the_task res)) \<or> Task_GetPhase (the_task res) = StatusScheduled then
            stop_run (run_task env sched res targets) (\<lambda>res1.
              if planned (t_spec (the_task res1)) then retg (requeue_after (60 * second), None)
              else finish_task env res1 True)
          else finish_task env res False)"

definition TaskReconciler_Reconcile :: "'w env \<Rightarrow> schedule \<Rightarrow> string \<Rightarrow> string \<Rightarrow> ('w, reconciled) go" where
  "TaskReconciler_Reconcile env sched ns name =
     bindg (get_as env KTask as_task ns name) (\<lambda>r. case r of
       Inl err \<Rightarrow> delegate env (OTask empty_task) (wrapf ''resource could not be found, '' err)
     | Inr t \<Rightarrow> bindg (handleFinalizer env (OTask t) finalizer) (\<lambda>((ret, err), res).
         if err \<noteq> None \<or> rr_Requeue ret then retg (ret, err)
         else bindg (if Task_GetPhase (the_task res) = StatusArchiving
                     then bindg (callg (c_delete env res)) (\<lambda>_. retg ()) else retg ()) (\<lambda>_.
           reconcile_task env sched res)))"

section \<open>Properties\<close>

lemma sleep_then:
  "bindg (if c then retg False else bindg (effg op) (\<lambda>_. retg False)) g
     = bindg (if c then retg () else effg op) (\<lambda>_. g False)"
  by (rule ext) (simp add: bindg_run)

lemma task_attempts_first:
  "k \<noteq> 2 \<Longrightarrow> task_attempts env d e (k # ks) res = task_attempts env d e [k] res"
  by (simp add: sleep_then cong: if_cong)

lemma task_attempts_no_failure:
  "k \<noteq> 2 \<Longrightarrow> task_attempts env d e (k # ks) res w = (Return (fs, res'), w') \<Longrightarrow> fs = []"
  by (auto simp: sleep_then cong: if_cong elim!: bindg_ReturnE)

lemma task_entity_first: "task_entity env d e res = task_attempts env d e [0] res"
  unfolding task_entity_def by (rule task_attempts_first) simp

lemma task_entity_no_failure: "task_entity env d e res w = (Return (fs, res'), w') \<Longrightarrow> fs = []"
  unfolding task_entity_def by (rule task_attempts_no_failure) simp_all

lemma task_entities_no_failure:
  "task_entities env d es res w = (Return (fs, res'), w') \<Longrightarrow> fs = []"
proof (induction es arbitrary: fs res w)
  case Nil
  then show ?case by simp
next
  case (Cons e es)
  then obtain f1 f2 res1 w1 where "task_entity env d e res w = (Return (f1, res1), w1)"
    "task_entities env d es res1 w1 = (Return (f2, res'), w')" "fs = f1 @ f2"
    by (auto elim!: bindg_ReturnE)
  with Cons.IH task_entity_no_failure show ?case by fastforce
qed

text \<open>The task that the goroutines share stays the same object.\<close>

lemma Processor_same_key:
  assumes "retry_contract env" "get_contract env" "write_contract (c_status_update env)"
    and "Processor env res (Some ob) None f procFn (Some (setCondition env)) w = (Return (r, res', ob'), w')"
  shows "same_key res res'"
proof -
  have upd: "same_key res a" if "UpdateStatus env res [setCondition env x] v = (Return (e, a), v')" for x v e a v'
    using UpdateStatus_spec [OF assms(1-3) _ that] by simp
  from assms(4) show ?thesis
    by (auto simp: Processor_def process_def Let_def elim!: bindg_ReturnE split: option.splits)
      (erule upd)+
qed

lemma task_attempts_key:
  assumes c: "retry_contract env" "get_contract env" "write_contract (c_status_update env)"
    and "task_attempts env d e [0] res w = (Return (fs, res'), w')"
  shows "same_key res res'"
  using assms(4)
  by (auto simp: sleep_then cong: if_cong elim!: bindg_ReturnE dest!: Processor_same_key [OF c])

lemma task_entities_key:
  assumes c: "retry_contract env" "get_contract env" "write_contract (c_status_update env)"
  shows "task_entities env d es res w = (Return (fs, res'), w') \<Longrightarrow> same_key res res'"
proof (induction es arbitrary: fs res w)
  case Nil
  then show ?case by simp
next
  case (Cons e es)
  then obtain f1 f2 res1 w1 where "task_entity env d e res w = (Return (f1, res1), w1)"
    "task_entities env d es res1 w1 = (Return (f2, res'), w')"
    by (auto elim!: bindg_ReturnE)
  with Cons.IH task_attempts_key [OF c] show ?case
    unfolding task_entity_first by (metis same_key_trans)
qed

declare task_attempts.simps(2) [simp del]

text \<open>C35: a task is sent to an entity at most once: the loop over three attempts is the same
  computation as its first attempt alone, since a failed attempt falls through to the success path and
  breaks. No entity is ever reported as failed.\<close>

theorem task_sent_at_most_once:
  "task_entity env dryRun entity res = task_attempts env dryRun entity [0] res
   \<and> (task_entities env dryRun es res w = (Return (fs, res'), w') \<longrightarrow> fs = [])"
  using task_entity_first task_entities_no_failure by auto

definition sample_job :: task where
  \<comment> \<open>a task for one entity, to be sent at once\<close>
  "sample_job = \<lparr>t_meta = (sample_meta ''t'')\<lparr>m_finalizers := [finalizer]\<rparr>,
     t_spec = (t_spec empty_task)\<lparr>ts_payload := ''{}'', ts_unConditonalRun := True,
       ts_targets := Some [\<lparr>tr_type = TargetTypeEntity, tr_name = ''a'', tr_action = []\<rparr>]\<rparr>,
     t_status = t_status empty_task\<rparr>"

definition job_entity :: entity where
  "job_entity = (sample_entity ''a'' (Some 0))\<lparr>e_status := empty_entity_status
     \<lparr>et_urls := Some (fmap_of_list [(''task'', ''http://a/task'')])\<rparr>\<rparr>"

definition job_world :: "task \<Rightarrow> (string \<times> int \<times> string) list \<Rightarrow> mem" where
  "job_world t routes = (sample_world [OTask t, OEntity job_entity])\<lparr>mem_routes := routes\<rparr>"

text \<open>The witness: the agent is not reachable, one request is made and no failure is reported.\<close>

theorem task_sent_at_most_once_witness:
  "\<exists>fs res' w'. task_entities mem_env False [job_entity] (OTask sample_job) (job_world sample_job [])
      = (Return (fs, res'), w') \<and> fs = [] \<and> length (mem_requests w') = 1"
proof -
  have "ends (task_entities mem_env False [job_entity] (OTask sample_job) (job_world sample_job []))
      (\<lambda>(fs, res') w'. length (mem_requests w') = 1)"
    by code_simp
  then obtain fs res' w' where run: "task_entities mem_env False [job_entity] (OTask sample_job)
      (job_world sample_job []) = (Return (fs, res'), w')" "length (mem_requests w') = 1"
    by (elim endsE) auto
  from run task_sent_at_most_once [of mem_env False job_entity "OTask sample_job" "[job_entity]"
      "job_world sample_job []" fs res' w']
  show ?thesis by blast
qed

lemma finish_entities_completed:
  assumes c: "retry_contract env" "get_contract env" "write_contract (c_status_update env)"
    and kr: "kind_of res1 = KTask" and run: "finish_entities env [] res1 w1 = (Return (None, res'), w')"
  shows "\<exists>written v. c_status_update env (OTask written) v = (Inr res', w')
    \<and> Task_GetPhase written = StatusCompleted \<and> tt_failedEntities (t_status written) = []"
proof -
  from run obtain v where
    u: "UpdateStatus env res1 [complete_now env, updateStatusPhase StatusCompleted] v = (Return (None, res'), w')"
    by (auto simp: finish_entities_def elim!: bindg_ReturnE)
  have keep: "keeps_key (complete_now env)"
    by (rule keeps_key_meta)
      (auto simp: complete_now_def set_completed_def split: option.splits dest!: as_SomeD)
  from UpdateStatus_spec [OF c _ u] keep
  have "wrote env (c_status_update env) [complete_now env, updateStatusPhase StatusCompleted] res1 res' w'"
    by auto
  then obtain w2 cur w3 ob w4 where g: "c_get env KTask (obj_ns res1) (obj_name res1) w2 = (Inr cur, w3)"
    and a: "apply_all [complete_now env, updateStatusPhase StatusCompleted] cur w3 = (Return ob, w4)"
    and up: "c_status_update env ob w4 = (Inr res', w')"
    by (auto simp: wrote_def kr)
  from g c(2) obtain t0 where "cur = OTask t0"
    unfolding get_contract_def by (metis kind_of_crdE(4))
  with a obtain now where "ob = OTask (Task_SetPhase StatusCompleted
      (t0\<lparr>t_status := (t_status t0)\<lparr>tt_failedEntities := [], tt_completedTime := now\<rparr>\<rparr>))"
    by (auto simp: complete_now_def set_completed_def updateStatusPhase_def pure_mod_def bindg_assoc)
  with up show ?thesis
    by (intro exI [of _ "Task_SetPhase StatusCompleted
      (t0\<lparr>t_status := (t_status t0)\<lparr>tt_failedEntities := [], tt_completedTime := now\<rparr>\<rparr>)"] exI [of _ w4])
      (simp add: task_accessors Let_def robo_consts)
qed

text \<open>When \<open>processEntities\<close> reports no error, the last thing it did is to write the stored task
  as completed, with no failed entities, whatever the requests were answered.\<close>

theorem processed_task_is_completed:
  assumes "retry_contract env" "get_contract env" "write_contract (c_status_update env)"
    and "processEntities env sched (OTask t) items w = (Return (None, res'), w')"
  shows "\<exists>written v. c_status_update env (OTask written) v = (Inr res', w')
    \<and> Task_GetPhase written = StatusCompleted \<and> tt_failedEntities (t_status written) = []"
proof -
  from assms(4) obtain failed res1 w1 where
    te: "task_entities env (ts_dryRun (t_spec (the_task (OTask t)))) (sched items) (OTask t) w
      = (Return (failed, res1), w1)"
    and rest: "finish_entities env failed res1 w1 = (Return (None, res'), w')"
    unfolding processEntities_def by (auto elim!: bindg_ReturnE)
  have kr: "kind_of res1 = KTask" using task_entities_key [OF assms(1-3) te] by (simp add: same_key_def)
  show ?thesis
    using finish_entities_completed [OF assms(1-3) kr] rest task_entities_no_failure [OF te] by simp
qed

text \<open>The witness: the request fails and the task is completed all the same.\<close>

theorem processed_task_is_completed_witness:
  "\<exists>written v res' w'. c_status_update mem_env (OTask written) v = (Inr res', w')
    \<and> Task_GetPhase written = StatusCompleted \<and> mem_routes w' = [] \<and> length (mem_requests w') = 1"
proof -
  have "ends (processEntities mem_env (\<lambda>es. es) (OTask sample_job) [job_entity] (job_world sample_job []))
      (\<lambda>(e, res') w'. e = None \<and> mem_routes w' = [] \<and> length (mem_requests w') = 1)"
    by code_simp
  then obtain res' w' where run: "processEntities mem_env (\<lambda>es. es) (OTask sample_job) [job_entity]
      (job_world sample_job []) = (Return (None, res'), w')" "mem_routes w' = []" "length (mem_requests w') = 1"
    by (elim endsE) auto
  from processed_task_is_completed [OF mem_retry_contract mem_get_contract mem_write_contracts(2) run(1)] run(2,3)
  show ?thesis by blast
qed


text \<open>A conditional task with a target that is not provisioned is not sent: once the targets are
  resolved the reconcile asks to be run again in thirty seconds, and the cluster is as the resolution
  left it.\<close>

theorem unready_targets_wait:
  assumes "collect_targets env (obj_ns res) targets w = (Return (Inr items), w')"
    and "\<not> ts_unConditonalRun (t_spec (the_task res))"
    and "e \<in> set items" and "et_phase (e_status e) \<noteq> StatusProvisioned"
  shows "run_task env sched res targets w = (Return (Stop (requeue_after (30 * second), None)), w')"
proof -
  have "\<not> checkEntityPhase items StatusProvisioned"
    using assms(3,4) by (induction items) auto
  with assms(1,2) show ?thesis by (simp add: run_task_def bindg_run)
qed

theorem unready_targets_wait_witness:
  "run_task mem_env (\<lambda>es. es) (OTask (sample_job\<lparr>t_spec := (t_spec sample_job)\<lparr>ts_unConditonalRun := False\<rparr>\<rparr>))
      [\<lparr>tr_type = TargetTypeEntity, tr_name = ''a'', tr_action = []\<rparr>] (job_world sample_job [])
    = (Return (Stop (requeue_after (30 * second), None)), job_world sample_job [])"
proof (rule unready_targets_wait)
  let ?t = "OTask (sample_job\<lparr>t_spec := (t_spec sample_job)\<lparr>ts_unConditonalRun := False\<rparr>\<rparr>)"
  show "collect_targets mem_env (obj_ns ?t) [\<lparr>tr_type = TargetTypeEntity, tr_name = ''a'', tr_action = []\<rparr>]
      (job_world sample_job []) = (Return (Inr [job_entity]), job_world sample_job [])"
    by code_simp
  show "et_phase (e_status job_entity) \<noteq> StatusProvisioned"
    by (simp add: job_entity_def empty_entity_status_def robo_consts)
qed (simp_all add: the_task_def)



text \<open>An archived task is not just deleted: the result of the deletion is dropped and the same
  reconcile goes on as for any other task, so a task with no schedule is sent to its targets again.\<close>

theorem archived_task_runs_again:
  assumes "c_get env KTask ns name w = (Inr (OTask t), w1)"
    and "handleFinalizer env (OTask t) finalizer w1 = (Return ((ret, None), res), w2)"
    and "\<not> rr_Requeue ret" and "Task_GetPhase (the_task res) = StatusArchiving"
  shows "TaskReconciler_Reconcile env sched ns name w = reconcile_task env sched res (snd (c_delete env res w2))"
  using assms by (simp add: TaskReconciler_Reconcile_def bindg_run get_as_run)

definition archived_job :: task where
  "archived_job = Task_SetPhase StatusArchiving sample_job"

text \<open>The witness: the archived task is posted to its entity once more.\<close>

theorem archived_task_runs_again_witness:
  "\<exists>r w'. TaskReconciler_Reconcile mem_env (\<lambda>es. es) ''ns'' ''t''
      (job_world archived_job [(''http://a/task'', 200, ''ok'')]) = (Return r, w')
    \<and> mem_requests w' = [(''POST'', ''http://a/task'', Some ''{}'')]"
proof -
  let ?w = "job_world archived_job [(''http://a/task'', 200, ''ok'')]"
  have g: "c_get mem_env KTask ''ns'' ''t'' ?w = (Inr (OTask archived_job), ?w)"
    by code_simp
  have f: "handleFinalizer mem_env (OTask archived_job) finalizer ?w
      = (Return ((no_requeue, None), OTask archived_job), ?w)"
    by code_simp
  have p: "\<not> rr_Requeue no_requeue" "Task_GetPhase (the_task (OTask archived_job)) = StatusArchiving"
    by (simp_all add: no_requeue_def the_task_def archived_job_def task_rk.get_set_phase)
  have "ends (reconcile_task mem_env (\<lambda>es. es) (OTask archived_job) (snd (c_delete mem_env (OTask archived_job) ?w)))
      (\<lambda>r w'. mem_requests w' = [(''POST'', ''http://a/task'', Some ''{}'')])"
    by code_simp
  then obtain r w' where "reconcile_task mem_env (\<lambda>es. es) (OTask archived_job)
      (snd (c_delete mem_env (OTask archived_job) ?w)) = (Return r, w')"
    "mem_requests w' = [(''POST'', ''http://a/task'', Some ''{}'')]"
    by (elim endsE)
  with archived_task_runs_again [OF g f p] show ?thesis by simp
qed

lemma run_task_ok: "run_task env sched res targets w = (Return (Stop r), w') \<Longrightarrow> error_ok env r"
  by (auto simp: run_task_def elim!: bindg_ReturnE split: sum.splits if_splits run_outcome.splits option.splits)
    (erule delegate_ok update_or_delegate_ok)+

lemma schedule_task_ok: "schedule_task env res now next w = (Return r, w') \<Longrightarrow> error_ok env r"
  by (auto simp: schedule_task_def split: prod.splits if_splits
      elim!: stop_run_ok [where env = env])
    (erule update_or_delegate_ok)+

lemma finish_task_ok: "finish_task env res c w = (Return r, w') \<Longrightarrow> error_ok env r"
  by (auto simp: finish_task_def split: sum.splits prod.splits if_splits
      elim!: stop_run_ok [where env = env])
    (erule delegate_ok schedule_task_ok update_or_delegate_ok)+

lemma reconcile_task_ok: "reconcile_task env sched res w = (Return r, w') \<Longrightarrow> error_ok env r"
  by (auto simp: reconcile_task_def split: option.splits if_splits
      elim!: stop_run_ok [where env = env])
    (erule update_or_delegate_ok run_task_ok finish_task_ok)+

text \<open>A reconcile of a task reports an error only for a write conflict, which is requeued after ten
  seconds, or for a clean-up that failed: a request that fails, a target that cannot be resolved or a
  schedule that does not parse never makes the controller retry by itself.\<close>

theorem task_reconcile_errors:
  assumes "TaskReconciler_Reconcile env sched ns name w = (Return (ret, Some e), w')"
  shows "(IsConflict e \<and> ret = requeue_after (10 * second))
   \<or> (ret = no_requeue \<and> (\<exists>res v x res' v'. DeletionHandler_Handle env res None v = (Return (x, Some e, res'), v')))"
proof -
  from assms have "error_ok env (ret, Some e)"
    by (auto simp: TaskReconciler_Reconcile_def elim!: bindg_ReturnE split: sum.splits if_splits)
      (erule delegate_ok reconcile_task_ok handleFinalizer_ok)+
  then show ?thesis by (auto simp: error_ok_def clean_outcome_def)
qed

definition conflict_env :: "mem env" where
  \<comment> \<open>the sample cluster, where every status write loses a race\<close>
  "conflict_env = mem_env\<lparr>c_status_update := (\<lambda>ob w. (Inl err_conflict, w))\<rparr>"

theorem task_reconcile_errors_witness:
  "\<exists>ret e w'. TaskReconciler_Reconcile conflict_env (\<lambda>es. es) ''ns'' ''t''
      (sample_world [OTask (sample_job\<lparr>t_spec := (t_spec sample_job)\<lparr>ts_targets := None\<rparr>\<rparr>)])
      = (Return (ret, Some e), w')
    \<and> ((IsConflict e \<and> ret = requeue_after (10 * second))
     \<or> (ret = no_requeue \<and> (\<exists>res v x res' v'. DeletionHandler_Handle conflict_env res None v
          = (Return (x, Some e, res'), v'))))"
proof -
  let ?w = "sample_world [OTask (sample_job\<lparr>t_spec := (t_spec sample_job)\<lparr>ts_targets := None\<rparr>\<rparr>)]"
  have "ends (TaskReconciler_Reconcile conflict_env (\<lambda>es. es) ''ns'' ''t'' ?w) (\<lambda>(ret, e) w'. e \<noteq> None)"
    by code_simp
  then obtain ret e w' where run:
    "TaskReconciler_Reconcile conflict_env (\<lambda>es. es) ''ns'' ''t'' ?w = (Return (ret, Some e), w')"
    by (elim endsE) auto
  from run task_reconcile_errors [OF run] show ?thesis by blast
qed

end
