(* ===== verification/Agent.thy ===== *)
theory Agent
  imports Reference_Cluster
begin

text \<open>
  \<open>cmd/agent/main.go\<close>: the HTTP server beside each entity's pod. It keeps a queue of messages
  in memory (\<open>/task\<close> appends, \<open>/sync\<close> with no body drains, \<open>/sync\<close> with a body
  creates a task for another entity), stores images, and checks a client certificate on some routes.

  Every access to the queue is one critical section under its lock, so a handler is modelled as one
  step on the queue. The JSON codec, certificates, the file system and the environment are outside,
  in \<open>agent_os\<close>: \<open>decode_message\<close> is a \<open>json.Decoder\<close>, which reads the first value of
  its input, \<open>unmarshal_message\<close> is \<open>json.Unmarshal\<close>, which reads all of it. The name of an
  uploaded file is the base name that \<open>mime/multipart\<close> gives it. The Kubernetes client is the \<open>env\<close> of the other components. A response
  keeps the value that is encoded into its body.
\<close>

section \<open>Data\<close>

record queue_message =
  qm_Sender :: string
  qm_Message :: string
  qm_SentTime :: gotime

record sync_request =
  sr_Target :: string
  sr_Message :: string

datatype body =
    NoBody
  | ErrorText string
  | StatusBody int int
  | SyncBody string "queue_message list"
  | ImagePage "string list"

record response =
  hr_code :: nat
  hr_body :: body

record request =
  hq_method :: string
  hq_length :: int
  hq_body :: "gerror + string"
  hq_cert :: string
  hq_file :: "gerror + string"

record 'w agent_os =
  decode_message :: "string \<Rightarrow> gerror + queue_message"
  unmarshal_message :: "string \<Rightarrow> gerror + queue_message"
  decode_string :: "string \<Rightarrow> gerror + string"
  marshal_message :: "queue_message \<Rightarrow> gerror + string"
  decode_sync :: "string \<Rightarrow> gerror + sync_request"
  encodable :: "body \<Rightarrow> bool"
  pem_decode :: "string \<Rightarrow> string option"
  parse_certificate :: "string \<Rightarrow> gerror + string"
  getenv :: "string \<Rightarrow> string"
  namespace_file :: "gerror + string"
  read_dir :: "'w \<Rightarrow> gerror + (string \<times> bool) list"
  mkdir_all :: "'w \<Rightarrow> gerror option \<times> 'w"
  create_file :: "string \<Rightarrow> 'w \<Rightarrow> gerror option \<times> 'w"
  copy_file :: "string \<Rightarrow> 'w \<Rightarrow> gerror option \<times> 'w"
  add_scheme :: "gerror option"
  in_cluster_config :: "gerror option"
  new_client :: "gerror option"

type_synonym queue = "queue_message list"

type_synonym 'w handler_fn = "request \<Rightarrow> (queue \<times> 'w, response) go"

definition ok_response :: response where
  "ok_response = \<lparr>hr_code = 200, hr_body = NoBody\<rparr>"

definition http_error :: "string \<Rightarrow> nat \<Rightarrow> (queue \<times> 'w, response) go" where
  "http_error msg code = retg \<lparr>hr_code = code, hr_body = ErrorText msg\<rparr>"

definition send_json :: "'w agent_os \<Rightarrow> body \<Rightarrow> (queue \<times> 'w, response) go" where
  "send_json os b =
     (if encodable os b then retg \<lparr>hr_code = 200, hr_body = b\<rparr>
      else http_error ''Failed to encode response'' 500)"

section \<open>The queue\<close>

definition enqueue :: "queue_message \<Rightarrow> queue \<Rightarrow> queue" where
  \<comment> \<open>under the lock\<close>
  "enqueue m q = q @ [m]"

definition drain :: "queue \<Rightarrow> queue_message list \<times> queue" where
  \<comment> \<open>under the lock: the messages of the response, and the cleared queue\<close>
  "drain q = (if length q > 0 then ([] @ q, []) else ([], q))"

definition with_queue :: "(queue \<Rightarrow> 'a \<times> queue) \<Rightarrow> (queue \<times> 'w, 'a) go" where
  "with_queue f = (\<lambda>(q, w). case f q of (x, q') \<Rightarrow> (Return x, (q', w)))"

definition outside :: "('w \<Rightarrow> 'a \<times> 'w) \<Rightarrow> (queue \<times> 'w, 'a) go" where
  "outside f = (\<lambda>(q, w). case f w of (x, w') \<Rightarrow> (Return x, (q, w')))"

section \<open>Handlers\<close>

definition certVerifyMiddleware :: "'w agent_os \<Rightarrow> 'w handler_fn \<Rightarrow> 'w handler_fn" where
  \<comment> \<open>a request with no certificate header is let through\<close>
  "certVerifyMiddleware os next r =
     (if hq_cert r \<noteq> [] then
        (case pem_decode os (hq_cert r) of
           None \<Rightarrow> http_error ''Failed to decode certificate'' 403
         | Some bytes \<Rightarrow> (case parse_certificate os bytes of
             Inl _ \<Rightarrow> http_error ''Invalid certificate'' 403
           | Inr cn \<Rightarrow>
               if cn \<noteq> getenv os ''EXPECTED_CN'' then http_error ''Invalid certificate common name'' 403
               else next r))
      else next r)"

definition imagePath :: string where "imagePath = ''/data''"

definition handleImage :: "'w agent_os \<Rightarrow> 'w handler_fn" where
  "handleImage os r =
     (if hq_method r \<noteq> ''POST'' then http_error ''Method not allowed'' 405
      else (case hq_file r of
        Inl _ \<Rightarrow> http_error ''Error retrieving image'' 400
      | Inr filename \<Rightarrow>
          bindg (outside (mkdir_all os)) (\<lambda>e1. if e1 \<noteq> None then http_error ''Server error'' 500 else
          bindg (outside (create_file os (imagePath @ ''/'' @ filename))) (\<lambda>e2. if e2 \<noteq> None then http_error ''Error saving image'' 500 else
          bindg (outside (copy_file os (imagePath @ ''/'' @ filename))) (\<lambda>e3. if e3 \<noteq> None then http_error ''Error saving image'' 500 else
          retg ok_response)))))"

definition handleTask :: "'w agent_os \<Rightarrow> 'w handler_fn" where
  \<comment> \<open>the body as a JSON object, or as a JSON string that holds one\<close>
  "handleTask os r =
     (if hq_method r \<noteq> ''POST'' then http_error ''Method not allowed'' 405
      else (case hq_body r of
        Inl _ \<Rightarrow> http_error ''Failed to read request'' 400
      | Inr bytes \<Rightarrow> (case decode_message os bytes of
          Inr queueMsg \<Rightarrow> bindg (with_queue (\<lambda>q. ((), enqueue queueMsg q))) (\<lambda>_. retg ok_response)
        | Inl _ \<Rightarrow> (case decode_string os bytes of
            Inl _ \<Rightarrow> http_error ''Invalid message format (not JSON object or string)'' 400
          | Inr jsonString \<Rightarrow> (case unmarshal_message os jsonString of
              Inl _ \<Rightarrow> http_error ''Invalid message content (invalid JSON string)'' 400
            | Inr queueMsg \<Rightarrow> bindg (with_queue (\<lambda>q. ((), enqueue queueMsg q))) (\<lambda>_. retg ok_response))))))"

definition getCurrentNamespace :: "'w agent_os \<Rightarrow> string" where
  "getCurrentNamespace os = (case namespace_file os of Inr data \<Rightarrow> data | Inl _ \<Rightarrow> ''default'')"

definition count_files :: "(string \<times> bool) list \<Rightarrow> int" where
  "count_files files = foldl (\<lambda>imageCount (name, isDir). if \<not> isDir then imageCount + 1 else imageCount) 0 files"

definition handleStatus :: "'w agent_os \<Rightarrow> 'w handler_fn" where
  "handleStatus os r =
     bindg (outside (\<lambda>w. (read_dir os w, w))) (\<lambda>d. case d of
       Inl _ \<Rightarrow> http_error ''Error reading images directory'' 500
     | Inr files \<Rightarrow>
         bindg (with_queue (\<lambda>q. (int (length q), q))) (\<lambda>messageCount.
           send_json os (StatusBody (count_files files) messageCount)))"

definition getEntityName :: "'w agent_os \<Rightarrow> string" where
  "getEntityName os =
     (let entityName = getenv os ''ENTITY_NAME'' in
      if entityName = [] then ''unknown-entity'' else TrimSuffix entityName ''-sa'')"

definition sync_task :: "string \<Rightarrow> string \<Rightarrow> string \<Rightarrow> task" where
  "sync_task ns payload target =
     \<lparr>t_meta = empty_meta\<lparr>m_generateName := ''sync-task-'', m_namespace := ns\<rparr>,
      t_spec = \<lparr>ts_description = ''Task created via sync endpoint'', ts_dockerImage = [], ts_schedule = [],
        ts_runTime = None, ts_offset = 0, ts_payload = payload,
        ts_targets = Some [\<lparr>tr_type = TargetTypeEntity, tr_name = target, tr_action = []\<rparr>],
        ts_dryRun = False, ts_unConditonalRun = False, ts_persistant = False\<rparr>,
      t_status = \<lparr>tt_conditions = [], tt_observedGeneration = 0, tt_phase = [], tt_failedEntities = [],
        tt_executeTime = 0, tt_completedTime = 0\<rparr>\<rparr>"

definition create_sync_task ::
  "'w env \<Rightarrow> 'w agent_os \<Rightarrow> sync_request \<Rightarrow> (queue \<times> 'w, response + unit) go" where
  \<comment> \<open>\<open>Inl\<close>: the error response\<close>
  "create_sync_task env os syncReq =
     (let fail = (\<lambda>msg. bindg (http_error msg 500) (\<lambda>resp. retg (Inl resp))) in
      if add_scheme os \<noteq> None then fail ''Failed to add RoboKube scheme''
      else if in_cluster_config os \<noteq> None then fail ''Kubernetes client error''
      else if new_client os \<noteq> None then fail ''Failed to create Kubernetes client''
      else bindg (outside (c_now env)) (\<lambda>now.
        case marshal_message os \<lparr>qm_Sender = getEntityName os, qm_Message = sr_Message syncReq, qm_SentTime = now\<rparr> of
          Inl _ \<Rightarrow> fail ''Failed to create task payload''
        | Inr payload \<Rightarrow>
            bindg (outside (c_create env (OTask (sync_task (getCurrentNamespace os) payload (sr_Target syncReq))))) (\<lambda>c.
              case c of Inl err \<Rightarrow> fail (''Failed to create task: '' @ err_msg err) | Inr _ \<Rightarrow> retg (Inr ()))))"

definition handleSync :: "'w env \<Rightarrow> 'w agent_os \<Rightarrow> 'w handler_fn" where
  "handleSync env os r =
     (if hq_method r \<noteq> ''POST'' then http_error ''Method not allowed'' 405
      else if hq_length r \<noteq> 0 then
        (case (case hq_body r of Inl e \<Rightarrow> Inl e | Inr bytes \<Rightarrow> decode_sync os bytes) of
           Inl _ \<Rightarrow> http_error ''Invalid request format'' 400
         | Inr syncReq \<Rightarrow>
             if sr_Target syncReq \<noteq> [] then
               bindg (create_sync_task env os syncReq) (\<lambda>x. case x of
                 Inl resp \<Rightarrow> retg resp | Inr _ \<Rightarrow> send_json os (SyncBody [] []))
             else send_json os (SyncBody [] []))
      else bindg (with_queue drain) (\<lambda>messages. send_json os (SyncBody [] messages)))"

definition handleImageList :: "'w agent_os \<Rightarrow> 'w handler_fn" where
  "handleImageList os r =
     bindg (outside (\<lambda>w. (read_dir os w, w))) (\<lambda>d. case d of
       Inl _ \<Rightarrow> http_error ''Error reading images'' 500
     | Inr files \<Rightarrow>
         retg \<lparr>hr_code = 200, hr_body = ImagePage
           (foldl (\<lambda>imageFiles (name, isDir). if \<not> isDir then imageFiles @ [name] else imageFiles) [] files)\<rparr>)"

section \<open>Routes\<close>

datatype route = RImage | RSync | RTask | RStatus | RRoot

definition serve :: "'w env \<Rightarrow> 'w agent_os \<Rightarrow> route \<Rightarrow> 'w handler_fn" where
  \<comment> \<open>the routes of \<open>main\<close>, less the file server under /images/\<close>
  "serve env os rt =
     (case rt of
        RImage \<Rightarrow> certVerifyMiddleware os (handleImage os)
      | RSync \<Rightarrow> certVerifyMiddleware os (handleSync env os)
      | RTask \<Rightarrow> handleTask os
      | RStatus \<Rightarrow> handleStatus os
      | RRoot \<Rightarrow> certVerifyMiddleware os (handleImageList os))"

section \<open>A queue of messages\<close>

text \<open>What the queue promises, for any representation: a message that was put is at the end of the
  contents, and taking all gives the contents and leaves none. A sequence of operations on it, from
  any number of requests, then delivers every message once, in the order of arrival.\<close>

datatype 'm queue_op = Put 'm | Take

fun queue_exec :: "('m \<Rightarrow> 'q \<Rightarrow> 'q) \<Rightarrow> ('q \<Rightarrow> 'm list \<times> 'q) \<Rightarrow> 'm queue_op list \<Rightarrow> 'q \<Rightarrow> 'm list \<times> 'q" where
  \<comment> \<open>all that was delivered, and the queue that is left\<close>
  "queue_exec put take_all [] q = ([], q)"
| "queue_exec put take_all (Put m # ops) q = queue_exec put take_all ops (put m q)"
| "queue_exec put take_all (Take # ops) q =
     (case take_all q of (ms, q1) \<Rightarrow> (case queue_exec put take_all ops q1 of (ds, q2) \<Rightarrow> (ms @ ds, q2)))"

fun puts :: "'m queue_op list \<Rightarrow> 'm list" where
  "puts [] = []"
| "puts (Put m # ops) = m # puts ops"
| "puts (Take # ops) = puts ops"

locale fifo =
  fixes put :: "'m \<Rightarrow> 'q \<Rightarrow> 'q"
    and take_all :: "'q \<Rightarrow> 'm list \<times> 'q"
    and contents :: "'q \<Rightarrow> 'm list"
  assumes contents_put: "contents (put m q) = contents q @ [m]"
    and taken: "fst (take_all q) = contents q"
    and nothing_left: "contents (snd (take_all q)) = []"
begin

lemma exec_conserves:
  "contents q @ puts ops = fst (queue_exec put take_all ops q) @ contents (snd (queue_exec put take_all ops q))"
proof (induction ops arbitrary: q rule: puts.induct)
  case (2 m ops)
  from "2.IH" [of "put m q"] show ?case by (simp add: contents_put)
next
  case (3 ops)
  from "3.IH" [of "snd (take_all q)"] show ?case
    using taken [of q] nothing_left [of q] by (auto split: prod.split)
qed simp

end

interpretation agent_queue: fifo enqueue drain "\<lambda>q. q"
  by unfold_locales (simp_all add: enqueue_def drain_def)

section \<open>The server as a state machine\<close>

datatype agent_label = Served route request response | Elsewhere

text \<open>One request after another, with anything happening to the outside world in between.\<close>

inductive agent_run :: "'w env \<Rightarrow> 'w agent_os \<Rightarrow> queue \<times> 'w \<Rightarrow> agent_label list \<Rightarrow> queue \<times> 'w \<Rightarrow> bool"
  for env os where
  agent_start: "agent_run env os s [] s"
| agent_serve: "agent_run env os s ls s1 \<Longrightarrow> serve env os rt r s1 = (Return resp, s2) \<Longrightarrow>
    agent_run env os s (ls @ [Served rt r resp]) s2"
| agent_other: "agent_run env os s ls (q, w) \<Longrightarrow> agent_run env os s (ls @ [Elsewhere]) (q, w')"

inductive_cases agent_runE: "agent_run env os s ls s'"

definition task_message :: "'w agent_os \<Rightarrow> request \<Rightarrow> queue_message option" where
  \<comment> \<open>the message a request to /task carries\<close>
  "task_message os r =
     (if hq_method r \<noteq> ''POST'' then None
      else (case hq_body r of
        Inl _ \<Rightarrow> None
      | Inr bytes \<Rightarrow> (case decode_message os bytes of
          Inr m \<Rightarrow> Some m
        | Inl _ \<Rightarrow> (case decode_string os bytes of
            Inl _ \<Rightarrow> None
          | Inr text \<Rightarrow> (case unmarshal_message os text of Inl _ \<Rightarrow> None | Inr m \<Rightarrow> Some m)))))"

definition cert_passes :: "'w agent_os \<Rightarrow> request \<Rightarrow> bool" where
  "cert_passes os r \<longleftrightarrow> hq_cert r = [] \<or>
     (case pem_decode os (hq_cert r) of
        None \<Rightarrow> False
      | Some bytes \<Rightarrow> parse_certificate os bytes = Inr (getenv os ''EXPECTED_CN''))"

definition queue_ops :: "'w agent_os \<Rightarrow> agent_label \<Rightarrow> queue_message queue_op list" where
  \<comment> \<open>what a request does to the queue\<close>
  "queue_ops os l = (case l of
       Served RTask r resp \<Rightarrow> (case task_message os r of None \<Rightarrow> [] | Some m \<Rightarrow> [Put m])
     | Served RSync r resp \<Rightarrow>
         if cert_passes os r \<and> hq_method r = ''POST'' \<and> hq_length r = 0 then [Take] else []
     | _ \<Rightarrow> [])"

definition delivered :: "agent_label \<Rightarrow> queue_message list" where
  "delivered l = (case l of Served _ _ resp \<Rightarrow> (case hr_body resp of SyncBody _ ms \<Rightarrow> ms | _ \<Rightarrow> []) | _ \<Rightarrow> [])"

lemma with_queue_run [simp]: "with_queue f (q, w) = (Return (fst (f q)), (snd (f q), w))"
  by (simp add: with_queue_def split: prod.split)

lemma outside_run [simp]: "outside f (q, w) = (Return (fst (f w)), (q, snd (f w)))"
  by (simp add: outside_def split: prod.split)

lemma http_error_run [simp]: "http_error msg code s = (Return \<lparr>hr_code = code, hr_body = ErrorText msg\<rparr>, s)"
  by (simp add: http_error_def)

lemma send_json_run:
  "send_json os b s = (Return (if encodable os b then \<lparr>hr_code = 200, hr_body = b\<rparr>
     else \<lparr>hr_code = 500, hr_body = ErrorText ''Failed to encode response''\<rparr>), s)"
  by (simp add: send_json_def)

lemma handleTask_run:
  "handleTask os r (q, w) = (case task_message os r of
       Some m \<Rightarrow> (Return ok_response, (enqueue m q, w))
     | None \<Rightarrow> (fst (handleTask os r (q, w)), (q, w)))"
  by (auto simp: handleTask_def task_message_def bindg_run split: sum.split)

lemma handleTask_no_message: "task_message os r = None \<Longrightarrow>
    \<exists>msg code. handleTask os r (q, w) = (Return \<lparr>hr_code = code, hr_body = ErrorText msg\<rparr>, (q, w)) \<and> code \<ge> 400"
  by (auto simp: handleTask_def task_message_def bindg_run split: sum.splits if_splits)

lemma certVerify_run:
  "(cert_passes os r \<longrightarrow> certVerifyMiddleware os next r = next r)
   \<and> (\<not> cert_passes os r \<longrightarrow> (\<exists>msg. certVerifyMiddleware os next r = http_error msg 403))"
  by (auto simp: certVerifyMiddleware_def cert_passes_def split: option.split sum.split)

lemma create_sync_task_queue:
  "create_sync_task env os sr (q, w) = (Return x, (q', w')) \<Longrightarrow>
     q' = q \<and> (\<forall>resp. x = Inl resp \<longrightarrow> (\<exists>msg. hr_body resp = ErrorText msg \<and> hr_code resp = 500))"
  by (auto simp: create_sync_task_def Let_def bindg_run split: if_splits sum.splits)

lemma handleSync_with_body:
  assumes "hq_length r \<noteq> 0 \<or> hq_method r \<noteq> ''POST''" and "handleSync env os r (q, w) = (Return resp, (q', w'))"
  shows "q' = q \<and> (\<forall>t ms. hr_body resp = SyncBody t ms \<longrightarrow> ms = [])"
  using assms
  by (auto simp: handleSync_def send_json_run elim!: bindg_ReturnE
      split: if_splits sum.splits dest!: create_sync_task_queue)

lemma handleSync_drain:
  "hq_method r = ''POST'' \<Longrightarrow> hq_length r = 0 \<Longrightarrow>
     handleSync env os r (q, w) = (fst (send_json os (SyncBody [] (fst (drain q))) (q, w)), (snd (drain q), w))"
  by (simp add: handleSync_def bindg_run send_json_run)

lemma other_routes_queue:
  "handleImage os r (q, w) = (x, (q', w')) \<Longrightarrow> q' = q"
  "handleStatus os r (q, w) = (x, (q', w')) \<Longrightarrow> q' = q"
  "handleImageList os r (q, w) = (x, (q', w')) \<Longrightarrow> q' = q"
  by (auto simp: handleImage_def handleStatus_def handleImageList_def bindg_run send_json_run
      split: if_splits sum.splits)

lemma other_routes_body:
  "handleImage os r s = (Return resp, s') \<Longrightarrow> delivered (Served rt r resp) = []"
  "handleStatus os r s = (Return resp, s') \<Longrightarrow> delivered (Served rt r resp) = []"
  "handleImageList os r s = (Return resp, s') \<Longrightarrow> delivered (Served rt r resp) = []"
  by (cases s; auto simp: handleImage_def handleStatus_def handleImageList_def bindg_run send_json_run
      ok_response_def delivered_def split: if_splits sum.splits)+

lemma queue_exec_append:
  "queue_exec put tk (xs @ ys) q =
     (fst (queue_exec put tk xs q) @ fst (queue_exec put tk ys (snd (queue_exec put tk xs q))),
      snd (queue_exec put tk ys (snd (queue_exec put tk xs q))))"
  by (induction xs arbitrary: q rule: puts.induct) (auto split: prod.split)

text \<open>Each request refines at most one operation of the queue.\<close>

lemma serve_refines:
  assumes "serve env os rt r (q, w) = (Return resp, (q', w'))"
  shows "q' = snd (queue_exec enqueue drain (queue_ops os (Served rt r resp)) q)
    \<and> ((\<forall>ms. encodable os (SyncBody [] ms)) \<longrightarrow>
        delivered (Served rt r resp) = fst (queue_exec enqueue drain (queue_ops os (Served rt r resp)) q))"
proof (cases rt)
  case RTask
  with assms have run: "handleTask os r (q, w) = (Return resp, (q', w'))" by (simp add: serve_def)
  show ?thesis
  proof (cases "task_message os r")
    case None
    with handleTask_no_message [OF None, of q w] run RTask show ?thesis
      by (auto simp: queue_ops_def delivered_def)
  next
    case (Some m)
    with handleTask_run [of os r q w] run RTask show ?thesis
      by (auto simp: queue_ops_def delivered_def ok_response_def)
  qed
next
  case RSync
  with assms have run: "certVerifyMiddleware os (handleSync env os) r (q, w) = (Return resp, (q', w'))"
    by (simp add: serve_def)
  show ?thesis
  proof (cases "cert_passes os r")
    case False
    with certVerify_run [of os r "handleSync env os"] run RSync show ?thesis
      by (auto simp: queue_ops_def delivered_def)
  next
    case True
    with certVerify_run [of os r "handleSync env os"] run
    have run2: "handleSync env os r (q, w) = (Return resp, (q', w'))" by simp
    show ?thesis
    proof (cases "hq_method r = ''POST'' \<and> hq_length r = 0")
      case drains: True
      with handleSync_drain [of r env os q w] run2 RSync True show ?thesis
        by (auto simp: queue_ops_def delivered_def send_json_run split: prod.split)
    next
      case False
      with handleSync_with_body [of r env os q w resp q' w'] run2 RSync show ?thesis
        by (auto simp: queue_ops_def delivered_def split: body.split)
    qed
  qed
next
  case RImage
  with assms have run: "certVerifyMiddleware os (handleImage os) r (q, w) = (Return resp, (q', w'))"
    by (simp add: serve_def)
  then show ?thesis
    using certVerify_run [of os r "handleImage os"] other_routes_queue(1) [of os r q w] other_routes_body(1) [of os r "(q, w)"]
    by (cases "cert_passes os r") (auto simp: queue_ops_def RImage delivered_def [of "Served _ _ \<lparr>hr_code = _, hr_body = ErrorText _\<rparr>"])
next
  case RStatus
  with assms show ?thesis
    using other_routes_queue(2) [of os r q w] other_routes_body(2) [of os r "(q, w)"]
    by (auto simp: serve_def queue_ops_def)
next
  case RRoot
  with assms have run: "certVerifyMiddleware os (handleImageList os) r (q, w) = (Return resp, (q', w'))"
    by (simp add: serve_def)
  then show ?thesis
    using certVerify_run [of os r "handleImageList os"] other_routes_queue(3) [of os r q w]
      other_routes_body(3) [of os r "(q, w)"]
    by (cases "cert_passes os r") (auto simp: queue_ops_def RRoot delivered_def [of "Served _ _ \<lparr>hr_code = _, hr_body = ErrorText _\<rparr>"])
qed

lemma agent_run_refines:
  assumes "agent_run env os s ls s'" and "\<And>ms. encodable os (SyncBody [] ms)"
  shows "queue_exec enqueue drain (concat (map (queue_ops os) ls)) (fst s)
    = (concat (map delivered ls), fst s')"
  using assms(1)
proof (induction rule: agent_run.induct)
  case (agent_start s)
  then show ?case by simp
next
  case (agent_serve s ls s1 rt r resp s2)
  obtain q1 w1 q2 w2 where s: "s1 = (q1, w1)" "s2 = (q2, w2)" by fastforce
  with serve_refines [of env os rt r q1 w1 resp q2 w2] agent_serve assms(2)
  have "q2 = snd (queue_exec enqueue drain (queue_ops os (Served rt r resp)) q1)"
    "delivered (Served rt r resp) = fst (queue_exec enqueue drain (queue_ops os (Served rt r resp)) q1)"
    by simp_all
  with agent_serve.IH s show ?case by (simp add: queue_exec_append)
next
  case (agent_other s ls q w w')
  then show ?case by (simp add: queue_exec_append queue_ops_def delivered_def)
qed

section \<open>Properties\<close>

text \<open>C2: the agent delivers every message exactly once and in order. Over any sequence of requests on
  any routes, with the outside world changing in between, the messages in the queue at the start
  followed by those accepted on /task are the messages handed out by /sync followed by those still in
  the queue.\<close>

theorem agent_delivers_exactly_once:
  assumes "agent_run env os (q0, w0) ls (q, w)" and "\<And>ms. encodable os (SyncBody [] ms)"
  shows "q0 @ puts (concat (map (queue_ops os) ls)) = concat (map delivered ls) @ q"
  using agent_queue.exec_conserves [of q0 "concat (map (queue_ops os) ls)"] agent_run_refines [OF assms]
  by simp

definition sample_os :: "mem agent_os" where
  \<comment> \<open>a message is its text; a text in brackets is a JSON string; no certificate is valid\<close>
  "sample_os = \<lparr>
     decode_message = (\<lambda>s. if s = [] \<or> hd s = CHR ''['' then Inl (errorf ''bad'')
        else Inr \<lparr>qm_Sender = ''a'', qm_Message = s, qm_SentTime = 0\<rparr>),
     unmarshal_message = (\<lambda>s. Inr \<lparr>qm_Sender = ''a'', qm_Message = s, qm_SentTime = 0\<rparr>),
     decode_string = (\<lambda>s. if s = [] then Inl (errorf ''bad'') else Inr (tl s)),
     marshal_message = (\<lambda>m. Inr (qm_Message m)),
     decode_sync = (\<lambda>s. Inr \<lparr>sr_Target = s, sr_Message = ''hello''\<rparr>),
     encodable = (\<lambda>b. True),
     pem_decode = (\<lambda>s. None),
     parse_certificate = (\<lambda>s. Inr s),
     getenv = (\<lambda>v. if v = ''ENTITY_NAME'' then ''arm-0-sa'' else []),
     namespace_file = Inr ''ns'',
     read_dir = (\<lambda>w. Inr [(''a.png'', False), (''old'', True)]),
     mkdir_all = (\<lambda>w. (None, w)),
     create_file = (\<lambda>n w. (None, w)),
     copy_file = (\<lambda>n w. (None, w)),
     add_scheme = None, in_cluster_config = None, new_client = None\<rparr>"

definition post :: "string \<Rightarrow> request" where
  "post b = \<lparr>hq_method = ''POST'', hq_length = int (length b), hq_body = Inr b, hq_cert = [],
     hq_file = Inl (errorf ''no file'')\<rparr>"

text \<open>The witness: a message, the same in a JSON string, and a sync.\<close>

theorem agent_delivers_exactly_once_witness:
  "\<exists>ls q w. agent_run mem_env sample_os ([], sample_world []) ls (q, w)
    \<and> length ls = 3 \<and> q = [] \<and> map qm_Message (concat (map delivered ls)) = [''hi'', ''there'']"
proof -
  let ?w = "sample_world []"
  let ?m = "\<lambda>s. \<lparr>qm_Sender = ''a'', qm_Message = s, qm_SentTime = 0\<rparr>"
  let ?ls = "[Served RTask (post ''hi'') ok_response, Served RTask (post ''[there'') ok_response,
      Served RSync (post []) \<lparr>hr_code = 200, hr_body = SyncBody [] [?m ''hi'', ?m ''there'']\<rparr>]"
  have s1: "serve mem_env sample_os RTask (post ''hi'') ([], ?w) = (Return ok_response, ([?m ''hi''], ?w))"
    by code_simp
  have s2: "serve mem_env sample_os RTask (post ''[there'') ([?m ''hi''], ?w)
      = (Return ok_response, ([?m ''hi'', ?m ''there''], ?w))"
    by code_simp
  have s3: "serve mem_env sample_os RSync (post []) ([?m ''hi'', ?m ''there''], ?w)
      = (Return \<lparr>hr_code = 200, hr_body = SyncBody [] [?m ''hi'', ?m ''there'']\<rparr>, ([], ?w))"
    by code_simp
  have run: "agent_run mem_env sample_os ([], ?w) ?ls ([], ?w)"
    using agent_serve [OF agent_serve [OF agent_serve [OF agent_start s1] s2] s3] by simp
  have "encodable sample_os (SyncBody [] ms)" for ms by (simp add: sample_os_def)
  from agent_delivers_exactly_once [OF run this] have
    "concat (map delivered ?ls) = puts (concat (map (queue_ops sample_os) ?ls))"
    by simp
  moreover have "map qm_Message (puts (concat (map (queue_ops sample_os) ?ls))) = [''hi'', ''there'']"
    by code_simp
  ultimately show ?thesis using run
    by (intro exI [of _ ?ls] exI [of _ "[]"] exI [of _ ?w]) simp
qed

text \<open>/task answers 200 exactly when the body is a message, or a JSON string that holds one, and
  then that message is the last of the queue; every other request is refused and leaves the queue as
  it was.\<close>

theorem task_accepts_iff_message:
  "\<exists>resp q'. handleTask os r (q, w) = (Return resp, (q', w))
    \<and> (hr_code resp = 200 \<longleftrightarrow> task_message os r \<noteq> None)
    \<and> q' = (case task_message os r of None \<Rightarrow> q | Some m \<Rightarrow> q @ [m])"
  using handleTask_run [of os r q w] handleTask_no_message [of os r q w]
  by (cases "task_message os r") (auto simp: ok_response_def enqueue_def)

text \<open>A client certificate is checked only when one is presented. A request with a certificate
  that does not decode, does not parse or names another subject is refused with 403 and has no effect;
  one without any certificate is served like one with the expected certificate.\<close>

theorem certificate_gate:
  "certVerifyMiddleware os next r s =
     (if hq_cert r = [] \<or> (\<exists>bytes. pem_decode os (hq_cert r) = Some bytes
          \<and> parse_certificate os bytes = Inr (getenv os ''EXPECTED_CN''))
      then next r s
      else (Return \<lparr>hr_code = 403, hr_body = ErrorText (
          case pem_decode os (hq_cert r) of None \<Rightarrow> ''Failed to decode certificate''
          | Some bytes \<Rightarrow> (case parse_certificate os bytes of Inl _ \<Rightarrow> ''Invalid certificate''
              | Inr _ \<Rightarrow> ''Invalid certificate common name''))\<rparr>, s))"
  by (auto simp: certVerifyMiddleware_def split: option.split sum.split)

text \<open>A sync request with a target creates exactly one task, in the agent's own namespace, for
  that one entity, to be sent at once when the entity is provisioned; its payload is the encoded
  message, whose sender is the agent's entity without its service-account suffix. The queue is not
  touched.\<close>

theorem sync_creates_task:
  assumes "hq_method r = ''POST''" "hq_length r \<noteq> 0" "hq_body r = Inr bytes" "decode_sync os bytes = Inr sr"
    and "sr_Target sr \<noteq> []"
    and "handleSync env os r (q, w) = (Return resp, (q', w'))" and "hr_code resp = 200"
  shows "q' = q \<and> (\<exists>payload t.
      marshal_message os \<lparr>qm_Sender = getEntityName os, qm_Message = sr_Message sr,
          qm_SentTime = fst (c_now env w)\<rparr> = Inr payload
    \<and> snd (c_create env (OTask t) (snd (c_now env w))) = w'
    \<and> m_namespace (t_meta t) = getCurrentNamespace os \<and> ts_payload (t_spec t) = payload
    \<and> ts_targets (t_spec t) = Some [\<lparr>tr_type = TargetTypeEntity, tr_name = sr_Target sr, tr_action = []\<rparr>]
    \<and> \<not> ts_unConditonalRun (t_spec t) \<and> ts_runTime (t_spec t) = None \<and> ts_schedule (t_spec t) = [])"
proof -
  obtain x q1 w1 where c: "create_sync_task env os sr (q, w) = (Return x, (q1, w1))" and
    rest: "(case x of Inl resp \<Rightarrow> retg resp | Inr _ \<Rightarrow> send_json os (SyncBody [] [])) (q1, w1)
      = (Return resp, (q', w'))"
    using assms(1-6) by (auto simp: handleSync_def elim!: bindg_ReturnE)
  from create_sync_task_queue [OF c] rest assms(7) obtain u where x: "x = Inr u" and q: "q' = q" "w' = w1"
    by (cases x) (auto simp: send_json_run)
  from c [unfolded x] obtain payload where
    "marshal_message os \<lparr>qm_Sender = getEntityName os, qm_Message = sr_Message sr,
          qm_SentTime = fst (c_now env w)\<rparr> = Inr payload"
    "snd (c_create env (OTask (sync_task (getCurrentNamespace os) payload (sr_Target sr))) (snd (c_now env w))) = w1"
    by (auto simp: create_sync_task_def Let_def bindg_run split: if_splits sum.splits)
  with q show ?thesis
    by (intro conjI exI [of _ payload] exI [of _ "sync_task (getCurrentNamespace os) payload (sr_Target sr)"])
      (simp_all add: sync_task_def)
qed

theorem sync_creates_task_witness:
  "\<exists>payload t w'. ts_payload (t_spec t) = payload \<and> payload = ''hello''
    \<and> snd (c_create mem_env (OTask t) (sample_world [])) = w'
    \<and> ts_targets (t_spec t) = Some [\<lparr>tr_type = TargetTypeEntity, tr_name = ''arm-1'', tr_action = []\<rparr>]"
proof -
  have "ends (handleSync mem_env sample_os (post ''arm-1'') ([], sample_world []))
      (\<lambda>resp (q', w'). hr_code resp = 200)"
    by code_simp
  then obtain resp q' w' where
    run: "handleSync mem_env sample_os (post ''arm-1'') ([], sample_world []) = (Return resp, (q', w'))"
      "hr_code resp = 200"
    by (auto elim!: endsE)
  have p: "hq_method (post ''arm-1'') = ''POST''" "hq_length (post ''arm-1'') \<noteq> 0"
    "hq_body (post ''arm-1'') = Inr ''arm-1''"
    "decode_sync sample_os ''arm-1'' = Inr \<lparr>sr_Target = ''arm-1'', sr_Message = ''hello''\<rparr>"
    "sr_Target \<lparr>sr_Target = ''arm-1'', sr_Message = ''hello''\<rparr> \<noteq> []"
    by (simp_all add: post_def sample_os_def)
  from sync_creates_task [OF p run] show ?thesis
    by (auto simp: sample_os_def mem_env_def)
qed

end
