(* ===== verification/Provision.thy ===== *)
theory Provision
  imports Early_Return
begin

text \<open>
  The composition that the model and the entity controller repeat for each object they own:
  \<open>handler.NewClusterResourceHandler\<close> on the parameters of the object, then \<open>Processor\<close>
  with the handler's \<open>Build\<close>, an edit of the template, its \<open>Handle\<close>, and
  \<open>setCondition\<close>. It is stated once, with what a run of it without an error has done.
\<close>

section \<open>The composition\<close>

definition resource_params ::
  "resource_type \<Rightarrow> string \<Rightarrow> string \<Rightarrow> gomap option \<Rightarrow> bool \<Rightarrow> string \<Rightarrow> cluster_params" where
  \<comment> \<open>the literal \<open>ClusterResourceParams\<close>; none of the two controllers asks for verification\<close>
  "resource_params ty name ns labels owned template =
     \<lparr>cp_ResourceType = ty, cp_TargetName = name, cp_Namespace = ns, cp_InjectLabels = labels,
      cp_NeedVerify = False, cp_SetOwnerReferences = owned, cp_Template = template\<rparr>"

definition provision ::
  "nat \<Rightarrow> 'w env \<Rightarrow> obj \<Rightarrow> cluster_params \<Rightarrow> 'w modfn \<Rightarrow> ('w, gerror option \<times> obj) go" where
  "provision fuel env res paras f =
     bindg (pureg (NewClusterResourceHandler res paras)) (\<lambda>h.
     bindg (Processor env res None (Some (ClusterResourceHandler_Build env h)) (Some f)
         (ClusterResourceHandler_Handle fuel env h) (Some (setCondition env))) (\<lambda>((_, err), res1, _).
       retg (err, res1)))"

definition no_edit :: "'w modfn" where
  \<comment> \<open>\<open>func(client.Object) {}\<close>\<close>
  "no_edit = pure_mod (\<lambda>ob. ob)"

section \<open>What it achieves\<close>

definition owns :: "'w env \<Rightarrow> obj \<Rightarrow> cluster_params \<Rightarrow> 'w modfn \<Rightarrow> bool" where
  \<comment> \<open>the template was read and edited, and its object is in the cluster as wanted\<close>
  "owns env res paras f \<longleftrightarrow>
     (\<exists>h bytes object v built v1 want w1 r w'.
        NewClusterResourceHandler res paras = Return h
      \<and> read_file env (TemplatePath @ ''/'' @ cp_Template paras) = Inr bytes
      \<and> decode_object env bytes = Inr object \<and> f object v = (Return built, v1)
      \<and> wanted h built want \<and> provisioned env h want w1 r w')"

lemma Processor_built:
  assumes c: "retry_contract env" "get_contract env" "write_contract (c_status_update env)"
    and "Processor env res None (Some build) (Some f) procFn (Some (setCondition env)) w
      = (Return ((r, None), res', ob'), w')"
  shows "same_key res res' \<and> (\<exists>ob1 v r1 ob2 v2. build res (Some f) w = (Return (Inr ob1), v)
    \<and> procFn ob1 (Some f) v = (Return (r1, None, ob2), v2))"
proof -
  from assms(4) obtain ob1 v where b: "build res (Some f) w = (Return (Inr ob1), v)" and
    pr: "process env res False ob1 (Some f) procFn (Some (setCondition env)) v = (Return ((r, None), res', ob'), w')"
    by (auto simp: Processor_def elim!: bindg_ReturnE split: sum.splits)
  from process_given [OF c pr] b show ?thesis by blast
qed

lemma Processor_plain:
  assumes c: "retry_contract env" "get_contract env" "write_contract (c_status_update env)"
    and "Processor env res (Some ob) None None procFn (Some (setCondition env)) w
      = (Return ((r, None), res', ob'), w')"
  shows "same_key res res' \<and> (\<exists>r1 ob2 v2. procFn ob None w = (Return (r1, None, ob2), v2))"
proof -
  from assms(4) have "process env res False ob None procFn (Some (setCondition env)) w
      = (Return ((r, None), res', ob'), w')"
    by (simp add: Processor_def maybe_edit_def)
  from process_given [OF c this] show ?thesis by blast
qed

lemma Processor_self:
  \<comment> \<open>the object is the resource itself\<close>
  assumes "Processor env res None None (Some f) procFn (Some (setCondition env)) w
      = (Return ((r, None), res', ob'), w')"
  obtains ob1 v r1 ob2 v2 where "f res w = (Return ob1, v)" "procFn ob1 (Some f) v = (Return (r1, None, ob2), v2)"
proof -
  from assms obtain ob1 v where f: "f res w = (Return ob1, v)" and
    pr: "process env ob1 True ob1 (Some f) procFn (Some (setCondition env)) v = (Return ((r, None), res', ob'), w')"
    by (auto simp: Processor_def maybe_edit_def elim!: bindg_ReturnE)
  from pr obtain r1 e ob2 v2 where h: "procFn ob1 (Some f) v = (Return (r1, e, ob2), v2)"
    unfolding process_def by (auto elim!: bindg_ReturnE)
  with pr have "e = None" by (auto simp: process_def Let_def bindg_run split: option.splits)
  with f h that show ?thesis by blast
qed

lemma Build_Inr:
  assumes "ClusterResourceHandler_Build env h ob (Some f) w = (Return (Inr built), w')"
  shows "\<exists>bytes object. read_file env (TemplatePath @ ''/'' @ ch_TemplateName h) = Inr bytes
    \<and> decode_object env bytes = Inr object \<and> f object w = (Return built, w')"
  using assms
  by (auto simp: ClusterResourceHandler_Build_def call_fn_def elim!: bindg_ReturnE
      split: if_splits sum.splits)

lemma provision_spec:
  assumes c: "retry_contract env" "get_contract env" "write_contract (c_status_update env)"
    and "owner_contract env" and "\<not> cp_NeedVerify paras"
    and "provision fuel env res paras f w = (Return (None, res'), w')"
  shows "same_key res res' \<and> owns env res paras f"
proof -
  from assms(6) obtain h r ob' v where h: "NewClusterResourceHandler res paras = Return h" and
    p: "Processor env res None (Some (ClusterResourceHandler_Build env h)) (Some f)
         (ClusterResourceHandler_Handle fuel env h) (Some (setCondition env)) w = (Return ((r, None), res', ob'), v)"
    by (auto simp: provision_def elim!: bindg_ReturnE)
  from Processor_built [OF c p] obtain built v1 r1 ob2 v2 where k: "same_key res res'" and
    b: "ClusterResourceHandler_Build env h res (Some f) w = (Return (Inr built), v1)" and
    run: "ClusterResourceHandler_Handle fuel env h built (Some f) v1 = (Return (r1, None, ob2), v2)"
    by auto
  from h assms(5) have hs: "\<not> ch_NeedVerify h" "ch_TemplateName h = cp_Template paras"
    by (auto simp: NewClusterResourceHandler_def)
  from Build_Inr [OF b] ClusterResourceHandler_done [OF run hs(1) assms(4)] h hs(2) k
  show ?thesis unfolding owns_def by metis
qed

section \<open>Objects in place\<close>

definition in_place :: "'w env \<Rightarrow> resource_type \<Rightarrow> obj \<Rightarrow> bool" where
  \<comment> \<open>the cluster has this object of this type, as \<open>provisioned\<close> says\<close>
  "in_place env ty ob \<longleftrightarrow> (\<exists>h w r w'. provisioned env h ob w r w' \<and> ch_ResourceType h = ty
     \<and> empty_object ty = Return (ch_InitObject h) \<and> ch_TargetName h = obj_name ob \<and> ch_Namespace h = obj_ns ob)"

lemma owns_in_place:
  fixes env :: "'w env"
  assumes "owns env res paras f"
  obtains object built want and v v1 :: 'w and g where "f object v = (Return built, v1)" "want = map_meta g built"
    "in_place env (cp_ResourceType paras) want" "obj_name want = cp_TargetName paras"
    "obj_ns want = cp_Namespace paras"
    "\<And>l k x. cp_InjectLabels paras = Some l \<Longrightarrow> fmlookup l k = Some x \<Longrightarrow> label_of (meta_of want) k = Some x"
proof -
  from assms obtain h bytes object v built v1 want w1 r w' where
    h: "NewClusterResourceHandler res paras = Return h" and f: "f object v = (Return built, v1)" and
    want: "wanted h built want" and p: "provisioned env h want w1 r w'"
    unfolding owns_def by (elim exE conjE) (rule that)
  from h have hs: "ch_ResourceType h = cp_ResourceType paras" "ch_TargetName h = cp_TargetName paras"
    "ch_Namespace h = cp_Namespace paras" "ch_InjectLabels h = cp_InjectLabels paras"
    "empty_object (cp_ResourceType paras) = Return (ch_InitObject h)"
    by (auto simp: NewClusterResourceHandler_def)
  from want obtain g where g: "want = map_meta g built" by (auto simp: wanted_def)
  have "in_place env (cp_ResourceType paras) want"
    unfolding in_place_def using p hs want unfolding wanted_def by metis
  with f g want hs that show ?thesis unfolding wanted_def by metis
qed

section \<open>Edits that both controllers make\<close>

definition selector_entry :: "string \<Rightarrow> string \<Rightarrow> service \<Rightarrow> service" where
  \<comment> \<open>a nil selector is made first\<close>
  "selector_entry key val target =
     target\<lparr>s_spec := (s_spec target)\<lparr>sv_selector := Some (fmupd key val
       (case sv_selector (s_spec target) of None \<Rightarrow> fmempty | Some l \<Rightarrow> l))\<rparr>\<rparr>"

definition set_owner :: "'w env \<Rightarrow> model \<Rightarrow> obj \<Rightarrow> obj" where
  \<comment> \<open>the error of \<open>SetControllerReference\<close> is dropped\<close>
  "set_owner env model ob = (case set_controller_ref env (OModel model) ob of Inl _ \<Rightarrow> ob | Inr ob' \<Rightarrow> ob')"

lemma set_owner_meta:
  assumes "owner_contract env"
  obtains g where "set_owner env model ob = map_meta g ob"
    "\<And>x. m_name (g x) = m_name x" "\<And>x. m_namespace (g x) = m_namespace x"
proof (cases "set_controller_ref env (OModel model) ob")
  case (Inl e)
  then show ?thesis using that [of "\<lambda>x. x"] by (simp add: set_owner_def map_meta_id)
next
  case (Inr o')
  with assms obtain refs where "o' = map_meta (\<lambda>m. m\<lparr>m_ownerReferences := refs\<rparr>) ob"
    unfolding owner_contract_def by blast
  with Inr show ?thesis using that [of "\<lambda>m. m\<lparr>m_ownerReferences := refs\<rparr>"] by (simp add: set_owner_def)
qed

lemma set_owner_key: "owner_contract env \<Longrightarrow> same_key ob (set_owner env model ob)"
  by (erule set_owner_meta [of _ model ob]) (simp add: same_key_def obj_name_def obj_ns_def)

end
