(* ===== verification/Templates.thy ===== *)
theory Templates
  imports Provision
begin

text \<open>
  The manifests of \<open>internal/controller/template\<close> as the objects a decoder makes of them, reduced
  to the fields of \<open>Cluster_Objects\<close>. They are data of the program: the edits of the reconcilers
  index into them and write to their maps without a test. \<open>repo_env\<close> is the reference cluster with
  these manifests.
\<close>

definition named_meta :: "string \<Rightarrow> string \<Rightarrow> object_meta" where
  "named_meta n ns = empty_meta\<lparr>m_name := n, m_namespace := ns\<rparr>"

definition np_group_yml :: obj where
  "np_group_yml = (let rule = \<lparr>ru_peers = [\<lparr>pe_podSelector =
       Some [\<lparr>ne_key = ''your-label-key'', ne_rest = ''operator: Exists''\<rparr>], pe_rest = []\<rparr>], ru_rest = []\<rparr> in
     ONetworkPolicy \<lparr>np_meta = named_meta ''m-group'' [],
       np_nspec = \<lparr>np_ingress = [rule], np_egress = [rule], np_rest = ''policyTypes: Ingress Egress''\<rparr>\<rparr>)"

definition np_operator_yml :: obj where
  "np_operator_yml = ONetworkPolicy \<lparr>np_meta = named_meta ''m-allow-operator'' [],
     np_nspec = \<lparr>np_ingress = [\<lparr>ru_peers = [\<lparr>pe_podSelector = None,
         pe_rest = ''namespaceSelector: kubernetes.io/metadata.name=r-system''\<rparr>], ru_rest = []\<rparr>],
       np_egress = [], np_rest = ''policyTypes: Ingress''\<rparr>\<rparr>"

definition srv_yml :: obj where
  "srv_yml = OService \<lparr>s_meta = named_meta ''test'' ''test'',
     s_spec = \<lparr>sv_selector = None, sv_rest = ''clusterIP: None, ports: http 80 to 80''\<rparr>\<rparr>"

definition srv_pod_yml :: obj where
  "srv_pod_yml = OService \<lparr>s_meta = named_meta ''test'' ''test'',
     s_spec = \<lparr>sv_selector = None, sv_rest = ''ports: http 80 to 80''\<rparr>\<rparr>"

definition sts_yml :: obj where
  "sts_yml = OStatefulSet \<lparr>st_meta = named_meta ''test'' ''test'',
     st_spec = \<lparr>ss_replicas = Some 0, ss_selector = Some (Some (fmap_of_list [(''app'', ''test'')])),
       ss_templateLabels = Some (fmap_of_list [(''app'', ''test'')]),
       ss_containers = [\<lparr>co_image = ''test-image'', co_rest = ''name: main, containerPort: 80''\<rparr>],
       ss_rest = ''serviceName: test''\<rparr>,
     st_readyReplicas = 0\<rparr>"

definition entity_yml :: obj where
  "entity_yml = OEntity \<lparr>e_meta = named_meta ''robot-arm-1'' ''default'',
     e_spec = \<lparr>es_identity = [], es_organization = ''Manufacturing'', es_privileged = False,
       es_onSecondary = False, es_serialNumber = ''ARM-SN-12345'', es_ordinalIndex = None,
       es_model = ''robot-arm-model'', es_secret = [], es_syncPeriod = 30,
       es_usage = ''Assembly Line 1'', es_decommissioned = False\<rparr>,
     e_status = empty_entity_status\<rparr>"

definition sa_yml :: obj where
  "sa_yml = OServiceAccount \<lparr>sa_meta = named_meta ''sample'' ''sample''\<rparr>"

definition rb_yml :: obj where
  "rb_yml = ORoleBinding \<lparr>rb_meta = named_meta ''task-creator'' [],
     rb_subjects = [\<lparr>su_kind = ''ServiceAccount'', su_name = ''test-sa'', su_namespace = ''test''\<rparr>],
     rb_roleRef = ''ClusterRole task-creator-role''\<rparr>"

definition crt_yml :: obj where
  "crt_yml = OCertificate \<lparr>ct_meta = named_meta ''example-com-tls'' ''default'',
     ct_spec = \<lparr>cs_secretName = ''example-com-tls'', cs_commonName = ''example.com'',
       cs_rest = ''duration: 2160h, renewBefore: 360h, issuerRef: ClusterIssuer selfsigned-issuer, usages: server auth, client auth''\<rparr>\<rparr>"

definition ing_pod_yml :: obj where
  "ing_pod_yml = OIngress \<lparr>i_meta = (named_meta ''pod-ingress'' [])\<lparr>m_annotations :=
       Some (fmap_of_list [
         (''nginx.ingress.kubernetes.io/auth-tls-pass-certificate-to-upstream'', ''true''),
         (''nginx.ingress.kubernetes.io/auth-tls-secret'', ''ingress-nginx/ca-crt''),
         (''nginx.ingress.kubernetes.io/ssl-redirect'', ''true''),
         (''nginx.ingress.kubernetes.io/auth-tls-verify-client'', ''on''),
         (''nginx.ingress.kubernetes.io/auth-tls-verify-depth'', ''1''),
         (''nginx.ingress.kubernetes.io/configuration-snippet'',
           ''proxy_set_header X_FORWARDED_CLIENT_CERT $ssl_client_escaped_cert;'' @ [CHR 0x0A])])\<rparr>,
     i_spec = \<lparr>in_tls = [\<lparr>it_secretName = ''my-tls-secret'', it_hosts = [''my-headless-service.example.com'']\<rparr>],
       in_rules = [\<lparr>ir_host = ''my-headless-service.example.com'',
         ir_paths = Some [\<lparr>ip_service = Some ''pod-service'', ip_rest = ''path: /, pathType: ImplementationSpecific, port: http''\<rparr>]\<rparr>],
       in_rest = ''ingressClassName: nginx''\<rparr>\<rparr>"

definition manifests :: "(string \<times> obj) list" where
  "manifests = [(''np-group.yml'', np_group_yml), (''np-operator.yml'', np_operator_yml),
     (''srv.yml'', srv_yml), (''srv-pod.yml'', srv_pod_yml), (''sts.yml'', sts_yml),
     (''entity.yml'', entity_yml), (''sa.yml'', sa_yml), (''rb.yml'', rb_yml), (''crt.yml'', crt_yml),
     (''ing-pod.yml'', ing_pod_yml)]"

definition decode_manifest :: "string \<Rightarrow> gerror + obj" where
  \<comment> \<open>the contents of a file are its path\<close>
  "decode_manifest path =
     (case map_of (map (\<lambda>(f, ob). (TemplatePath @ ''/'' @ f, ob)) manifests) path of
        None \<Rightarrow> Inl (errorf ''no manifest'') | Some ob \<Rightarrow> Inr ob)"

definition repo_env :: "mem env" where
  "repo_env = mem_env\<lparr>decode_object := decode_manifest\<rparr>"

lemma repo_env_sel [simp]:
  "c_get repo_env = c_get mem_env" "c_list repo_env = c_list mem_env" "c_create repo_env = c_create mem_env"
  "c_update repo_env = c_update mem_env" "c_status_update repo_env = c_status_update mem_env"
  "c_delete repo_env = c_delete mem_env" "c_retry repo_env = c_retry mem_env"
  "set_controller_ref repo_env = set_controller_ref mem_env"
  "parse_selector repo_env = parse_selector mem_env" "c_now repo_env = c_now mem_env"
  "decode_object repo_env = decode_manifest"
  by (simp_all add: repo_env_def)

lemma repo_contracts:
  "retry_contract repo_env" "get_contract repo_env" "write_contract (c_status_update repo_env)"
  "write_contract (c_update repo_env)" "owner_contract repo_env" "finalizer_contract repo_env"
  using mem_retry_contract mem_get_contract mem_write_contracts mem_owner_contract mem_finalizer_contract
  unfolding retry_contract_def get_contract_def owner_contract_def finalizer_contract_def
  by (simp_all add: repo_env_def)

end
