(* ===== verification/Model_Controller.thy ===== *)
theory Model_Controller
  imports Templates Entity_Webhook
begin

text \<open>
  \<open>internal/controller/model_controller.go\<close>: the reconciler of models. It gives the namespace a
  network policy and a label, the model a service, creates or deletes entities until there is one for
  each replica that is wanted, and sets the replicas of the stateful set, its own or one that existed
  before.

  The resource \<open>res\<close> of the source is one variable that every status update overwrites; here it
  is passed on from step to step. Replica counts are \<open>int32\<close> and the two loops over ordinals
  compare them signed.
\<close>

section \<open>The resource\<close>

definition empty_model :: model where
  \<comment> \<open>\<open>robokubev1.Model{}\<close>\<close>
  "empty_model = \<lparr>mo_meta = empty_meta,
     mo_spec = \<lparr>ms_modelNumber = [], ms_description = [], ms_dockerImage = [], ms_ingressUrl = [],
       ms_statefulSetName = [], ms_targetReplicas = None, ms_taskEndpoint = [], ms_ctrlEndpoint = [],
       ms_statusEndpoint = [], ms_defaultSyncPeriod = 0, ms_enableSecondary = False\<rparr>,
     mo_status = \<lparr>mt_deactiveEntities = [], mt_disconnectedEntities = [], mt_conditions = [],
       mt_phase = [], mt_currentReplicas = [], mt_observedGeneration = 0\<rparr>\<rparr>"

definition the_model :: "obj \<Rightarrow> model" where
  \<comment> \<open>the resource is a \<open>Model\<close> by its Go type\<close>
  "the_model res = (case as_model res of None \<Rightarrow> empty_model | Some m \<Rightarrow> m)"

definition report_replicas :: "int32 option \<Rightarrow> 'w modfn" where
  \<comment> \<open>the closure on \<open>CurrentReplicas\<close>; with \<open>None\<close> the target is reported twice\<close>
  "report_replicas cur ob = (case as_model ob of
       None \<Rightarrow> retg ob
     | Some m \<Rightarrow> bindg (pureg (deref (ms_targetReplicas (mo_spec m)))) (\<lambda>target.
         retg (OModel (m\<lparr>mo_status := (mo_status m)\<lparr>mt_currentReplicas :=
           fmt_d (case cur of None \<Rightarrow> target | Some c \<Rightarrow> c) @ ''/'' @ fmt_d target\<rparr>\<rparr>))))"

section \<open>Edits of the templates\<close>

definition edit_model_service :: "string \<Rightarrow> string \<Rightarrow> obj \<Rightarrow> obj outcome" where
  "edit_model_service serviceName modelName ob =
     (case as_service ob of None \<Rightarrow> Panic bad_assertion
      | Some target \<Rightarrow> Return (OService (selector_entry RoboKubeModelKey modelName
          (target\<lparr>s_meta := (s_meta target)\<lparr>m_name := serviceName\<rparr>\<rparr>))))"

definition write_map :: "string \<Rightarrow> string \<Rightarrow> gomap option \<Rightarrow> gomap outcome" where
  \<comment> \<open>\<open>m[key] = val\<close>\<close>
  "write_map key val m = (case m of None \<Rightarrow> Panic nil_map_write | Some l \<Rightarrow> Return (fmupd key val l))"

definition edit_model_sts :: "model \<Rightarrow> obj \<Rightarrow> obj outcome" where
  "edit_model_sts m ob =
     (case as_statefulset ob of None \<Rightarrow> Panic bad_assertion
      | Some target \<Rightarrow>
          let spec = (st_spec target)\<lparr>ss_replicas := ms_targetReplicas (mo_spec m)\<rparr>;
              name = m_name (mo_meta m) in
          (case ss_containers spec of [] \<Rightarrow> Panic index_out_of_range
           | c # cs \<Rightarrow>
               obind (deref (ss_selector spec)) (\<lambda>matchLabels.
               obind (write_map RoboKubeModelKey name matchLabels) (\<lambda>sel.
               obind (write_map RoboKubeModelKey name (ss_templateLabels spec)) (\<lambda>labels.
                 Return (OStatefulSet (target\<lparr>st_spec := spec
                   \<lparr>ss_containers := c\<lparr>co_image := ms_dockerImage (mo_spec m)\<rparr> # cs,
                    ss_selector := Some (Some sel), ss_templateLabels := Some labels\<rparr>\<rparr>)))))))"

definition edit_entity :: "string \<Rightarrow> int32 \<Rightarrow> obj \<Rightarrow> obj outcome" where
  "edit_entity modelName i ob =
     (case as_entity ob of None \<Rightarrow> Panic bad_assertion
      | Some target \<Rightarrow> Return (OEntity (target\<lparr>e_spec := (e_spec target)
          \<lparr>es_model := modelName, es_ordinalIndex := Some i,
           es_usage := ''created during model Initialization''\<rparr>\<rparr>)))"

section \<open>manageEntities\<close>

definition entity_map :: "entity list \<Rightarrow> int32 \<rightharpoonup> entity" where
  \<comment> \<open>entities without an index are left out, the last one of an index wins\<close>
  "entity_map items =
     foldl (\<lambda>m e. case es_ordinalIndex (e_spec e) of None \<Rightarrow> m | Some i \<Rightarrow> m(i \<mapsto> e)) Map.empty items"

definition entity_params :: "obj \<Rightarrow> int32 \<Rightarrow> cluster_params" where
  "entity_params res i =
     resource_params ResourceTypeEntity (obj_name res @ ''-'' @ fmt_d i) (obj_ns res)
       (Some (fmap_of_list [(RoboKubeIndexKey @ obj_name res, fmt_d i)])) True ''entity.yml''"

lemma sint_next: "sint (i :: int32) < sint (t :: int32) \<Longrightarrow> sint (i + 1) = sint i + 1"
  using sint_lt [of t] sint_ge [of i] by (simp add: sint_word_ariths signed_take_bit_int_eq_self)

function create_entities ::
  "nat \<Rightarrow> 'w env \<Rightarrow> (int32 \<rightharpoonup> entity) \<Rightarrow> int32 \<Rightarrow> int32 \<Rightarrow> obj \<Rightarrow> ('w, gerror option \<times> obj) go" where
  \<comment> \<open>\<open>for i := currentReplicas; i < targetReplicas; i++\<close>\<close>
  "create_entities fuel env entityMap i target res =
     (if sint i < sint target then
        (if entityMap i \<noteq> None then create_entities fuel env entityMap (i + 1) target res
         else bindg (provision fuel env res (entity_params res i)
               (lift_mod (edit_entity (obj_name res) i))) (\<lambda>(err, res1). case err of
             Some e \<Rightarrow> retg (Some e, res1)
           | None \<Rightarrow> create_entities fuel env entityMap (i + 1) target res1))
      else retg (None, res))"
  by pat_completeness auto
termination
  by (relation "measure (\<lambda>(fuel, env, m, i, target, res). nat (sint target - sint i))")
    (auto simp: sint_next)

declare create_entities.simps [simp del]

definition entity_deleter :: object_handler where
  "entity_deleter = NewObjectHandler None
     \<lparr>op_ResourceType = ResourceTypeEntity, op_Action = ''Delete Entity'', op_IsDelete = True\<rparr>"

function delete_entities ::
  "'w env \<Rightarrow> (int32 \<rightharpoonup> entity) \<Rightarrow> int32 \<Rightarrow> int32 \<Rightarrow> obj \<Rightarrow> ('w, gerror option \<times> obj) go" where
  \<comment> \<open>\<open>for i := targetReplicas; i < currentReplicas; i++\<close>\<close>
  "delete_entities env entityMap i current res =
     (if sint i < sint current then
        (case entityMap i of
           None \<Rightarrow> delete_entities env entityMap (i + 1) current res
         | Some entity \<Rightarrow>
             bindg (effg (c_event env res ''Normal'' ''Delete Entity''
               (''Entity '' @ m_name (e_meta entity) @ '' is being deleted due to scale down''))) (\<lambda>_.
             bindg (Processor env res (Some (OEntity entity)) None None
                 (ObjectHandler_Handle env entity_deleter) (Some (setCondition env))) (\<lambda>((_, err), res1, _).
               case err of
                 Some e \<Rightarrow> retg (Some (wrapf ''entity deletion failed: '' e), res1)
               | None \<Rightarrow> delete_entities env entityMap (i + 1) current res1)))
      else retg (None, res))"
  by pat_completeness auto
termination
  by (relation "measure (\<lambda>(env, m, i, current, res). nat (sint current - sint i))")
    (auto simp: sint_next)

declare delete_entities.simps [simp del]

definition manageEntities ::
  "nat \<Rightarrow> 'w env \<Rightarrow> obj \<Rightarrow> int32 \<Rightarrow> int32 \<Rightarrow> ('w, gerror option \<times> obj) go" where
  "manageEntities fuel env res currentReplicas targetReplicas =
     (case parse_selector env (RoboKubeIndexKey @ obj_name res) of
        Inl err \<Rightarrow> retg (Some (wrapf ''failed to create label selector: '' err), res)
      | Inr labelSelector \<Rightarrow>
          bindg (list_as env KEntity as_entity (obj_ns res) labelSelector) (\<lambda>r. case r of
            Inl err \<Rightarrow> retg (Some (wrapf ''failed to list entities: '' err), res)
          | Inr items \<Rightarrow>
              if sint currentReplicas < sint targetReplicas then
                create_entities fuel env (entity_map items) currentReplicas targetReplicas res
              else if sint currentReplicas > sint targetReplicas then
                delete_entities env (entity_map items) targetReplicas currentReplicas res
              else retg (None, res)))"

section \<open>Steps of Reconcile\<close>

definition model_label :: "obj \<Rightarrow> gomap" where
  "model_label res = fmap_of_list [(RoboKubeModelKey, obj_name res)]"

definition operator_netpol_params :: "obj \<Rightarrow> cluster_params" where
  "operator_netpol_params res =
     resource_params ResourceTypeNetPol ''allow-operator-ingress'' (obj_ns res) None False ''np-operator.yml''"

definition namespace_labeller :: object_handler where
  "namespace_labeller = NewObjectHandler None
     \<lparr>op_ResourceType = ResourceTypeEntity, op_Action = ''Update Label'', op_IsDelete = False\<rparr>"

definition label_namespace :: "'w env \<Rightarrow> obj \<Rightarrow> ('w, run_outcome) go" where
  "label_namespace env res =
     bindg (get_as env KNamespace as_namespace [] (obj_ns res)) (\<lambda>r. case r of
       Inl err \<Rightarrow> bindg (delegate env res (wrapf ''failed to get namespace: '' err)) (\<lambda>x. retg (Stop x))
     | Inr ns \<Rightarrow>
         if has_label (n_meta ns) RoboKubeNsKey then retg (Ran res)
         else or_return
           (bindg (Processor env res (Some (ONamespace ns)) None
               (Some (pure_mod (map_meta (BuildLabelObj RoboKubeNsKey ''true'' ResourceLabelAdd))))
               (ObjectHandler_Handle env namespace_labeller) (Some (setCondition env)))
             (\<lambda>((_, err), res1, _). retg (err, res1))))"

definition model_service_name :: "obj \<Rightarrow> string" where
  "model_service_name res =
     (if ms_statefulSetName (mo_spec (the_model res)) \<noteq> []
      then ms_statefulSetName (mo_spec (the_model res)) else obj_name res @ ''-srv'')"

definition model_service_params :: "obj \<Rightarrow> cluster_params" where
  "model_service_params res =
     resource_params ResourceTypeService (model_service_name res) (obj_ns res)
       (Some (model_label res)) True ''srv.yml''"

definition model_infrastructure :: "nat \<Rightarrow> 'w env \<Rightarrow> obj \<Rightarrow> ('w, run_outcome) go" where
  \<comment> \<open>network policy, namespace label, service\<close>
  "model_infrastructure fuel env res =
     then_run (or_return (provision fuel env res (operator_netpol_params res) no_edit)) (\<lambda>res1.
     then_run (label_namespace env res1) (\<lambda>res2.
       or_return (provision fuel env res2 (model_service_params res2)
         (lift_mod (edit_model_service (model_service_name res2) (obj_name res2))))))"

definition adopt_sts :: "'w env \<Rightarrow> model \<Rightarrow> 'w modfn" where
  "adopt_sts env m o1 =
     (let o2 = set_owner env m o1 in
      case as_statefulset o2 of
        None \<Rightarrow> retg o2
      | Some sts \<Rightarrow>
          let labels = (case m_labels (st_meta sts) of None \<Rightarrow> fmempty | Some l \<Rightarrow> l) in
          bindg (pureg (deref (ms_targetReplicas (mo_spec m)))) (\<lambda>target.
          bindg (pureg (deref (ss_replicas (st_spec sts)))) (\<lambda>_.
            retg (OStatefulSet (sts
              \<lparr>st_meta := (st_meta sts)\<lparr>m_labels := Some (fmupd RoboKubeModelKey (m_name (mo_meta m)) labels)\<rparr>,
               st_spec := (st_spec sts)\<lparr>ss_replicas := Some target\<rparr>\<rparr>)))))"

definition sts_adopter :: object_handler where
  "sts_adopter = NewObjectHandler None
     \<lparr>op_ResourceType = ResourceTypeStatefulSet, op_Action = ''Set ownership'', op_IsDelete = False\<rparr>"

definition adopt_existing_sts :: "'w env \<Rightarrow> obj \<Rightarrow> ('w, run_outcome) go" where
  "adopt_existing_sts env res =
     bindg (get_as env KStatefulSet as_statefulset (obj_ns res)
         (ms_statefulSetName (mo_spec (the_model res)))) (\<lambda>r. case r of
       Inl _ \<Rightarrow> retg (Stop (requeue_after (10 * second), None))
     | Inr sts \<Rightarrow> or_delegate env
         (bindg (Processor env (OStatefulSet sts) None None (Some (adopt_sts env (the_model res)))
             (ObjectHandler_Handle env sts_adopter) (Some (setCondition env)))
           (\<lambda>((_, err), _, _). retg (err, res)))
         ''failed to set ownership for entities: '')"

definition model_sts_params :: "obj \<Rightarrow> cluster_params" where
  "model_sts_params res =
     resource_params ResourceTypeStatefulSet (obj_name res @ ''-sts'') (obj_ns res)
       (Some (model_label res)) True ''sts.yml''"

definition model_workload :: "nat \<Rightarrow> 'w env \<Rightarrow> obj \<Rightarrow> ('w, run_outcome) go" where
  "model_workload fuel env res =
     (if ms_statefulSetName (mo_spec (the_model res)) \<noteq> [] then adopt_existing_sts env res
      else or_return (provision fuel env res (model_sts_params res)
        (lift_mod (edit_model_sts (the_model res)))))"

definition current_replicas :: "'w env \<Rightarrow> obj \<Rightarrow> ('w, gerror + int32) go" where
  \<comment> \<open>those of the stateful set, zero while there is none\<close>
  "current_replicas env res =
     bindg (get_as env KStatefulSet as_statefulset (obj_ns res)
         (stsName_of (obj_name res) (the_model res))) (\<lambda>r. case r of
       Inl err \<Rightarrow> if IsNotFound err then retg (Inr 0) else retg (Inl (wrapf ''failed to get sts: '' err))
     | Inr sts \<Rightarrow> bindg (pureg (deref (ss_replicas (st_spec sts)))) (\<lambda>n. retg (Inr n)))"

definition model_settled :: "obj \<Rightarrow> bool" where
  "model_settled res \<longleftrightarrow>
     mt_observedGeneration (mo_status (the_model res)) = m_generation (mo_meta (the_model res))
   \<and> Model_GetPhase (the_model res) = StatusProvisioned"

definition settle_model :: "nat \<Rightarrow> 'w env \<Rightarrow> obj \<Rightarrow> int32 \<Rightarrow> int32 \<Rightarrow> ('w, run_outcome) go" where
  \<comment> \<open>entities, stateful set, last phase update\<close>
  "settle_model fuel env res currentReplicas targetReplicas =
     then_run (or_delegate env (manageEntities fuel env res currentReplicas targetReplicas)
         ''failed to manage entities: '') (\<lambda>res1.
       then_run (model_workload fuel env res1) (\<lambda>res2.
         update_or_delegate env res2 [report_replicas None, updateStatusPhase StatusProvisioned]
           ''failed to set resource to progressing state, ''))"

definition reconcile_replicas :: "nat \<Rightarrow> 'w env \<Rightarrow> obj \<Rightarrow> int32 \<Rightarrow> ('w, reconciled) go" where
  "reconcile_replicas fuel env res currentReplicas =
     bindg (pureg (deref (ms_targetReplicas (mo_spec (the_model res))))) (\<lambda>targetReplicas.
     stop_run (settle_model fuel env res currentReplicas targetReplicas) (\<lambda>_. retg (no_requeue, None)))"

definition reconcile_model :: "nat \<Rightarrow> 'w env \<Rightarrow> obj \<Rightarrow> ('w, reconciled) go" where
  \<comment> \<open>after the finalizer\<close>
  "reconcile_model fuel env res =
     stop_run (if Model_GetPhase (the_model res) = []
               then update_or_delegate env res [updateStatusPhase StatusProvisioning]
                 ''failed to set resource to progressing state, ''
               else retg (Ran res)) (\<lambda>res1.
     bindg (current_replicas env res1) (\<lambda>r. case r of
       Inl err \<Rightarrow> delegate env res1 err
     | Inr currentReplicas \<Rightarrow>
         if model_settled res1 then
           stop_run (update_or_delegate env res1 [report_replicas (Some currentReplicas)]
             ''failed to set resource to progressing state, '') (\<lambda>_. retg (no_requeue, None))
         else stop_run (if Model_GetPhase (the_model res1) = StatusProvisioned
                   then update_or_delegate env res1 [updateStatusPhase StatusProvisioning]
                     ''failed to set resource to progressing state, ''
                   else retg (Ran res1)) (\<lambda>res2.
           stop_run (if Model_GetPhase (the_model res2) \<noteq> StatusProvisioned
                     then model_infrastructure fuel env res2 else retg (Ran res2)) (\<lambda>res3.
             reconcile_replicas fuel env res3 currentReplicas))))"

definition ModelReconciler_Reconcile :: "nat \<Rightarrow> 'w env \<Rightarrow> string \<Rightarrow> string \<Rightarrow> ('w, reconciled) go" where
  "ModelReconciler_Reconcile fuel env ns name =
     bindg (get_as env KModel as_model ns name) (\<lambda>r. case r of
       Inl err \<Rightarrow> delegate env (OModel empty_model) (wrapf ''resource could not be found, '' err)
     | Inr m \<Rightarrow> bindg (handleFinalizer env (OModel m) finalizer) (\<lambda>((ret, err), res).
         if err \<noteq> None \<or> rr_Requeue ret then retg (ret, err)
         else reconcile_model fuel env res))"

section \<open>Facts on the loops\<close>

lemma the_model_simp [simp]: "the_model (OModel m) = m"
  by (simp add: the_model_def)

lemma same_key_names: "same_key a b \<Longrightarrow> obj_name b = obj_name a \<and> obj_ns b = obj_ns a"
  by (simp add: same_key_def)

lemma entity_params_key: "same_key a b \<Longrightarrow> entity_params b i = entity_params a i"
  by (simp add: entity_params_def same_key_names)

lemma verify_free [simp]: "\<not> cp_NeedVerify (resource_params ty n ns l ow t)"
  by (simp add: resource_params_def)

lemma sint_between:
  "sint i \<le> sint (j :: int32) \<Longrightarrow> j \<noteq> i \<Longrightarrow> sint (i :: int32) < sint (t :: int32) \<Longrightarrow> sint (i + 1) \<le> sint j"
  by (metis order_le_less signed_word_eqI sint_next zless_imp_add1_zle)

definition entity_provided :: "'w env \<Rightarrow> obj \<Rightarrow> int32 \<Rightarrow> bool" where
  \<comment> \<open>the entity of this ordinal is in the cluster, built from the template for this model\<close>
  "entity_provided env res i \<longleftrightarrow> (\<exists>r. same_key res r
     \<and> owns env r (entity_params res i) (lift_mod (edit_entity (obj_name res) i)))"

lemma create_entities_spec:
  assumes "retry_contract env" "get_contract env" "write_contract (c_status_update env)" "owner_contract env"
    and "create_entities fuel env m i target res w = (Return (None, res'), w')"
  shows "same_key res res' \<and> (\<forall>j. sint i \<le> sint j \<and> sint j < sint target \<longrightarrow>
      m j \<noteq> None \<or> entity_provided env res j)"
  using assms
proof (induction fuel env m i target res arbitrary: w rule: create_entities.induct)
  case (1 fuel env m i target res)
  note c = "1.prems"(1-4) and run = "1.prems"(5)
  show ?case
  proof (cases "sint i < sint target")
    case False
    with run show ?thesis by (subst (asm) create_entities.simps) auto
  next
    case less: True
    show ?thesis
    proof (cases "m i \<noteq> None")
      case True
      with less run have "create_entities fuel env m (i + 1) target res w = (Return (None, res'), w')"
        by (subst (asm) create_entities.simps) simp
      from "1.IH"(1) [OF less True c this] True sint_between [of i _ target] less show ?thesis by blast
    next
      case False
      with less run obtain res1 w1 where
        p: "provision fuel env res (entity_params res i) (lift_mod (edit_entity (obj_name res) i)) w
          = (Return (None, res1), w1)" and
        rest: "create_entities fuel env m (i + 1) target res1 w1 = (Return (None, res'), w')"
        by (subst (asm) create_entities.simps) (auto elim!: bindg_ReturnE split: option.splits)
      have k: "same_key res res1" and o: "owns env res (entity_params res i) (lift_mod (edit_entity (obj_name res) i))"
        using provision_spec [OF c _ p] by (simp_all add: entity_params_def)
      from "1.IH"(2) [OF less False refl c rest] k
      have ih: "same_key res1 res'" "\<And>j. sint (i + 1) \<le> sint j \<Longrightarrow> sint j < sint target \<Longrightarrow>
          m j \<noteq> None \<or> entity_provided env res1 j"
        by auto
      have later: "entity_provided env res j" if "entity_provided env res1 j" for j
        using that k unfolding entity_provided_def
        by (auto simp: entity_params_key [OF k] same_key_names [OF k] intro: same_key_trans)
      have prov: "entity_provided env res i"
        using o unfolding entity_provided_def by (auto intro: same_key_refl)
      have "m j \<noteq> None \<or> entity_provided env res j" if "sint i \<le> sint j" "sint j < sint target" for j
        using that prov later ih(2) sint_between [OF that(1) _ less] by (cases "j = i") auto
      with same_key_trans [OF k ih(1)] show ?thesis by blast
    qed
  qed
qed

lemma entity_deleter_run:
  assumes "ObjectHandler_Handle env entity_deleter ob f w = (Return (r, None, ob'), w')"
  shows "c_delete env ob w = (None, w')"
  using assms
  by (cases "c_delete env ob w")
    (auto simp: ObjectHandler_Handle_def entity_deleter_def NewObjectHandler_def bindg_run split: option.splits)

definition entity_deleted :: "'w env \<Rightarrow> entity \<Rightarrow> bool" where
  "entity_deleted env e \<longleftrightarrow> (\<exists>v v'. c_delete env (OEntity e) v = (None, v'))"

lemma delete_entities_spec:
  assumes "retry_contract env" "get_contract env" "write_contract (c_status_update env)"
    and "delete_entities env m i current res w = (Return (None, res'), w')"
  shows "same_key res res' \<and> (\<forall>j e. sint i \<le> sint j \<and> sint j < sint current \<and> m j = Some e \<longrightarrow>
      entity_deleted env e)"
  using assms
proof (induction env m i current res arbitrary: w rule: delete_entities.induct)
  case (1 env m i current res)
  note c = "1.prems"(1-3) and run = "1.prems"(4)
  show ?case
  proof (cases "sint i < sint current")
    case False
    with run show ?thesis by (subst (asm) delete_entities.simps) auto
  next
    case less: True
    show ?thesis
    proof (cases "m i")
      case None
      with less run have "delete_entities env m (i + 1) current res w = (Return (None, res'), w')"
        by (subst (asm) delete_entities.simps) simp
      from "1.IH"(1) [OF less None c this] None sint_between [of i _ current] less show ?thesis
        by (metis option.distinct(1))
    next
      case (Some e)
      with less run obtain r res1 ob1 v w1 where
        p: "Processor env res (Some (OEntity e)) None None (ObjectHandler_Handle env entity_deleter)
          (Some (setCondition env)) v = (Return ((r, None), res1, ob1), w1)" and
        rest: "delete_entities env m (i + 1) current res1 w1 = (Return (None, res'), w')"
        by (subst (asm) delete_entities.simps) (auto elim!: bindg_ReturnE split: option.splits)
      from Processor_plain [OF c p] have k: "same_key res res1" and d: "entity_deleted env e"
        by (auto simp: entity_deleted_def dest!: entity_deleter_run)
      have ih: "same_key res1 res'" "\<And>j e. sint (i + 1) \<le> sint j \<Longrightarrow> sint j < sint current \<Longrightarrow>
          m j = Some e \<Longrightarrow> entity_deleted env e"
        using "1.IH"(2) [OF less Some refl c rest] by auto
      have "entity_deleted env x" if "sint i \<le> sint j" "sint j < sint current" "m j = Some x" for j x
        using that d Some ih(2) sint_between [OF that(1) _ less] by (cases "j = i") auto
      with same_key_trans [OF k ih(1)] show ?thesis by blast
    qed
  qed
qed

lemma entity_map_foldl:
  "foldl (\<lambda>m e. case es_ordinalIndex (e_spec e) of None \<Rightarrow> m | Some i \<Rightarrow> m(i \<mapsto> e)) m items i =
     (case find (\<lambda>e. es_ordinalIndex (e_spec e) = Some i) (rev items) of None \<Rightarrow> m i | Some e \<Rightarrow> Some e)"
  for items :: "entity list"
proof (induction items arbitrary: m)
  case Nil
  then show ?case by simp
next
  case (Cons e items)
  have app: "find P (xs @ [e]) = (case find P xs of None \<Rightarrow> if P e then Some e else None | Some x \<Rightarrow> Some x)"
    for P and xs :: "entity list"
    by (induction xs) simp_all
  from Cons show ?case by (auto simp: app split: option.splits)
qed

lemma entity_map_lookup:
  "entity_map items i = find (\<lambda>e. es_ordinalIndex (e_spec e) = Some i) (rev items)"
  for items :: "entity list"
  unfolding entity_map_def entity_map_foldl by (simp split: option.split)

lemma entity_map_None:
  "entity_map items i = None \<longleftrightarrow> (\<forall>e \<in> set items. es_ordinalIndex (e_spec e) \<noteq> Some i)"
  for items :: "entity list"
  by (auto simp: entity_map_lookup find_None_iff)

lemma entity_map_Some:
  "entity_map items i = Some e \<Longrightarrow> e \<in> set items \<and> es_ordinalIndex (e_spec e) = Some i"
  for items :: "entity list"
  using find_Some_iff [of "\<lambda>e. es_ordinalIndex (e_spec e) = Some i" "rev items" e]
  by (auto simp: entity_map_lookup) (metis nth_mem set_rev length_rev)

section \<open>Properties\<close>

definition entity_in_place :: "'w env \<Rightarrow> obj \<Rightarrow> int32 \<Rightarrow> bool" where
  \<comment> \<open>an entity of this model and ordinal, under the name and the label that stand for them, is in
    the cluster\<close>
  "entity_in_place env res i \<longleftrightarrow> (\<exists>e. in_place env ResourceTypeEntity (OEntity e)
     \<and> m_name (e_meta e) = obj_name res @ ''-'' @ fmt_d i \<and> m_namespace (e_meta e) = obj_ns res
     \<and> es_model (e_spec e) = obj_name res \<and> ordinal_of e = Some i
     \<and> label_of (e_meta e) (RoboKubeIndexKey @ obj_name res) = Some (fmt_d i))"

lemma edit_entity_Return:
  assumes "lift_mod (edit_entity n i) ob w = (Return ob', w')"
  shows "\<exists>e. ob' = OEntity e \<and> es_model (e_spec e) = n \<and> ordinal_of e = Some i"
  using assms by (auto simp: lift_mod_def edit_entity_def split: option.splits)

lemma entity_params_sel [simp]:
  "cp_ResourceType (entity_params res i) = ResourceTypeEntity"
  "cp_TargetName (entity_params res i) = obj_name res @ ''-'' @ fmt_d i"
  "cp_Namespace (entity_params res i) = obj_ns res"
  "cp_InjectLabels (entity_params res i) = Some (fmap_of_list [(RoboKubeIndexKey @ obj_name res, fmt_d i)])"
  by (simp_all add: entity_params_def resource_params_def)

lemma entity_provided_in_place:
  fixes env :: "'w env"
  assumes "entity_provided env res i"
  shows "entity_in_place env res i"
proof -
  from assms obtain r where "owns env r (entity_params res i) (lift_mod (edit_entity (obj_name res) i))"
    unfolding entity_provided_def by blast
  then obtain object built want g and v v1 :: 'w where
    f: "lift_mod (edit_entity (obj_name res) i) object v = (Return built, v1)" and
    want: "want = map_meta g built" "in_place env (cp_ResourceType (entity_params res i)) want"
      "obj_name want = cp_TargetName (entity_params res i)" "obj_ns want = cp_Namespace (entity_params res i)" and
    l: "\<And>l k x. cp_InjectLabels (entity_params res i) = Some l \<Longrightarrow> fmlookup l k = Some x \<Longrightarrow>
      label_of (meta_of want) k = Some x"
    by (elim owns_in_place) (rule that)
  from edit_entity_Return [OF f] want(1) obtain e where "want = OEntity e"
    "es_model (e_spec e) = obj_name res" "ordinal_of e = Some i" by force
  moreover from l [OF entity_params_sel(4), of "RoboKubeIndexKey @ obj_name res"]
  have "label_of (meta_of want) (RoboKubeIndexKey @ obj_name res) = Some (fmt_d i)" by simp
  ultimately show ?thesis
    using want(2-4) unfolding entity_in_place_def by (auto simp: obj_name_def obj_ns_def)
qed

text \<open>C8: a scaling step without an error leaves one entity for every wanted ordinal and none above:
  for each ordinal from the current to the target count an entity was listed or one was put in place,
  and for each from the target to the current count the listed entity was deleted.\<close>

theorem model_scaling:
  assumes "retry_contract env" "get_contract env" "write_contract (c_status_update env)" "owner_contract env"
    and "manageEntities fuel env res current target w = (Return (None, res'), w')"
  shows "\<exists>sel items v. parse_selector env (RoboKubeIndexKey @ obj_name res) = Inr sel
    \<and> c_list env KEntity (obj_ns res) sel w = (Inr (map OEntity items), v)
    \<and> (\<forall>i. sint current \<le> sint i \<and> sint i < sint target \<longrightarrow>
        (\<exists>e \<in> set items. ordinal_of e = Some i) \<or> entity_in_place env res i)
    \<and> (\<forall>i. sint target \<le> sint i \<and> sint i < sint current \<and> (\<exists>e \<in> set items. ordinal_of e = Some i) \<longrightarrow>
        (\<exists>e \<in> set items. ordinal_of e = Some i \<and> entity_deleted env e))"
proof -
  note c = assms(1-4)
  from assms(5) obtain sel items v where sel: "parse_selector env (RoboKubeIndexKey @ obj_name res) = Inr sel" and
    l: "list_as env KEntity as_entity (obj_ns res) sel w = (Return (Inr items), v)" and
    run: "(if sint current < sint target then create_entities fuel env (entity_map items) current target res
       else if sint current > sint target then delete_entities env (entity_map items) target current res
       else retg (None, res)) v = (Return (None, res'), w')"
    by (auto simp: manageEntities_def elim!: bindg_ReturnE split: sum.splits)
  from l have items: "c_list env KEntity (obj_ns res) sel w = (Inr (map OEntity items), v)"
    by (auto simp: list_as_ReturnInr dest: those_as_entity)
  have absent: "\<exists>e \<in> set items. ordinal_of e = Some i" if "entity_map items i \<noteq> None" for i
    using that by (auto dest: entity_map_Some)
  have up: "(\<exists>e \<in> set items. ordinal_of e = Some i) \<or> entity_in_place env res i"
    if "sint current \<le> sint i" "sint i < sint target" for i
    using create_entities_spec [OF c, of fuel "entity_map items" current target res v res' w'] run that
      absent [of i] entity_provided_in_place [of env res i] by auto
  have down: "\<exists>e \<in> set items. ordinal_of e = Some i \<and> entity_deleted env e"
    if "sint target \<le> sint i" "sint i < sint current" "x \<in> set items" "ordinal_of x = Some i" for i x
  proof -
    from that(3,4) obtain e where e: "entity_map items i = Some e"
      by (metis entity_map_None not_None_eq)
    from that run have "delete_entities env (entity_map items) target current res v = (Return (None, res'), w')"
      by simp
    from delete_entities_spec [OF c(1-3) this] that e have "entity_deleted env e" by blast
    with entity_map_Some [OF e] show ?thesis by auto
  qed
  from sel items up down show ?thesis by blast
qed

theorem model_scaling_witness:
  "entity_in_place repo_env (OModel sample_model) 1
   \<and> entity_deleted repo_env (sample_entity ''arm-0'' (Some 0))"
proof -
  let ?e = "sample_entity ''arm-0'' (Some 0)"
  let ?w = "sample_world [OModel sample_model, OEntity ?e]"
  let ?sel = "SelExists (RoboKubeIndexKey @ obj_name (OModel sample_model))"
  have listed: "c_list repo_env KEntity (obj_ns (OModel sample_model)) ?sel ?w = (Inr (map OEntity [?e]), ?w)"
    by code_simp
  have sel: "parse_selector repo_env (RoboKubeIndexKey @ obj_name (OModel sample_model)) = Inr ?sel"
    by code_simp
  have i: "ordinal_of ?e = Some 0" by (simp add: sample_defs)
  have only: "items = [?e]" if "parse_selector repo_env (RoboKubeIndexKey @ obj_name (OModel sample_model)) = Inr s"
      "c_list repo_env KEntity (obj_ns (OModel sample_model)) s ?w = (Inr (map OEntity items), v)" for s items v
  proof -
    from that listed sel have "map OEntity items = map OEntity [?e]" by simp
    then show ?thesis by auto
  qed
  have "ends (manageEntities 1 repo_env (OModel sample_model) 0 2 ?w) (\<lambda>(e, _) _. e = None)"
    by code_simp
  then obtain res1 w1 where "manageEntities 1 repo_env (OModel sample_model) 0 2 ?w = (Return (None, res1), w1)"
    by (elim endsE) auto
  from model_scaling [OF repo_contracts(1,2,3,5) this] obtain s items v where
    l: "parse_selector repo_env (RoboKubeIndexKey @ obj_name (OModel sample_model)) = Inr s"
      "c_list repo_env KEntity (obj_ns (OModel sample_model)) s ?w = (Inr (map OEntity items), v)" and
    up: "\<And>i. sint (0 :: int32) \<le> sint i \<Longrightarrow> sint i < sint (2 :: int32) \<Longrightarrow>
        (\<exists>e \<in> set items. ordinal_of e = Some i) \<or> entity_in_place repo_env (OModel sample_model) i"
    by blast
  from up [of 1] only [OF l] i have 1: "entity_in_place repo_env (OModel sample_model) 1" by simp
  have "ends (manageEntities 1 repo_env (OModel sample_model) 1 0 ?w) (\<lambda>(e, _) _. e = None)"
    by code_simp
  then obtain res2 w2 where "manageEntities 1 repo_env (OModel sample_model) 1 0 ?w = (Return (None, res2), w2)"
    by (elim endsE) auto
  from model_scaling [OF repo_contracts(1,2,3,5) this] obtain s items v where
    l: "parse_selector repo_env (RoboKubeIndexKey @ obj_name (OModel sample_model)) = Inr s"
      "c_list repo_env KEntity (obj_ns (OModel sample_model)) s ?w = (Inr (map OEntity items), v)" and
    down: "\<And>i. sint (0 :: int32) \<le> sint i \<Longrightarrow> sint i < sint (1 :: int32) \<Longrightarrow>
        (\<exists>e \<in> set items. ordinal_of e = Some i) \<Longrightarrow>
        (\<exists>e \<in> set items. ordinal_of e = Some i \<and> entity_deleted repo_env e)"
    by blast
  from down [of 0] only [OF l] i have "entity_deleted repo_env ?e" by simp
  with 1 show ?thesis by blast
qed

lemma adopt_sts_Return:
  assumes "owner_contract env" and "adopt_sts env m ob w = (Return ob', w')"
  shows "same_key ob ob' \<and> (\<forall>s. ob = OStatefulSet s \<longrightarrow> (\<exists>s' target. ob' = OStatefulSet s'
    \<and> ms_targetReplicas (mo_spec m) = Some target
    \<and> st_spec s' = (st_spec s)\<lparr>ss_replicas := Some target\<rparr>
    \<and> label_of (st_meta s') RoboKubeModelKey = Some (m_name (mo_meta m))))"
proof -
  from set_owner_meta [OF assms(1), of m ob] obtain g where g: "set_owner env m ob = map_meta g ob"
    "\<And>x. m_name (g x) = m_name x \<and> m_namespace (g x) = m_namespace x"
    by metis
  have run: "adopt_sts env m ob w = (case as_statefulset (map_meta g ob) of
        None \<Rightarrow> retg (map_meta g ob)
      | Some sts \<Rightarrow>
          let labels = (case m_labels (st_meta sts) of None \<Rightarrow> fmempty | Some l \<Rightarrow> l) in
          bindg (pureg (deref (ms_targetReplicas (mo_spec m)))) (\<lambda>target.
          bindg (pureg (deref (ss_replicas (st_spec sts)))) (\<lambda>_.
            retg (OStatefulSet (sts
              \<lparr>st_meta := (st_meta sts)\<lparr>m_labels := Some (fmupd RoboKubeModelKey (m_name (mo_meta m)) labels)\<rparr>,
               st_spec := (st_spec sts)\<lparr>ss_replicas := Some target\<rparr>\<rparr>))))) w"
    unfolding adopt_sts_def Let_def g(1) by simp
  show ?thesis
  proof (cases ob)
    case (OStatefulSet s)
    with assms(2) [unfolded run] g(2) show ?thesis
      by (auto simp: Let_def same_key_def obj_name_def obj_ns_def label_of_def elim!: bindg_ReturnE)
  qed (use assms(2) [unfolded run] g(2) in \<open>auto simp: same_key_def obj_name_def obj_ns_def\<close>)
qed

text \<open>C28: a model that names a stateful set of its own takes it over when its step ends without an
  error: the stored set was written with the model's target as its replicas and the model's label, its
  spec otherwise as it was stored.\<close>

theorem model_adopts_sts:
  assumes "retry_contract env" "get_contract env" "write_contract (c_update env)" "owner_contract env"
    and "ms_statefulSetName (mo_spec (the_model res)) \<noteq> []"
    and "model_workload fuel env res w = (Return (Ran res'), w')"
  shows "\<exists>w1 cur w2 w3 new stored w4 target.
      c_get env KStatefulSet (obj_ns res) (ms_statefulSetName (mo_spec (the_model res))) w1
        = (Inr (OStatefulSet cur), w2)
    \<and> c_update env (OStatefulSet new) w3 = (Inr stored, w4)
    \<and> ms_targetReplicas (mo_spec (the_model res)) = Some target
    \<and> st_spec new = (st_spec cur)\<lparr>ss_replicas := Some target\<rparr>
    \<and> label_of (st_meta new) RoboKubeModelKey = Some (m_name (mo_meta (the_model res)))"
proof -
  let ?m = "the_model res" and ?n = "ms_statefulSetName (mo_spec (the_model res))"
  let ?f = "adopt_sts env ?m"
  from assms(5,6) obtain sts v r res1 ob1 v1 where
    g: "get_as env KStatefulSet as_statefulset (obj_ns res) ?n w = (Return (Inr sts), v)" and
    p: "Processor env (OStatefulSet sts) None None (Some ?f) (ObjectHandler_Handle env sts_adopter)
      (Some (setCondition env)) v = (Return ((r, None), res1, ob1), v1)"
    by (auto simp: model_workload_def adopt_existing_sts_def elim!: bindg_ReturnE
        split: sum.splits dest!: or_delegate_Ran)
  have key: "kind_of (OStatefulSet sts) = KStatefulSet" "obj_ns (OStatefulSet sts) = obj_ns res"
    "obj_name (OStatefulSet sts) = ?n"
    using get_as_key [OF assms(2) g] by (auto dest!: as_SomeD)
  from p obtain ob2 v2 r1 ob3 v3 where f: "?f (OStatefulSet sts) v = (Return ob2, v2)" and
    h: "ObjectHandler_Handle env sts_adopter ob2 (Some ?f) v2 = (Return (r1, None, ob3), v3)"
    by (rule Processor_self)
  have keep: "keeps_key ?f"
    using adopt_sts_Return [OF assms(4)] unfolding keeps_key_def by blast
  have k2: "same_key (OStatefulSet sts) ob2" using adopt_sts_Return [OF assms(4) f] by blast
  from ObjectHandler_edit [OF assms(1-3) keep h [unfolded sts_adopter_def NewObjectHandler_def, simplified]]
  obtain w1 cur w2 edited w3 where got: "c_get env (kind_of ob2) (obj_ns ob2) (obj_name ob2) w1 = (Inr cur, w2)" and
    e: "?f cur w2 = (Return edited, w3)" and wr: "c_update env edited w3 = (Inr ob3, v3)"
    by blast
  from k2 key got have got': "c_get env KStatefulSet (obj_ns res) ?n w1 = (Inr cur, w2)"
    by (simp add: same_key_def)
  with assms(2) have "kind_of cur = KStatefulSet" unfolding get_contract_def by blast
  then obtain s where s: "cur = OStatefulSet s" by (cases cur) auto
  from adopt_sts_Return [OF assms(4) e] s obtain new target where "edited = OStatefulSet new"
    "ms_targetReplicas (mo_spec ?m) = Some target"
    "st_spec new = (st_spec s)\<lparr>ss_replicas := Some target\<rparr>"
    "label_of (st_meta new) RoboKubeModelKey = Some (m_name (mo_meta ?m))"
    by blast
  with got' s wr show ?thesis by blast
qed

definition adopting_model :: model where
  "adopting_model = sample_model\<lparr>mo_spec := (mo_spec sample_model)\<lparr>ms_statefulSetName := ''arm-sts''\<rparr>\<rparr>"

theorem model_adopts_sts_witness:
  "\<exists>w1 cur w2 w3 new stored w4.
      c_get repo_env KStatefulSet ''ns'' ''arm-sts'' w1 = (Inr (OStatefulSet cur), w2)
    \<and> c_update repo_env (OStatefulSet new) w3 = (Inr stored, w4)
    \<and> st_spec new = (st_spec cur)\<lparr>ss_replicas := Some 2\<rparr>
    \<and> label_of (st_meta new) RoboKubeModelKey = Some ''arm''"
proof -
  let ?r = "OModel adopting_model" and ?w = "sample_world [OModel adopting_model, OStatefulSet (sample_sts 5)]"
  have "ends (model_workload 1 repo_env ?r ?w) (\<lambda>x _. case x of Ran res \<Rightarrow> True | _ \<Rightarrow> False)"
    by code_simp
  then obtain res' w' where run: "model_workload 1 repo_env ?r ?w = (Return (Ran res'), w')"
    by (elim endsE) (auto split: run_outcome.splits)
  have n: "ms_statefulSetName (mo_spec (the_model ?r)) = ''arm-sts''" "obj_ns ?r = ''ns''"
    "ms_targetReplicas (mo_spec (the_model ?r)) = Some 2" "m_name (mo_meta (the_model ?r)) = ''arm''"
    by (simp_all add: adopting_model_def sample_defs obj_ns_def)
  then have "ms_statefulSetName (mo_spec (the_model ?r)) \<noteq> []" by simp
  from model_adopts_sts [OF repo_contracts(1,2,4,5) this run] show ?thesis
    unfolding n by (elim exE conjE) (intro exI conjI, assumption+, simp_all)
qed

lemma keeps_key_report [simp]: "keeps_key (report_replicas cur)"
  by (rule keeps_key_meta) (auto simp: report_replicas_def elim!: bindg_ReturnE split: option.splits dest!: as_SomeD)

lemma manageEntities_key:
  assumes "retry_contract env" "get_contract env" "write_contract (c_status_update env)" "owner_contract env"
    and "manageEntities fuel env res current target w = (Return (None, res'), w')"
  shows "same_key res res'"
proof -
  from assms(5) show ?thesis
    by (auto simp: manageEntities_def elim!: bindg_ReturnE split: sum.splits if_splits
        dest!: create_entities_spec [OF assms(1-4), THEN conjunct1]
          delete_entities_spec [OF assms(1-3), THEN conjunct1])
qed

lemma model_workload_key:
  assumes "retry_contract env" "get_contract env" "write_contract (c_status_update env)" "owner_contract env"
    and "model_workload fuel env res w = (Return (Ran res'), w')"
  shows "same_key res res'"
proof (cases "ms_statefulSetName (mo_spec (the_model res)) = []")
  case True
  with assms(5) have "provision fuel env res (model_sts_params res)
      (lift_mod (edit_model_sts (the_model res))) w = (Return (None, res'), w')"
    by (auto simp: model_workload_def dest: or_return_Ran)
  from provision_spec [OF assms(1-4) _ this] show ?thesis by (simp add: model_sts_params_def)
next
  case False
  with assms(5) show ?thesis
    by (auto simp: model_workload_def adopt_existing_sts_def elim!: bindg_ReturnE
        split: sum.splits dest!: or_delegate_Ran)
qed

text \<open>C29: the last step of a model that ends without an error writes the provisioned phase into the
  model as it is stored then: it reports the stored target as reached and the stored generation as
  observed, whatever target was worked on. A target that was changed meanwhile is reported as reached
  and never worked on.\<close>

theorem model_settles_stored:
  fixes env :: "'w env"
  assumes "retry_contract env" "get_contract env" "write_contract (c_status_update env)" "owner_contract env"
    and "settle_model fuel env (OModel m) current target w = (Return (Ran res'), w')"
  shows "\<exists>w1 stored w2 n new w3.
      c_get env KModel (m_namespace (mo_meta m)) (m_name (mo_meta m)) w1 = (Inr (OModel stored), w2)
    \<and> ms_targetReplicas (mo_spec stored) = Some n
    \<and> new = stored\<lparr>mo_status := (mo_status stored)\<lparr>mt_currentReplicas := fmt_d n @ ''/'' @ fmt_d n,
        mt_phase := StatusProvisioned, mt_observedGeneration := m_generation (mo_meta stored)\<rparr>\<rparr>
    \<and> c_status_update env (OModel new) w3 = (Inr res', w') \<and> model_settled (OModel new)"
proof -
  note c = assms(1-4)
  from assms(5) obtain res1 v1 where
    m1: "or_delegate env (manageEntities fuel env (OModel m) current target) ''failed to manage entities: '' w
      = (Return (Ran res1), v1)" and
    r1: "then_run (model_workload fuel env res1) (\<lambda>res2.
         update_or_delegate env res2 [report_replicas None, updateStatusPhase StatusProvisioned]
           ''failed to set resource to progressing state, '') v1 = (Return (Ran res'), w')"
    unfolding settle_model_def by (rule then_run_RanE)
  from r1 obtain res2 v2 where m2: "model_workload fuel env res1 v1 = (Return (Ran res2), v2)" and
    u: "UpdateStatus env res2 [report_replicas None, updateStatusPhase StatusProvisioned] v2
      = (Return (None, res'), w')"
    by (auto simp: update_or_delegate_def elim!: then_run_RanE dest!: or_delegate_Ran)
  have key: "same_key (OModel m) res2"
    using manageEntities_key [OF c or_delegate_Ran [OF m1]] model_workload_key [OF c m2] same_key_trans by blast
  have "keeps_key f" if "f \<in> set [report_replicas None, updateStatusPhase StatusProvisioned]" for f :: "'w modfn"
    using that by auto
  from UpdateStatus_spec [OF c(1-3) this u] have
    "wrote env (c_status_update env) [report_replicas None, updateStatusPhase StatusProvisioned] res2 res' w'"
    by auto
  then obtain w1 cur w2 ob w3 where
    g: "c_get env KModel (m_namespace (mo_meta m)) (m_name (mo_meta m)) w1 = (Inr cur, w2)" and
    e: "apply_all [report_replicas None, updateStatusPhase StatusProvisioned] cur w2 = (Return ob, w3)" and
    wr: "c_status_update env ob w3 = (Inr res', w')"
    using key unfolding wrote_def same_key_def by (auto simp: obj_name_def obj_ns_def)
  from g assms(2) have "kind_of cur = KModel" unfolding get_contract_def by blast
  then obtain stored where s: "cur = OModel stored" by (cases cur) auto
  with e obtain n where "ms_targetReplicas (mo_spec stored) = Some n"
    "ob = OModel (stored\<lparr>mo_status := (mo_status stored)\<lparr>mt_currentReplicas := fmt_d n @ ''/'' @ fmt_d n,
        mt_phase := StatusProvisioned, mt_observedGeneration := m_generation (mo_meta stored)\<rparr>\<rparr>)"
    by (auto simp: report_replicas_def updateStatusPhase_def pure_mod_def Model_SetPhase_def
        elim!: bindg_ReturnE split: option.splits)
  moreover from this(2) have "model_settled ob" by (simp add: model_settled_def Model_GetPhase_def)
  ultimately show ?thesis using g s wr by blast
qed

text \<open>The witness: the target went from two to three before the step began. Two entities are created,
  the stateful set gets three replicas, and the status says that three of three are there.\<close>

definition rescaled_model :: model where
  "rescaled_model = sample_model\<lparr>mo_meta := (mo_meta sample_model)\<lparr>m_generation := 2\<rparr>,
     mo_spec := (mo_spec sample_model)\<lparr>ms_targetReplicas := Some 3\<rparr>\<rparr>"

theorem model_settles_stored_witness:
  "\<exists>res' w' w2 stored new w3. settle_model 1 repo_env (OModel sample_model) 0 2 (sample_world [OModel rescaled_model])
      = (Return (Ran res'), w')
    \<and> length (filter (\<lambda>ob. kind_of ob = KEntity) (mem_objs w')) = 2
    \<and> c_get repo_env KModel ''ns'' ''arm'' w2 = (Inr (OModel stored), w2)
    \<and> mt_currentReplicas (mo_status new) = ''3/3'' \<and> c_status_update repo_env (OModel new) w3 = (Inr res', w')
    \<and> model_settled (OModel new)"
proof -
  let ?w = "sample_world [OModel rescaled_model]"
  have "ends (settle_model 1 repo_env (OModel sample_model) 0 2 ?w) (\<lambda>x w'. (case x of
        Ran res \<Rightarrow> mt_currentReplicas (mo_status (the_model res)) = ''3/3'' | _ \<Rightarrow> False)
      \<and> length (filter (\<lambda>ob. kind_of ob = KEntity) (mem_objs w')) = 2)"
    by code_simp
  then obtain res' w' where run: "settle_model 1 repo_env (OModel sample_model) 0 2 ?w = (Return (Ran res'), w')"
    and n: "mt_currentReplicas (mo_status (the_model res')) = ''3/3''"
      "length (filter (\<lambda>ob. kind_of ob = KEntity) (mem_objs w')) = 2"
    by (elim endsE) (auto split: run_outcome.splits)
  have k: "m_namespace (mo_meta sample_model) = ''ns''" "m_name (mo_meta sample_model) = ''arm''"
    by (simp_all add: sample_defs)
  from model_settles_stored [OF repo_contracts(1,2,3,5) run, unfolded k]
  obtain w1 stored w2 new w3 where g: "c_get repo_env KModel ''ns'' ''arm'' w1 = (Inr (OModel stored), w2)" and
    wr: "c_status_update repo_env (OModel new) w3 = (Inr res', w')" and s: "model_settled (OModel new)"
    by blast
  from g have "w2 = w1" by (auto simp: mem_env_def mem_get_def split: option.splits)
  moreover from wr n(1) have "mt_currentReplicas (mo_status new) = ''3/3''"
    by (auto simp: mem_env_def mem_status_update_def mem_write_def Let_def with_status_of_def bump_version_def
        find_Some_iff mem_key_of_same_key same_key_def split: option.splits if_splits obj.splits)
  ultimately show ?thesis using run n(2) g wr s by blast
qed

end
