(* ===== verification/Entity_Controller.thy ===== *)
theory Entity_Controller
  imports Templates Entity_Webhook
begin

text \<open>
  \<open>internal/controller/entity_controller.go\<close>: the reconciler of entities. A settled entity has its
  status fetched from its pod. Otherwise it gets a service account, a role binding when it is
  privileged, a certificate when it brings no secret, a service and an ingress; then it is owned by its
  model, which may need one more replica, and locked on a pod.

  \<open>res\<close> is one variable that every status update overwrites; here it is passed on from step to
  step. Its name never changes, so names and labels made of it are written where they are used.
\<close>

section \<open>The resource\<close>

definition empty_entity :: entity where
  \<comment> \<open>\<open>robokubev1.Entity{}\<close>\<close>
  "empty_entity = \<lparr>e_meta = empty_meta,
     e_spec = \<lparr>es_identity = [], es_organization = [], es_privileged = False, es_onSecondary = False,
       es_serialNumber = [], es_ordinalIndex = None, es_model = [], es_secret = [], es_syncPeriod = 0,
       es_usage = [], es_decommissioned = False\<rparr>,
     e_status = \<lparr>et_urls = None, et_podName = [], et_conditions = [], et_data = [], et_lastSyncTime = 0,
       et_phase = [], et_observedGeneration = 0\<rparr>\<rparr>"

definition the_entity :: "obj \<Rightarrow> entity" where
  \<comment> \<open>the resource is an \<open>Entity\<close> by its Go type\<close>
  "the_entity res = (case as_entity res of None \<Rightarrow> empty_entity | Some e \<Rightarrow> e)"

definition sync_period :: "obj \<Rightarrow> int" where
  \<comment> \<open>\<open>time.Duration(res.Spec.SyncPeriod) * time.Second\<close>; an \<open>int32\<close> of seconds fits\<close>
  "sync_period res = sint (es_syncPeriod (e_spec (the_entity res))) * second"

section \<open>A settled entity\<close>

definition entity_settled :: "obj \<Rightarrow> bool" where
  "entity_settled res \<longleftrightarrow>
     et_observedGeneration (e_status (the_entity res)) = m_generation (e_meta (the_entity res))
   \<and> et_phase (e_status (the_entity res)) = StatusProvisioned"

definition status_request :: "obj \<Rightarrow> request_handler" where
  "status_request res =
     NewRequestHandler None
       (case et_urls (e_status (the_entity res)) of None \<Rightarrow> []
        | Some urls \<Rightarrow> (case fmlookup urls ''status'' of None \<Rightarrow> [] | Some u \<Rightarrow> u))
       ''get''
       \<lparr>rp_ResourceType = ResourceTypePod, rp_TargetName = et_podName (e_status (the_entity res)),
        rp_ErrorCondtion = False, rp_DryRun = False\<rparr>"

definition sync_entity :: "'w env \<Rightarrow> obj \<Rightarrow> ('w, reconciled) go" where
  "sync_entity env res =
     bindg (Processor env res None None None (RequestHandler_Handle env (status_request res))
         (Some (SetStatusData env))) (\<lambda>((_, err), res1, _). case err of
       Some e \<Rightarrow> retg (no_requeue, Some e)
     | None \<Rightarrow> retg (requeue_after (sync_period res1), None))"

section \<open>The objects of an entity\<close>

definition entity_label :: "obj \<Rightarrow> gomap" where
  "entity_label res = fmap_of_list [(RoboKubeEntityKey, obj_name res)]"

definition entity_owned_params :: "obj \<Rightarrow> resource_type \<Rightarrow> string \<Rightarrow> string \<Rightarrow> cluster_params" where
  \<comment> \<open>the parameters that the five objects have in common\<close>
  "entity_owned_params res ty suffix template =
     resource_params ty (obj_name res @ suffix) (obj_ns res) (Some (entity_label res)) True template"

definition edit_rolebinding :: "obj \<Rightarrow> obj \<Rightarrow> obj outcome" where
  "edit_rolebinding res ob =
     (case as_rolebinding ob of None \<Rightarrow> Panic bad_assertion
      | Some target \<Rightarrow> Return (ORoleBinding (target\<lparr>rb_subjects :=
          [\<lparr>su_kind = ''ServiceAccount'', su_name = obj_name res @ ''-sa'', su_namespace = obj_ns res\<rparr>]\<rparr>)))"

definition entity_host :: "obj \<Rightarrow> model \<Rightarrow> string" where
  "entity_host res model = obj_name res @ ''.'' @ ms_ingressUrl (mo_spec model)"

definition edit_certificate :: "obj \<Rightarrow> model \<Rightarrow> obj \<Rightarrow> obj outcome" where
  "edit_certificate res model ob =
     (case as_certificate ob of None \<Rightarrow> Panic bad_assertion
      | Some target \<Rightarrow> Return (OCertificate (target\<lparr>ct_spec := (ct_spec target)
          \<lparr>cs_secretName := obj_name res @ ''-crt'', cs_commonName := entity_host res model\<rparr>\<rparr>)))"

definition entity_secret :: "obj \<Rightarrow> string" where
  \<comment> \<open>\<open>secretName\<close>\<close>
  "entity_secret res = (if es_secret (e_spec (the_entity res)) = [] then obj_name res @ ''-crt''
     else es_secret (e_spec (the_entity res)))"

definition edit_pod_service :: "obj \<Rightarrow> model \<Rightarrow> obj \<Rightarrow> obj outcome" where
  "edit_pod_service res model ob =
     (case as_service ob of None \<Rightarrow> Panic bad_assertion
      | Some target \<Rightarrow>
          obind (deref (ordinal_of (the_entity res))) (\<lambda>i.
            Return (OService (selector_entry (RoboKubeIndexKey @ m_name (mo_meta model)) (fmt_d i) target))))"

definition edit_ingress :: "obj \<Rightarrow> string \<Rightarrow> model \<Rightarrow> obj \<Rightarrow> obj outcome" where
  \<comment> \<open>every index and pointer on the way is used without a test\<close>
  "edit_ingress res secretName model ob =
     (case as_ingress ob of None \<Rightarrow> Panic bad_assertion
      | Some target \<Rightarrow> (case in_tls (i_spec target) of
          [] \<Rightarrow> Panic index_out_of_range
        | tls # tlss \<Rightarrow> (case it_hosts tls of
            [] \<Rightarrow> Panic index_out_of_range
          | _ # hosts \<Rightarrow> (case in_rules (i_spec target) of
              [] \<Rightarrow> Panic index_out_of_range
            | rule # rules \<Rightarrow>
                obind (deref (ir_paths rule)) (\<lambda>paths. case paths of
                  [] \<Rightarrow> Panic index_out_of_range
                | path # paths' \<Rightarrow>
                    obind (deref (ip_service path)) (\<lambda>_.
                      Return (OIngress (target\<lparr>i_spec := (i_spec target)
                        \<lparr>in_tls := tls\<lparr>it_secretName := secretName,
                           it_hosts := entity_host res model # hosts\<rparr> # tlss,
                         in_rules := rule\<lparr>ir_host := entity_host res model,
                           ir_paths := Some (path\<lparr>ip_service := Some (obj_name res @ ''-srv'')\<rparr> # paths')\<rparr>
                           # rules\<rparr>\<rparr>))))))))"

definition provision_for_entity ::
  "nat \<Rightarrow> 'w env \<Rightarrow> obj \<Rightarrow> resource_type \<Rightarrow> string \<Rightarrow> string \<Rightarrow> 'w modfn \<Rightarrow> string \<Rightarrow> ('w, run_outcome) go" where
  "provision_for_entity fuel env res ty suffix template f msg =
     or_delegate env (provision fuel env res (entity_owned_params res ty suffix template) f) msg"

definition entity_identity :: "nat \<Rightarrow> 'w env \<Rightarrow> obj \<Rightarrow> ('w, run_outcome) go" where
  \<comment> \<open>service account and role binding\<close>
  "entity_identity fuel env res =
     then_run (provision_for_entity fuel env res ResourceTypeServiceAccount ''-sa'' ''sa.yml'' no_edit
         ''failed to create service account: '') (\<lambda>res1.
       if es_privileged (e_spec (the_entity res1))
       then provision_for_entity fuel env res1 ResourceTypeRoleBinding ''-rb'' ''rb.yml''
         (lift_mod (edit_rolebinding res1)) ''failed to create/update rolebinding: ''
       else retg (Ran res1))"

definition entity_endpoint :: "nat \<Rightarrow> 'w env \<Rightarrow> obj \<Rightarrow> model \<Rightarrow> ('w, run_outcome) go" where
  \<comment> \<open>certificate, service and ingress; the name of the secret is fixed before they begin\<close>
  "entity_endpoint fuel env res model =
     (let secretName = entity_secret res in
      then_run (if es_secret (e_spec (the_entity res)) = []
          then provision_for_entity fuel env res ResourceTypeCert ''-crt'' ''crt.yml''
            (lift_mod (edit_certificate res model)) ''failed to create certificate: ''
          else retg (Ran res)) (\<lambda>res1.
      then_run (provision_for_entity fuel env res1 ResourceTypeService ''-srv'' ''srv-pod.yml''
          (lift_mod (edit_pod_service res1 model)) ''failed to create service: '') (\<lambda>res2.
        provision_for_entity fuel env res2 ResourceTypeIngress ''-ing'' ''ing-pod.yml''
          (lift_mod (edit_ingress res2 secretName model)) ''failed to create ingress: '')))"

section \<open>handleOwnershipAndReplicas\<close>

definition increase_replicas :: "obj \<Rightarrow> obj outcome" where
  "increase_replicas ob =
     (case as_statefulset ob of None \<Rightarrow> Panic bad_assertion
      | Some s \<Rightarrow> obind (deref (ss_replicas (st_spec s))) (\<lambda>n.
          Return (OStatefulSet (s\<lparr>st_spec := (st_spec s)\<lparr>ss_replicas := Some (n + 1)\<rparr>\<rparr>))))"

definition sts_increaser :: object_handler where
  "sts_increaser = NewObjectHandler None
     \<lparr>op_ResourceType = ResourceTypeStatefulSet, op_Action = ''Increase replicas'', op_IsDelete = False\<rparr>"

definition entity_owner :: object_handler where
  "entity_owner = NewObjectHandler None
     \<lparr>op_ResourceType = ResourceTypeEntity, op_Action = ''Set ownership'', op_IsDelete = False\<rparr>"

definition own_entity :: "'w env \<Rightarrow> obj \<Rightarrow> model \<Rightarrow> ('w, gerror option \<times> obj) go" where
  "own_entity env res model =
     bindg (Processor env res None None (Some (pure_mod (set_owner env model)))
         (ObjectHandler_Handle env entity_owner) (Some (setCondition env))) (\<lambda>((_, err), res1, _).
       retg (map_option (wrapf ''failed to set ownership for entities: '') err, res1))"

definition handleOwnershipAndReplicas :: "'w env \<Rightarrow> obj \<Rightarrow> model \<Rightarrow> ('w, gerror option \<times> obj) go" where
  "handleOwnershipAndReplicas env res model =
     bindg (get_as env KStatefulSet as_statefulset (obj_ns res)
         (stsName_of (es_model (e_spec (the_entity res))) model)) (\<lambda>r. case r of
       Inl err \<Rightarrow> retg (Some (wrapf ''failed to get sts: '' err), res)
     | Inr sts \<Rightarrow>
         bindg (pureg (deref (ss_replicas (st_spec sts)))) (\<lambda>replicas.
         bindg (pureg (deref (ordinal_of (the_entity res)))) (\<lambda>i.
           if sint replicas < sint i
           then retg (Some (errorf ''entity's index is not the next available replicas''), res)
           else bindg (if replicas = i then
               bindg (effg (c_event env res ''Normal'' ''LockedOn'' (''Entity '' @ obj_name res
                 @ '' request statefulset '' @ stsName_of (es_model (e_spec (the_entity res))) model
                 @ '' to increase replicas''))) (\<lambda>_.
               bindg (Processor env res (Some (OStatefulSet sts)) None (Some (lift_mod increase_replicas))
                   (ObjectHandler_Handle env sts_increaser) (Some (setCondition env))) (\<lambda>((_, err), res1, _).
                 retg (map_option (wrapf ''statefulset upgrade failed: '') err, res1)))
             else retg (None, res)) (\<lambda>(err, res1). case err of
               Some e \<Rightarrow> retg (Some e, res1)
             | None \<Rightarrow> own_entity env res1 model))))"

section \<open>lockOnPod\<close>

definition no_pod_text :: "obj \<Rightarrow> string" where
  "no_pod_text res = ''no suitable Pod found for Entity '' @ obj_name res"

definition choose_pod :: "string \<Rightarrow> pod list \<Rightarrow> pod option" where
  \<comment> \<open>the pod named like the entity, or the first of the list\<close>
  "choose_pod name pods = (case pods of [] \<Rightarrow> None
     | p # _ \<Rightarrow> (case find (\<lambda>x. m_name (p_meta x) = name) pods of None \<Rightarrow> Some p | Some x \<Rightarrow> Some x))"

definition pod_base_url :: "string \<Rightarrow> string \<Rightarrow> string \<Rightarrow> string" where
  "pod_base_url pod service ns = ''http://'' @ pod @ ''.'' @ service @ ''.'' @ ns @ ''.svc.cluster.local''"

definition lock_edit :: "string \<Rightarrow> string \<Rightarrow> obj \<Rightarrow> obj outcome" where
  "lock_edit pod service ob =
     (case as_entity ob of None \<Rightarrow> Panic bad_assertion
      | Some target \<Rightarrow>
          let base = pod_base_url pod service (m_namespace (e_meta target)) in
          Return (OEntity (target\<lparr>e_status := (e_status target)
            \<lparr>et_urls := Some (fmap_of_list [(''status'', base @ ''/status''), (''task'', base @ ''/task''),
               (''control'', base @ '':8080/'')]), et_podName := pod\<rparr>\<rparr>)))"

definition entity_service_name :: "obj \<Rightarrow> model \<Rightarrow> string" where
  "entity_service_name res model =
     (if ms_statefulSetName (mo_spec model) \<noteq> [] then ms_statefulSetName (mo_spec model)
      else es_model (e_spec (the_entity res)) @ ''-srv'')"

definition lockOnPod :: "'w env \<Rightarrow> obj \<Rightarrow> model \<Rightarrow> ('w, gerror option \<times> obj) go" where
  "lockOnPod env res model =
     bindg (pureg (deref (ordinal_of (the_entity res)))) (\<lambda>i.
     bindg (list_as env KPod as_pod (obj_ns res)
         (SelEquals (RoboKubeIndexKey @ m_name (mo_meta model)) (fmt_d i))) (\<lambda>r. case r of
       Inl err \<Rightarrow> retg (Some (wrapf ''failed to list pod: '' err), res)
     | Inr pods \<Rightarrow> (case choose_pod (obj_name res) pods of
         None \<Rightarrow> retg (Some (errorf (no_pod_text res)), res)
       | Some targetPod \<Rightarrow>
           bindg (effg (c_event env res ''Normal'' ''LockedOn'' (''Entity '' @ obj_name res
             @ '' is successfully locked on to pod '' @ m_name (p_meta targetPod)))) (\<lambda>_.
           bindg (UpdateStatus env res
               [lift_mod (lock_edit (m_name (p_meta targetPod)) (entity_service_name res model))])
             (\<lambda>(err, res1).
               retg (map_option (wrapf ''failed to update Entity status to Provisioned: '') err, res1))))))"

section \<open>Reconcile\<close>

definition lock_entity :: "'w env \<Rightarrow> obj \<Rightarrow> model \<Rightarrow> ('w, run_outcome) go" where
  \<comment> \<open>the error for a missing pod is told by its text\<close>
  "lock_entity env res model =
     bindg (lockOnPod env res model) (\<lambda>(err, res1). case err of
       None \<Rightarrow> retg (Ran res1)
     | Some e \<Rightarrow>
         if err_msg e = no_pod_text res1 then retg (Stop (requeue_after (10 * second), None))
         else bindg (delegate env res1 (wrapf ''failed to lock on pod: '' e)) (\<lambda>r. retg (Stop r)))"

definition settle_entity :: "'w env \<Rightarrow> obj \<Rightarrow> model \<Rightarrow> ('w, run_outcome) go" where
  \<comment> \<open>owner, pod, last phase update\<close>
  "settle_entity env res model =
     then_run (if m_ownerReferences (meta_of res) = []
         then or_delegate env (handleOwnershipAndReplicas env res model)
           ''failed to handle ownership and replicas: ''
         else retg (Ran res)) (\<lambda>res1.
     then_run (if et_podName (e_status (the_entity res1)) = [] then lock_entity env res1 model
         else retg (Ran res1)) (\<lambda>res2.
       update_or_delegate env res2 [updateStatusPhase StatusProvisioned]
         ''failed to update status for entities: ''))"

definition reconcile_entity :: "nat \<Rightarrow> 'w env \<Rightarrow> obj \<Rightarrow> ('w, reconciled) go" where
  \<comment> \<open>after the finalizer\<close>
  "reconcile_entity fuel env res =
     (if entity_settled res then sync_entity env res
      else stop_run (if et_phase (e_status (the_entity res)) = []
            \<or> et_observedGeneration (e_status (the_entity res)) \<noteq> m_generation (e_meta (the_entity res))
          then update_or_delegate env res [updateStatusPhase StatusProvisioning]
            ''failed to set resource to progressing state, ''
          else retg (Ran res)) (\<lambda>res1.
        bindg (get_as env KModel as_model (obj_ns res1) (es_model (e_spec (the_entity res1)))) (\<lambda>r. case r of
          Inl err \<Rightarrow> delegate env res1 (wrapf ''failed to get Model: '' err)
        | Inr model \<Rightarrow>
            stop_run (then_run (entity_identity fuel env res1) (\<lambda>res2.
              then_run (entity_endpoint fuel env res2 model) (\<lambda>res3. settle_entity env res3 model)))
            (\<lambda>res4. retg (requeue_after (sync_period res4), None)))))"

definition EntityReconciler_Reconcile :: "nat \<Rightarrow> 'w env \<Rightarrow> string \<Rightarrow> string \<Rightarrow> ('w, reconciled) go" where
  "EntityReconciler_Reconcile fuel env ns name =
     bindg (get_as env KEntity as_entity ns name) (\<lambda>r. case r of
       Inl err \<Rightarrow> delegate env (OEntity empty_entity) (wrapf ''resource could not be found, '' err)
     | Inr e \<Rightarrow> bindg (handleFinalizer env (OEntity e) finalizer) (\<lambda>((ret, err), res).
         if err \<noteq> None \<or> rr_Requeue ret then retg (ret, err)
         else reconcile_entity fuel env res))"

section \<open>Facts on the steps\<close>

lemma the_entity_simp [simp]: "the_entity (OEntity e) = e"
  by (simp add: the_entity_def)

lemma those_as_pod:
  "those (map as_pod obs) = Some pods \<Longrightarrow> obs = map OPod pods"
proof (induction obs arbitrary: pods)
  case (Cons ob obs)
  then show ?case by (cases ob) (auto split: option.splits)
qed simp

lemma lockOnPod_list:
  assumes "lockOnPod env (OEntity e) model w = (Return (None, res'), w')"
  shows "\<exists>i pods v p v1. ordinal_of e = Some i
    \<and> c_list env KPod (m_namespace (e_meta e)) (SelEquals (RoboKubeIndexKey @ m_name (mo_meta model)) (fmt_d i)) w
        = (Inr (map OPod pods), v)
    \<and> choose_pod (m_name (e_meta e)) pods = Some p
    \<and> UpdateStatus env (OEntity e) [lift_mod (lock_edit (m_name (p_meta p)) (entity_service_name (OEntity e) model))] v1
        = (Return (None, res'), w')"
proof -
  from assms obtain i v pods p v1 where i: "ordinal_of e = Some i" and
    l: "list_as env KPod as_pod (m_namespace (e_meta e))
      (SelEquals (RoboKubeIndexKey @ m_name (mo_meta model)) (fmt_d i)) w = (Return (Inr pods), v)" and
    p: "choose_pod (m_name (e_meta e)) pods = Some p" and
    u: "UpdateStatus env (OEntity e) [lift_mod (lock_edit (m_name (p_meta p)) (entity_service_name (OEntity e) model))] v1
      = (Return (None, res'), w')"
    by (auto simp: lockOnPod_def obj_name_def obj_ns_def elim!: bindg_ReturnE split: sum.splits option.splits)
  from l have "c_list env KPod (m_namespace (e_meta e))
      (SelEquals (RoboKubeIndexKey @ m_name (mo_meta model)) (fmt_d i)) w = (Inr (map OPod pods), v)"
    by (auto simp: list_as_ReturnInr dest: those_as_pod)
  with i p u show ?thesis by blast
qed

lemma choose_pod_Some:
  assumes "choose_pod name pods = Some p"
  shows "p \<in> set pods \<and> (m_name (p_meta p) = name
    \<or> (p = hd pods \<and> (\<forall>x \<in> set pods. m_name (p_meta x) \<noteq> name)))"
proof (cases "find (\<lambda>x. m_name (p_meta x) = name) pods")
  case None
  with assms show ?thesis by (cases pods) (auto simp: choose_pod_def find_None_iff)
next
  case (Some x)
  with assms have "x = p" by (cases pods) (auto simp: choose_pod_def split: option.splits)
  moreover from Some have "x \<in> set pods \<and> m_name (p_meta x) = name"
    by (auto simp: find_Some_iff)
  ultimately show ?thesis by blast
qed

lemma lock_edit_Return: "lock_edit n s ob = Return ob' \<Longrightarrow> meta_of ob' = meta_of ob \<and> kind_of ob' = kind_of ob"
  by (auto simp: lock_edit_def Let_def split: option.splits dest!: as_SomeD)

lemma keeps_key_lock_edit [simp]: "keeps_key (lift_mod (lock_edit n s))"
  by (rule keeps_key_meta) (auto simp: lift_mod_def dest: lock_edit_Return)

definition locked_status :: "string \<Rightarrow> string \<Rightarrow> string \<Rightarrow> entity_status \<Rightarrow> entity_status" where
  \<comment> \<open>the status of an entity of this namespace that is locked on a pod behind a service\<close>
  "locked_status pod service ns st = (let base = pod_base_url pod service ns in st
     \<lparr>et_urls := Some (fmap_of_list [(''status'', base @ ''/status''), (''task'', base @ ''/task''),
        (''control'', base @ '':8080/'')]), et_podName := pod\<rparr>)"

section \<open>Properties\<close>

text \<open>C12: when an entity is locked on a pod without an error, the pod was listed under the index label
  of its model with the entity's ordinal; it is the one named like the entity, or the first when none
  is. The stored entity was written with that pod and with the three addresses of it behind the
  model's service, and is otherwise as it was stored.\<close>

theorem entity_locks_on_its_pod:
  assumes "retry_contract env" "get_contract env" "write_contract (c_status_update env)"
    and "lockOnPod env (OEntity e) model w = (Return (None, res'), w')"
  shows "\<exists>i pods v p w1 stored w2 w3. ordinal_of e = Some i
    \<and> c_list env KPod (m_namespace (e_meta e)) (SelEquals (RoboKubeIndexKey @ m_name (mo_meta model)) (fmt_d i)) w
        = (Inr (map OPod pods), v)
    \<and> p \<in> set pods \<and> (m_name (p_meta p) = m_name (e_meta e)
        \<or> (p = hd pods \<and> (\<forall>x \<in> set pods. m_name (p_meta x) \<noteq> m_name (e_meta e))))
    \<and> c_get env KEntity (m_namespace (e_meta e)) (m_name (e_meta e)) w1 = (Inr (OEntity stored), w2)
    \<and> c_status_update env (OEntity (stored\<lparr>e_status := locked_status (m_name (p_meta p))
        (entity_service_name (OEntity e) model) (m_namespace (e_meta e)) (e_status stored)\<rparr>)) w3 = (Inr res', w')"
proof -
  let ?s = "entity_service_name (OEntity e) model"
  from lockOnPod_list [OF assms(4)] obtain i pods v p v1 where i: "ordinal_of e = Some i" and
    pods: "c_list env KPod (m_namespace (e_meta e))
      (SelEquals (RoboKubeIndexKey @ m_name (mo_meta model)) (fmt_d i)) w = (Inr (map OPod pods), v)" and
    p: "choose_pod (m_name (e_meta e)) pods = Some p" and
    u: "UpdateStatus env (OEntity e) [lift_mod (lock_edit (m_name (p_meta p)) ?s)] v1 = (Return (None, res'), w')"
    by blast
  have "keeps_key f" if "f \<in> set [lift_mod (lock_edit (m_name (p_meta p)) ?s)]" for f
    using that by simp
  from UpdateStatus_spec [OF assms(1-3) this u]
  have "wrote env (c_status_update env) [lift_mod (lock_edit (m_name (p_meta p)) ?s)] (OEntity e) res' w'"
    by auto
  then obtain w1 cur w2 ob w3 where
    g: "c_get env KEntity (m_namespace (e_meta e)) (m_name (e_meta e)) w1 = (Inr cur, w2)" and
    ed: "lock_edit (m_name (p_meta p)) ?s cur = Return ob" and
    wr: "c_status_update env ob w3 = (Inr res', w')"
    by (auto simp: wrote_def lift_mod_def obj_name_def obj_ns_def elim!: bindg_ReturnE)
  from g assms(2) have c: "kind_of cur = KEntity" "obj_ns cur = m_namespace (e_meta e)"
    unfolding get_contract_def by blast+
  then obtain stored where s: "cur = OEntity stored" by (cases cur) auto
  with ed c(2) have "ob = OEntity (stored\<lparr>e_status := locked_status (m_name (p_meta p)) ?s
      (m_namespace (e_meta e)) (e_status stored)\<rparr>)"
    by (simp add: lock_edit_def locked_status_def Let_def obj_ns_def)
  with i pods choose_pod_Some [OF p] g s wr show ?thesis by blast
qed

definition index_pod :: "string \<Rightarrow> int32 \<Rightarrow> pod" where
  "index_pod n i = \<lparr>p_meta = (sample_meta n)\<lparr>m_labels := Some (fmap_of_list
     [(RoboKubeIndexKey @ ''arm'', fmt_d i)])\<rparr>, p_spec = \<lparr>ps_serviceAccountName = [], ps_rest = []\<rparr>,
     p_conditions = []\<rparr>"

theorem entity_locks_on_its_pod_witness:
  "\<exists>w1 stored w2 w3 res' w' pods p. set pods = {index_pod ''arm-sts-1'' 1}
    \<and> p \<in> set pods \<and> c_get repo_env KEntity ''ns'' ''a'' w1 = (Inr (OEntity stored), w2)
    \<and> c_status_update repo_env (OEntity (stored\<lparr>e_status := locked_status (m_name (p_meta p))
        ''arm-srv'' ''ns'' (e_status stored)\<rparr>)) w3 = (Inr res', w')"
proof -
  let ?e = "sample_entity ''a'' (Some 1)"
  let ?w = "sample_world [OEntity ?e, OPod (index_pod ''arm-sts-0'' 0), OPod (index_pod ''arm-sts-1'' 1)]"
  have k: "m_namespace (e_meta ?e) = ''ns''" "m_name (e_meta ?e) = ''a''" "ordinal_of ?e = Some 1"
    "entity_service_name (OEntity ?e) sample_model = ''arm-srv''"
    by (simp_all add: sample_defs entity_service_name_def)
  have "ends (lockOnPod repo_env (OEntity ?e) sample_model ?w) (\<lambda>(err, _) _. err = None)"
    by code_simp
  then obtain res' w' where run: "lockOnPod repo_env (OEntity ?e) sample_model ?w = (Return (None, res'), w')"
    by (elim endsE) auto
  have listed: "c_list repo_env KPod ''ns'' (SelEquals (RoboKubeIndexKey @ m_name (mo_meta sample_model)) (fmt_d (1 :: int32))) ?w
      = (Inr (map OPod [index_pod ''arm-sts-1'' 1]), ?w)"
    by code_simp
  from entity_locks_on_its_pod [OF repo_contracts(1-3) run, unfolded k]
  obtain pods v p w1 stored w2 w3 where
    "c_list repo_env KPod ''ns'' (SelEquals (RoboKubeIndexKey @ m_name (mo_meta sample_model)) (fmt_d (1 :: int32))) ?w
      = (Inr (map OPod pods), v)" and
    rest: "p \<in> set pods" "c_get repo_env KEntity ''ns'' ''a'' w1 = (Inr (OEntity stored), w2)"
      "c_status_update repo_env (OEntity (stored\<lparr>e_status := locked_status (m_name (p_meta p))
        ''arm-srv'' ''ns'' (e_status stored)\<rparr>)) w3 = (Inr res', w')"
    by (elim exE conjE) auto
  with listed have "map OPod pods = map OPod [index_pod ''arm-sts-1'' 1]" by simp
  then have "set pods = {index_pod ''arm-sts-1'' 1}" by auto
  with rest show ?thesis by blast
qed

text \<open>The two edits on the way to ownership.\<close>

lemma increase_Return:
  assumes "lift_mod increase_replicas ob w = (Return ob', w')"
  shows "same_key ob ob' \<and> (\<exists>s n. ob = OStatefulSet s \<and> ss_replicas (st_spec s) = Some n
    \<and> ob' = OStatefulSet (s\<lparr>st_spec := (st_spec s)\<lparr>ss_replicas := Some (n + 1)\<rparr>\<rparr>))"
  using assms by (auto simp: lift_mod_def increase_replicas_def same_key_def obj_name_def obj_ns_def
      split: option.splits dest!: as_SomeD)

lemma own_entity_spec:
  assumes "retry_contract env" "get_contract env" "write_contract (c_update env)" "owner_contract env"
    and "own_entity env res model w = (Return (None, res'), w')"
  shows "\<exists>w1 cur w2 w3 stored. c_get env (kind_of res) (obj_ns res) (obj_name res) w1 = (Inr cur, w2)
    \<and> c_update env (set_owner env model cur) w2 = (Inr stored, w3)"
proof -
  let ?f = "pure_mod (set_owner env model)"
  from assms(5) obtain r ob' where "Processor env res None None (Some ?f)
      (ObjectHandler_Handle env entity_owner) (Some (setCondition env)) w = (Return ((r, None), res', ob'), w')"
    by (auto simp: own_entity_def elim!: bindg_ReturnE)
  then obtain ob1 v r1 ob2 v2 where f: "?f res w = (Return ob1, v)" and
    h: "ObjectHandler_Handle env entity_owner ob1 (Some ?f) v = (Return (r1, None, ob2), v2)"
    by (rule Processor_self)
  have keep: "keeps_key ?f" by (rule keeps_key_pure) (rule set_owner_key [OF assms(4)])
  have "same_key res ob1" using f set_owner_key [OF assms(4)] by (auto simp: pure_mod_def)
  moreover from ObjectHandler_edit [OF assms(1-3) keep h [unfolded entity_owner_def NewObjectHandler_def, simplified]]
  have "\<exists>w1 cur w2 w3. c_get env (kind_of ob1) (obj_ns ob1) (obj_name ob1) w1 = (Inr cur, w2)
    \<and> c_update env (set_owner env model cur) w2 = (Inr ob2, v2)"
    by (auto simp: pure_mod_def)
  ultimately show ?thesis unfolding same_key_def by metis
qed


definition fresh_arm :: entity where
  \<comment> \<open>the next entity of a model with two replicas\<close>
  "fresh_arm = (sample_entity ''c'' (Some 2))\<lparr>e_spec := (sample_entity_spec (Some 2))\<lparr>es_privileged := True\<rparr>\<rparr>"

definition arm_world :: mem where
  "arm_world = sample_world [OModel sample_model, OStatefulSet (sample_sts 2), OEntity fresh_arm]"


text \<open>What the five objects have in common.\<close>

lemma entity_owned_params_sel [simp]:
  "cp_ResourceType (entity_owned_params res ty suffix t) = ty"
  "cp_TargetName (entity_owned_params res ty suffix t) = obj_name res @ suffix"
  "cp_Namespace (entity_owned_params res ty suffix t) = obj_ns res"
  "cp_InjectLabels (entity_owned_params res ty suffix t) = Some (entity_label res)"
  "\<not> cp_NeedVerify (entity_owned_params res ty suffix t)"
  by (simp_all add: entity_owned_params_def resource_params_def)

lemma provision_for_entity_spec:
  fixes env :: "'w env"
  assumes "retry_contract env" "get_contract env" "write_contract (c_status_update env)" "owner_contract env"
    and "provision_for_entity fuel env res ty suffix t f msg w = (Return (Ran res'), w')"
  shows "same_key res res' \<and> (\<exists>(v :: 'w) v1 object built g. f object v = (Return built, v1)
    \<and> in_place env ty (map_meta g built) \<and> obj_name (map_meta g built) = obj_name res @ suffix
    \<and> obj_ns (map_meta g built) = obj_ns res)"
proof -
  from assms(5) have "provision fuel env res (entity_owned_params res ty suffix t) f w = (Return (None, res'), w')"
    unfolding provision_for_entity_def by (rule or_delegate_Ran)
  from provision_spec [OF assms(1-4) _ this] have k: "same_key res res'" and
    "owns env res (entity_owned_params res ty suffix t) f"
    by simp_all
  from this(2) obtain object built want g and v v1 :: 'w where "f object v = (Return built, v1)" "want = map_meta g built"
    "in_place env (cp_ResourceType (entity_owned_params res ty suffix t)) want"
    "obj_name want = cp_TargetName (entity_owned_params res ty suffix t)"
    "obj_ns want = cp_Namespace (entity_owned_params res ty suffix t)"
    by (elim owns_in_place) (rule that)
  with k show ?thesis unfolding entity_owned_params_sel by blast
qed

lemma edit_certificate_Return:
  "lift_mod (edit_certificate res model) ob w = (Return ob', w') \<Longrightarrow>
     \<exists>c. ob' = OCertificate c \<and> cs_secretName (ct_spec c) = obj_name res @ ''-crt''
       \<and> cs_commonName (ct_spec c) = entity_host res model"
  by (auto simp: lift_mod_def edit_certificate_def split: option.splits)

lemma edit_pod_service_Return:
  "lift_mod (edit_pod_service res model) ob w = (Return ob', w') \<Longrightarrow>
     \<exists>s i l. ob' = OService s \<and> ordinal_of (the_entity res) = Some i \<and> sv_selector (s_spec s) = Some l
       \<and> fmlookup l (RoboKubeIndexKey @ m_name (mo_meta model)) = Some (fmt_d i)"
  by (auto simp: lift_mod_def edit_pod_service_def selector_entry_def split: option.splits)

lemma edit_ingress_Return:
  "lift_mod (edit_ingress res secretName model) ob w = (Return ob', w') \<Longrightarrow>
     \<exists>i tls tlss rule rules path paths hosts. ob' = OIngress i \<and> in_tls (i_spec i) = tls # tlss
       \<and> it_secretName tls = secretName \<and> it_hosts tls = entity_host res model # hosts
       \<and> in_rules (i_spec i) = rule # rules \<and> ir_host rule = entity_host res model
       \<and> ir_paths rule = Some (path # paths) \<and> ip_service path = Some (obj_name res @ ''-srv'')"
  by (auto simp: lift_mod_def edit_ingress_def split: option.splits list.splits) (auto simp: neq_Nil_conv)

lemma certificate_in_place:
  fixes env :: "'w env"
  assumes "retry_contract env" "get_contract env" "write_contract (c_status_update env)" "owner_contract env"
    and "provision_for_entity fuel env res ty suffix t (lift_mod (edit_certificate r model)) msg w = (Return (Ran res'), w')"
  shows "same_key res res' \<and> (\<exists>c. in_place env ty (OCertificate c) \<and> cs_secretName (ct_spec c) = obj_name r @ ''-crt''
    \<and> cs_commonName (ct_spec c) = entity_host r model)"
proof -
  from provision_for_entity_spec [OF assms] obtain object built g and v v1 :: 'w where k: "same_key res res'" and
    f: "lift_mod (edit_certificate r model) object v = (Return built, v1)" and p: "in_place env ty (map_meta g built)"
    by (elim exE conjE) (rule that)
  from edit_certificate_Return [OF f] obtain c where c: "built = OCertificate c"
    "cs_secretName (ct_spec c) = obj_name r @ ''-crt''" "cs_commonName (ct_spec c) = entity_host r model"
    by blast
  with p have "in_place env ty (OCertificate (c\<lparr>ct_meta := g (ct_meta c)\<rparr>))" by simp
  with k c(2,3) show ?thesis by (intro conjI exI [of _ "c\<lparr>ct_meta := g (ct_meta c)\<rparr>"]) simp_all
qed

lemma service_in_place:
  fixes env :: "'w env"
  assumes "retry_contract env" "get_contract env" "write_contract (c_status_update env)" "owner_contract env"
    and "provision_for_entity fuel env res ty suffix t (lift_mod (edit_pod_service r model)) msg w = (Return (Ran res'), w')"
  shows "same_key res res' \<and> (\<exists>s i l. in_place env ty (OService s) \<and> m_name (s_meta s) = obj_name res @ suffix
    \<and> ordinal_of (the_entity r) = Some i \<and> sv_selector (s_spec s) = Some l
    \<and> fmlookup l (RoboKubeIndexKey @ m_name (mo_meta model)) = Some (fmt_d i))"
proof -
  from provision_for_entity_spec [OF assms] obtain object built g and v v1 :: 'w where k: "same_key res res'" and
    f: "lift_mod (edit_pod_service r model) object v = (Return built, v1)" and p: "in_place env ty (map_meta g built)"
    "obj_name (map_meta g built) = obj_name res @ suffix"
    by (elim exE conjE) (rule that)
  from edit_pod_service_Return [OF f] obtain s i l where s: "built = OService s"
    "ordinal_of (the_entity r) = Some i" "sv_selector (s_spec s) = Some l"
    "fmlookup l (RoboKubeIndexKey @ m_name (mo_meta model)) = Some (fmt_d i)"
    by blast
  with p have "in_place env ty (OService (s\<lparr>s_meta := g (s_meta s)\<rparr>))" "m_name (g (s_meta s)) = obj_name res @ suffix"
    by (simp_all add: obj_name_def)
  with k s(2-4) show ?thesis
    by (intro conjI exI [of _ "s\<lparr>s_meta := g (s_meta s)\<rparr>"] exI [of _ i] exI [of _ l]) simp_all
qed

lemma ingress_in_place:
  fixes env :: "'w env"
  assumes "retry_contract env" "get_contract env" "write_contract (c_status_update env)" "owner_contract env"
    and "provision_for_entity fuel env res ty suffix t (lift_mod (edit_ingress r secretName model)) msg w = (Return (Ran res'), w')"
  shows "same_key res res' \<and> (\<exists>i tls tlss rule rules path paths hosts. in_place env ty (OIngress i)
    \<and> in_tls (i_spec i) = tls # tlss \<and> it_secretName tls = secretName \<and> it_hosts tls = entity_host r model # hosts
    \<and> in_rules (i_spec i) = rule # rules \<and> ir_host rule = entity_host r model
    \<and> ir_paths rule = Some (path # paths) \<and> ip_service path = Some (obj_name r @ ''-srv''))"
proof -
  from provision_for_entity_spec [OF assms] obtain object built g and v v1 :: 'w where k: "same_key res res'" and
    f: "lift_mod (edit_ingress r secretName model) object v = (Return built, v1)" and p: "in_place env ty (map_meta g built)"
    by (elim exE conjE) (rule that)
  from edit_ingress_Return [OF f] obtain i tls tlss rule rules path paths hosts where
    i: "built = OIngress i" and s: "in_tls (i_spec i) = tls # tlss \<and> it_secretName tls = secretName
      \<and> it_hosts tls = entity_host r model # hosts \<and> in_rules (i_spec i) = rule # rules
      \<and> ir_host rule = entity_host r model \<and> ir_paths rule = Some (path # paths)
      \<and> ip_service path = Some (obj_name r @ ''-srv'')"
    by blast
  from p i have "in_place env ty (OIngress (i\<lparr>i_meta := g (i_meta i)\<rparr>))" by simp
  moreover have "i_spec (i\<lparr>i_meta := g (i_meta i)\<rparr>) = i_spec i" by simp
  ultimately show ?thesis using k s by metis
qed



text \<open>The account of an entity, and the role binding of a privileged one.\<close>

lemma entity_identity_spec:
  fixes env :: "'w env"
  assumes "retry_contract env" "get_contract env" "write_contract (c_status_update env)" "owner_contract env"
    and "entity_identity fuel env res w = (Return (Ran res'), w')"
  shows "same_key res res' \<and> (\<exists>sa. in_place env ResourceTypeServiceAccount sa
      \<and> obj_name sa = obj_name res @ ''-sa'' \<and> obj_ns sa = obj_ns res)
    \<and> (\<exists>r. same_key res r \<and> (es_privileged (e_spec (the_entity r)) \<longrightarrow>
        (\<exists>rb. in_place env ResourceTypeRoleBinding (ORoleBinding rb)
          \<and> rb_subjects rb = [\<lparr>su_kind = ''ServiceAccount'', su_name = obj_name res @ ''-sa'', su_namespace = obj_ns res\<rparr>])))"
proof -
  note c = assms(1-4)
  from assms(5) obtain r1 v1 where
    sa: "provision_for_entity fuel env res ResourceTypeServiceAccount ''-sa'' ''sa.yml'' no_edit
      ''failed to create service account: '' w = (Return (Ran r1), v1)" and
    rb: "(if es_privileged (e_spec (the_entity r1))
       then provision_for_entity fuel env r1 ResourceTypeRoleBinding ''-rb'' ''rb.yml''
         (lift_mod (edit_rolebinding r1)) ''failed to create/update rolebinding: ''
       else retg (Ran r1)) v1 = (Return (Ran res'), w')"
    unfolding entity_identity_def by (elim then_run_RanE)
  from provision_for_entity_spec [OF c sa] have k1: "same_key res r1" and
    account: "\<exists>sa. in_place env ResourceTypeServiceAccount sa \<and> obj_name sa = obj_name res @ ''-sa'' \<and> obj_ns sa = obj_ns res"
    by auto
  show ?thesis
  proof (cases "es_privileged (e_spec (the_entity r1))")
    case False
    with rb k1 account show ?thesis by auto
  next
    case True
    with rb have run: "provision_for_entity fuel env r1 ResourceTypeRoleBinding ''-rb'' ''rb.yml''
         (lift_mod (edit_rolebinding r1)) ''failed to create/update rolebinding: '' v1 = (Return (Ran res'), w')"
      by simp
    from provision_for_entity_spec [OF c run] obtain object built g and v v1 :: 'w where k2: "same_key r1 res'" and
      f: "lift_mod (edit_rolebinding r1) object v = (Return built, v1)" and
      p: "in_place env ResourceTypeRoleBinding (map_meta g built)"
      by (elim exE conjE) (rule that)
    from f obtain rb where b: "built = ORoleBinding rb" "rb_subjects rb =
        [\<lparr>su_kind = ''ServiceAccount'', su_name = obj_name r1 @ ''-sa'', su_namespace = obj_ns r1\<rparr>]"
      by (auto simp: lift_mod_def edit_rolebinding_def split: option.splits)
    with p have "in_place env ResourceTypeRoleBinding (ORoleBinding (rb\<lparr>rb_meta := g (rb_meta rb)\<rparr>))" by simp
    moreover have "rb_subjects (rb\<lparr>rb_meta := g (rb_meta rb)\<rparr>) =
        [\<lparr>su_kind = ''ServiceAccount'', su_name = obj_name res @ ''-sa'', su_namespace = obj_ns res\<rparr>]"
      using b(2) k1 by (simp add: same_key_def)
    ultimately show ?thesis using k1 account same_key_trans [OF k1 k2] by blast
  qed
qed

text \<open>Which errors come out of the steps.\<close>

definition entity_ok :: "'w env \<Rightarrow> reconciled \<Rightarrow> bool" where
  "entity_ok env r \<longleftrightarrow> error_ok env r
     \<or> (\<exists>e res v. r = (no_requeue, Some e) \<and> fst (sync_entity env res v) = Return (no_requeue, Some e))"

lemma entity_okI: "error_ok env r \<Longrightarrow> entity_ok env r"
  by (simp add: entity_ok_def)

lemma sync_entity_ok: "sync_entity env res w = (Return r, w') \<Longrightarrow> entity_ok env r"
proof -
  assume run: "sync_entity env res w = (Return r, w')"
  then have "snd r = None \<or> (\<exists>e. r = (no_requeue, Some e))"
    by (auto simp: sync_entity_def elim!: bindg_ReturnE split: option.splits)
  with run show ?thesis by (auto simp: entity_ok_def error_ok_def) (metis fst_conv)+
qed

lemma lock_entity_ok: "lock_entity env res model w = (Return (Stop r), w') \<Longrightarrow> error_ok env r"
  by (auto simp: lock_entity_def elim!: bindg_ReturnE split: option.splits if_splits) (erule delegate_ok)

lemma settle_entity_ok: "settle_entity env res model w = (Return (Stop r), w') \<Longrightarrow> error_ok env r"
  unfolding settle_entity_def
  by (erule then_run_ok)
    (auto split: if_splits elim: or_delegate_ok then_run_ok lock_entity_ok update_or_delegate_ok)

lemma entity_objects_ok:
  "entity_identity fuel env res w = (Return (Stop r), w') \<Longrightarrow> error_ok env r"
  "entity_endpoint fuel env res model w = (Return (Stop r), w') \<Longrightarrow> error_ok env r"
  unfolding entity_identity_def entity_endpoint_def provision_for_entity_def Let_def
  by (erule then_run_ok; auto split: if_splits elim: or_delegate_ok then_run_ok)+

lemma reconcile_entity_ok: "reconcile_entity fuel env res w = (Return r, w') \<Longrightarrow> entity_ok env r"
proof -
  assume run: "reconcile_entity fuel env res w = (Return r, w')"
  show ?thesis
  proof (cases "entity_settled res")
    case True
    with run show ?thesis by (auto simp: reconcile_entity_def dest: sync_entity_ok)
  next
    case False
    have chain: "error_ok env r" if "stop_run (then_run (entity_identity fuel env a) (\<lambda>res2.
              then_run (entity_endpoint fuel env res2 m) (\<lambda>res3. settle_entity env res3 m)))
            (\<lambda>res4. retg (requeue_after (sync_period res4), None)) v = (Return r, w')" for a m v
      using that
      by (rule stop_run_ok)
        (auto elim!: then_run_ok intro: entity_objects_ok settle_entity_ok)
    have "error_ok env r"
    proof (rule stop_run_ok [OF run [unfolded reconcile_entity_def if_not_P [OF False]]])
      fix a v
      assume "bindg (get_as env KModel as_model (obj_ns a) (es_model (e_spec (the_entity a)))) (\<lambda>x. case x of
          Inl err \<Rightarrow> delegate env a (wrapf ''failed to get Model: '' err)
        | Inr model \<Rightarrow> stop_run (then_run (entity_identity fuel env a) (\<lambda>res2.
              then_run (entity_endpoint fuel env res2 model) (\<lambda>res3. settle_entity env res3 model)))
            (\<lambda>res4. retg (requeue_after (sync_period res4), None))) v = (Return r, w')"
      then show "error_ok env r"
        by (auto elim!: bindg_ReturnE split: sum.splits intro: chain delegate_ok)
    qed (auto split: if_splits elim: update_or_delegate_ok)
    then show ?thesis by (simp add: entity_ok_def)
  qed
qed

text \<open>A reconcile of an entity reports an error only for a write conflict, which is requeued after
  ten seconds, for a clean-up that failed, or for a settled entity whose status could not be fetched or
  stored. Every other failure, such as a missing model, ends without an error.\<close>

theorem entity_reconcile_errors:
  assumes "EntityReconciler_Reconcile fuel env ns name w = (Return (ret, Some e), w')"
  shows "(IsConflict e \<and> ret = requeue_after (10 * second))
   \<or> (ret = no_requeue \<and> (\<exists>res v x res' v'. DeletionHandler_Handle env res None v = (Return (x, Some e, res'), v')))
   \<or> (ret = no_requeue \<and> (\<exists>res v. fst (sync_entity env res v) = Return (no_requeue, Some e)))"
proof -
  have "entity_ok env (ret, Some e)"
    using assms
    by (auto simp: EntityReconciler_Reconcile_def elim!: bindg_ReturnE split: sum.splits if_splits)
      (erule entity_okI [OF delegate_ok] entity_okI [OF handleFinalizer_ok] reconcile_entity_ok)+
  then show ?thesis by (auto simp: entity_ok_def error_ok_def clean_outcome_def)
qed

definition locked_arm :: entity where
  "locked_arm = fresh_arm\<lparr>e_meta := (e_meta fresh_arm)\<lparr>m_finalizers := [finalizer]\<rparr>,
     e_spec := (e_spec fresh_arm)\<lparr>es_syncPeriod := 30\<rparr>,
     e_status := empty_entity_status\<lparr>et_phase := StatusProvisioned, et_podName := ''arm-sts-2'',
       et_urls := Some (fmap_of_list [(''status'', ''http://pod/status'')])\<rparr>\<rparr>"

theorem entity_reconcile_errors_witness:
  "\<exists>e w'. EntityReconciler_Reconcile 1 repo_env ''ns'' ''c'' (sample_world [OEntity locked_arm])
      = (Return (no_requeue, Some e), w')
    \<and> ((\<exists>res v x res' v'. DeletionHandler_Handle repo_env res None v = (Return (x, Some e, res'), v'))
     \<or> (\<exists>res v. fst (sync_entity repo_env res v) = Return (no_requeue, Some e)))"
proof -
  have "ends (EntityReconciler_Reconcile 1 repo_env ''ns'' ''c'' (sample_world [OEntity locked_arm]))
      (\<lambda>(ret, err) _. ret = no_requeue \<and> err \<noteq> None)"
    by code_simp
  then obtain e w' where run: "EntityReconciler_Reconcile 1 repo_env ''ns'' ''c'' (sample_world [OEntity locked_arm])
      = (Return (no_requeue, Some e), w')"
    by (elim endsE) auto
  have "no_requeue \<noteq> requeue_after (10 * second)"
    by (simp add: no_requeue_def requeue_after_def second_def)
  with run entity_reconcile_errors [OF run] show ?thesis by blast
qed

text \<open>A settled entity whose status was fetched without an error had one GET sent to its status
  address, answered with 200; the answer, when it is JSON, is what was stored as its data, with the
  time, and the entity is looked at again after its sync period.\<close>

theorem settled_entity_synced:
  assumes "retry_contract env" "get_contract env" "write_contract (c_status_update env)"
    and "sync_entity env (OEntity e) w = (Return (ret, None), w')"
  shows "\<exists>body w1 v1 stored v2 t v3 v4 new res'.
      http_do env ''GET'' (rh_RequestUrl (status_request (OEntity e))) None w = (Inr (200, Inr body), w1)
    \<and> c_get env KEntity (m_namespace (e_meta e)) (m_name (e_meta e)) v1 = (Inr (OEntity stored), v2)
    \<and> c_now env v2 = (t, v3)
    \<and> new = stored\<lparr>e_status := (e_status stored)\<lparr>et_lastSyncTime := t,
        et_data := (case json_raw env body of Inl _ \<Rightarrow> json_error_text | Inr raw \<Rightarrow> raw)\<rparr>\<rparr>
    \<and> c_status_update env (OEntity new) v3 = (Inr res', v4)
    \<and> ret = requeue_after (sync_period res')"
proof -
  let ?h = "status_request (OEntity e)"
  have req: "rh_RequestMethod ?h = ''get''" "\<not> rh_DryRun ?h"
    by (simp_all add: status_request_def NewRequestHandler_def)
  from assms(4) obtain r res' ob' where
    p: "process env (OEntity e) True (OEntity e) None (RequestHandler_Handle env ?h) (Some (SetStatusData env)) w
      = (Return ((r, None), res', ob'), w')" and ret: "ret = requeue_after (sync_period res')"
    by (auto simp: sync_entity_def Processor_def maybe_edit_def elim!: bindg_ReturnE split: option.splits)
  have "request_of ?h = Return (''GET'', None)"
    using req by (simp add: request_of_def ToUpper_get)
  with p req obtain body where
    b: "fst (http_do env ''GET'' (rh_RequestUrl ?h) None w) = Inr (200, Inr body)" and
    u: "UpdateStatus env (OEntity e) [SetStatusData env \<lparr>re_name = rh_TargetName ?h, re_type = rh_ResourceType ?h,
       re_reason = ''Get response successful'', re_message = body, re_status = ''Success''\<rparr>]
       (snd (http_do env ''GET'' (rh_RequestUrl ?h) None w)) = (Return (None, res'), w')"
    by (auto simp: process_def RequestHandler_Handle_def StatusOK_def Let_def elim!: bindg_ReturnE
        split: option.splits sum.splits if_splits prod.splits)
  from b have g: "http_do env ''GET'' (rh_RequestUrl ?h) None w
      = (Inr (200, Inr body), snd (http_do env ''GET'' (rh_RequestUrl ?h) None w))"
    by (metis prod.collapse)
  let ?r = "\<lparr>re_name = rh_TargetName ?h, re_type = rh_ResourceType ?h,
       re_reason = ''Get response successful'', re_message = body, re_status = ''Success''\<rparr>"
  have "keeps_key f" if "f \<in> set [SetStatusData env ?r]" for f using that by simp
  from UpdateStatus_spec [OF assms(1-3) this u]
  have "wrote env (c_status_update env) [SetStatusData env ?r] (OEntity e) res' w'" by blast
  then obtain v1 cur v2 ob v3 where
    c: "c_get env KEntity (m_namespace (e_meta e)) (m_name (e_meta e)) v1 = (Inr cur, v2)" and
    d: "SetStatusData env ?r cur v2 = (Return ob, v3)" and wr: "c_status_update env ob v3 = (Inr res', w')"
    by (auto simp: wrote_def obj_name_def obj_ns_def elim!: bindg_ReturnE)
  from c assms(2) have "kind_of cur = KEntity" unfolding get_contract_def by blast
  then obtain stored where s: "cur = OEntity stored" by (cases cur) auto
  obtain t v4 where now: "c_now env v2 = (t, v4)" by force
  with d s have "v3 = v4" "ob = OEntity (stored\<lparr>e_status := (e_status stored)\<lparr>et_lastSyncTime := t,
        et_data := (case json_raw env body of Inl _ \<Rightarrow> json_error_text | Inr raw \<Rightarrow> raw)\<rparr>\<rparr>)"
    by (auto simp: SetStatusData_def Let_def)
  with g c s now wr ret show ?thesis by blast
qed

theorem settled_entity_synced_witness:
  "\<exists>v1 stored v2 v3 v4 new res'. c_get repo_env KEntity ''ns'' ''c'' v1 = (Inr (OEntity stored), v2)
    \<and> c_status_update repo_env (OEntity new) v3 = (Inr res', v4) \<and> e_spec new = e_spec stored
    \<and> et_data (e_status new) = ''{}''"
proof -
  let ?w = "(sample_world [OEntity locked_arm])\<lparr>mem_routes := [(''http://pod/status'', 200, ''{}'')]\<rparr>"
  have k: "m_namespace (e_meta locked_arm) = ''ns''" "m_name (e_meta locked_arm) = ''c''"
    "rh_RequestUrl (status_request (OEntity locked_arm)) = ''http://pod/status''"
    by (simp_all add: locked_arm_def fresh_arm_def sample_defs status_request_def NewRequestHandler_def)
  have "ends (sync_entity repo_env (OEntity locked_arm) ?w) (\<lambda>(_, err) _. err = None)"
    by code_simp
  then obtain ret w' where run: "sync_entity repo_env (OEntity locked_arm) ?w = (Return (ret, None), w')"
    by (elim endsE) auto
  have sent: "fst (http_do repo_env ''GET'' ''http://pod/status'' None ?w) = Inr (200, Inr ''{}'')"
    "json_raw repo_env ''{}'' = Inr ''{}''"
    by code_simp+
  from settled_entity_synced [OF repo_contracts(1-3) run, unfolded k]
  obtain body w1 v1 stored v2 t v3 v4 new res' where
    "http_do repo_env ''GET'' ''http://pod/status'' None ?w = (Inr (200, Inr body), w1)" and
    g: "c_get repo_env KEntity ''ns'' ''c'' v1 = (Inr (OEntity stored), v2)" and
    new: "new = stored\<lparr>e_status := (e_status stored)\<lparr>et_lastSyncTime := t,
        et_data := (case json_raw repo_env body of Inl _ \<Rightarrow> json_error_text | Inr raw \<Rightarrow> raw)\<rparr>\<rparr>" and
    wr: "c_status_update repo_env (OEntity new) v3 = (Inr res', v4)"
    by (elim exE conjE) (rule that)
  with sent have "body = ''{}''" by simp
  with new sent(2) have "e_spec new = e_spec stored \<and> et_data (e_status new) = ''{}''" by simp
  with g wr show ?thesis by blast
qed

end
