(* ===== verification/Fleet.thy ===== *)
theory Fleet
  imports Entity_Controller
begin

text \<open>
  The entities of a cluster over time. An API server that keeps a list of objects is a locale, met by
  the reference cluster; on it run the submissions of entities, each through both webhooks of
  \<open>api/v1/entity_webhook.go\<close>, the edits that the controllers make of stored entities, and
  deletions. What the server does itself (calling the webhooks, storing the result) is its documented
  behaviour. A submission is one step of a run; the last section shows what two of them at once do, whose
  webhooks read the same list.
\<close>

section \<open>What ties an entity to its index\<close>

definition entities_of :: "obj list \<Rightarrow> entity list" where
  "entities_of obs = List.map_filter as_entity obs"

definition index_slot :: "entity \<Rightarrow> string \<times> string \<times> int32 option" where
  "index_slot e = (m_namespace (e_meta e), es_model (e_spec e), ordinal_of e)"

definition indexed :: "entity \<Rightarrow> bool" where
  "indexed e \<longleftrightarrow> (\<exists>i. ordinal_of e = Some i
    \<and> label_of (e_meta e) (RoboKubeIndexKey @ es_model (e_spec e)) = Some (fmt_d i))"

definition fleet_ok :: "obj list \<Rightarrow> bool" where
  "fleet_ok obs \<longleftrightarrow> distinct (map index_slot (entities_of obs)) \<and> list_all indexed (entities_of obs)"

lemma entities_of_simps [simp]:
  "entities_of [] = []" "entities_of (xs @ ys) = entities_of xs @ entities_of ys"
  "entities_of (OEntity e # ys) = e # entities_of ys"
  by (simp_all add: entities_of_def List.map_filter_def)

lemma entities_of_iff: "e \<in> set (entities_of obs) \<longleftrightarrow> OEntity e \<in> set obs"
  by (induction obs) (auto simp: entities_of_def List.map_filter_simps dest: as_SomeD split: option.split)

section \<open>The steps\<close>

definition submit_entity :: "'w env \<Rightarrow> entity codec \<Rightarrow> string \<Rightarrow> ('w, bool) go" where
  \<comment> \<open>a creation request: mutated, validated, stored\<close>
  "submit_entity env cod raw =
     bindg (entityMutator_Handle env cod raw) (\<lambda>resp. case resp of
       Errored _ _ \<Rightarrow> retg False
     | Allowed _ \<Rightarrow> retg False
     | PatchResponseFromRaw _ cur \<Rightarrow> (case unmarshal cod cur of
         Inl _ \<Rightarrow> retg False
       | Inr e \<Rightarrow>
           bindg (entityValidator_ValidateCreate env (OEntity e)) (\<lambda>verdict.
             if verdict \<noteq> None then retg False
             else bindg (callg (c_create env (OEntity e))) (\<lambda>r. retg (case r of Inl _ \<Rightarrow> False | Inr _ \<Rightarrow> True)))))"

text \<open>The edits that the program makes of an entity it has read.\<close>

inductive operator_edit :: "'w env \<Rightarrow> 'w modfn \<Rightarrow> bool" for env where
  oe_label: "operator_edit env (label_edit name e t)"
| oe_owner: "operator_edit env (pure_mod (set_owner env m))"
| oe_lock: "operator_edit env (lift_mod (lock_edit pod service))"
| oe_phase: "operator_edit env (updateStatusPhase phase)"
| oe_condition: "operator_edit env (append_condition_now env status reason message)"
| oe_tasking: "operator_edit env (pure_mod (AppendCondition c))"
| oe_data: "operator_edit env (SetStatusData env r)"
| oe_finalizer: "operator_edit env (pure_mod (add_finalizer env f))"
| oe_no_finalizer: "operator_edit env (pure_mod (remove_finalizer env f))"

inductive fleet_step :: "'w env \<Rightarrow> entity codec \<Rightarrow> ('w \<Rightarrow> obj list) \<Rightarrow> 'w \<Rightarrow> 'w \<Rightarrow> bool" for env cod objs where
  fleet_submit: "unmarshal cod raw = Inr e \<Longrightarrow> m_ownerReferences (e_meta e) = [] \<Longrightarrow>
    submit_entity env cod raw w = (r, w') \<Longrightarrow> fleet_step env cod objs w w'"
| fleet_edit: "operator_edit env f \<Longrightarrow> f (OEntity e) v = (Return ob, v') \<Longrightarrow>
    objs w = xs @ OEntity e # ys \<Longrightarrow>
    objs w' = xs @ map_meta (\<lambda>m. m\<lparr>m_resourceVersion := rv\<rparr>) ob # ys \<Longrightarrow> fleet_step env cod objs w w'"
| fleet_rest: "entities_of (objs w') = filter P (entities_of (objs w)) \<Longrightarrow> fleet_step env cod objs w w'"

section \<open>Edits keep the index\<close>

definition same_index :: "obj \<Rightarrow> obj \<Rightarrow> bool" where
  "same_index ob ob' \<longleftrightarrow> (\<forall>e. ob = OEntity e \<longrightarrow> (\<exists>e'. ob' = OEntity e' \<and> index_slot e' = index_slot e
    \<and> (\<forall>k. label_of (e_meta e') (RoboKubeIndexKey @ k) = label_of (e_meta e) (RoboKubeIndexKey @ k))))"

lemma same_index_meta:
  "(\<And>m. m_namespace (g m) = m_namespace m) \<Longrightarrow>
   (\<And>m k. label_of (g m) (RoboKubeIndexKey @ k) = label_of m (RoboKubeIndexKey @ k)) \<Longrightarrow>
   same_index ob (map_meta g ob)"
  by (cases ob) (simp_all add: same_index_def index_slot_def)

lemma same_index_indexed: "same_index (OEntity e) (OEntity e') \<Longrightarrow> indexed e' = indexed e"
  by (auto simp: same_index_def indexed_def index_slot_def)

lemma index_key_not_group: "RoboKubeIndexKey @ k \<noteq> RoboKubeGroupKey @ n"
  by (simp add: robo_consts)

lemma operator_edit_same:
  assumes "operator_edit env f" and "owner_contract env" "finalizer_contract env"
    and "f ob w = (Return ob', w')"
  shows "same_index ob ob'"
  using assms(1,4)
proof cases
  case (oe_label name e t)
  with assms(4) have "ob' = map_meta (BuildLabelObj (RoboKubeGroupKey @ name) (es_identity (e_spec e)) (tr_action t)) ob"
    by (simp add: label_edit_def pure_mod_def)
  then show ?thesis
    by (auto intro!: same_index_meta simp: label_of_BuildLabelObj index_key_not_group)
next
  case (oe_owner m)
  with assms(4) have "ob' = set_owner env m ob" by (simp add: pure_mod_def)
  moreover have "\<exists>refs. set_owner env m ob = map_meta (\<lambda>x. x\<lparr>m_ownerReferences := refs\<rparr>) ob \<or> set_owner env m ob = ob"
    using assms(2) unfolding owner_contract_def set_owner_def by (auto split: sum.split)
  ultimately show ?thesis
    by (auto simp: label_of_def intro!: same_index_meta) (simp add: same_index_def)
next
  case (oe_lock pod service)
  with assms(4) show ?thesis
    by (auto simp: lift_mod_def lock_edit_def Let_def same_index_def index_slot_def)
next
  case (oe_finalizer fin)
  with assms(3,4) show ?thesis
    unfolding finalizer_contract_def pure_mod_def
    by (auto simp: label_of_def same_index_def index_slot_def)
next
  case (oe_no_finalizer fin)
  with assms(3,4) show ?thesis
    unfolding finalizer_contract_def pure_mod_def
    by (auto simp: label_of_def same_index_def index_slot_def)
qed (use assms(4) in \<open>auto simp: pure_mod_def updateStatusPhase_def append_condition_now_def SetStatusData_def
  same_index_def index_slot_def Let_def split: if_splits\<close>)


section \<open>What the webhooks let through\<close>

lemma mutator_frame:
  assumes "entityMutator_Handle env cod raw w = (Return (PatchResponseFromRaw raw' cur), w')"
    and "unmarshal cod raw = Inr e" and "codec_contract cod"
  shows "\<exists>e'. unmarshal cod cur = Inr e' \<and> indexed e'
    \<and> m_ownerReferences (e_meta e') = m_ownerReferences (e_meta e)"
proof -
  from assms(1,2) obtain e1 w1 e2 e3 where
    ident: "default_identity env (default_sync e) w = (Return e1, w1)" and
    ord: "default_ordinal env e1 w1 = (Return (Inr e2), w')" and
    lab: "label_ordinal e2 = Return e3" and out: "marshal cod e3 = Inr cur"
    by (auto elim!: entityMutator_patchE)
  have "e_meta e2 = e_meta e"
    using ident default_ordinal_frame [OF ord] by (auto elim!: default_identity_ReturnE)
  with lab have "m_ownerReferences (e_meta e3) = m_ownerReferences (e_meta e)"
    by (auto simp: label_ordinal_def Let_def)
  moreover have "indexed e3"
    using lab by (auto simp: indexed_def elim!: label_ordinal_ReturnE)
  ultimately show ?thesis using out assms(3) unfolding codec_contract_def by blast
qed

lemma validator_lists_none:
  assumes "entityValidator_ValidateCreate env (OEntity e) w = (Return None, w')"
    and "m_ownerReferences (e_meta e) = []"
  shows "\<exists>i v. ordinal_of e = Some i \<and> c_list env KEntity (m_namespace (e_meta e))
    (SelEquals (RoboKubeIndexKey @ es_model (e_spec e)) (fmt_d i)) w = (Inr [], v)"
proof -
  from assms obtain i items v where "ordinal_of e = Some i" and
    l: "list_as env KEntity as_entity (m_namespace (e_meta e))
      (SelEquals (RoboKubeIndexKey @ es_model (e_spec e)) (fmt_d i)) w = (Return (Inr items), v)"
    by (auto simp: entityValidator_ValidateCreate_def Let_def elim!: bindg_ReturnE split: sum.splits)
  with assms have "items = []"
    by (auto simp: entityValidator_ValidateCreate_def Let_def bindg_run split: if_splits)
  with l show ?thesis using \<open>ordinal_of e = Some i\<close>
    by (auto simp: list_as_ReturnInr those_map_eq_Some)
qed

section \<open>An API server\<close>

locale api_store =
  fixes env :: "'w env"
    and objs :: "'w \<Rightarrow> obj list"
  assumes list_reads: "objs (snd (c_list env k ns sel w)) = objs w"
    and get_reads: "objs (snd (c_get env k ns n w)) = objs w"
    and uuid_reads: "objs (snd (c_uuid env w)) = objs w"
    and listed: "c_list env KEntity ns (SelEquals key v) w = (Inr obs, w') \<Longrightarrow> OEntity e \<in> set (objs w) \<Longrightarrow>
      m_namespace (e_meta e) = ns \<Longrightarrow> label_of (e_meta e) key = Some v \<Longrightarrow> OEntity e \<in> set obs"
    and created: "c_create env ob w = (Inr ob', w') \<Longrightarrow>
      (\<exists>xs ys g. objs w = xs @ ys \<and> objs w' = xs @ ob' # ys \<and> ob' = map_meta g ob
        \<and> (\<forall>m. m_namespace (g m) = m_namespace m \<and> m_labels (g m) = m_labels m))"
    and refused: "c_create env ob w = (Inl err, w') \<Longrightarrow> objs w' = objs w"
begin

lemma reads_list_as: "keeps (\<lambda>w. objs w = obs) (list_as env k proj ns sel)"
  unfolding list_as_def by (intro keeps_bindg keeps_callg keeps_retg) (simp add: list_reads)

lemma reads_get_as: "keeps (\<lambda>w. objs w = obs) (get_as env k proj ns n)"
  unfolding get_as_def by (intro keeps_bindg keeps_callg keeps_retg) (simp add: get_reads)

lemma mutator_reads: "keeps (\<lambda>w. objs w = obs) (entityMutator_Handle env cod raw)"
  unfolding entityMutator_Handle_def default_identity_def default_ordinal_def Let_def
  by (auto intro!: keeps_bindg keeps_callg reads_list_as simp: uuid_reads
      split: sum.split if_splits)

lemma validator_reads: "keeps (\<lambda>w. objs w = obs) (entityValidator_ValidateCreate env ob)"
  unfolding entityValidator_ValidateCreate_def Let_def
  by (auto intro!: keeps_bindg reads_list_as reads_get_as split: sum.split option.split if_splits)

lemma accepted_slot_free:
  assumes "entityValidator_ValidateCreate env (OEntity e) w = (Return None, w')"
    and "m_ownerReferences (e_meta e) = []"
    and "e0 \<in> set (entities_of (objs w))" and "indexed e0"
  shows "index_slot e0 \<noteq> index_slot e"
proof
  assume same: "index_slot e0 = index_slot e"
  from validator_lists_none [OF assms(1,2)] obtain i v where i: "ordinal_of e = Some i" and
    l: "c_list env KEntity (m_namespace (e_meta e))
      (SelEquals (RoboKubeIndexKey @ es_model (e_spec e)) (fmt_d i)) w = (Inr [], v)"
    by blast
  from same i assms(4) have "m_namespace (e_meta e0) = m_namespace (e_meta e)"
    "label_of (e_meta e0) (RoboKubeIndexKey @ es_model (e_spec e)) = Some (fmt_d i)"
    by (auto simp: index_slot_def indexed_def)
  with listed [OF l] assms(3) show False by (simp add: entities_of_iff)
qed

lemma submit_stored:
  assumes "codec_contract cod" and "unmarshal cod raw = Inr e" and "m_ownerReferences (e_meta e) = []"
    and "submit_entity env cod raw w = (r, w')"
  shows "objs w' = objs w \<or> (\<exists>xs ys e'. objs w = xs @ ys \<and> objs w' = xs @ OEntity e' # ys \<and> indexed e'
    \<and> (\<forall>e0 \<in> set (entities_of (objs w)). indexed e0 \<longrightarrow> index_slot e0 \<noteq> index_slot e'))"
proof -
  obtain o1 w1 where m: "entityMutator_Handle env cod raw w = (o1, w1)" by force
  from keepsD [OF mutator_reads refl m] have same1: "objs w1 = objs w" .
  show ?thesis
  proof (cases "\<exists>raw' cur. o1 = Return (PatchResponseFromRaw raw' cur)")
    case False
    with assms(4) m have "w' = w1"
      by (auto simp: submit_entity_def bindg_run split: outcome.splits admission_response.splits)
    with same1 show ?thesis by simp
  next
    case True
    then obtain raw' cur where o1: "o1 = Return (PatchResponseFromRaw raw' cur)" by blast
    from mutator_frame [OF m [unfolded o1] assms(2,1)] assms(3) obtain e1 where
      e1: "unmarshal cod cur = Inr e1" "indexed e1" "m_ownerReferences (e_meta e1) = []" by auto
    obtain o2 w2 where v: "entityValidator_ValidateCreate env (OEntity e1) w1 = (o2, w2)" by force
    from keepsD [OF validator_reads refl v] same1 have same2: "objs w2 = objs w" by simp
    have rest: "(r, w') = (case o2 of
        Return verdict \<Rightarrow> if verdict \<noteq> None then (Return False, w2)
          else (case c_create env (OEntity e1) w2 of (c, w3) \<Rightarrow> (Return (case c of Inl _ \<Rightarrow> False | Inr _ \<Rightarrow> True), w3))
      | Panic msg \<Rightarrow> (Panic msg, w2) | NoFuel \<Rightarrow> (NoFuel, w2))"
      using assms(4) m o1 e1(1) v
      by (cases o2) (auto simp: submit_entity_def bindg_run split: if_splits prod.split)
    show ?thesis
    proof (cases "o2 = Return None")
      case False
      with rest same2 show ?thesis by (auto split: outcome.splits if_splits)
    next
      case True
      obtain c w3 where c: "c_create env (OEntity e1) w2 = (c, w3)" by force
      with rest True have w': "w' = w3" by simp
      show ?thesis
      proof (cases c)
        case (Inl err)
        with refused c w' same2 show ?thesis by simp
      next
        case (Inr ob)
        from created [OF c [unfolded Inr]] obtain xs ys g where
          o: "objs w2 = xs @ ys" "objs w3 = xs @ ob # ys" "ob = map_meta g (OEntity e1)"
            "\<And>x. m_namespace (g x) = m_namespace x \<and> m_labels (g x) = m_labels x" by blast
        let ?e = "e1\<lparr>e_meta := g (e_meta e1)\<rparr>"
        have e: "ob = OEntity ?e" "index_slot ?e = index_slot e1" "indexed ?e"
          using o(3,4) e1(2) by (simp_all add: index_slot_def indexed_def label_of_def)
        have "\<forall>e0 \<in> set (entities_of (objs w)). indexed e0 \<longrightarrow> index_slot e0 \<noteq> index_slot ?e"
          using accepted_slot_free [OF v [unfolded True] e1(3)] same1 e(2) by metis
        with o e w' same2 show ?thesis by metis
      qed
    qed
  qed
qed

lemma step_ok:
  assumes "codec_contract cod" "owner_contract env" "finalizer_contract env"
    and "fleet_step env cod objs w w'" and "fleet_ok (objs w)"
  shows "fleet_ok (objs w')"
  using assms(4)
proof cases
  case (fleet_submit raw e r)
  from submit_stored [OF assms(1) this] consider "objs w' = objs w" |
    (new) xs ys e' where "objs w = xs @ ys" "objs w' = xs @ OEntity e' # ys" "indexed e'"
      "\<forall>e0 \<in> set (entities_of (objs w)). indexed e0 \<longrightarrow> index_slot e0 \<noteq> index_slot e'" by blast
  then show ?thesis
  proof cases
    case new
    with assms(5) show ?thesis by (auto simp: fleet_ok_def list_all_iff)
  qed (use assms(5) in simp)
next
  case (fleet_edit f e v ob v' xs ys rv)
  from operator_edit_same [OF fleet_edit(1) assms(2,3) fleet_edit(2)] obtain e1 where
    e1: "ob = OEntity e1" "same_index (OEntity e) (OEntity e1)" by (auto simp: same_index_def)
  let ?e = "e1\<lparr>e_meta := (e_meta e1)\<lparr>m_resourceVersion := rv\<rparr>\<rparr>"
  have "indexed ?e = indexed e1" "index_slot ?e = index_slot e1"
    by (simp_all add: indexed_def index_slot_def label_of_def)
  moreover have "indexed e1 = indexed e" "index_slot e1 = index_slot e"
    using e1(2) same_index_indexed by (auto simp: same_index_def)
  ultimately show ?thesis using fleet_edit(3,4) e1(1) assms(5) by (simp add: fleet_ok_def)
next
  case (fleet_rest P)
  with assms(5) show ?thesis
    by (auto simp: fleet_ok_def list_all_iff distinct_map intro: inj_on_subset)
qed

lemma run_ok:
  assumes "codec_contract cod" "owner_contract env" "finalizer_contract env"
    and "(fleet_step env cod objs)\<^sup>*\<^sup>* w w'" and "fleet_ok (objs w)"
  shows "fleet_ok (objs w')"
  using assms(4,5) by (induction rule: rtranclp_induct) (auto intro: step_ok [OF assms(1-3)])

end

text \<open>The reference cluster is such a server.\<close>

lemma mem_created:
  assumes "c_create mem_env ob w = (Inr ob', w')"
  shows "\<exists>xs ys g. mem_objs w = xs @ ys \<and> mem_objs w' = xs @ ob' # ys \<and> ob' = map_meta g ob
    \<and> (\<forall>m. m_namespace (g m) = m_namespace m \<and> m_labels (g m) = m_labels m)"
  using assms
  by (intro exI [of _ "mem_objs w"] exI [of _ "[]"]
      exI [of _ "\<lambda>m. m\<lparr>m_resourceVersion := CHR ''v'' # m_resourceVersion m\<rparr>"])
    (auto simp: mem_env_def mem_create_def Let_def bump_version_def split: option.splits)

lemma mem_refused: "c_create mem_env ob w = (Inl err, w') \<Longrightarrow> mem_objs w' = mem_objs w"
  by (auto simp: mem_env_def mem_create_def Let_def split: option.splits)

lemma mem_reads:
  "mem_objs (snd (c_list mem_env k ns sel w)) = mem_objs w"
  "mem_objs (snd (c_get mem_env k ns n w)) = mem_objs w"
  "mem_objs (snd (c_uuid mem_env w)) = mem_objs w"
  by (simp_all add: mem_env_def mem_list_def mem_get_def split: option.split)

lemma mem_listed:
  "c_list mem_env KEntity ns (SelEquals key v) w = (Inr obs, w') \<Longrightarrow> OEntity e \<in> set (mem_objs w) \<Longrightarrow>
   m_namespace (e_meta e) = ns \<Longrightarrow> label_of (e_meta e) key = Some v \<Longrightarrow> OEntity e \<in> set obs"
  by (auto simp: mem_env_def mem_list_def obj_ns_def)

interpretation mem_store: api_store mem_env mem_objs
  by unfold_locales (fact mem_reads mem_listed mem_created mem_refused)+

section \<open>Properties\<close>

text \<open>C3: no two entities of a model share an index. From a cluster with no entities, after any
  submissions of entities without an owner, any edits that the controllers make of entities and any
  deletions, with anything else changing in between, the stored entities of one model in one namespace
  have distinct indices, and each is labelled with its own.\<close>

theorem fleet_indices_unique:
  assumes "api_store env objs" "codec_contract cod" "owner_contract env" "finalizer_contract env"
    and "(fleet_step env cod objs)\<^sup>*\<^sup>* w w'" and "entities_of (objs w) = []"
  shows "distinct (map (\<lambda>e. (m_namespace (e_meta e), es_model (e_spec e), ordinal_of e)) (entities_of (objs w')))
    \<and> (\<forall>e \<in> set (entities_of (objs w')). \<exists>i. ordinal_of e = Some i
        \<and> label_of (e_meta e) (RoboKubeIndexKey @ es_model (e_spec e)) = Some (fmt_d i))"
proof -
  have "fleet_ok (objs w)" by (simp add: fleet_ok_def assms(6))
  from api_store.run_ok [OF assms(1-5) this] show ?thesis
    by (simp add: fleet_ok_def indexed_def index_slot_def [abs_def] list_all_iff)
qed

definition fleet_world :: mem where
  "fleet_world = sample_world [OModel sample_model, OStatefulSet (sample_sts 2)]"

definition admitted_arm :: "string \<Rightarrow> int32 \<Rightarrow> entity" where
  "admitted_arm n i = (sample_entity n (Some i))
     \<lparr>e_spec := (sample_entity_spec (Some i))\<lparr>es_identity := ''uuid'', es_syncPeriod := 60\<rparr>\<rparr>"

definition fleet_codec :: "entity codec" where
  \<comment> \<open>two requests and what admission makes of them\<close>
  "fleet_codec =
     \<lparr>unmarshal = (\<lambda>s. if s = ''a'' then Inr (sample_entity ''a'' None)
        else if s = ''b'' then Inr (sample_entity ''b'' None)
        else if s = ''A'' then Inr (admitted_arm ''a'' 0)
        else if s = ''B'' then Inr (admitted_arm ''b'' 1) else Inl (errorf ''bad'')),
      marshal = (\<lambda>e. if e = admitted_arm ''a'' 0 then Inr ''A''
        else if e = admitted_arm ''b'' 1 then Inr ''B'' else Inl (errorf ''bad''))\<rparr>"

theorem fleet_indices_unique_witness:
  "\<exists>w'. (fleet_step mem_env fleet_codec mem_objs)\<^sup>*\<^sup>* fleet_world w'
    \<and> map (\<lambda>e. m_name (e_meta e)) (entities_of (mem_objs w')) = [''a'', ''b'']
    \<and> distinct (map (\<lambda>e. (m_namespace (e_meta e), es_model (e_spec e), ordinal_of e)) (entities_of (mem_objs w')))"
proof -
  let ?s = "submit_entity mem_env fleet_codec"
  have "ends (bindg (?s ''a'') (\<lambda>x. bindg (?s ''b'') (\<lambda>y. retg (x \<and> y))) fleet_world)
      (\<lambda>ok w. ok \<and> map (\<lambda>e. m_name (e_meta e)) (entities_of (mem_objs w)) = [''a'', ''b''])"
    by code_simp
  then obtain x w1 y w2 where a: "?s ''a'' fleet_world = (Return x, w1)" and b: "?s ''b'' w1 = (Return y, w2)"
    and n: "map (\<lambda>e. m_name (e_meta e)) (entities_of (mem_objs w2)) = [''a'', ''b'']"
    by (auto elim!: endsE bindg_ReturnE)
  have raw: "unmarshal fleet_codec ''a'' = Inr (sample_entity ''a'' None)"
    "unmarshal fleet_codec ''b'' = Inr (sample_entity ''b'' None)"
    "m_ownerReferences (e_meta (sample_entity m None)) = []" for m
    by (simp_all add: fleet_codec_def sample_defs)
  have run: "(fleet_step mem_env fleet_codec mem_objs)\<^sup>*\<^sup>* fleet_world w2"
    using fleet_submit [OF raw(1,3) a] fleet_submit [OF raw(2,3) b]
    by (rule converse_rtranclp_into_rtranclp [OF _ r_into_rtranclp])
  have cod: "codec_contract fleet_codec"
    by (auto simp: codec_contract_def fleet_codec_def split: if_splits)
  have "entities_of (mem_objs fleet_world) = []"
    by (simp add: fleet_world_def sample_world_def entities_of_def List.map_filter_simps)
  note unique = fleet_indices_unique [OF mem_store.api_store_axioms cod mem_owner_contract mem_finalizer_contract run this]
  show ?thesis by (intro exI [of _ w2] conjI run n conjunct1 [OF unique])
qed

text \<open>C33: an update of an entity is admitted with any index, whoever has it, and any model: the
  mutating webhook keeps the index it is given, reads nothing, labels the entity with it and leaves the
  index label of every other model as it was, and validation accepts every update.\<close>

theorem index_update_unchecked:
  assumes "unmarshal cod raw = Inr e" "ordinal_of e = Some i" "es_identity (e_spec e) \<noteq> []"
  shows "\<exists>e'. entityMutator_Handle env cod raw w = (Return (case marshal cod e' of
        Inl err \<Rightarrow> Errored StatusInternalServerError err | Inr out \<Rightarrow> PatchResponseFromRaw raw out), w)
    \<and> ordinal_of e' = Some i \<and> es_model (e_spec e') = es_model (e_spec e)
    \<and> m_namespace (e_meta e') = m_namespace (e_meta e)
    \<and> (\<forall>k. label_of (e_meta e') k = (if k = RoboKubeIndexKey @ es_model (e_spec e) then Some (fmt_d i)
        else label_of (e_meta e) k))
    \<and> (\<forall>old. entityValidator_ValidateUpdate (OEntity old) (OEntity e') = None)"
proof -
  let ?e = "default_sync e"
  have "default_identity env ?e = retg ?e" using assms(3) by (simp add: default_identity_def)
  moreover have "default_ordinal env ?e = retg (Inr ?e)" using assms(2) by (simp add: default_ordinal_given)
  moreover obtain e' where e': "label_ordinal ?e = Return e'" using assms(2) by (simp add: label_ordinal_def Let_def)
  ultimately have "entityMutator_Handle env cod raw w = (Return (case marshal cod e' of
        Inl err \<Rightarrow> Errored StatusInternalServerError err | Inr out \<Rightarrow> PatchResponseFromRaw raw out), w)"
    using assms(1) by (simp add: entityMutator_Handle_def split: sum.split)
  moreover have "ordinal_of e' = Some i" "es_model (e_spec e') = es_model (e_spec e)"
    "m_namespace (e_meta e') = m_namespace (e_meta e)"
    "label_of (e_meta e') k = (if k = RoboKubeIndexKey @ es_model (e_spec e) then Some (fmt_d i)
        else label_of (e_meta e) k)" for k
    using e' assms(2) by (auto elim!: label_ordinal_ReturnE)
  ultimately show ?thesis by (auto simp: entityValidator_ValidateUpdate_def)
qed

text \<open>The witness: another entity of the model has the index already.\<close>

theorem index_update_unchecked_witness:
  "\<exists>e'. entityMutator_Handle mem_env (sample_codec (admitted_arm ''c'' 2)) ''raw'' sample_arms
      = (Return (PatchResponseFromRaw ''raw'' ''out''), sample_arms)
    \<and> index_slot e' = index_slot (sample_entity ''a'' (Some 2))
    \<and> sample_entity ''a'' (Some 2) \<in> set (entities_of (mem_objs sample_arms))
    \<and> entityValidator_ValidateUpdate (OEntity sample_admitted) (OEntity e') = None"
proof -
  let ?c = "admitted_arm ''c'' 2"
  have p: "unmarshal (sample_codec ?c) ''raw'' = Inr ?c" "ordinal_of ?c = Some 2" "es_identity (e_spec ?c) \<noteq> []"
    and m: "marshal (sample_codec ?c) x = Inr ''out''" "m_namespace (e_meta ?c) = ''ns''" "es_model (e_spec ?c) = ''arm''" for x
    by (simp_all add: sample_codec_def admitted_arm_def sample_defs)
  from index_update_unchecked [OF p, of mem_env sample_arms] obtain e' where
    e': "entityMutator_Handle mem_env (sample_codec ?c) ''raw'' sample_arms
        = (Return (PatchResponseFromRaw ''raw'' ''out''), sample_arms)" "ordinal_of e' = Some 2"
      "es_model (e_spec e') = ''arm''" "m_namespace (e_meta e') = ''ns''"
      "entityValidator_ValidateUpdate (OEntity sample_admitted) (OEntity e') = None"
    unfolding m by auto
  have "sample_entity ''a'' (Some 2) \<in> set (entities_of (mem_objs sample_arms))"
    by (simp add: entities_of_iff sample_arms_def sample_world_def)
  with e' show ?thesis
    by (intro exI [of _ e']) (simp add: index_slot_def sample_defs)
qed

section \<open>Two submissions at once\<close>

definition admit_entity :: "'w env \<Rightarrow> entity codec \<Rightarrow> string \<Rightarrow> ('w, entity option) go" where
  \<comment> \<open>both webhooks, without the store\<close>
  "admit_entity env cod raw =
     bindg (entityMutator_Handle env cod raw) (\<lambda>resp. case resp of
       PatchResponseFromRaw _ cur \<Rightarrow> (case unmarshal cod cur of
         Inl _ \<Rightarrow> retg None
       | Inr e \<Rightarrow> bindg (entityValidator_ValidateCreate env (OEntity e)) (\<lambda>verdict.
           retg (if verdict = None then Some e else None)))
     | _ \<Rightarrow> retg None)"

definition store_entity :: "'w env \<Rightarrow> entity option \<Rightarrow> ('w, bool) go" where
  "store_entity env a = (case a of
     None \<Rightarrow> retg False
   | Some e \<Rightarrow> bindg (callg (c_create env (OEntity e))) (\<lambda>r. retg (case r of Inl _ \<Rightarrow> False | Inr _ \<Rightarrow> True)))"

lemma submit_entity_eq: "submit_entity env cod raw = bindg (admit_entity env cod raw) (store_entity env)"
  by (auto simp: submit_entity_def admit_entity_def store_entity_def fun_eq_iff bindg_run
      split: outcome.split admission_response.split sum.split prod.split)

definition submit_both :: "'w env \<Rightarrow> entity codec \<Rightarrow> string \<Rightarrow> string \<Rightarrow> ('w, bool) go" where
  \<comment> \<open>the second request is admitted before the first is stored\<close>
  "submit_both env cod raw1 raw2 =
     bindg (admit_entity env cod raw1) (\<lambda>a1.
     bindg (admit_entity env cod raw2) (\<lambda>a2.
     bindg (store_entity env a1) (\<lambda>ok1.
     bindg (store_entity env a2) (\<lambda>ok2. retg (ok1 \<and> ok2)))))"

definition race_codec :: "entity codec" where
  "race_codec =
     \<lparr>unmarshal = (\<lambda>s. if s = ''B'' then Inr (admitted_arm ''b'' 0) else unmarshal fleet_codec s),
      marshal = (\<lambda>e. if e = admitted_arm ''b'' 0 then Inr ''B'' else marshal fleet_codec e)\<rparr>"

definition stored_slots :: "mem \<Rightarrow> (string \<times> int32 option) list" where
  "stored_slots w = map (\<lambda>e. (m_name (e_meta e), ordinal_of e)) (entities_of (mem_objs w))"

text \<open>The mutating webhook reserves nothing and the validator reads the same list: two requests for
  entities of one model that are admitted before either is stored both get the index 0 and are both stored
  with it, where the same two one after the other get 0 and 1.\<close>

theorem submissions_at_once_collide:
  "ends (bindg (submit_entity mem_env fleet_codec ''a'') (\<lambda>x. bindg (submit_entity mem_env fleet_codec ''b'')
      (\<lambda>y. retg (x \<and> y))) fleet_world) (\<lambda>ok w. ok \<and> stored_slots w = [(''a'', Some 0), (''b'', Some 1)])
   \<and> ends (submit_both mem_env race_codec ''a'' ''b'' fleet_world)
      (\<lambda>ok w. ok \<and> stored_slots w = [(''a'', Some 0), (''b'', Some 0)])"
  by (intro conjI) code_simp+

end
