(* ===== verification/Flags.thy ===== *)
theory Flags
  imports Go_Strings
begin

text \<open>
  Command line flags as the two programs read them: \<open>pflag\<close> in \<open>cmd/cli/main.go\<close>,
  \<open>flag\<close> in \<open>cmd/main.go\<close>. A flag has a name, a shorthand (empty when it has none) and a
  default, which fixes its type; the values given are those the parser accepted.
\<close>

section \<open>Flags\<close>

datatype flag = FString string | FBool bool | FInt32 int32

type_synonym flag_specs = "(string \<times> string \<times> flag) list"
type_synonym flag_values = "(string \<times> flag) list"

definition flag_default :: "flag_specs \<Rightarrow> string \<Rightarrow> flag option" where
  \<comment> \<open>the registered flags: name, shorthand, default\<close>
  "flag_default fs name = map_of (map (\<lambda>(n, _, d). (n, d)) fs) name"

definition GetString :: "flag_specs \<Rightarrow> flag_values \<Rightarrow> string \<Rightarrow> string" where
  \<comment> \<open>a flag that is not registered as a string reads as empty; the error is dropped\<close>
  "GetString fs given name = (case flag_default fs name of
       Some (FString d) \<Rightarrow> (case map_of given name of Some (FString v) \<Rightarrow> v | _ \<Rightarrow> d)
     | _ \<Rightarrow> [])"

definition GetBool :: "flag_specs \<Rightarrow> flag_values \<Rightarrow> string \<Rightarrow> bool" where
  "GetBool fs given name = (case flag_default fs name of
       Some (FBool d) \<Rightarrow> (case map_of given name of Some (FBool v) \<Rightarrow> v | _ \<Rightarrow> d)
     | _ \<Rightarrow> False)"

definition GetInt32 :: "flag_specs \<Rightarrow> flag_values \<Rightarrow> string \<Rightarrow> int32" where
  "GetInt32 fs given name = (case flag_default fs name of
       Some (FInt32 d) \<Rightarrow> (case map_of given name of Some (FInt32 v) \<Rightarrow> v | _ \<Rightarrow> d)
     | _ \<Rightarrow> 0)"

end
