(* ===== verification/Cli.thy ===== *)
theory Cli
  imports Flags Model_Controller Entity_Controller Task_Controller
begin

text \<open>
  \<open>cmd/cli/main.go\<close>: the command line client. Each command reads its flags, picks a namespace and
  creates or updates one resource; the task command then polls until the task is done. The
  \<open>Kubernetes\<close> client set-up, \<open>cobra\<close>, \<open>time.Parse\<close>, the event watch and
  \<open>wait.PollUntilContextTimeout\<close> are fields of \<open>host\<close>. What the commands print is left out,
  but for the list of members of a group, which is what that command is for.
\<close>

section \<open>The flags of the commands\<close>

definition modelFlags :: flag_specs where
  "modelFlags = [(''sts'', ''s'', FString []), (''fqdn'', ''i'', FString []),
     (''replicas'', ''r'', FInt32 0), (''namespace'', ''n'', FString [])]"

definition modelRequired :: "string list" where
  "modelRequired = [''sts'', ''fqdn'']"

definition entityFlags :: flag_specs where
  "entityFlags = [(''model'', ''m'', FString []), (''identity'', ''i'', FString []),
     (''privileged'', ''p'', FBool False), (''usage'', ''u'', FString []),
     (''namespace'', ''n'', FString []), (''addGroup'', ''a'', FString []),
     (''removeGroup'', ''r'', FString [])]"

definition groupFlags :: flag_specs where
  "groupFlags = [(''type'', ''t'', FString ''Security''), (''namespace'', ''n'', FString [])]"

definition taskFlags :: flag_specs where
  "taskFlags = [(''template'', ''t'', FString []), (''executionTime'', ''T'', FString []),
     (''schedule'', ''s'', FString []), (''permanent'', ''p'', FString []),
     (''payload'', ''P'', FString ''{}''), (''targetGroup'', ''g'', FString []),
     (''targetEntity'', ''e'', FString [])]"

section \<open>Configuration\<close>

record raw_config =
  rc_current :: string
  rc_contexts :: "string \<Rightarrow> string option"

definition pick_namespace :: "flag_specs \<Rightarrow> flag_values \<Rightarrow> raw_config \<Rightarrow> string outcome" where
  \<comment> \<open>the flag, or the namespace of the current context; a context that is missing is a nil pointer\<close>
  "pick_namespace fs given rc =
     (let namespace = GetString fs given ''namespace'' in
      if namespace = [] then deref (rc_contexts rc (rc_current rc)) else Return namespace)"

datatype invocation = Help | Invoke string string flag_values

record 'w host =
  h_getenv :: "string \<Rightarrow> string"
  h_build_config :: "string \<Rightarrow> gerror option"
  h_clientset :: "gerror option"
  h_new_client :: "gerror option"
  h_load :: "string \<Rightarrow> gerror + raw_config"
  h_cobra :: "string list \<Rightarrow> gerror + invocation"
  h_parse_time :: "string \<Rightarrow> gerror + gotime"
  h_watch :: "string \<Rightarrow> string \<Rightarrow> 'w \<Rightarrow> gerror option \<times> 'w"
  h_poll :: "int \<Rightarrow> int \<Rightarrow> bool \<Rightarrow> ('w, gerror + bool) go \<Rightarrow> ('w, gerror option) go"

definition homeDir :: "'w host \<Rightarrow> string" where
  "homeDir h = (let v = h_getenv h ''HOME'' in if v \<noteq> [] then v else h_getenv h ''USERPROFILE'')"

definition kubeconfig_path :: "'w host \<Rightarrow> string" where
  \<comment> \<open>up to \<open>filepath.Clean\<close>, which names the same file\<close>
  "kubeconfig_path h = (if homeDir h \<noteq> [] then homeDir h @ ''/.kube/config'' else [])"

section \<open>Calls that panic on an error\<close>

definition must :: "('w, gerror option) go \<Rightarrow> ('w, unit) go" where
  \<comment> \<open>\<open>if err != nil { panic(err.Error()) }\<close>\<close>
  "must m = bindg m (\<lambda>err. case err of None \<Rightarrow> retg () | Some e \<Rightarrow> panicg (err_msg e))"

definition must_have :: "('w, gerror + 'a) go \<Rightarrow> ('w, 'a) go" where
  "must_have m = bindg m (\<lambda>r. case r of Inl e \<Rightarrow> panicg (err_msg e) | Inr x \<Rightarrow> retg x)"

definition create_resource :: "'w env \<Rightarrow> obj \<Rightarrow> ('w, unit) go" where
  "create_resource env ob = bindg (must_have (callg (c_create env ob))) (\<lambda>_. retg ())"

section \<open>The model command\<close>

definition cli_meta :: "string \<Rightarrow> string \<Rightarrow> object_meta" where
  "cli_meta name ns = empty_meta\<lparr>m_name := name, m_namespace := ns\<rparr>"

definition cli_model :: "string \<Rightarrow> string \<Rightarrow> flag_values \<Rightarrow> model" where
  "cli_model name ns given = empty_model\<lparr>mo_meta := cli_meta name ns, mo_spec := (mo_spec empty_model)
     \<lparr>ms_description := [], ms_statefulSetName := GetString modelFlags given ''sts'',
      ms_targetReplicas := Some (GetInt32 modelFlags given ''replicas''),
      ms_ingressUrl := GetString modelFlags given ''fqdn''\<rparr>\<rparr>"

definition modelCmd :: "'w env \<Rightarrow> raw_config \<Rightarrow> string \<Rightarrow> flag_values \<Rightarrow> ('w, string list) go" where
  "modelCmd env rc name given =
     bindg (pureg (pick_namespace modelFlags given rc)) (\<lambda>ns.
     bindg (create_resource env (OModel (cli_model name ns given))) (\<lambda>_. retg []))"

section \<open>The entity command\<close>

definition retarget_group :: "'w env \<Rightarrow> string \<Rightarrow> string \<Rightarrow> target_ref \<Rightarrow> ('w, unit) go" where
  \<comment> \<open>get the group, replace its targets, update\<close>
  "retarget_group env ns groupName target =
     bindg (must_have (get_as env KGroup as_group ns groupName)) (\<lambda>g.
     bindg (must_have (callg (c_update env (OGroup (g\<lparr>g_spec := (g_spec g)\<lparr>gs_lastTargets := Some [target]\<rparr>\<rparr>)))))
       (\<lambda>_. retg ()))"

definition cli_entity :: "string \<Rightarrow> string \<Rightarrow> flag_values \<Rightarrow> entity" where
  "cli_entity name ns given = empty_entity\<lparr>e_meta := cli_meta name ns, e_spec := (e_spec empty_entity)
     \<lparr>es_model := GetString entityFlags given ''model'', es_usage := GetString entityFlags given ''usage'',
      es_identity := GetString entityFlags given ''identity'',
      es_privileged := GetBool entityFlags given ''privileged''\<rparr>\<rparr>"

definition target_of :: "target_type \<Rightarrow> string \<Rightarrow> resource_action \<Rightarrow> target_ref" where
  "target_of ty name act = \<lparr>tr_type = ty, tr_name = name, tr_action = act\<rparr>"

definition change_groups :: "'w env \<Rightarrow> string \<Rightarrow> target_type \<Rightarrow> string \<Rightarrow> string \<Rightarrow> string \<Rightarrow> ('w, unit) go" where
  \<comment> \<open>the two blocks on \<open>addGroup\<close> and \<open>removeGroup\<close>\<close>
  "change_groups env ns ty name addGroup removeGroup =
     bindg (if addGroup \<noteq> [] then retarget_group env ns addGroup (target_of ty name ResourceLabelAdd)
            else retg ()) (\<lambda>_.
     if removeGroup \<noteq> [] then retarget_group env ns removeGroup (target_of ty name ResourceLabelDelete)
     else retg ())"

definition entityCmd :: "'w env \<Rightarrow> raw_config \<Rightarrow> string \<Rightarrow> flag_values \<Rightarrow> ('w, string list) go" where
  "entityCmd env rc name given =
     bindg (pureg (pick_namespace entityFlags given rc)) (\<lambda>ns.
     bindg (if GetString entityFlags given ''model'' \<noteq> []
            then create_resource env (OEntity (cli_entity name ns given)) else retg ()) (\<lambda>_.
     bindg (change_groups env ns TargetTypeEntity name (GetString entityFlags given ''addGroup'')
         (GetString entityFlags given ''removeGroup'')) (\<lambda>_. retg [])))"

section \<open>The group command\<close>

definition list_members :: "'w env \<Rightarrow> string \<Rightarrow> string \<Rightarrow> ('w, string list) go" where
  "list_members env ns groupName =
     (case parse_selector env (RoboKubeGroupKey @ groupName) of
        Inl err \<Rightarrow> panicg (err_msg (wrapf ''failed to create label selector: '' err))
      | Inr labelSelector \<Rightarrow>
          bindg (list_as env KEntity as_entity ns labelSelector) (\<lambda>r. case r of
            Inl err \<Rightarrow> panicg (err_msg (wrapf ''failed to list entities: '' err))
          | Inr items \<Rightarrow> retg (map (\<lambda>e. m_name (e_meta e)) items)))"

definition cli_group :: "string \<Rightarrow> string \<Rightarrow> flag_values \<Rightarrow> group" where
  "cli_group name ns given = empty_group\<lparr>g_meta := cli_meta name ns,
     g_spec := (g_spec empty_group)\<lparr>gs_type := GetString groupFlags given ''type''\<rparr>\<rparr>"

definition groupCmd :: "'w env \<Rightarrow> raw_config \<Rightarrow> string \<Rightarrow> flag_values \<Rightarrow> ('w, string list) go" where
  \<comment> \<open>an existing group is listed and the command is over\<close>
  "groupCmd env rc name given =
     bindg (pureg (pick_namespace groupFlags given rc)) (\<lambda>ns.
     bindg (if GetString groupFlags given ''type'' \<noteq> [] then
              bindg (get_as env KGroup as_group ns name) (\<lambda>r. case r of
                Inr _ \<Rightarrow> bindg (list_members env ns name) (\<lambda>members. retg (Some members))
              | Inl _ \<Rightarrow> bindg (create_resource env (OGroup (cli_group name ns given))) (\<lambda>_. retg None))
            else retg None) (\<lambda>listed. case listed of
       Some members \<Rightarrow> retg members
     | None \<Rightarrow> bindg (change_groups env ns TargetTypeGroup name (GetString groupFlags given ''addGroup'')
         (GetString groupFlags given ''removeGroup'')) (\<lambda>_. retg [])))"

section \<open>The task command\<close>

definition task_from_template :: "task \<Rightarrow> string \<Rightarrow> string \<Rightarrow> gotime \<Rightarrow> flag_values \<Rightarrow> task" where
  "task_from_template template name ns runTime given =
     (let sp = t_spec template;
          sp1 = (if GetString taskFlags given ''executionTime'' \<noteq> [] then sp\<lparr>ts_runTime := Some runTime\<rparr> else sp);
          sp2 = (if GetString taskFlags given ''schedule'' \<noteq> []
                 then sp1\<lparr>ts_schedule := GetString taskFlags given ''schedule''\<rparr> else sp1);
          sp3 = (if GetString taskFlags given ''payload'' \<noteq> ''{}''
                 then sp2\<lparr>ts_payload := GetString taskFlags given ''payload''\<rparr> else sp2)
      in empty_task\<lparr>t_meta := cli_meta name ns,
           t_spec := sp3\<lparr>ts_persistant := (GetString taskFlags given ''permanent'' = ''true'')\<rparr>\<rparr>)"

definition task_from_flags :: "string \<Rightarrow> string \<Rightarrow> gotime \<Rightarrow> flag_values \<Rightarrow> task" where
  "task_from_flags name ns runTime given = empty_task\<lparr>t_meta := cli_meta name ns,
     t_spec := (t_spec empty_task)\<lparr>ts_runTime := Some runTime,
       ts_schedule := GetString taskFlags given ''schedule'',
       ts_persistant := (GetString taskFlags given ''permanent'' = ''true''),
       ts_payload := GetString taskFlags given ''payload''\<rparr>\<rparr>"

definition task_targets_from :: "flag_values \<Rightarrow> task \<Rightarrow> task" where
  \<comment> \<open>the entity wins over the group\<close>
  "task_targets_from given t =
     (let group = GetString taskFlags given ''targetGroup'';
          entity = GetString taskFlags given ''targetEntity'';
          t1 = (if group \<noteq> [] then t\<lparr>t_spec := (t_spec t)\<lparr>ts_targets := Some [target_of TargetTypeGroup group []]\<rparr>\<rparr> else t)
      in if entity \<noteq> [] then t1\<lparr>t_spec := (t_spec t1)\<lparr>ts_targets := Some [target_of TargetTypeEntity entity []]\<rparr>\<rparr> else t1)"

definition task_is_done :: "task \<Rightarrow> bool" where
  "task_is_done t \<longleftrightarrow> tt_phase (t_status t) = StatusCompleted \<or> tt_phase (t_status t) = StatusArchiving"

definition poll_task :: "'w env \<Rightarrow> string \<Rightarrow> string \<Rightarrow> ('w, gerror + bool) go" where
  \<comment> \<open>the polled condition; new events are only printed\<close>
  "poll_task env ns taskName =
     bindg (get_as env KTask as_task ns taskName) (\<lambda>r. retg (case r of
       Inl err \<Rightarrow> Inl (wrapf ''failed to get task: '' err) | Inr t \<Rightarrow> Inr (task_is_done t)))"

definition waitForTaskCondition ::
  "'w env \<Rightarrow> 'w host \<Rightarrow> string \<Rightarrow> string \<Rightarrow> int \<Rightarrow> int \<Rightarrow> ('w, gerror option) go" where
  "waitForTaskCondition env h taskName ns retryInterval timeout =
     bindg (callg (h_watch h ns (''involvedObject.kind=Task,involvedObject.name='' @ taskName))) (\<lambda>err. case err of
       Some e \<Rightarrow> retg (Some (wrapf ''failed to create event watcher: '' e))
     | None \<Rightarrow> h_poll h retryInterval timeout True (poll_task env ns taskName))"

definition taskCmd :: "'w env \<Rightarrow> 'w host \<Rightarrow> raw_config \<Rightarrow> string \<Rightarrow> flag_values \<Rightarrow> ('w, string list) go" where
  "taskCmd env h rc name given =
     (let template = GetString taskFlags given ''template'';
          executionTime = GetString taskFlags given ''executionTime'' in
      bindg (pureg (pick_namespace taskFlags given rc)) (\<lambda>ns.
      bindg (if executionTime \<noteq> [] then must_have (retg (h_parse_time h executionTime)) else retg 0) (\<lambda>runTime.
      bindg (if template \<noteq> [] then
               bindg (must_have (get_as env KTask as_task ns template)) (\<lambda>t.
                 retg (task_from_template t name ns runTime given))
             else retg (task_from_flags name ns runTime given)) (\<lambda>task.
      bindg (create_resource env (OTask (task_targets_from given task))) (\<lambda>_.
      bindg (if GetString taskFlags given ''schedule'' = [] \<and> executionTime = []
             then must (waitForTaskCondition env h name ns (2 * second) (300 * second))
             else retg ()) (\<lambda>_. retg []))))))"

section \<open>main\<close>

definition run_command :: "'w env \<Rightarrow> 'w host \<Rightarrow> raw_config \<Rightarrow> string \<Rightarrow> string \<Rightarrow> flag_values \<Rightarrow> ('w, string list) go" where
  \<comment> \<open>the four commands of the root\<close>
  "run_command env h rc cmd name given =
     (if cmd = ''model'' then modelCmd env rc name given
      else if cmd = ''entity'' then entityCmd env rc name given
      else if cmd = ''group'' then groupCmd env rc name given
      else if cmd = ''task'' then taskCmd env h rc name given
      else retg [])"

definition cli_main :: "'w env \<Rightarrow> 'w host \<Rightarrow> string list \<Rightarrow> ('w, int \<times> string list) go" where
  \<comment> \<open>the exit status and what was listed\<close>
  "cli_main env h args =
     (let kubeconfig = kubeconfig_path h in
      bindg (must (retg (h_build_config h kubeconfig))) (\<lambda>_.
      bindg (must (retg (h_clientset h))) (\<lambda>_.
      bindg (must (retg (h_new_client h))) (\<lambda>_.
      bindg (must_have (retg (h_load h kubeconfig))) (\<lambda>rc.
        case h_cobra h args of
          Inl err \<Rightarrow> retg (1, [])
        | Inr Help \<Rightarrow> retg (0, [])
        | Inr (Invoke cmd name given) \<Rightarrow>
            bindg (run_command env h rc cmd name given) (\<lambda>out. retg (0, out)))))))"

section \<open>What is relied on of the poll\<close>

primrec poll_attempts ::
  "'w env \<Rightarrow> int \<Rightarrow> nat \<Rightarrow> ('w, gerror + bool) go \<Rightarrow> ('w, gerror option) go" where
  \<comment> \<open>this many evaluations of the condition, with a sleep after each that was false\<close>
  "poll_attempts env interval 0 cond = retg (Some (errorf ''context deadline exceeded''))"
| "poll_attempts env interval (Suc n) cond =
     bindg cond (\<lambda>r. case r of
       Inl e \<Rightarrow> retg (Some e)
     | Inr True \<Rightarrow> retg None
     | Inr False \<Rightarrow> bindg (effg (c_sleep env interval)) (\<lambda>_. poll_attempts env interval n cond))"

definition poll_contract :: "'w env \<Rightarrow> 'w host \<Rightarrow> int \<Rightarrow> int \<Rightarrow> nat \<Rightarrow> bool" where
  \<comment> \<open>\<open>PollUntilContextTimeout\<close>: evaluates the condition at once and then at every interval, until
    it is true, fails, or the time is over; at least this many evaluations fit into the time\<close>
  "poll_contract env h interval timeout m \<longleftrightarrow> m \<ge> 1
     \<and> (\<forall>cond w. \<exists>n \<ge> m. h_poll h interval timeout True cond w = poll_attempts env interval n cond w)"

section \<open>Properties of the wait\<close>

primrec done_within :: "nat \<Rightarrow> 'w env \<Rightarrow> string \<Rightarrow> string \<Rightarrow> int \<Rightarrow> 'w \<Rightarrow> bool" where
  \<comment> \<open>one of the next reads of the task, an interval apart, finds it done, and none before it fails\<close>
  "done_within 0 env ns n interval w = False"
| "done_within (Suc k) env ns n interval w =
     (case c_get env KTask ns n w of
        (Inr (OTask t), w1) \<Rightarrow> task_is_done t \<or> done_within k env ns n interval (c_sleep env interval w1)
      | _ \<Rightarrow> False)"

lemma poll_attempts_step:
  "poll_attempts env interval (Suc m) (poll_task env ns n) w =
     (case c_get env KTask ns n w of
        (Inl e, w1) \<Rightarrow> (Return (Some (wrapf ''failed to get task: '' e)), w1)
      | (Inr ob, w1) \<Rightarrow> (case as_task ob of
          None \<Rightarrow> (Return (Some (wrapf ''failed to get task: '' decode_error)), w1)
        | Some t \<Rightarrow> if task_is_done t then (Return None, w1)
            else poll_attempts env interval m (poll_task env ns n) (c_sleep env interval w1)))"
proof -
  have "poll_task env ns n w = (Return (case fst (c_get env KTask ns n w) of
      Inl e \<Rightarrow> Inl (wrapf ''failed to get task: '' e)
    | Inr ob \<Rightarrow> (case as_task ob of None \<Rightarrow> Inl (wrapf ''failed to get task: '' decode_error)
        | Some t \<Rightarrow> Inr (task_is_done t))), snd (c_get env KTask ns n w))"
    by (simp add: poll_task_def get_as_run bindg_run split: sum.split option.split)
  then show ?thesis
    by (cases "c_get env KTask ns n w") (simp add: bindg_run split: sum.split option.split)
qed

declare poll_attempts.simps(2) [simp del]

lemma poll_attempts_done:
  "done_within k env ns n interval w \<Longrightarrow> k \<le> m \<Longrightarrow>
     \<exists>w'. poll_attempts env interval m (poll_task env ns n) w = (Return None, w')"
proof (induction k arbitrary: m w)
  case 0
  then show ?case by simp
next
  case (Suc k)
  then obtain m1 where m: "m = Suc m1" "k \<le> m1" by (cases m) auto
  from Suc.prems(1) obtain t w1 where g: "c_get env KTask ns n w = (Inr (OTask t), w1)" and
    d: "task_is_done t \<or> done_within k env ns n interval (c_sleep env interval w1)"
    by (auto split: prod.splits sum.splits obj.splits)
  show ?case
  proof (cases "task_is_done t")
    case True
    then show ?thesis using g m(1) by (simp add: poll_attempts_step)
  next
    case False
    with d Suc.IH [of "c_sleep env interval w1" m1] m(2) obtain w' where
      "poll_attempts env interval m1 (poll_task env ns n) (c_sleep env interval w1) = (Return None, w')"
      by blast
    with False g m(1) show ?thesis by (simp add: poll_attempts_step)
  qed
qed

lemma poll_attempts_None:
  "poll_attempts env interval m (poll_task env ns n) w = (Return None, w') \<Longrightarrow>
     \<exists>v t. c_get env KTask ns n v = (Inr (OTask t), w') \<and> task_is_done t"
proof (induction m arbitrary: w)
  case 0
  then show ?case by simp
next
  case (Suc m)
  obtain r w1 where g: "c_get env KTask ns n w = (r, w1)" by force
  from Suc.prems g obtain ob t where r: "r = Inr ob" "as_task ob = Some t"
    by (auto simp: poll_attempts_step split: sum.splits option.splits)
  show ?case
  proof (cases "task_is_done t")
    case True
    with Suc.prems g r have "w' = w1" by (simp add: poll_attempts_step)
    with g r True show ?thesis by (auto dest!: as_SomeD)
  next
    case False
    with Suc.prems g r have "poll_attempts env interval m (poll_task env ns n) (c_sleep env interval w1) = (Return None, w')"
      by (simp add: poll_attempts_step)
    then show ?thesis by (rule Suc.IH)
  qed
qed


section \<open>Properties of the commands\<close>

lemma task_namespace_flag: "GetString taskFlags given ''namespace'' = []"
  by (simp add: GetString_def flag_default_def taskFlags_def)

lemma group_change_flags:
  "GetString groupFlags given ''addGroup'' = []" "GetString groupFlags given ''removeGroup'' = []"
  by (simp_all add: GetString_def flag_default_def groupFlags_def)

lemma must_haveE:
  assumes "must_have m w = (Return x, w')"
  shows "m w = (Return (Inr x), w')"
  using assms by (auto simp: must_have_def elim!: bindg_ReturnE split: sum.splits)

text \<open>Whatever flags are given, a task command that returns created its task under its name in the
  namespace of the current context: there is no flag for the namespace, though it is read. Without a
  schedule and an execution time it has seen the task done.\<close>

theorem task_command_namespace:
  assumes "taskCmd env h rc name given w = (Return out, w')"
  shows "\<exists>ns t v stored v'. rc_contexts rc (rc_current rc) = Some ns
    \<and> c_create env (OTask t) v = (Inr stored, v') \<and> m_name (t_meta t) = name \<and> m_namespace (t_meta t) = ns
    \<and> (GetString taskFlags given ''schedule'' = [] \<and> GetString taskFlags given ''executionTime'' = [] \<longrightarrow>
        waitForTaskCondition env h name ns (2 * second) (300 * second) v' = (Return None, w'))"
proof -
  have named: "m_name (t_meta (task_targets_from given t)) = m_name (t_meta t)"
    "m_namespace (t_meta (task_targets_from given t)) = m_namespace (t_meta t)" for t
    by (simp_all add: task_targets_from_def Let_def)
  have built: "m_name (t_meta (task_from_template t0 name ns rt given)) = name"
    "m_namespace (t_meta (task_from_template t0 name ns rt given)) = ns"
    "m_name (t_meta (task_from_flags name ns rt given)) = name"
    "m_namespace (t_meta (task_from_flags name ns rt given)) = ns" for t0 ns rt
    by (simp_all add: task_from_template_def task_from_flags_def cli_meta_def Let_def)
  from assms obtain ns rt w1 t w2 w3 where
    ns: "rc_contexts rc (rc_current rc) = Some ns" and
    t: "(if GetString taskFlags given ''template'' \<noteq> [] then
               bindg (must_have (get_as env KTask as_task ns (GetString taskFlags given ''template''))) (\<lambda>t.
                 retg (task_from_template t name ns rt given))
             else retg (task_from_flags name ns rt given)) w1 = (Return t, w2)" and
    cr: "create_resource env (OTask (task_targets_from given t)) w2 = (Return (), w3)" and
    wt: "(if GetString taskFlags given ''schedule'' = [] \<and> GetString taskFlags given ''executionTime'' = []
             then must (waitForTaskCondition env h name ns (2 * second) (300 * second))
             else retg ()) w3 = (Return (), w')"
    by (auto simp: taskCmd_def Let_def pick_namespace_def task_namespace_flag elim!: bindg_ReturnE
        simp del: not_None_eq)
  from t have "m_name (t_meta t) = name" "m_namespace (t_meta t) = ns"
    by (auto simp: built elim!: bindg_ReturnE split: if_splits)
  moreover from cr obtain stored where
    "c_create env (OTask (task_targets_from given t)) w2 = (Inr stored, w3)"
    by (cases "c_create env (OTask (task_targets_from given t)) w2")
      (auto simp: create_resource_def elim!: bindg_ReturnE dest!: must_haveE)
  moreover have "waitForTaskCondition env h name ns (2 * second) (300 * second) w3 = (Return None, w')"
    if "GetString taskFlags given ''schedule'' = [] \<and> GetString taskFlags given ''executionTime'' = []"
    using wt that by (auto simp: must_def elim!: bindg_ReturnE split: option.splits)
  ultimately show ?thesis using ns named by metis
qed

text \<open>The group command never updates a group: its result does not depend on what \<open>Update\<close>
  would do. The flags that would add it to another group or remove it are documented and read but not
  registered.\<close>

theorem group_command_never_updates:
  "groupCmd (env\<lparr>c_update := u\<rparr>) rc name given = groupCmd env rc name given"
proof -
  have "list_as (env\<lparr>c_update := u\<rparr>) k proj ns sel = list_as env k proj ns sel" for k ns sel
    and proj :: "obj \<Rightarrow> entity option"
    by (simp add: list_as_def)
  then have "list_members (env\<lparr>c_update := u\<rparr>) ns n = list_members env ns n" for ns n
    by (simp add: list_members_def cong: sum.case_cong)
  moreover have "create_resource (env\<lparr>c_update := u\<rparr>) ob = create_resource env ob"
    "get_as (env\<lparr>c_update := u\<rparr>) k proj ns n = get_as env k proj ns n"
    "change_groups (env\<lparr>c_update := u\<rparr>) ns ty n [] [] = change_groups env ns ty n [] []"
    for ob ns n k ty and proj :: "obj \<Rightarrow> group option"
    by (simp_all add: create_resource_def get_as_def change_groups_def)
  ultimately show ?thesis unfolding groupCmd_def group_change_flags by (simp cong: if_cong)
qed

lemma retarget_group_spec:
  assumes "retarget_group env ns groupName target w = (Return u, w')"
  shows "\<exists>g w1 stored. c_get env KGroup ns groupName w = (Inr (OGroup g), w1)
    \<and> c_update env (OGroup (g\<lparr>g_spec := (g_spec g)\<lparr>gs_lastTargets := Some [target]\<rparr>\<rparr>)) w1 = (Inr stored, w')"
proof -
  from assms obtain g w1 stored where "get_as env KGroup as_group ns groupName w = (Return (Inr g), w1)" and
    u: "callg (c_update env (OGroup (g\<lparr>g_spec := (g_spec g)\<lparr>gs_lastTargets := Some [target]\<rparr>\<rparr>))) w1
      = (Return (Inr stored), w')"
    by (auto simp: retarget_group_def simp del: callg_run elim!: bindg_ReturnE dest!: must_haveE)
  then have "c_get env KGroup ns groupName w = (Inr (OGroup g), w1)"
    by (auto simp: get_as_ReturnInr dest!: as_SomeD)
  moreover from u have "c_update env (OGroup (g\<lparr>g_spec := (g_spec g)\<lparr>gs_lastTargets := Some [target]\<rparr>\<rparr>)) w1
      = (Inr stored, w')"
    by (auto intro: prod_eqI)
  ultimately show ?thesis by blast
qed

text \<open>An entity command that returns, with a group to join or to leave, has left that group with
  one target, the entity with that action: the targets the group had before are replaced, so changes of
  members that the group controller has not made yet are lost.\<close>

theorem entity_command_retargets:
  assumes "entityCmd env rc name given w = (Return out, w')"
  shows "\<exists>ns v w1. pick_namespace entityFlags given rc = Return ns
    \<and> (GetString entityFlags given ''model'' \<noteq> [] \<longrightarrow>
        (\<exists>stored. c_create env (OEntity (cli_entity name ns given)) w = (Inr stored, v)))
    \<and> (GetString entityFlags given ''addGroup'' \<noteq> [] \<longrightarrow> (\<exists>g v1 stored.
        c_get env KGroup ns (GetString entityFlags given ''addGroup'') v = (Inr (OGroup g), v1)
      \<and> c_update env (OGroup (g\<lparr>g_spec := (g_spec g)\<lparr>gs_lastTargets :=
          Some [target_of TargetTypeEntity name ResourceLabelAdd]\<rparr>\<rparr>)) v1 = (Inr stored, w1)))
    \<and> (GetString entityFlags given ''removeGroup'' \<noteq> [] \<longrightarrow> (\<exists>g v1 stored.
        c_get env KGroup ns (GetString entityFlags given ''removeGroup'') w1 = (Inr (OGroup g), v1)
      \<and> c_update env (OGroup (g\<lparr>g_spec := (g_spec g)\<lparr>gs_lastTargets :=
          Some [target_of TargetTypeEntity name ResourceLabelDelete]\<rparr>\<rparr>)) v1 = (Inr stored, w')))"
proof -
  let ?add = "GetString entityFlags given ''addGroup''" and ?rem = "GetString entityFlags given ''removeGroup''"
  from assms obtain ns v w1 where ns: "pick_namespace entityFlags given rc = Return ns" and
    cr: "(if GetString entityFlags given ''model'' \<noteq> []
            then create_resource env (OEntity (cli_entity name ns given)) else retg ()) w = (Return (), v)" and
    ad: "(if ?add \<noteq> [] then retarget_group env ns ?add (target_of TargetTypeEntity name ResourceLabelAdd)
            else retg ()) v = (Return (), w1)" and
    rm: "(if ?rem \<noteq> [] then retarget_group env ns ?rem (target_of TargetTypeEntity name ResourceLabelDelete)
     else retg ()) w1 = (Return (), w')"
    by (auto simp: entityCmd_def change_groups_def elim!: bindg_ReturnE)
  have "\<exists>stored. c_create env ob w = (Inr stored, v)" if "create_resource env ob w = (Return (), v)" for ob
    using that by (cases "c_create env ob w") (auto simp: create_resource_def elim!: bindg_ReturnE dest!: must_haveE)
  with ns cr ad rm retarget_group_spec [of env ns ?add _ v _ w1] retarget_group_spec [of env ns ?rem _ w1 _ w']
  show ?thesis by (intro exI [of _ ns] exI [of _ v] exI [of _ w1]) (simp split: if_splits)
qed

section \<open>Witnesses\<close>

definition home_config :: raw_config where
  "home_config = \<lparr>rc_current = ''dev'', rc_contexts = [''dev'' \<mapsto> ''ns'']\<rparr>"

definition working_env :: "mem env" where
  \<comment> \<open>while the client sleeps, the task controller runs\<close>
  "working_env = mem_env\<lparr>c_sleep := (\<lambda>d w. snd (TaskReconciler_Reconcile mem_env (\<lambda>es. es) ''ns'' ''job'' w))\<rparr>"

definition laptop :: "mem host" where
  "laptop = \<lparr>h_getenv = (\<lambda>v. if v = ''HOME'' then ''/home/me'' else []), h_build_config = (\<lambda>p. None),
     h_clientset = None, h_new_client = None, h_load = (\<lambda>p. Inr home_config),
     h_cobra = (\<lambda>args. case args of [cmd, name, e] \<Rightarrow> Inr (Invoke cmd name [(''targetEntity'', FString e),
        (''model'', FString e), (''addGroup'', FString ''g'')]) | _ \<Rightarrow> Inr Help),
     h_parse_time = (\<lambda>s. Inl (errorf ''bad time'')), h_watch = (\<lambda>ns sel w. (None, w)),
     h_poll = (\<lambda>interval timeout immediate cond. poll_attempts working_env interval 5 cond)\<rparr>"

lemma laptop_contract: "poll_contract working_env laptop i t 5"
  by (auto simp: poll_contract_def laptop_def)

definition queued_job :: task where
  "queued_job = sample_job\<lparr>t_meta := (sample_meta ''job'')\<lparr>m_finalizers := [finalizer]\<rparr>\<rparr>"


theorem task_command_namespace_witness:
  "\<exists>w' t v stored v'. taskCmd working_env laptop home_config ''job''
      [(''template'', FString ''t''), (''namespace'', FString ''prod'')]
      (job_world sample_job [(''http://a/task'', 200, ''ok'')]) = (Return [], w')
    \<and> c_create working_env (OTask t) v = (Inr stored, v') \<and> m_namespace (t_meta t) = ''ns''
    \<and> waitForTaskCondition working_env laptop ''job'' ''ns'' (2 * second) (300 * second) v' = (Return None, w')"
proof -
  let ?g = "[(''template'', FString ''t''), (''namespace'', FString ''prod'')]"
  let ?w = "job_world sample_job [(''http://a/task'', 200, ''ok'')]"
  have "ends (taskCmd working_env laptop home_config ''job'' ?g ?w) (\<lambda>out _. out = [])"
    by code_simp
  then obtain w' where run: "taskCmd working_env laptop home_config ''job'' ?g ?w = (Return [], w')"
    by (elim endsE) auto
  have "rc_contexts home_config (rc_current home_config) = Some ''ns''" by (simp add: home_config_def)
  moreover have "GetString taskFlags ?g ''schedule'' = [] \<and> GetString taskFlags ?g ''executionTime'' = []"
    by code_simp
  ultimately show ?thesis using run task_command_namespace [OF run] by (elim exE conjE) auto
qed

definition cli_group_world :: mem where
  "cli_group_world = sample_world [OGroup (empty_group\<lparr>g_meta := sample_meta ''g'',
     g_spec := (g_spec empty_group)\<lparr>gs_lastTargets := Some [target_of TargetTypeModel ''arm'' ResourceLabelAdd]\<rparr>\<rparr>)]"

theorem entity_command_retargets_witness:
  "\<exists>w' g v1 v2 stored. entityCmd mem_env home_config ''a'' [(''addGroup'', FString ''g'')] cli_group_world
      = (Return [], w')
    \<and> c_update mem_env (OGroup (g\<lparr>g_spec := (g_spec g)\<lparr>gs_lastTargets :=
          Some [target_of TargetTypeEntity ''a'' ResourceLabelAdd]\<rparr>\<rparr>)) v1 = (Inr stored, v2)"
proof -
  let ?g = "[(''addGroup'', FString ''g'')]"
  have "ends (entityCmd mem_env home_config ''a'' ?g cli_group_world) (\<lambda>out _. out = [])"
    by code_simp
  then obtain w' where run: "entityCmd mem_env home_config ''a'' ?g cli_group_world = (Return [], w')"
    by (elim endsE) auto
  have "GetString entityFlags ?g ''addGroup'' \<noteq> []" by code_simp
  with run entity_command_retargets [OF run] show ?thesis by blast
qed

end
