(* ===== verification/Startup.thy ===== *)
theory Startup
  imports Flags Cluster_Objects
begin

text \<open>
  \<open>cmd/main.go\<close>: the start of the manager. Every step registers something with
  controller-runtime or starts it, and the process exits with status 1 at the first step that fails.
  What a step does is outside; here it is named, with the arguments the source gives it.
\<close>

section \<open>Flags\<close>

definition managerFlags :: flag_specs where
  "managerFlags = [(''metrics-bind-address'', [], FString ''0''),
     (''health-probe-bind-address'', [], FString '':8081''), (''leader-elect'', [], FBool False),
     (''metrics-secure'', [], FBool True), (''enable-http2'', [], FBool False),
     (''disable-webhook-code'', [], FBool False)]"

record manager_flags =
  mf_metricsAddr :: string
  mf_probeAddr :: string
  mf_enableLeaderElection :: bool
  mf_secureMetrics :: bool
  mf_enableHTTP2 :: bool
  mf_disableWebHookCode :: bool

definition parse_flags :: "flag_values \<Rightarrow> manager_flags" where
  "parse_flags given = \<lparr>mf_metricsAddr = GetString managerFlags given ''metrics-bind-address'',
     mf_probeAddr = GetString managerFlags given ''health-probe-bind-address'',
     mf_enableLeaderElection = GetBool managerFlags given ''leader-elect'',
     mf_secureMetrics = GetBool managerFlags given ''metrics-secure'',
     mf_enableHTTP2 = GetBool managerFlags given ''enable-http2'',
     mf_disableWebHookCode = GetBool managerFlags given ''disable-webhook-code''\<rparr>"

section \<open>The options of the manager\<close>

record manager_options =
  mo_nextProtos :: "string list option"
  mo_bindAddress :: string
  mo_secureServing :: bool
  mo_authFilter :: bool
  mo_probeBindAddress :: string
  mo_leaderElection :: bool
  mo_leaderElectionID :: string

definition next_protos :: "bool \<Rightarrow> string list option" where
  \<comment> \<open>what \<open>tlsOpts\<close> leave in a TLS configuration, of the webhook and of the metrics server\<close>
  "next_protos enableHTTP2 = (if \<not> enableHTTP2 then Some [''http/1.1''] else None)"

definition options_of :: "manager_flags \<Rightarrow> manager_options" where
  "options_of fl = \<lparr>mo_nextProtos = next_protos (mf_enableHTTP2 fl), mo_bindAddress = mf_metricsAddr fl,
     mo_secureServing = mf_secureMetrics fl, mo_authFilter = mf_secureMetrics fl,
     mo_probeBindAddress = mf_probeAddr fl, mo_leaderElection = mf_enableLeaderElection fl,
     mo_leaderElectionID = ''5e78e76b.meliazeng.github.io''\<rparr>"

section \<open>The steps\<close>

datatype setup_step =
    AddToScheme string
  | NewManager manager_options
  | SetupController kind string
  | SetupWebhook kind
  | RegisterHandler string string
  | AddHealthzCheck string
  | AddReadyzCheck string
  | StartManager

definition init_steps :: "setup_step list" where
  "init_steps = [AddToScheme ''clientgoscheme'', AddToScheme ''certmanager'', AddToScheme ''robokubev1'']"

definition controller_steps :: "setup_step list" where
  "controller_steps = [SetupController KModel ''model-controller'', SetupController KGroup ''group-controller'',
     SetupController KTask ''task-controller'', SetupController KEntity ''entity-controller'']"

definition webhook_steps :: "setup_step list" where
  "webhook_steps = [SetupWebhook KEntity, SetupWebhook KTask, SetupWebhook KModel, SetupWebhook KGroup,
     RegisterHandler ''/mutate-v1-pod'' ''PodMutator'', RegisterHandler ''/validate-v1-pod'' ''PodValidator'',
     RegisterHandler ''/mutate-robokube-meliazeng-github-io-v1-entity'' ''EntityMutator'']"

definition main_steps :: "manager_flags \<Rightarrow> setup_step list" where
  "main_steps fl = [NewManager (options_of fl)] @ controller_steps
     @ (if \<not> mf_disableWebHookCode fl then webhook_steps else [])
     @ [AddHealthzCheck ''healthz'', AddReadyzCheck ''readyz'', StartManager]"

fun run_steps :: "(setup_step \<Rightarrow> 'w \<Rightarrow> gerror option \<times> 'w) \<Rightarrow> setup_step list \<Rightarrow>
    ('w, bool \<times> setup_step list) go" where
  \<comment> \<open>whether all succeeded, and those that did\<close>
  "run_steps out [] = retg (True, [])"
| "run_steps out (s # ss) =
     bindg (callg (out s)) (\<lambda>err. case err of
       Some e \<Rightarrow> retg (False, [])
     | None \<Rightarrow> bindg (run_steps out ss) (\<lambda>(ok, completed). retg (ok, s # completed)))"

definition manager_main ::
  "(setup_step \<Rightarrow> 'w \<Rightarrow> gerror option \<times> 'w) \<Rightarrow> flag_values \<Rightarrow> ('w, int \<times> setup_step list) go" where
  \<comment> \<open>the exit status and what was set up; \<open>utilruntime.Must\<close> in \<open>init\<close> panics\<close>
  "manager_main out given =
     bindg (run_steps out init_steps) (\<lambda>(ok, ini).
     if \<not> ok then panicg ''AddToScheme''
     else bindg (run_steps out (main_steps (parse_flags given))) (\<lambda>(ok2, completed).
       retg (if ok2 then 0 else 1, ini @ completed)))"

section \<open>Properties\<close>

lemma run_steps_spec:
  "run_steps out ss w = (Return (ok, completed), w') \<Longrightarrow>
     (\<exists>rest. ss = completed @ rest \<and> (ok \<longleftrightarrow> rest = []))
   \<and> (\<not> ok \<longrightarrow> (\<exists>s rest e v. ss = completed @ s # rest \<and> out s v = (Some e, w')))"
proof (induction ss arbitrary: w ok "completed")
  case Nil
  then show ?case by simp
next
  case (Cons s ss)
  obtain err v where o: "out s w = (err, v)" by force
  show ?case
  proof (cases err)
    case (Some e)
    with Cons.prems o have "ok = False" "completed = []" "w' = v" by auto
    with o Some show ?thesis by fastforce
  next
    case None
    with Cons.prems o obtain main_done where "completed = s # main_done" "run_steps out ss v = (Return (ok, main_done), w')"
      by (auto elim!: bindg_ReturnE)
    with Cons.IH [of v ok main_done] show ?thesis by auto
  qed
qed


definition no_task_webhook :: "setup_step \<Rightarrow> nat \<Rightarrow> gerror option \<times> nat" where
  "no_task_webhook s n = (if s = SetupWebhook KTask then Some (errorf ''no webhook'') else None, n + 1)"


end
