(* ===== verification/Registration.thy ===== *)
theory Registration
  imports Startup Processor Reference_Cluster
begin

text \<open>
  What the start-up registers, and what follows from it: \<open>groupversion_info.go\<close> and the \<open>init\<close>
  functions of the API types (the scheme), \<open>SetupWebhookWithManager\<close> of the four types and the
  constructors of the handlers (the admission paths), \<open>SetupWithManager\<close> of the four reconcilers
  (which changes of the cluster wake which controller). A registration is what the calls of the builder
  chain say, as data; how controller-runtime serves it is a parameter with its documented behaviour
  (\<open>path_contract\<close>, the locale \<open>controller_runtime\<close>).
\<close>

section \<open>The scheme\<close>

record group_version =
  gv_group :: string
  gv_version :: string

definition GroupVersion :: group_version where
  "GroupVersion = \<lparr>gv_group = ''robokube.meliazeng.github.io'', gv_version = ''v1''\<rparr>"

definition Entity_init :: "string list" where "Entity_init = [''Entity'', ''EntityList'']"
definition Group_init :: "string list" where "Group_init = [''Group'', ''GroupList'']"
definition Model_init :: "string list" where "Model_init = [''Model'', ''ModelList'']"
definition Task_init :: "string list" where "Task_init = [''Task'', ''TaskList'']"

definition SchemeBuilder :: "(group_version \<times> string) list" where
  \<comment> \<open>what the \<open>init\<close> functions have registered when \<open>main\<close> adds it to its scheme\<close>
  "SchemeBuilder = map (Pair GroupVersion) (Entity_init @ Group_init @ Model_init @ Task_init)"

definition kind_name :: "kind \<Rightarrow> string" where
  \<comment> \<open>the name of the Go type, which is the kind\<close>
  "kind_name k = drop 4 (type_text k)"

section \<open>Admission\<close>

datatype webhook_handler = TypeDefaulter kind | TypeValidator kind | EntityValidator
  | PodMutator | PodValidatorHandler | EntityMutator

record webhook_registration =
  wh_for :: kind
  wh_defaulter :: "webhook_handler option"
  wh_validator :: "webhook_handler option"

definition Entity_SetupWebhookWithManager :: webhook_registration where
  \<comment> \<open>\<open>Entity\<close> is no \<open>webhook.Defaulter\<close>; \<open>WithValidator(v)\<close>\<close>
  "Entity_SetupWebhookWithManager = \<lparr>wh_for = KEntity, wh_defaulter = None, wh_validator = Some EntityValidator\<rparr>"

definition Group_SetupWebhookWithManager :: webhook_registration where
  "Group_SetupWebhookWithManager =
     \<lparr>wh_for = KGroup, wh_defaulter = Some (TypeDefaulter KGroup), wh_validator = Some (TypeValidator KGroup)\<rparr>"

definition Model_SetupWebhookWithManager :: webhook_registration where
  "Model_SetupWebhookWithManager =
     \<lparr>wh_for = KModel, wh_defaulter = Some (TypeDefaulter KModel), wh_validator = Some (TypeValidator KModel)\<rparr>"

definition Task_SetupWebhookWithManager :: webhook_registration where
  "Task_SetupWebhookWithManager =
     \<lparr>wh_for = KTask, wh_defaulter = Some (TypeDefaulter KTask), wh_validator = Some (TypeValidator KTask)\<rparr>"

fun webhook_of :: "kind \<Rightarrow> webhook_registration option" where
  "webhook_of KEntity = Some Entity_SetupWebhookWithManager"
| "webhook_of KGroup = Some Group_SetupWebhookWithManager"
| "webhook_of KModel = Some Model_SetupWebhookWithManager"
| "webhook_of KTask = Some Task_SetupWebhookWithManager"
| "webhook_of _ = None"

text \<open>The constructors hand the manager's client to a handler, which is all its state.\<close>

definition NewPodMutator :: webhook_handler where "NewPodMutator = PodMutator"
definition NewPodValidator :: webhook_handler where "NewPodValidator = PodValidatorHandler"
definition NewEntityMutator :: webhook_handler where "NewEntityMutator = EntityMutator"

lemmas constructor_defs = NewPodMutator_def NewPodValidator_def NewEntityMutator_def

definition named_handler :: "string \<Rightarrow> webhook_handler option" where
  "named_handler = map_of [(''PodMutator'', NewPodMutator), (''PodValidator'', NewPodValidator),
     (''EntityMutator'', NewEntityMutator)]"

text \<open>\<open>Complete\<close> registers what the type offers under paths made from its group, version and
  kind.\<close>

type_synonym path_maker = "string \<Rightarrow> group_version \<Rightarrow> string \<Rightarrow> string"

definition ToLower :: "string \<Rightarrow> string" where
  "ToLower s = map (\<lambda>c. if CHR ''A'' \<le> c \<and> c \<le> CHR ''Z'' then char_of (of_char c + 32 :: nat) else c) s"

definition path_contract :: "path_maker \<Rightarrow> bool" where
  "path_contract path \<longleftrightarrow> (\<forall>op gv k. path op gv k =
     ''/'' @ op @ ''-'' @ map (\<lambda>c. if c = CHR ''.'' then CHR ''-'' else c) (gv_group gv) @ ''-''
       @ gv_version gv @ ''-'' @ ToLower k)"

definition builder_paths :: "path_maker \<Rightarrow> webhook_registration \<Rightarrow> (string \<times> webhook_handler) list" where
  "builder_paths path r =
     (case wh_defaulter r of None \<Rightarrow> [] | Some h \<Rightarrow> [(path ''mutate'' GroupVersion (kind_name (wh_for r)), h)])
   @ (case wh_validator r of None \<Rightarrow> [] | Some h \<Rightarrow> [(path ''validate'' GroupVersion (kind_name (wh_for r)), h)])"

fun step_paths :: "path_maker \<Rightarrow> setup_step \<Rightarrow> (string \<times> webhook_handler) list" where
  "step_paths path (SetupWebhook k) = (case webhook_of k of None \<Rightarrow> [] | Some r \<Rightarrow> builder_paths path r)"
| "step_paths path (RegisterHandler p n) = (case named_handler n of None \<Rightarrow> [] | Some h \<Rightarrow> [(p, h)])"
| "step_paths path _ = []"

definition served_paths :: "path_maker \<Rightarrow> manager_flags \<Rightarrow> (string \<times> webhook_handler) list" where
  "served_paths path fl = concat (map (step_paths path) (main_steps fl))"

text \<open>The paths the API server is told to call, from the markers beside the types and handlers
  (\<open>config/webhook/manifests.yaml\<close> is generated from them): path, whether it mutates, operations, resource. All of them
  fail closed (\<open>failurePolicy: Fail\<close>).\<close>

definition webhook_markers :: "(string \<times> bool \<times> string list \<times> string) list" where
  "webhook_markers =
    [(''/validate-robokube-meliazeng-github-io-v1-entity'', False, [''CREATE'', ''UPDATE''], ''entities''),
     (''/mutate-robokube-meliazeng-github-io-v1-entity'', True, [''CREATE'', ''UPDATE''], ''entities''),
     (''/validate-robokube-meliazeng-github-io-v1-group'', False, [''CREATE'', ''UPDATE''], ''groups''),
     (''/mutate-robokube-meliazeng-github-io-v1-group'', True, [''CREATE'', ''UPDATE''], ''groups''),
     (''/validate-robokube-meliazeng-github-io-v1-task'', False, [''CREATE'', ''UPDATE''], ''tasks''),
     (''/mutate-robokube-meliazeng-github-io-v1-task'', True, [''CREATE'', ''UPDATE''], ''tasks''),
     (''/validate-robokube-meliazeng-github-io-v1-model'', False, [''CREATE'', ''UPDATE''], ''models''),
     (''/mutate-robokube-meliazeng-github-io-v1-model'', True, [''CREATE'', ''UPDATE''], ''models''),
     (''/mutate-v1-pod'', True, [''CREATE''], ''pods''),
     (''/validate-v1-pod'', False, [''CREATE'', ''UPDATE''], ''pods'')]"

fun mutates :: "webhook_handler \<Rightarrow> bool" where
  "mutates (TypeDefaulter k) = True"
| "mutates PodMutator = True"
| "mutates EntityMutator = True"
| "mutates _ = False"

fun handled_kind :: "webhook_handler \<Rightarrow> kind" where
  \<comment> \<open>the type a handler decodes\<close>
  "handled_kind (TypeDefaulter k) = k"
| "handled_kind (TypeValidator k) = k"
| "handled_kind EntityValidator = KEntity"
| "handled_kind EntityMutator = KEntity"
| "handled_kind PodMutator = KPod"
| "handled_kind PodValidatorHandler = KPod"

definition resource_kind :: "string \<Rightarrow> kind option" where
  "resource_kind r = map_of [(''entities'', KEntity), (''groups'', KGroup), (''models'', KModel), (''tasks'', KTask),
     (''pods'', KPod)] r"

section \<open>Controllers\<close>

datatype predicate_spec = GenerationChangedPredicate | PredicateOr "predicate_spec list"

record controller_registration =
  cr_logger :: string
  cr_for :: kind
  cr_owns :: "kind list"
  cr_filters :: "predicate_spec list"
  cr_maxConcurrent :: "nat option"

definition EntityReconciler_SetupWithManager :: controller_registration where
  "EntityReconciler_SetupWithManager = \<lparr>cr_logger = ''Entity'', cr_for = KEntity, cr_owns = [],
     cr_filters = [PredicateOr [GenerationChangedPredicate]], cr_maxConcurrent = Some 10\<rparr>"

definition GroupReconciler_SetupWithManager :: controller_registration where
  "GroupReconciler_SetupWithManager = \<lparr>cr_logger = ''Group'', cr_for = KGroup, cr_owns = [], cr_filters = [],
     cr_maxConcurrent = None\<rparr>"

definition ModelReconciler_SetupWithManager :: controller_registration where
  "ModelReconciler_SetupWithManager = \<lparr>cr_logger = ''Model'', cr_for = KModel, cr_owns = [KStatefulSet],
     cr_filters = [GenerationChangedPredicate], cr_maxConcurrent = None\<rparr>"

definition TaskReconciler_SetupWithManager :: controller_registration where
  "TaskReconciler_SetupWithManager = \<lparr>cr_logger = ''Task'', cr_for = KTask, cr_owns = [],
     cr_filters = [GenerationChangedPredicate], cr_maxConcurrent = Some 10\<rparr>"

lemmas registration_defs = EntityReconciler_SetupWithManager_def GroupReconciler_SetupWithManager_def
  ModelReconciler_SetupWithManager_def TaskReconciler_SetupWithManager_def

fun controller_of :: "kind \<Rightarrow> controller_registration option" where
  "controller_of KEntity = Some EntityReconciler_SetupWithManager"
| "controller_of KGroup = Some GroupReconciler_SetupWithManager"
| "controller_of KModel = Some ModelReconciler_SetupWithManager"
| "controller_of KTask = Some TaskReconciler_SetupWithManager"
| "controller_of _ = None"

text \<open>
  A change of the cluster as a watch reports it, and what controller-runtime makes of it. The requests
  a change puts in a controller's queue are a parameter, \<open>wakes\<close>; documented of it: an event filter
  applies to everything the controller watches and a request needs all of them to pass;
  \<open>GenerationChangedPredicate\<close> drops updates that leave \<open>metadata.generation\<close> as it was and
  nothing else; \<open>For\<close> enqueues the object itself, \<open>Owns\<close> the controller that owns it.
\<close>

datatype watch_event = Created obj | Updated obj obj | Deleted obj

type_synonym request = "string \<times> string"

fun event_objs :: "watch_event \<Rightarrow> obj list" where
  "event_objs (Created ob) = [ob]"
| "event_objs (Updated old new) = [old, new]"
| "event_objs (Deleted ob) = [ob]"

fun passes :: "predicate_spec \<Rightarrow> watch_event \<Rightarrow> bool" where
  "passes GenerationChangedPredicate ev = (case ev of
     Updated old new \<Rightarrow> m_generation (meta_of old) \<noteq> m_generation (meta_of new) | _ \<Rightarrow> True)"
| "passes (PredicateOr ps) ev = (\<exists>p \<in> set ps. passes p ev)"

definition concerns :: "controller_registration \<Rightarrow> obj \<Rightarrow> request \<Rightarrow> bool" where
  "concerns reg ob req \<longleftrightarrow> (kind_of ob = cr_for reg \<and> req = (obj_ns ob, obj_name ob))
     \<or> (kind_of ob \<in> set (cr_owns reg) \<and> (\<exists>r \<in> set (m_ownerReferences (meta_of ob)). or_controller r
          \<and> or_kind r = kind_name (cr_for reg) \<and> req = (obj_ns ob, or_name r)))"

locale controller_runtime =
  fixes wakes :: "controller_registration \<Rightarrow> watch_event \<Rightarrow> request set"
  assumes filtered: "req \<in> wakes reg ev \<Longrightarrow> p \<in> set (cr_filters reg) \<Longrightarrow> passes p ev"
    and mapped: "req \<in> wakes reg ev \<Longrightarrow> \<exists>ob \<in> set (event_objs ev). concerns reg ob req"
    and delivered: "(\<And>p. p \<in> set (cr_filters reg) \<Longrightarrow> passes p ev) \<Longrightarrow> ob \<in> set (event_objs ev) \<Longrightarrow>
      concerns reg ob req \<Longrightarrow> req \<in> wakes reg ev"
begin

lemma wakes_iff: "req \<in> wakes reg ev \<longleftrightarrow>
    (\<forall>p \<in> set (cr_filters reg). passes p ev) \<and> (\<exists>ob \<in> set (event_objs ev). concerns reg ob req)"
  using filtered mapped delivered by blast

text \<open>With the generation filter an update that keeps the generation, as a status update does, wakes
  nobody.\<close>

lemma status_update_is_silent:
  assumes "controller_of k = Some reg" "k \<noteq> KGroup" "m_generation (meta_of old) = m_generation (meta_of new)"
  shows "wakes reg (Updated old new) = {}"
  using assms by (cases k) (auto simp: wakes_iff registration_defs)

lemma group_update_wakes:
  assumes "kind_of new = KGroup"
  shows "(obj_ns new, obj_name new) \<in> wakes GroupReconciler_SetupWithManager (Updated old new)"
  using assms by (auto simp: wakes_iff registration_defs concerns_def)

end

definition reference_wakes :: "controller_registration \<Rightarrow> watch_event \<Rightarrow> request set" where
  "reference_wakes reg ev =
     (if list_all (\<lambda>p. passes p ev) (cr_filters reg)
      then set (concat (map (\<lambda>ob.
        (if kind_of ob = cr_for reg then [(obj_ns ob, obj_name ob)] else [])
        @ (if kind_of ob \<in> set (cr_owns reg)
           then map (\<lambda>r. (obj_ns ob, or_name r)) (filter (\<lambda>r. or_controller r \<and> or_kind r = kind_name (cr_for reg))
             (m_ownerReferences (meta_of ob))) else [])) (event_objs ev)))
      else {})"

interpretation reference_runtime: controller_runtime reference_wakes
  by unfold_locales (auto simp: reference_wakes_def concerns_def list_all_iff split: if_splits)

section \<open>Properties\<close>

lemma kind_names [simp]: "kind_name KEntity = ''Entity''" "kind_name KGroup = ''Group''" "kind_name KModel = ''Model''"
  "kind_name KTask = ''Task''"
  by (simp_all add: kind_name_def)

lemma ToLower_kinds [simp]: "ToLower ''Entity'' = ''entity''" "ToLower ''Group'' = ''group''"
  "ToLower ''Model'' = ''model''" "ToLower ''Task'' = ''task''"
  by code_simp+

lemma served_paths_eq:
  assumes "path_contract path"
  shows "served_paths path fl = (if mf_disableWebHookCode fl then [] else
    [(''/validate-robokube-meliazeng-github-io-v1-entity'', EntityValidator),
     (''/mutate-robokube-meliazeng-github-io-v1-task'', TypeDefaulter KTask),
     (''/validate-robokube-meliazeng-github-io-v1-task'', TypeValidator KTask),
     (''/mutate-robokube-meliazeng-github-io-v1-model'', TypeDefaulter KModel),
     (''/validate-robokube-meliazeng-github-io-v1-model'', TypeValidator KModel),
     (''/mutate-robokube-meliazeng-github-io-v1-group'', TypeDefaulter KGroup),
     (''/validate-robokube-meliazeng-github-io-v1-group'', TypeValidator KGroup),
     (''/mutate-v1-pod'', PodMutator), (''/validate-v1-pod'', PodValidatorHandler),
     (''/mutate-robokube-meliazeng-github-io-v1-entity'', EntityMutator)])"
  using assms
  by (simp add: path_contract_def served_paths_def main_steps_def controller_steps_def webhook_steps_def
      builder_paths_def Entity_SetupWebhookWithManager_def Group_SetupWebhookWithManager_def
      Model_SetupWebhookWithManager_def Task_SetupWebhookWithManager_def GroupVersion_def named_handler_def constructor_defs)

text \<open>C40: The paths the API server is told to call are the paths the manager serves, each by one handler,
  which mutates or validates as announced and decodes the announced resource; with the webhooks disabled
  none is served.\<close>

theorem webhook_paths_agree:
  assumes "path_contract path"
  shows "distinct (map fst (served_paths path fl))
    \<and> (mf_disableWebHookCode fl \<longrightarrow> served_paths path fl = [])
    \<and> (\<not> mf_disableWebHookCode fl \<longrightarrow> set (map fst (served_paths path fl)) = set (map fst webhook_markers)
        \<and> list_all (\<lambda>(p, m, ops, r). \<exists>h. map_of (served_paths path fl) p = Some h \<and> mutates h = m
             \<and> resource_kind r = Some (handled_kind h)) webhook_markers)"
  unfolding served_paths_eq [OF assms]
  by (simp add: webhook_markers_def resource_kind_def) auto

definition reference_path :: path_maker where
  "reference_path op gv k = ''/'' @ op @ ''-'' @ map (\<lambda>c. if c = CHR ''.'' then CHR ''-'' else c) (gv_group gv)
     @ ''-'' @ gv_version gv @ ''-'' @ ToLower k"

theorem webhook_paths_agree_witness:
  "map_of (served_paths reference_path (parse_flags [])) ''/mutate-robokube-meliazeng-github-io-v1-entity'' = Some EntityMutator
    \<and> set (map fst (served_paths reference_path (parse_flags []))) = set (map fst webhook_markers)"
proof -
  have c: "path_contract reference_path" by (simp add: path_contract_def reference_path_def)
  have "\<not> mf_disableWebHookCode (parse_flags [])" by code_simp
  with webhook_paths_agree [OF c, of "parse_flags []"] show ?thesis
    by (simp add: served_paths_eq [OF c])
qed

text \<open>C27: A controller is woken only by a change of an object of its own kind, or for models of a stateful
  set the model controls, and, the group's apart, by an update only when it changed the object's
  generation. So a status update wakes no controller but the group's, and nothing that happens to a model,
  a pod or a stateful set wakes an entity's.\<close>

theorem controllers_wake_on_own_changes:
  assumes "controller_runtime wakes" and "controller_of k = Some reg" and "req \<in> wakes reg ev"
  shows "(\<exists>ob \<in> set (event_objs ev). (kind_of ob = k \<and> req = (obj_ns ob, obj_name ob))
      \<or> (k = KModel \<and> kind_of ob = KStatefulSet \<and> (\<exists>r \<in> set (m_ownerReferences (meta_of ob)).
            or_controller r \<and> or_kind r = ''Model'' \<and> req = (obj_ns ob, or_name r))))
    \<and> (k \<noteq> KGroup \<longrightarrow> (\<forall>old new. ev = Updated old new \<longrightarrow>
          m_generation (meta_of old) \<noteq> m_generation (meta_of new)))"
proof -
  from assms(3) have f: "\<forall>p \<in> set (cr_filters reg). passes p ev" and
    "\<exists>ob \<in> set (event_objs ev). concerns reg ob req"
    unfolding controller_runtime.wakes_iff [OF assms(1)] by auto
  then obtain ob where ob: "ob \<in> set (event_objs ev)" "concerns reg ob req" by blast
  have "k \<noteq> KGroup \<longrightarrow> (\<forall>old new. ev = Updated old new \<longrightarrow> m_generation (meta_of old) \<noteq> m_generation (meta_of new))"
    using assms(2) f by (cases k) (auto simp: registration_defs)
  moreover have "(kind_of ob = k \<and> req = (obj_ns ob, obj_name ob))
      \<or> (k = KModel \<and> kind_of ob = KStatefulSet \<and> (\<exists>r \<in> set (m_ownerReferences (meta_of ob)).
            or_controller r \<and> or_kind r = ''Model'' \<and> req = (obj_ns ob, or_name r)))"
    using assms(2) ob(2) by (cases k) (auto simp: registration_defs concerns_def)
  ultimately show ?thesis using ob(1) by blast
qed

theorem controllers_wake_on_own_changes_witness:
  "(''ns'', ''arm'') \<in> reference_wakes ModelReconciler_SetupWithManager (Created (OModel sample_model))
    \<and> reference_wakes EntityReconciler_SetupWithManager (Created (OModel sample_model)) = {}"
proof
  have "(''ns'', ''arm'') \<in> reference_wakes ModelReconciler_SetupWithManager (Created (OModel sample_model))"
    by (simp add: reference_runtime.wakes_iff registration_defs concerns_def obj_ns_def obj_name_def sample_defs)
  then show "(''ns'', ''arm'') \<in> reference_wakes ModelReconciler_SetupWithManager (Created (OModel sample_model))" .
  show "reference_wakes EntityReconciler_SetupWithManager (Created (OModel sample_model)) = {}"
    using controllers_wake_on_own_changes [OF reference_runtime.controller_runtime_axioms, of KEntity
        EntityReconciler_SetupWithManager _ "Created (OModel sample_model)"] by auto
qed

text \<open>The status subresource: a write that succeeds is made on the stored object it read, changes nothing
  but the status and keeps the generation.\<close>

definition status_contract :: "'w env \<Rightarrow> bool" where
  "status_contract env \<longleftrightarrow> (\<forall>ob w ob' w'. c_status_update env ob w = (Inr ob', w') \<longrightarrow>
     (\<exists>cur. fst (c_get env (kind_of ob) (obj_ns ob) (obj_name ob) w) = Inr cur
        \<and> m_resourceVersion (meta_of cur) = m_resourceVersion (meta_of ob)
        \<and> m_generation (meta_of ob') = m_generation (meta_of cur) \<and> conditions_of ob' = conditions_of ob))"

lemma mem_status_contract: "status_contract mem_env"
proof -
  have "conditions_of (bump_version (with_status_of cur ob)) = conditions_of ob" if "kind_of cur = kind_of ob" for cur ob
    using that by (cases cur; cases ob) (simp_all add: bump_version_def with_status_of_def entity_accessors
        group_accessors model_accessors task_accessors)
  moreover have "m_generation (meta_of (bump_version (with_status_of cur ob))) = m_generation (meta_of cur)" for cur ob
    by (cases cur) (auto simp: bump_version_def with_status_of_def split: option.split)
  moreover have "kind_of cur = kind_of ob" if "find (mem_key_of ob) os = Some cur" for ob cur os
    using that by (auto simp: find_Some_iff mem_key_of_def mem_key_def)
  ultimately show ?thesis
    by (auto simp: status_contract_def mem_env_def mem_status_update_def mem_write_def mem_get_def
        mem_key_of_def [symmetric] Let_def split: option.splits if_splits)
qed

text \<open>C6: A reconcile that failed otherwise than by a conflict asks for nothing, and the status update
  that records the failure wakes the group's controller and no other: a failed group is reconciled again at
  once, with one more condition in its status each time, where a failed entity, model or task is left as
  it is.\<close>

theorem failure_wakes_only_groups:
  assumes "controller_runtime wakes" "retry_contract env" "get_contract env" "write_contract (c_status_update env)"
    "status_contract env"
    and res: "controller_of (kind_of res) = Some reg"
    and run: "ErrorDelegateHandler env res err w = (Return (ret, res'), w')" and "\<not> IsConflict err"
  shows "ret = (no_requeue, None)
    \<and> ((\<exists>uerr. UpdateStatus env res [updateStatusPhase StatusFailed,
            setErrorCondition env ''Failed'' ''Errored'' (err_msg err)] w = (Return (Some uerr, res'), w'))
      \<or> (\<exists>written v old read c. c_status_update env written v = (Inr res', w')
          \<and> fst (c_get env (kind_of res) (obj_ns res) (obj_name res) v) = Inr old
          \<and> conditions_of res' = conditions_of read @ [c] \<and> c_message c = err_msg err
          \<and> wakes reg (Updated old res') = (if kind_of res = KGroup then {(obj_ns res, obj_name res)} else {})))"
proof -
  have k: "is_rkube res" using res by (cases "kind_of res") (auto simp: is_rkube_def)
  from ErrorDelegateHandler_ReturnE [OF run] assms(8) obtain uerr where
    u: "UpdateStatus env res (failure_edits env err) w = (Return (uerr, res'), w')" and ret: "ret = (no_requeue, None)"
    by auto
  show ?thesis
  proof (cases uerr)
    case None
    from failure_written [OF assms(2-4) k u [unfolded None]] obtain w1 cur w2 c v where
      g: "c_get env (kind_of res) (obj_ns res) (obj_name res) w1 = (Inr cur, w2)" "is_rkube cur" and
      c: "c_message c = err_msg err" and
      wr: "c_status_update env (AppendCondition c (SetPhase StatusFailed cur)) v = (Inr res', w')" .
    let ?ob = "AppendCondition c (SetPhase StatusFailed cur)"
    have "same_key res cur" using assms(3) g(1) by (metis get_contract_def same_key_def)
    then have key: "same_key res ?ob" by (simp add: same_key_def obj_ns_def obj_name_def)
    from assms(5) wr obtain old where old: "fst (c_get env (kind_of ?ob) (obj_ns ?ob) (obj_name ?ob) v) = Inr old"
      "m_generation (meta_of res') = m_generation (meta_of old)" "conditions_of res' = conditions_of ?ob"
      unfolding status_contract_def by blast
    have key': "same_key res res'" using assms(4) wr key same_key_trans unfolding write_contract_def by blast
    have kold: "same_key res old"
      using assms(3) old(1) key unfolding get_contract_def same_key_def by (metis prod.collapse)
    have w: "wakes reg (Updated old res') = (if kind_of res = KGroup then {(obj_ns res, obj_name res)} else {})"
    proof (cases "kind_of res = KGroup")
      case True
      with res have "reg = GroupReconciler_SetupWithManager" by simp
      with True key' kold show ?thesis
        by (auto simp: controller_runtime.wakes_iff [OF assms(1)] registration_defs concerns_def same_key_def)
    next
      case False
      with controller_runtime.status_update_is_silent [OF assms(1) res False, of old res'] old(2) show ?thesis by simp
    qed
    have "conditions_of res' = conditions_of cur @ [c]"
      using old(3) g(2) by (simp add: conditions_of_AppendCondition)
    moreover have "fst (c_get env (kind_of res) (obj_ns res) (obj_name res) v) = Inr old"
      using old(1) key by (simp add: same_key_def)
    ultimately show ?thesis using ret wr c w by blast
  qed (use u ret in auto)
qed

theorem failure_wakes_only_groups_witness:
  "\<exists>res' w' old. ErrorDelegateHandler mem_env (OModel sample_model) err_not_found (sample_world [OModel sample_model])
      = (Return ((no_requeue, None), res'), w')
    \<and> reference_wakes ModelReconciler_SetupWithManager (Updated old res') = {}"
proof -
  have c: "controller_of (kind_of (OModel sample_model)) = Some ModelReconciler_SetupWithManager" by simp
  have "ends (ErrorDelegateHandler mem_env (OModel sample_model) err_not_found (sample_world [OModel sample_model]))
      (\<lambda>(ret, res') w'. ends (UpdateStatus mem_env (OModel sample_model) (failure_edits mem_env err_not_found)
        (sample_world [OModel sample_model])) (\<lambda>(uerr, _) _. uerr = None))"
    by code_simp
  then obtain ret res' w' where run: "ErrorDelegateHandler mem_env (OModel sample_model) err_not_found
      (sample_world [OModel sample_model]) = (Return (ret, res'), w')"
    and ok: "ends (UpdateStatus mem_env (OModel sample_model) (failure_edits mem_env err_not_found)
        (sample_world [OModel sample_model])) (\<lambda>(uerr, _) _. uerr = None)"
    by (elim endsE) auto
  have "\<not> IsConflict err_not_found" by (simp add: IsConflict_def err_not_found_def)
  from failure_wakes_only_groups [OF reference_runtime.controller_runtime_axioms mem_retry_contract mem_get_contract
      mem_write_contracts(2) mem_status_contract c run this] ok run
  show ?thesis by (auto elim!: endsE)
qed

end
