(* ===== verification/Task_Goroutines.thy ===== *)
theory Task_Goroutines
  imports Task_Controller
begin

text \<open>
  The goroutines of \<open>processEntities\<close> (\<open>internal/controller/task_controller.go\<close>) with the
  interleavings the Go scheduler may choose. A goroutine is a tree of atomic steps: a call of the client,
  of the clock or of the agent is one step, and so is an edit of an object in memory. The goroutines share
  the cluster, the channel of failed entities and the task \<open>res\<close>, through its pointer; the entity is
  each one's own copy. \<open>Task_Controller\<close> runs them one after the other, which is one of the
  interleavings; here it is shown what holds in all of them, and what does not.
\<close>

section \<open>Threads\<close>

datatype ('s, 'a) thread = Finished 'a | Crashed string | Next "'s \<Rightarrow> 's \<times> ('s, 'a) thread"

primrec bindt :: "('s, 'a) thread \<Rightarrow> ('a \<Rightarrow> ('s, 'b) thread) \<Rightarrow> ('s, 'b) thread" where
  "bindt (Finished x) f = f x"
| "bindt (Crashed p) f = Crashed p"
| "bindt (Next a) f = Next (map_prod id (\<lambda>t. bindt t f) \<circ> a)"

definition atomic :: "('s, 'a) go \<Rightarrow> ('s, 'a) thread" where
  \<comment> \<open>one atomic step; a panic of a goroutine ends the process\<close>
  "atomic m = Next (\<lambda>s. case m s of (Return x, s') \<Rightarrow> (s', Finished x) | (Panic p, s') \<Rightarrow> (s', Crashed p)
     | (NoFuel, s') \<Rightarrow> (s', Crashed []))"

primrec run_alone :: "('s, 'a) thread \<Rightarrow> ('s, 'a) go" where
  "run_alone (Finished x) = (\<lambda>s. (Return x, s))"
| "run_alone (Crashed p) = (\<lambda>s. (Panic p, s))"
| "run_alone (Next a) = (\<lambda>s. case (map_prod id run_alone \<circ> a) s of (s', r) \<Rightarrow> r s')"

lemma run_alone_bindt: "run_alone (bindt t f) = bindg (run_alone t) (\<lambda>x. run_alone (f x))"
proof (induction t)
  case (Next a)
  show ?case
  proof
    fix s
    obtain s' t where a: "a s = (s', t)" by force
    then have "t \<in> Basic_BNFs.snds (a s)" by (simp add: snds.intros)
    with Next [of "a s" t] have "run_alone (bindt t f) = bindg (run_alone t) (\<lambda>x. run_alone (f x))" by auto
    with a show "run_alone (bindt (Next a) f) s = bindg (run_alone (Next a)) (\<lambda>x. run_alone (f x)) s"
      by (simp add: bindg_def)
  qed
qed (simp_all add: fun_eq_iff bindg_def)

lemma run_alone_atomic: "m s = (Return x, s') \<Longrightarrow> run_alone (atomic m) s = (Return x, s')"
  by (simp add: atomic_def)

text \<open>A relation every step of a thread is in.\<close>

primrec stepwise :: "('s \<Rightarrow> 's \<Rightarrow> bool) \<Rightarrow> ('s, 'a) thread \<Rightarrow> bool" where
  "stepwise R (Finished x) = True"
| "stepwise R (Crashed p) = True"
| "stepwise R (Next a) = (\<forall>s. case (map_prod id (stepwise R) \<circ> a) s of (s', ok) \<Rightarrow> R s s' \<and> ok)"

lemma stepwise_NextD: "stepwise R (Next a) \<Longrightarrow> a s = (s', t) \<Longrightarrow> R s s' \<and> stepwise R t"
  by (auto dest: spec [of _ s])

lemma stepwise_NextI: "(\<And>s s' t. a s = (s', t) \<Longrightarrow> R s s' \<and> stepwise R t) \<Longrightarrow> stepwise R (Next a)"
  by (simp add: split_beta) (metis prod.collapse)

lemma stepwise_bindt: "stepwise R t \<Longrightarrow> (\<And>x. stepwise R (f x)) \<Longrightarrow> stepwise R (bindt t f)"
proof (induction t)
  case (Next a)
  show ?case
    unfolding bindt.simps
  proof (rule stepwise_NextI)
    fix s s' u
    assume "(map_prod id (\<lambda>t. bindt t f) \<circ> a) s = (s', u)"
    then obtain t where a: "a s = (s', t)" "u = bindt t f" by (cases "a s") auto
    then have t: "t \<in> Basic_BNFs.snds (a s)" by (simp add: snds.intros)
    from stepwise_NextD [OF Next.prems(1) a(1)] Next.IH [OF _ t _ Next.prems(2)] a(2) show "R s s' \<and> stepwise R u"
      by auto
  qed
qed simp_all

lemma stepwise_atomic:
  fixes m :: "('s, 'a) go"
  shows "(\<And>s. R s (snd (m s))) \<Longrightarrow> stepwise R (atomic m)"
  unfolding atomic_def
proof (rule stepwise_NextI)
  fix s s' and t :: "('s, 'a) thread"
  assume R: "\<And>s. R s (snd (m s))" and eq: "(case m s of (Return x, s') \<Rightarrow> (s', Finished x)
     | (Panic p, s') \<Rightarrow> (s', Crashed p) | (NoFuel, s') \<Rightarrow> (s', Crashed [])) = (s', t)"
  from eq R [of s] show "R s s' \<and> stepwise R t" by (auto split: prod.splits outcome.splits)
qed

section \<open>Pools\<close>

fun thread_step :: "'s \<Rightarrow> ('s, 'a) thread \<Rightarrow> 's \<times> ('s, 'a) thread" where
  "thread_step s (Next a) = a s"
| "thread_step s t = (s, t)"

definition pool_step :: "nat \<Rightarrow> ('s, 'a) thread list \<times> 's \<Rightarrow> ('s, 'a) thread list \<times> 's" where
  \<comment> \<open>thread \<open>i\<close> makes a step, if it can\<close>
  "pool_step i p = (if i < length (fst p)
     then case thread_step (snd p) (fst p ! i) of (s', t) \<Rightarrow> ((fst p)[i := t], s') else p)"

definition run_pool :: "nat list \<Rightarrow> ('s, 'a) thread list \<times> 's \<Rightarrow> ('s, 'a) thread list \<times> 's" where
  \<comment> \<open>an interleaving, as the sequence of the threads that make the steps\<close>
  "run_pool = fold pool_step"

fun is_finished :: "('s, 'a) thread \<Rightarrow> bool" where
  "is_finished (Finished x) = True"
| "is_finished _ = False"

lemma run_pool_invariant:
  assumes "P p" and "\<And>i p. P p \<Longrightarrow> P (pool_step i p)"
  shows "P (run_pool sched p)"
  using assms by (induction sched arbitrary: p) (auto simp: run_pool_def)

section \<open>What the goroutines share\<close>

record 'w shared =
  sh_res :: obj
  sh_world :: 'w
  sh_failed :: "string list"
  sh_handled :: "string list"

text \<open>\<open>sh_failed\<close> is the channel; \<open>sh_handled\<close> records, for the statements below, whose request was
  handed to the request handler.\<close>

definition on_world :: "('w, 'a) go \<Rightarrow> ('w shared, 'a) go" where
  "on_world m = (\<lambda>s. case m (sh_world s) of (r, w') \<Rightarrow> (r, s\<lparr>sh_world := w'\<rparr>))"

definition hand_over :: "'w env \<Rightarrow> bool \<Rightarrow> entity \<Rightarrow> ('w shared, handled) thread" where
  \<comment> \<open>\<open>procFn\<close>: the payload is read through the pointer into the shared task\<close>
  "hand_over env dryRun entity = atomic (\<lambda>s.
     case RequestHandler_Handle env (task_request dryRun (sh_res s) entity) (OEntity entity) None (sh_world s) of
       (r, w') \<Rightarrow> (r, s\<lparr>sh_world := w', sh_handled := sh_handled s @ [m_name (e_meta entity)]\<rparr>))"

text \<open>\<open>UpdateStatus\<close> on the shared task: \<open>Get\<close> writes through the pointer, the edit is made there,
  and what is there is written. \<open>retries\<close> bounds the attempts of \<open>retry.DefaultRetry\<close>.\<close>

definition get_res :: "'w env \<Rightarrow> ('w shared, gerror option) thread" where
  "get_res env = atomic (\<lambda>s. let res = sh_res s in
     case c_get env (kind_of res) (obj_ns res) (obj_name res) (sh_world s) of
       (Inl err, w') \<Rightarrow> (Return (Some (wrapf ''cloud not retrieve the object from cluster, '' err)), s\<lparr>sh_world := w'\<rparr>)
     | (Inr cur, w') \<Rightarrow> (Return None, s\<lparr>sh_res := cur, sh_world := w'\<rparr>))"

definition edit_res :: "'w modfn \<Rightarrow> ('w shared, unit) thread" where
  "edit_res f = atomic (\<lambda>s. case f (sh_res s) (sh_world s) of
       (Return ob, w') \<Rightarrow> (Return (), s\<lparr>sh_res := ob, sh_world := w'\<rparr>)
     | (Panic p, w') \<Rightarrow> (Panic p, s\<lparr>sh_world := w'\<rparr>)
     | (NoFuel, w') \<Rightarrow> (NoFuel, s\<lparr>sh_world := w'\<rparr>))"

definition write_res :: "'w env \<Rightarrow> ('w shared, gerror option) thread" where
  "write_res env = atomic (\<lambda>s. case c_status_update env (sh_res s) (sh_world s) of
       (Inl err, w') \<Rightarrow> (Return (Some err), s\<lparr>sh_world := w'\<rparr>)
     | (Inr ob', w') \<Rightarrow> (Return None, s\<lparr>sh_res := ob', sh_world := w'\<rparr>))"

definition attempt_res :: "'w env \<Rightarrow> 'w modfn \<Rightarrow> ('w shared, gerror option) thread" where
  "attempt_res env f = bindt (get_res env) (\<lambda>e. case e of
       Some err \<Rightarrow> Finished (Some err)
     | None \<Rightarrow> bindt (edit_res f) (\<lambda>_. write_res env))"

primrec retry_res :: "nat \<Rightarrow> 'w env \<Rightarrow> 'w modfn \<Rightarrow> ('w shared, gerror option) thread" where
  "retry_res 0 env f = attempt_res env f"
| "retry_res (Suc n) env f = bindt (attempt_res env f) (\<lambda>e. case e of
       None \<Rightarrow> Finished None
     | Some err \<Rightarrow> if IsConflict err then retry_res n env f else Finished (Some err))"

definition update_res :: "nat \<Rightarrow> 'w env \<Rightarrow> 'w modfn \<Rightarrow> ('w shared, gerror option) thread" where
  "update_res retries env f = bindt (retry_res retries env f) (\<lambda>e.
     Finished (map_option (wrapf ''failed to update resource, '') e))"

text \<open>\<open>UpdateStatus\<close> on the goroutine's own entity.\<close>

definition attempt_own :: "'w env \<Rightarrow> (obj \<Rightarrow> obj) \<Rightarrow> obj \<Rightarrow> ('w shared, gerror option \<times> obj) thread" where
  "attempt_own env f ob =
     bindt (atomic (on_world (callg (c_get env (kind_of ob) (obj_ns ob) (obj_name ob))))) (\<lambda>r. case r of
       Inl err \<Rightarrow> Finished (Some (wrapf ''cloud not retrieve the object from cluster, '' err), ob)
     | Inr cur \<Rightarrow> bindt (atomic (on_world (callg (c_status_update env (f cur))))) (\<lambda>u. case u of
         Inl err \<Rightarrow> Finished (Some err, f cur)
       | Inr ob' \<Rightarrow> Finished (None, ob')))"

primrec retry_own :: "nat \<Rightarrow> 'w env \<Rightarrow> (obj \<Rightarrow> obj) \<Rightarrow> obj \<Rightarrow> ('w shared, gerror option \<times> obj) thread" where
  "retry_own 0 env f ob = attempt_own env f ob"
| "retry_own (Suc n) env f ob = bindt (attempt_own env f ob) (\<lambda>(e, ob'). case e of
       None \<Rightarrow> Finished (None, ob')
     | Some err \<Rightarrow> if IsConflict err then retry_own n env f ob' else Finished (Some err, ob'))"

section \<open>The goroutine\<close>

definition process_shared :: "nat \<Rightarrow> 'w env \<Rightarrow> bool \<Rightarrow> entity \<Rightarrow> ('w shared, gerror option) thread" where
  \<comment> \<open>the call of \<open>Processor\<close>, its error\<close>
  "process_shared retries env dryRun entity = bindt (hand_over env dryRun entity) (\<lambda>(result, err, _). case err of
       Some e \<Rightarrow> Finished (Some e)
     | None \<Rightarrow> (case result of
         None \<Rightarrow> Finished None
       | Some r \<Rightarrow> bindt (update_res retries env (setCondition env r)) (\<lambda>uerr.
           Finished (map_option (wrapf ''failed to update status: '') uerr))))"

primrec goroutine_loop :: "nat \<Rightarrow> 'w env \<Rightarrow> bool \<Rightarrow> entity \<Rightarrow> nat list \<Rightarrow> ('w shared, unit) thread" where
  "goroutine_loop retries env dryRun entity [] = Finished ()"
| "goroutine_loop retries env dryRun entity (retryCount # rest) =
     bindt (process_shared retries env dryRun entity) (\<lambda>err.
     bindt (if err = None then Finished False
            else bindt (atomic (on_world (effg (c_sleep env (5 * second))))) (\<lambda>_.
              if retryCount = 2 then
                bindt (atomic (\<lambda>s. (Return (), s\<lparr>sh_failed := sh_failed s @ [m_name (e_meta entity)]\<rparr>))) (\<lambda>_.
                bindt (atomic (\<lambda>s. (Return (obj_name (sh_res s)), s))) (\<lambda>task.
                bindt (retry_own retries env (AppendCondition (tasking_condition ''False'' ''TaskingFailed''
                  (failed_text (m_name (e_meta entity)) task))) (OEntity entity)) (\<lambda>_.
                bindt (atomic (\<lambda>s. on_world (effg (c_event env (sh_res s) ''Warning'' ''TaskingFailed''
                  (failed_text (m_name (e_meta entity)) (obj_name (sh_res s))))) s)) (\<lambda>_.
                Finished True))))
              else Finished False)) (\<lambda>failed.
     if failed then goroutine_loop retries env dryRun entity rest
     else
       bindt (atomic (on_world (callg (c_now env)))) (\<lambda>now.
       bindt (atomic (\<lambda>s. on_world (effg (c_event env (sh_res s) ''Normal'' ''Tasking''
         (''Entity '' @ m_name (e_meta entity) @ '' is being tasked by '' @ obj_name (sh_res s) @ '' - '' @ fmt_time env now @ '' ''))) s)) (\<lambda>_.
       bindt (atomic (\<lambda>s. (Return (obj_name (sh_res s)), s))) (\<lambda>task.
       bindt (retry_own retries env (AppendCondition (tasking_condition ''True'' ''Tasking''
           (''Entity '' @ m_name (e_meta entity) @ '' is being tasked by Task '' @ task))) (OEntity entity)) (\<lambda>_.
       Finished ()))))))"

definition goroutine :: "nat \<Rightarrow> 'w env \<Rightarrow> bool \<Rightarrow> entity \<Rightarrow> ('w shared, unit) thread" where
  "goroutine retries env dryRun entity = goroutine_loop retries env dryRun entity [0, 1, 2]"

definition start_pool :: "nat \<Rightarrow> 'w env \<Rightarrow> obj \<Rightarrow> entity list \<Rightarrow> 'w \<Rightarrow> ('w shared, unit) thread list \<times> 'w shared" where
  \<comment> \<open>every goroutine started, none of them run yet\<close>
  "start_pool retries env res items w =
     (map (goroutine retries env (ts_dryRun (t_spec (the_task res)))) items,
      \<lparr>sh_res = res, sh_world = w, sh_failed = [], sh_handled = []\<rparr>)"

section \<open>Every step is harmless\<close>

definition steady :: "'w shared \<Rightarrow> 'w shared \<Rightarrow> bool" where
  \<comment> \<open>the shared task stays the same object, and nothing is reported or handed over\<close>
  "steady s s' \<longleftrightarrow> same_key (sh_res s) (sh_res s') \<and> sh_failed s' = sh_failed s \<and> sh_handled s' = sh_handled s"

lemma steady_refl [simp]: "steady s s"
  by (simp add: steady_def)

lemma steady_on_world [simp]: "steady s (snd (on_world m s))"
  by (simp add: steady_def on_world_def split: prod.split)

lemma steady_atomic_world [simp]: "stepwise steady (atomic (on_world m))"
  by (rule stepwise_atomic) simp

lemma steady_atomic_world2 [simp]: "stepwise steady (atomic (\<lambda>s. on_world (m s) s))"
  by (rule stepwise_atomic) simp

lemma steady_attempt_own: "stepwise steady (attempt_own env f ob)"
  unfolding attempt_own_def by (intro stepwise_bindt) (auto intro!: stepwise_bindt split: sum.split)

lemma steady_retry_own: "stepwise steady (retry_own n env f ob)"
  by (induction n arbitrary: ob) (auto intro!: stepwise_bindt steady_attempt_own split: prod.split option.split)

lemma get_same_key:
  "get_contract env \<Longrightarrow> c_get env (kind_of res) (obj_ns res) (obj_name res) w = (Inr cur, w') \<Longrightarrow> same_key res cur"
  by (metis get_contract_def same_key_def)

lemma steady_get_res:
  assumes "get_contract env"
  shows "stepwise steady (get_res env)"
  unfolding get_res_def
  by (rule stepwise_atomic)
    (auto simp: steady_def Let_def dest: get_same_key [OF assms] split: prod.split sum.split)

lemma steady_edit_res:
  assumes "keeps_key f"
  shows "stepwise steady (edit_res f)"
  unfolding edit_res_def
  by (rule stepwise_atomic)
    (use assms in \<open>auto simp: steady_def keeps_key_def split: prod.split outcome.split\<close>)

lemma steady_write_res:
  assumes "write_contract (c_status_update env)"
  shows "stepwise steady (write_res env)"
  unfolding write_res_def
  by (rule stepwise_atomic)
    (use assms in \<open>auto simp: steady_def write_contract_def split: prod.split sum.split\<close>)

lemma steady_update_res:
  assumes "get_contract env" "write_contract (c_status_update env)" "keeps_key f"
  shows "stepwise steady (update_res n env f)"
proof -
  have a: "stepwise steady (attempt_res env f)"
    unfolding attempt_res_def
    by (intro stepwise_bindt steady_get_res [OF assms(1)])
      (auto intro!: stepwise_bindt steady_edit_res steady_write_res assms split: option.split)
  have "stepwise steady (retry_res n env f)"
    by (induction n) (auto intro!: stepwise_bindt a split: option.split)
  then show ?thesis unfolding update_res_def by (intro stepwise_bindt) auto
qed

section \<open>A goroutine makes one attempt\<close>

lemma bindt_assoc: "bindt (bindt t f) g = bindt t (\<lambda>x. bindt (f x) g)"
proof (induction t)
  case (Next a)
  have "(map_prod id (\<lambda>t. bindt t g) \<circ> (map_prod id (\<lambda>t. bindt t f) \<circ> a)) s
      = (map_prod id (\<lambda>t. bindt t (\<lambda>x. bindt (f x) g)) \<circ> a) s" for s
  proof (cases "a s")
    case (Pair s' t)
    then have "t \<in> Basic_BNFs.snds (a s)" by (simp add: snds.intros)
    from Next [OF rangeI this] Pair show ?thesis by simp
  qed
  then show ?case by (simp add: fun_eq_iff)
qed simp_all

text \<open>A failed attempt that is not the third goes on to the success path, which breaks the loop.\<close>

definition rest_of_goroutine :: "nat \<Rightarrow> 'w env \<Rightarrow> entity \<Rightarrow> handled \<Rightarrow> ('w shared, unit) thread" where
  \<comment> \<open>what follows the exchange\<close>
  "rest_of_goroutine retries env entity = (\<lambda>(result, err, _).
     bindt (case err of Some e \<Rightarrow> Finished (Some e)
       | None \<Rightarrow> (case result of
           None \<Rightarrow> Finished None
         | Some r \<Rightarrow> bindt (update_res retries env (setCondition env r)) (\<lambda>uerr.
             Finished (map_option (wrapf ''failed to update status: '') uerr)))) (\<lambda>err.
     bindt (if err = None then Finished () else atomic (on_world (effg (c_sleep env (5 * second))))) (\<lambda>_.
     bindt (atomic (on_world (callg (c_now env)))) (\<lambda>now.
     bindt (atomic (\<lambda>s. on_world (effg (c_event env (sh_res s) ''Normal'' ''Tasking''
       (''Entity '' @ m_name (e_meta entity) @ '' is being tasked by '' @ obj_name (sh_res s) @ '' - '' @ fmt_time env now @ '' ''))) s)) (\<lambda>_.
     bindt (atomic (\<lambda>s. (Return (obj_name (sh_res s)), s))) (\<lambda>task.
     bindt (retry_own retries env (AppendCondition (tasking_condition ''True'' ''Tasking''
         (''Entity '' @ m_name (e_meta entity) @ '' is being tasked by Task '' @ task))) (OEntity entity)) (\<lambda>_.
     Finished ())))))))"

lemma bindt_unless: "bindt (if c then Finished False else bindt t (\<lambda>_. Finished False)) f
    = bindt (if c then Finished () else t) (\<lambda>_. f False)" for t :: "('s, unit) thread"
  by (simp add: bindt_assoc)

lemma goroutine_one_attempt: "goroutine retries env dryRun entity = bindt (process_shared retries env dryRun entity) (\<lambda>err.
     bindt (if err = None then Finished () else atomic (on_world (effg (c_sleep env (5 * second))))) (\<lambda>_.
     bindt (atomic (on_world (callg (c_now env)))) (\<lambda>now.
     bindt (atomic (\<lambda>s. on_world (effg (c_event env (sh_res s) ''Normal'' ''Tasking''
       (''Entity '' @ m_name (e_meta entity) @ '' is being tasked by '' @ obj_name (sh_res s) @ '' - '' @ fmt_time env now @ '' ''))) s)) (\<lambda>_.
     bindt (atomic (\<lambda>s. (Return (obj_name (sh_res s)), s))) (\<lambda>task.
     bindt (retry_own retries env (AppendCondition (tasking_condition ''True'' ''Tasking''
         (''Entity '' @ m_name (e_meta entity) @ '' is being tasked by Task '' @ task))) (OEntity entity)) (\<lambda>_.
     Finished ()))))))"
  unfolding goroutine_def by (simp add: bindt_unless cong: if_cong)

lemma goroutine_eq: "goroutine retries env dryRun entity =
    bindt (hand_over env dryRun entity) (rest_of_goroutine retries env entity)"
  by (simp only: goroutine_one_attempt process_shared_def rest_of_goroutine_def bindt_assoc case_prod_unfold)

lemma steady_rest:
  assumes "get_contract env" "write_contract (c_status_update env)"
  shows "stepwise steady (rest_of_goroutine n env entity h)"
proof -
  have read: "stepwise steady (atomic (\<lambda>s. (Return (obj_name (sh_res s)), s)))" by (rule stepwise_atomic) simp
  show ?thesis
    unfolding rest_of_goroutine_def case_prod_unfold
    by (intro stepwise_bindt)
      (auto intro!: stepwise_bindt steady_update_res assms steady_retry_own read split: option.split)
qed

section \<open>Every interleaving\<close>

definition names_at :: "entity list \<Rightarrow> nat set \<Rightarrow> string multiset" where
  "names_at items S = image_mset (\<lambda>i. m_name (e_meta (items ! i))) (mset_set S)"

definition pool_inv ::
  "nat \<Rightarrow> 'w env \<Rightarrow> bool \<Rightarrow> entity list \<Rightarrow> obj \<Rightarrow> ('w shared, unit) thread list \<times> 'w shared \<Rightarrow> bool" where
  \<comment> \<open>those in \<open>S\<close> have handed their request over and go on steadily, the others are where they started\<close>
  "pool_inv n env d items res p \<longleftrightarrow> length (fst p) = length items
     \<and> same_key res (sh_res (snd p)) \<and> sh_failed (snd p) = []
     \<and> (\<exists>S \<subseteq> {..<length items}. mset (sh_handled (snd p)) = names_at items S
          \<and> (\<forall>i \<in> S. stepwise steady (fst p ! i))
          \<and> (\<forall>i \<in> {..<length items} - S. fst p ! i = goroutine n env d (items ! i)))"

lemma stepwise_thread_step:
  assumes "stepwise steady t" "thread_step s t = (s', t')"
  shows "steady s s' \<and> stepwise steady t'"
proof (cases t)
  case (Next a)
  with assms stepwise_NextD [of steady a s s' t'] show ?thesis by simp
qed (use assms in auto)

lemma goroutine_first_step:
  assumes "get_contract env" "write_contract (c_status_update env)"
    and "thread_step s (goroutine n env d e) = (s', t)"
  shows "sh_res s' = sh_res s \<and> sh_failed s' = sh_failed s \<and> sh_handled s' = sh_handled s @ [m_name (e_meta e)]
    \<and> stepwise steady t"
  using assms(3) steady_rest [OF assms(1,2)]
  by (auto simp: goroutine_eq hand_over_def atomic_def split: prod.splits outcome.splits)

lemma pool_inv_step:
  assumes c: "get_contract env" "write_contract (c_status_update env)" and inv: "pool_inv n env d items res p"
  shows "pool_inv n env d items res (pool_step i p)"
proof (cases "i < length items")
  case True
  note i = this
  obtain ts s where p: "p = (ts, s)" by force
  obtain s' t where st: "thread_step s (ts ! i) = (s', t)" by force
  from inv p obtain S where S: "S \<subseteq> {..<length items}" "mset (sh_handled s) = names_at items S"
    "\<forall>i \<in> S. stepwise steady (ts ! i)" "\<forall>i \<in> {..<length items} - S. ts ! i = goroutine n env d (items ! i)"
    and l: "length ts = length items" and k: "same_key res (sh_res s)" "sh_failed s = []"
    by (auto simp: pool_inv_def)
  have step: "pool_step i p = (ts[i := t], s')" using True l p st by (simp add: pool_step_def)
  have fin: "finite S" using S(1) finite_subset by blast
  show ?thesis
  proof (cases "i \<in> S")
    case True
    with stepwise_thread_step [OF _ st] S(3) have "steady s s'" "stepwise steady t" by auto
    then have "\<forall>j \<in> S. stepwise steady (ts[i := t] ! j)" "same_key res (sh_res s')" "sh_failed s' = []"
      "mset (sh_handled s') = names_at items S"
      using S(2,3) k l i by (auto simp: steady_def nth_list_update intro: same_key_trans)
    moreover have "\<forall>j \<in> {..<length items} - S. ts[i := t] ! j = goroutine n env d (items ! j)"
      using S(4) True by (metis DiffD2 DiffE nth_list_update_neq)
    ultimately show ?thesis
      unfolding step pool_inv_def fst_conv snd_conv using S(1) l by (intro conjI exI [of _ S]) simp_all
  next
    case False
    with S(4) True have "ts ! i = goroutine n env d (items ! i)" by simp
    with goroutine_first_step [OF c, of s n d "items ! i"] st
    have f: "sh_res s' = sh_res s" "sh_failed s' = sh_failed s"
      "sh_handled s' = sh_handled s @ [m_name (e_meta (items ! i))]" "stepwise steady t" by auto
    have "names_at items (insert i S) = add_mset (m_name (e_meta (items ! i))) (names_at items S)"
      using fin False by (simp add: names_at_def)
    then have "mset (sh_handled s') = names_at items (insert i S)" using S(2) f(3) by simp
    moreover have "\<forall>j \<in> insert i S. stepwise steady (ts[i := t] ! j)"
      using S(3) f(4) l i by (simp add: nth_list_update)
    moreover have "\<forall>j \<in> {..<length items} - insert i S. ts[i := t] ! j = goroutine n env d (items ! j)"
      using S(4) by (metis DiffE DiffI insertCI nth_list_update_neq)
    moreover have "insert i S \<subseteq> {..<length items}" using S(1) i by simp
    ultimately show ?thesis
      unfolding step pool_inv_def fst_conv snd_conv using k f(1,2) l by (intro conjI exI [of _ "insert i S"]) simp_all
  qed
qed (use inv in \<open>simp add: pool_step_def pool_inv_def\<close>)

lemma pool_inv_run:
  assumes "get_contract env" "write_contract (c_status_update env)"
  shows "pool_inv n env (ts_dryRun (t_spec (the_task res))) items res (run_pool sched (start_pool n env res items w))"
proof (rule run_pool_invariant)
  show "pool_inv n env (ts_dryRun (t_spec (the_task res))) items res (start_pool n env res items w)"
    by (auto simp: pool_inv_def start_pool_def names_at_def intro!: exI [of _ "{}"])
qed (rule pool_inv_step [OF assms])

lemma names_at_all: "names_at items {..<length items} = mset (map (\<lambda>e. m_name (e_meta e)) items)"
proof -
  have "names_at items {..<length items} = mset (map (\<lambda>i. m_name (e_meta (items ! i))) [0..<length items])"
    by (simp add: names_at_def atLeast0LessThan)
  also have "map (\<lambda>i. m_name (e_meta (items ! i))) [0..<length items] = map (\<lambda>e. m_name (e_meta e)) items"
    by (rule nth_equalityI) simp_all
  finally show ?thesis .
qed

lemma names_at_mono: "S \<subseteq> {..<length items} \<Longrightarrow> names_at items S \<subseteq># mset (map (\<lambda>e. m_name (e_meta e)) items)"
  unfolding names_at_all [symmetric] names_at_def by (intro image_mset_subseteq_mono) (simp add: subset_imp_msubset_mset_set)

lemma goroutine_not_finished: "\<not> is_finished (goroutine n env d e)"
  by (simp add: goroutine_eq hand_over_def atomic_def)

lemma pool_facts:
  assumes "get_contract env" "write_contract (c_status_update env)"
    and "run_pool sched (start_pool retries env res items w) = (ts, s)"
  shows "sh_failed s = [] \<and> same_key res (sh_res s)
    \<and> mset (sh_handled s) \<subseteq># mset (map (\<lambda>e. m_name (e_meta e)) items)
    \<and> (list_all is_finished ts \<longrightarrow> mset (sh_handled s) = mset (map (\<lambda>e. m_name (e_meta e)) items))"
proof -
  let ?d = "ts_dryRun (t_spec (the_task res))"
  from pool_inv_run [OF assms(1,2), of retries res items sched w] assms(3)
  have inv: "pool_inv retries env ?d items res (ts, s)" by simp
  then obtain S where S: "S \<subseteq> {..<length items}" "mset (sh_handled s) = names_at items S"
    "\<forall>i \<in> {..<length items} - S. ts ! i = goroutine retries env ?d (items ! i)" and l: "length ts = length items"
    and k: "same_key res (sh_res s)" "sh_failed s = []"
    by (auto simp: pool_inv_def)
  have "S = {..<length items}" if "list_all is_finished ts"
    using that S(1,3) l goroutine_not_finished by (metis DiffI lessThan_iff list_all_length subsetI subset_antisym)
  with S(2) k names_at_mono [OF S(1)] names_at_all show ?thesis by metis
qed

text \<open>C4: However the goroutines of a task are interleaved, at no time has more than one request been
  handed over for each of the entities, and none of them is reported as failed; when all of them have
  ended, one was handed over for each.\<close>

theorem one_request_per_goroutine:
  assumes "get_contract env" "write_contract (c_status_update env)"
    and "run_pool sched (start_pool retries env res items w) = (ts, s)"
  shows "sh_failed s = [] \<and> same_key res (sh_res s)
    \<and> mset (sh_handled s) \<subseteq># mset (map (\<lambda>e. m_name (e_meta e)) items)
    \<and> (list_all is_finished ts \<longrightarrow> mset (sh_handled s) = mset (map (\<lambda>e. m_name (e_meta e)) items))"
  using pool_facts [OF assms] .

section \<open>One after the other is an interleaving\<close>

lemma attempt_res_alone:
  assumes "rmw_attempt env (c_status_update env) [f] (sh_res s) (sh_world s) = (Return (e, ob'), w')"
  shows "run_alone (attempt_res env f) s = (Return e, s\<lparr>sh_res := ob', sh_world := w'\<rparr>)"
  using assms
  by (auto simp: rmw_attempt_def attempt_res_def run_alone_bindt get_res_def edit_res_def write_res_def atomic_def
      bindg_run Let_def split: prod.splits sum.splits outcome.splits)

lemma retry_res_alone:
  "attempts n (rmw_attempt env (c_status_update env) [f]) (sh_res s) (sh_world s) = (Return (e, ob'), w') \<Longrightarrow>
     run_alone (retry_res n env f) s = (Return e, s\<lparr>sh_res := ob', sh_world := w'\<rparr>)"
proof (induction n arbitrary: s)
  case 0
  then show ?case by (simp add: attempt_res_alone)
next
  case (Suc n)
  from Suc.prems obtain e1 ob1 w1 where
    r: "rmw_attempt env (c_status_update env) [f] (sh_res s) (sh_world s) = (Return (e1, ob1), w1)" and
    rest: "(case e1 of None \<Rightarrow> retg (None, ob1) | Some err \<Rightarrow> if IsConflict err
      then attempts n (rmw_attempt env (c_status_update env) [f]) ob1 else retg (Some err, ob1)) w1 = (Return (e, ob'), w')"
    by (auto elim!: bindg_ReturnE)
  from rest Suc.IH [of "s\<lparr>sh_res := ob1, sh_world := w1\<rparr>"] attempt_res_alone [OF r] show ?case
    by (auto simp: run_alone_bindt bindg_run split: option.splits if_splits)
qed

lemma attempt_own_alone:
  assumes "rmw_attempt env (c_status_update env) [pure_mod f] ob (sh_world s) = (Return (e, ob'), w')"
  shows "run_alone (attempt_own env f ob) s = (Return (e, ob'), s\<lparr>sh_world := w'\<rparr>)"
  using assms
  by (auto simp: rmw_attempt_def attempt_own_def run_alone_bindt atomic_def on_world_def pure_mod_def
      bindg_run Let_def split: prod.splits sum.splits outcome.splits)

lemma retry_own_alone:
  "attempts n (rmw_attempt env (c_status_update env) [pure_mod f]) ob (sh_world s) = (Return (e, ob'), w') \<Longrightarrow>
     run_alone (retry_own n env f ob) s = (Return (e, ob'), s\<lparr>sh_world := w'\<rparr>)"
proof (induction n arbitrary: s ob)
  case 0
  then show ?case by (simp add: attempt_own_alone)
next
  case (Suc n)
  from Suc.prems obtain e1 ob1 w1 where
    r: "rmw_attempt env (c_status_update env) [pure_mod f] ob (sh_world s) = (Return (e1, ob1), w1)" and
    rest: "(case e1 of None \<Rightarrow> retg (None, ob1) | Some err \<Rightarrow> if IsConflict err
      then attempts n (rmw_attempt env (c_status_update env) [pure_mod f]) ob1 else retg (Some err, ob1)) w1 = (Return (e, ob'), w')"
    by (auto elim!: bindg_ReturnE)
  from rest Suc.IH [of ob1 "s\<lparr>sh_world := w1\<rparr>"] attempt_own_alone [OF r] show ?case
    by (auto simp: run_alone_bindt bindg_run split: option.splits if_splits)
qed

text \<open>The bound on the attempts, as both models of \<open>retry.RetryOnConflict\<close> have it.\<close>

definition retry_bound :: "nat \<Rightarrow> 'w env \<Rightarrow> bool" where
  "retry_bound n env \<longleftrightarrow> (\<forall>fn ob w. c_retry env fn ob w = attempts n fn ob w)"

lemma update_res_alone:
  assumes "retry_bound n env" "UpdateStatus env (sh_res s) [f] (sh_world s) = (Return (e, ob'), w')"
  shows "run_alone (update_res n env f) s = (Return e, s\<lparr>sh_res := ob', sh_world := w'\<rparr>)"
proof -
  from assms obtain e1 where "attempts n (rmw_attempt env (c_status_update env) [f]) (sh_res s) (sh_world s)
      = (Return (e1, ob'), w')" "e = map_option (wrapf ''failed to update resource, '') e1"
    by (auto simp: UpdateStatus_def retry_bound_def elim!: bindg_ReturnE)
  with retry_res_alone [OF this(1)] show ?thesis by (simp add: update_res_def run_alone_bindt bindg_run)
qed

lemma update_own_alone:
  assumes "retry_bound n env" "UpdateStatus env ob [pure_mod f] (sh_world s) = (Return (e, ob'), w')"
  obtains x where "run_alone (retry_own n env f ob) s = (Return x, s\<lparr>sh_world := w'\<rparr>)"
  using assms retry_own_alone
  by (fastforce simp: UpdateStatus_def retry_bound_def elim!: bindg_ReturnE)

lemma process_shared_alone:
  assumes n: "retry_bound n env"
    and "Processor env (sh_res s) (Some (OEntity e)) None None (RequestHandler_Handle env (task_request d (sh_res s) e))
      (Some (setCondition env)) (sh_world s) = (Return ((r, err), res1, o1), w1)"
  shows "run_alone (process_shared n env d e) s =
    (Return err, s\<lparr>sh_res := res1, sh_world := w1, sh_handled := sh_handled s @ [m_name (e_meta e)]\<rparr>)"
proof -
  from assms(2) obtain result herr ob w2 where
    h: "RequestHandler_Handle env (task_request d (sh_res s) e) (OEntity e) None (sh_world s) = (Return (result, herr, ob), w2)"
    and rest: "(case herr of Some x \<Rightarrow> err = Some x \<and> res1 = sh_res s \<and> w1 = w2
      | None \<Rightarrow> (case result of None \<Rightarrow> err = None \<and> res1 = sh_res s \<and> w1 = w2
        | Some x \<Rightarrow> (\<exists>uerr. UpdateStatus env (sh_res s) [setCondition env x] w2 = (Return (uerr, res1), w1)
            \<and> err = map_option (wrapf ''failed to update status: '') uerr)))"
    by (auto simp: Processor_def maybe_edit_def process_def Let_def elim!: bindg_ReturnE split: option.splits)
  have ho: "run_alone (hand_over env d e) s = (Return (result, herr, ob),
      s\<lparr>sh_world := w2, sh_handled := sh_handled s @ [m_name (e_meta e)]\<rparr>)"
    unfolding hand_over_def by (rule run_alone_atomic) (simp add: h)
  show ?thesis
  proof (cases herr)
    case None
    show ?thesis
    proof (cases result)
      case (Some x)
      with None rest obtain uerr where "UpdateStatus env (sh_res s) [setCondition env x] w2 = (Return (uerr, res1), w1)"
        "err = map_option (wrapf ''failed to update status: '') uerr" by auto
      with update_res_alone [OF n, of "s\<lparr>sh_world := w2, sh_handled := sh_handled s @ [m_name (e_meta e)]\<rparr>"
          "setCondition env x" uerr res1 w1] None Some ho
      show ?thesis by (simp add: process_shared_def run_alone_bindt bindg_run)
    qed (use None rest ho in \<open>simp add: process_shared_def run_alone_bindt bindg_run\<close>)
  qed (use rest ho in \<open>simp add: process_shared_def run_alone_bindt bindg_run\<close>)
qed

lemma goroutine_alone:
  assumes n: "retry_bound n env"
    and "task_entity env d e (sh_res s) (sh_world s) = (Return (fs, res'), w')"
  shows "run_alone (goroutine n env d e) s =
    (Return (), s\<lparr>sh_res := res', sh_world := w', sh_handled := sh_handled s @ [m_name (e_meta e)]\<rparr>)"
proof -
  from assms(2) obtain r err o1 w1 where
    p: "Processor env (sh_res s) (Some (OEntity e)) None None (RequestHandler_Handle env (task_request d (sh_res s) e))
      (Some (setCondition env)) (sh_world s) = (Return ((r, err), res', o1), w1)" and
    rest: "\<exists>now w2 x. c_now env (if err = None then w1 else c_sleep env (5 * second) w1) = (now, w2)
      \<and> UpdateStatus env (OEntity e) [pure_mod (AppendCondition (tasking_condition ''True'' ''Tasking''
         (''Entity '' @ m_name (e_meta e) @ '' is being tasked by Task '' @ obj_name res')))]
         (c_event env res' ''Normal'' ''Tasking'' (''Entity '' @ m_name (e_meta e) @ '' is being tasked by ''
           @ obj_name res' @ '' - '' @ fmt_time env now @ '' '') w2) = (Return x, w')"
    unfolding task_entity_first
    by (simp add: task_attempts.simps(2) sleep_then cong: if_cong)
      (auto elim!: bindg_ReturnE split: if_splits; metis prod.collapse)
  from rest obtain now w2 x where now: "c_now env (if err = None then w1 else c_sleep env (5 * second) w1) = (now, w2)"
    and u: "UpdateStatus env (OEntity e) [pure_mod (AppendCondition (tasking_condition ''True'' ''Tasking''
         (''Entity '' @ m_name (e_meta e) @ '' is being tasked by Task '' @ obj_name res')))]
         (c_event env res' ''Normal'' ''Tasking'' (''Entity '' @ m_name (e_meta e) @ '' is being tasked by ''
           @ obj_name res' @ '' - '' @ fmt_time env now @ '' '') w2) = (Return x, w')"
    by blast
  obtain ue uo where x: "x = (ue, uo)" by force
  define s1 where "s1 = s\<lparr>sh_res := res', sh_world := w1, sh_handled := sh_handled s @ [m_name (e_meta e)]\<rparr>"
  define f where "f = AppendCondition (tasking_condition ''True'' ''Tasking''
      (''Entity '' @ m_name (e_meta e) @ '' is being tasked by Task '' @ obj_name res'))"
  define ev where "ev = c_event env res' ''Normal'' ''Tasking'' (''Entity '' @ m_name (e_meta e) @ '' is being tasked by ''
      @ obj_name res' @ '' - '' @ fmt_time env now @ '' '')"
  have s1: "sh_res s1 = res'" "sh_world s1 = w1" by (simp_all add: s1_def)
  have 1: "run_alone (if err = None then Finished () else atomic (on_world (effg (c_sleep env (5 * second))))) s1
      = (Return (), s1\<lparr>sh_world := (if err = None then w1 else c_sleep env (5 * second) w1)\<rparr>)"
    using s1 by (simp add: atomic_def on_world_def)
  have 2: "run_alone (atomic (on_world (callg (c_now env))))
      (s1\<lparr>sh_world := (if err = None then w1 else c_sleep env (5 * second) w1)\<rparr>) = (Return now, s1\<lparr>sh_world := w2\<rparr>)"
    using now by (intro run_alone_atomic) (simp add: on_world_def)
  have 3: "run_alone (atomic (\<lambda>s. on_world (effg (c_event env (sh_res s) ''Normal'' ''Tasking''
      (''Entity '' @ m_name (e_meta e) @ '' is being tasked by '' @ obj_name (sh_res s) @ '' - '' @ fmt_time env now @ '' ''))) s))
      (s1\<lparr>sh_world := w2\<rparr>) = (Return (), s1\<lparr>sh_world := ev w2\<rparr>)"
    using s1 by (intro run_alone_atomic) (simp add: on_world_def ev_def)
  have 4: "run_alone (atomic (\<lambda>s. (Return (obj_name (sh_res s)), s))) (s1\<lparr>sh_world := ev w2\<rparr>)
      = (Return (obj_name res'), s1\<lparr>sh_world := ev w2\<rparr>)"
    using s1 by (intro run_alone_atomic) simp
  have "UpdateStatus env (OEntity e) [pure_mod f] (sh_world (s1\<lparr>sh_world := ev w2\<rparr>)) = (Return (ue, uo), w')"
    using u x by (simp add: f_def ev_def)
  from update_own_alone [OF n this] obtain y where
    5: "run_alone (retry_own n env f (OEntity e)) (s1\<lparr>sh_world := ev w2\<rparr>) = (Return y, s1\<lparr>sh_world := w'\<rparr>)" by auto
  have "run_alone (goroutine n env d e) s = (Return (), s1\<lparr>sh_world := w'\<rparr>)"
    unfolding goroutine_one_attempt run_alone_bindt
    by (rule bindg_ReturnI, rule process_shared_alone [OF n p, folded s1_def], rule bindg_ReturnI, rule 1,
        rule bindg_ReturnI, rule 2, rule bindg_ReturnI, rule 3, rule bindg_ReturnI, rule 4,
        rule bindg_ReturnI, rule 5 [unfolded f_def]) simp
  then show ?thesis by (cases s) (simp add: s1_def)
qed

lemma run_alone_pool:
  "run_alone t s = (Return x, s') \<Longrightarrow> i < length ts \<Longrightarrow> ts ! i = t \<Longrightarrow>
     \<exists>k. run_pool (replicate k i) (ts, s) = (ts[i := Finished x], s')"
proof (induction t arbitrary: ts s)
  case (Finished y)
  then have "ts[i := Finished x] = ts" by (metis Pair_inject list_update_id outcome.inject(1) run_alone.simps(1))
  with Finished show ?case by (intro exI [of _ 0]) (simp add: run_pool_def)
next
  case (Next a)
  obtain s1 t where a: "a s = (s1, t)" by force
  then have t: "t \<in> Basic_BNFs.snds (a s)" by (simp add: snds.intros)
  have r: "run_alone t s1 = (Return x, s')" using Next.prems(1) a by simp
  from Next.IH [OF rangeI t r, of "ts[i := t]"] Next.prems(2)
  obtain k where "run_pool (replicate k i) (ts[i := t], s1) = (ts[i := Finished x], s')" by auto
  then show ?case
    using Next.prems(2,3) a by (intro exI [of _ "Suc k"]) (simp add: run_pool_def pool_step_def)
qed simp

lemma sequential_pool:
  assumes n: "retry_bound n env"
  shows "task_entities env d es (sh_res s) (sh_world s) = (Return (fs, res'), w') \<Longrightarrow> list_all is_finished pre \<Longrightarrow>
    \<exists>sched ts s'. run_pool sched (pre @ map (goroutine n env d) es, s) = (ts, s') \<and> list_all is_finished ts
      \<and> sh_res s' = res' \<and> sh_world s' = w' \<and> sh_failed s' = sh_failed s"
proof (induction es arbitrary: s fs pre)
  case Nil
  then show ?case
    by (intro exI [of _ "[]"] exI [of _ pre] exI [of _ s]) (simp add: run_pool_def)
next
  case (Cons e es)
  from Cons.prems(1) obtain f1 f2 res1 w1 where
    1: "task_entity env d e (sh_res s) (sh_world s) = (Return (f1, res1), w1)" and
    2: "task_entities env d es res1 w1 = (Return (f2, res'), w')"
    by (auto elim!: bindg_ReturnE)
  let ?ts = "pre @ map (goroutine n env d) (e # es)" and ?i = "length pre"
  let ?s1 = "s\<lparr>sh_res := res1, sh_world := w1, sh_handled := sh_handled s @ [m_name (e_meta e)]\<rparr>"
  from run_alone_pool [OF goroutine_alone [OF n 1], of ?i ?ts] obtain k where
    k: "run_pool (replicate k ?i) (?ts, s) = ((pre @ [Finished ()]) @ map (goroutine n env d) es, ?s1)"
    by (auto simp: nth_append list_update_append)
  from Cons.IH [of ?s1 f2 "pre @ [Finished ()]"] 2 Cons.prems(2) obtain sched ts s' where
    "run_pool sched ((pre @ [Finished ()]) @ map (goroutine n env d) es, ?s1) = (ts, s')" "list_all is_finished ts"
    "sh_res s' = res'" "sh_world s' = w'" "sh_failed s' = sh_failed s"
    by auto
  with k show ?case by (intro exI [of _ "replicate k ?i @ sched"]) (simp add: run_pool_def)
qed


text \<open>C18: However the goroutines are interleaved: when they have ended and \<open>processEntities\<close> goes on and
  reports no error, the last thing it did is to write the stored task as completed, with no failed
  entities.\<close>

theorem interleaved_task_is_completed:
  assumes "retry_contract env" "get_contract env" "write_contract (c_status_update env)"
    and "run_pool sched (start_pool n env (OTask t) items w) = (ts, s)" and "list_all is_finished ts"
    and "finish_entities env (sh_failed s) (sh_res s) (sh_world s) = (Return (None, res'), w')"
  shows "mset (sh_handled s) = mset (map (\<lambda>e. m_name (e_meta e)) items)
    \<and> (\<exists>written v. c_status_update env (OTask written) v = (Inr res', w')
        \<and> Task_GetPhase written = StatusCompleted \<and> tt_failedEntities (t_status written) = [])"
proof -
  from pool_facts [OF assms(2-4)] have "sh_failed s = []" "kind_of (sh_res s) = KTask"
    and h: "list_all is_finished ts \<longrightarrow> mset (sh_handled s) = mset (map (\<lambda>e. m_name (e_meta e)) items)"
    by (simp_all add: same_key_def)
  with finish_entities_completed [OF assms(1-3), of "sh_res s" "sh_world s"] assms(5,6) show ?thesis by simp
qed

section \<open>What the sharing costs\<close>

definition agent_entity :: "string \<Rightarrow> entity" where
  "agent_entity n = (sample_entity n None)\<lparr>e_status := empty_entity_status
     \<lparr>et_urls := Some (fmap_of_list [(''task'', n)])\<rparr>\<rparr>"

definition race_pool :: "(mem shared, unit) thread list \<times> mem shared" where
  \<comment> \<open>a task for two entities, whose agents both answer\<close>
  "race_pool = start_pool 0 mem_env (OTask sample_job) [agent_entity ''a'', agent_entity ''b'']
     ((sample_world [OTask sample_job, OEntity (agent_entity ''a''), OEntity (agent_entity ''b'')])
       \<lparr>mem_routes := [(''a'', 200, ''answer of a''), (''b'', 200, ''answer of b'')]\<rparr>)"

definition stored_answers :: "mem \<Rightarrow> string list" where
  \<comment> \<open>the messages of the conditions of the stored task\<close>
  "stored_answers w = (case fst (c_get mem_env KTask ''ns'' ''t'' w) of
     Inr (OTask t) \<Rightarrow> map c_message (tt_conditions (t_status t)) | _ \<Rightarrow> [])"

definition race_result :: "nat list \<Rightarrow> bool \<times> string list" where
  "race_result sched = (case run_pool sched race_pool of (ts, s) \<Rightarrow>
     (list_all is_finished ts \<and> length (mem_requests (sh_world s)) = 2, stored_answers (sh_world s)))"

definition in_turn :: "nat list" where "in_turn = replicate 9 0 @ replicate 9 1"
definition overlapping :: "nat list" where
  \<comment> \<open>the second reads the task after the first has edited it and before the first writes it\<close>
  "overlapping = [0, 0, 0, 1, 1, 1, 0, 1] @ replicate 5 0 @ replicate 5 1"

text \<open>The goroutines share the task they record the answers in: of two interleavings in which both
  agents were sent the task and answered, one leaves both answers in the stored task, the other only the
  second, since its read of the task overwrote the first's edit before it was written.\<close>

theorem shared_task_loses_an_answer:
  "race_result in_turn = (True, [''answer of a'', ''answer of b''])
   \<and> race_result overlapping = (True, [''answer of b''])"
  by (intro conjI) code_simp+

text \<open>The witnesses take the overlapping run.\<close>

lemma race_pool_eq: "race_pool = start_pool 0 mem_env (OTask sample_job) [agent_entity ''a'', agent_entity ''b'']
     ((sample_world [OTask sample_job, OEntity (agent_entity ''a''), OEntity (agent_entity ''b'')])
       \<lparr>mem_routes := [(''a'', 200, ''answer of a''), (''b'', 200, ''answer of b'')]\<rparr>)"
  by (simp add: race_pool_def)

lemma agent_names: "map (\<lambda>e. m_name (e_meta e)) [agent_entity ''a'', agent_entity ''b''] = [''a'', ''b'']"
  by (simp add: agent_entity_def sample_defs)

theorem one_request_per_goroutine_witness:
  "\<exists>ts s. run_pool overlapping race_pool = (ts, s) \<and> list_all is_finished ts \<and> mset (sh_handled s) = {#''a'', ''b''#}"
proof -
  obtain ts s where run: "run_pool overlapping race_pool = (ts, s)" by force
  have "list_all is_finished (fst (run_pool overlapping race_pool))" by code_simp
  with run one_request_per_goroutine [OF mem_get_contract mem_write_contracts(2) run [unfolded race_pool_eq]]
  show ?thesis unfolding agent_names by simp
qed

lemma mem_retry_bound: "retry_bound 4 mem_env"
  by (simp add: retry_bound_def mem_env_def)


theorem interleaved_task_is_completed_witness:
  "\<exists>ts s res' w' written v. run_pool overlapping race_pool = (ts, s)
     \<and> finish_entities mem_env (sh_failed s) (sh_res s) (sh_world s) = (Return (None, res'), w')
     \<and> c_status_update mem_env (OTask written) v = (Inr res', w') \<and> Task_GetPhase written = StatusCompleted"
proof -
  obtain ts s where run: "run_pool overlapping race_pool = (ts, s)" by force
  have fin: "list_all is_finished (fst (run_pool overlapping race_pool))" by code_simp
  have "ends (case run_pool overlapping race_pool of (ts, s) \<Rightarrow>
      finish_entities mem_env (sh_failed s) (sh_res s) (sh_world s)) (\<lambda>(e, res') w'. e = None)"
    by code_simp
  with run obtain res' w' where f: "finish_entities mem_env (sh_failed s) (sh_res s) (sh_world s) = (Return (None, res'), w')"
    by (auto elim!: endsE)
  from interleaved_task_is_completed [OF mem_retry_contract mem_get_contract mem_write_contracts(2)
      run [unfolded race_pool_eq] _ f] fin run f
  show ?thesis by auto
qed

end
