(* ===== verification/Go_Heap.thy ===== *)
theory Go_Heap
  imports Api_Common
begin

text \<open>
  Memory. Elsewhere in the development a Go value is a value of HOL, which nothing else can change;
  here pointers, slices and maps are addresses of cells in a store, so that sharing can be spoken of.
  The contract of a deep copy is a locale: the copy reads as the original, the original still does, and
  no cell of the copy existed before. It is closed under the ways in which
  \<open>zz_generated.deepcopy.go\<close> builds a copy: field after field, through a pointer, over a slice,
  over a map.
\<close>

section \<open>The store\<close>

type_synonym addr = nat

record 'c store =
  cells :: "addr \<rightharpoonup> 'c"
  brk :: addr

text \<open>A slice that is not nil: an array with a window on it.\<close>

record slice =
  sl_arr :: addr
  sl_off :: nat
  sl_len :: nat

definition wf_store :: "'c store \<Rightarrow> bool" where
  \<comment> \<open>nothing is allocated yet from \<open>brk\<close> on\<close>
  "wf_store s \<longleftrightarrow> (\<forall>p \<in> dom (cells s). p < brk s)"

definition grows :: "'c store \<Rightarrow> 'c store \<Rightarrow> bool" where
  \<comment> \<open>every cell that was there is there with what it held\<close>
  "grows s t \<longleftrightarrow> (\<forall>p \<in> dom (cells s). cells t p = cells s p)"

definition agree :: "addr set \<Rightarrow> 'c store \<Rightarrow> 'c store \<Rightarrow> bool" where
  "agree A s t \<longleftrightarrow> (\<forall>p \<in> A. cells t p = cells s p)"

definition new_cell :: "'c \<Rightarrow> ('c store, addr) go" where
  "new_cell c = (\<lambda>s. (Return (brk s), s\<lparr>cells := (cells s)(brk s \<mapsto> c), brk := Suc (brk s)\<rparr>))"

definition load_cell :: "('c \<Rightarrow> 'v option) \<Rightarrow> addr \<Rightarrow> ('c store, 'v) go" where
  \<comment> \<open>what the cell holds; memory safety and types rule the other two cases out\<close>
  "load_cell proj p = (\<lambda>s. case cells s p of
       None \<Rightarrow> (Panic nil_deref, s)
     | Some c \<Rightarrow> (case proj c of None \<Rightarrow> (Panic bad_assertion, s) | Some v \<Rightarrow> (Return v, s)))"

definition store_cell :: "'c \<Rightarrow> addr \<Rightarrow> ('c store, unit) go" where
  "store_cell c p = (\<lambda>s. (Return (), s\<lparr>cells := (cells s)(p \<mapsto> c)\<rparr>))"

definition slice_at :: "'a list \<Rightarrow> nat \<Rightarrow> 'a outcome" where
  "slice_at xs i = (if i < length xs then Return (xs ! i) else Panic index_out_of_range)"

lemma load_cell_run: "cells s p = Some c \<Longrightarrow> proj c = Some v \<Longrightarrow> load_cell proj p s = (Return v, s)"
  by (simp add: load_cell_def)

lemma new_cell_run: "new_cell c s = (Return (brk s), s\<lparr>cells := (cells s)(brk s \<mapsto> c), brk := Suc (brk s)\<rparr>)"
  by (simp add: new_cell_def)

lemma store_cell_run: "store_cell c p s = (Return (), s\<lparr>cells := (cells s)(p \<mapsto> c)\<rparr>)"
  by (simp add: store_cell_def)

lemma grows_refl [simp]: "grows s s"
  by (simp add: grows_def)

lemma growsD: "grows s t \<Longrightarrow> cells s p = Some c \<Longrightarrow> cells t p = Some c"
  unfolding grows_def by (metis domI)

lemma grows_trans: "grows s t \<Longrightarrow> grows t u \<Longrightarrow> grows s u"
  unfolding grows_def by (metis domIff)

lemma grows_dom: "grows s t \<Longrightarrow> dom (cells s) \<subseteq> dom (cells t)"
  unfolding grows_def by (metis domIff subsetI)

lemma grows_agree: "grows s t \<Longrightarrow> A \<subseteq> dom (cells s) \<Longrightarrow> agree A s t"
  by (auto simp: grows_def agree_def)

lemma brk_fresh: "wf_store s \<Longrightarrow> brk s \<notin> dom (cells s)"
  by (auto simp: wf_store_def)

lemma brk_fresh_cell: "wf_store s \<Longrightarrow> cells s (brk s) = None"
  using brk_fresh by blast

lemma wf_alloc: "wf_store s \<Longrightarrow> wf_store (s\<lparr>cells := (cells s)(brk s \<mapsto> c), brk := Suc (brk s)\<rparr>)"
  by (auto simp: wf_store_def less_Suc_eq)

lemma grows_alloc: "wf_store s \<Longrightarrow> grows s (s\<lparr>cells := (cells s)(brk s \<mapsto> c), brk := b\<rparr>)"
  by (auto simp: grows_def brk_fresh_cell)

lemma wf_save: "wf_store s \<Longrightarrow> cells s p \<noteq> None \<Longrightarrow> wf_store (s\<lparr>cells := (cells s)(p \<mapsto> c)\<rparr>)"
  by (auto simp: wf_store_def)

lemma grows_save: "grows s t \<Longrightarrow> cells s p = None \<Longrightarrow> grows s (t\<lparr>cells := (cells t)(p \<mapsto> c)\<rparr>)"
  by (auto simp: grows_def)

section \<open>The contract of a deep copy\<close>

locale deep_copier =
  fixes copy :: "'v \<Rightarrow> ('c store, 'v) go"
    and reads :: "'c store \<Rightarrow> 'v \<Rightarrow> 'a option"
    and foot :: "'c store \<Rightarrow> 'v \<Rightarrow> addr set"
  assumes local: "reads s v = Some a \<Longrightarrow> agree (foot s v) s t \<Longrightarrow> reads t v = Some a \<and> foot t v = foot s v"
    and inside: "reads s v = Some a \<Longrightarrow> foot s v \<subseteq> dom (cells s)"
    and copies: "wf_store s \<Longrightarrow> reads s v = Some a \<Longrightarrow> (\<exists>v' s'. copy v s = (Return v', s')
      \<and> wf_store s' \<and> grows s s' \<and> reads s' v' = Some a \<and> foot s' v' \<inter> dom (cells s) = {})"
begin

lemma copiesE:
  assumes "wf_store s" "reads s v = Some a"
  obtains v' s' where "copy v s = (Return v', s')" "wf_store s'" "grows s s'" "reads s' v' = Some a"
    "foot s' v' \<inter> dom (cells s) = {}"
  using copies [OF assms] by blast

lemma keeps_reading:
  "reads s v = Some a \<Longrightarrow> grows s t \<Longrightarrow> reads t v = Some a \<and> foot t v = foot s v"
  by (rule local) (auto intro: grows_agree dest: inside)

lemma write_elsewhere:
  "reads s v = Some a \<Longrightarrow> p \<notin> foot s v \<Longrightarrow>
     reads (s\<lparr>cells := (cells s)(p := x)\<rparr>) v = Some a \<and> foot (s\<lparr>cells := (cells s)(p := x)\<rparr>) v = foot s v"
  by (rule local) (auto simp: agree_def)

text \<open>The copy and the original are independent: whatever is done to the cells of one is not seen
  through the other.\<close>

lemma independent:
  assumes "wf_store s" "reads s v = Some a" "copy v s = (Return v', s')"
  shows "reads s' v' = Some a" and "foot s v \<inter> foot s' v' = {}"
    and "agree (foot s v) s' t \<Longrightarrow> reads t v = Some a"
    and "agree (foot s' v') s' t \<Longrightarrow> reads t v' = Some a"
proof -
  from copies [OF assms(1,2)] assms(3) have c: "grows s s'" "reads s' v' = Some a"
    "foot s' v' \<inter> dom (cells s) = {}" by auto
  from keeps_reading [OF assms(2) c(1)] have o: "reads s' v = Some a" "foot s' v = foot s v" by auto
  show "reads s' v' = Some a" by (rule c(2))
  show "foot s v \<inter> foot s' v' = {}" using inside [OF assms(2)] c(3) by blast
  show "agree (foot s v) s' t \<Longrightarrow> reads t v = Some a" using local [OF o(1)] o(2) by simp
  show "agree (foot s' v') s' t \<Longrightarrow> reads t v' = Some a" using local [OF c(2)] by simp
qed

end

section \<open>Values without pointers, and structs\<close>

lemma deep_copier_flat: "deep_copier retg (\<lambda>s v. Some (g v)) (\<lambda>s v. {})"
  by unfold_locales auto

definition copy_both ::
  "('u \<Rightarrow> ('c store, 'u) go) \<Rightarrow> ('v \<Rightarrow> ('c store, 'v) go) \<Rightarrow> 'u \<times> 'v \<Rightarrow> ('c store, 'u \<times> 'v) go" where
  \<comment> \<open>one field, then the others\<close>
  "copy_both c d = (\<lambda>(u, v). bindg (c u) (\<lambda>u'. bindg (d v) (\<lambda>v'. retg (u', v'))))"

definition reads_both ::
  "('c store \<Rightarrow> 'u \<Rightarrow> 'a option) \<Rightarrow> ('c store \<Rightarrow> 'v \<Rightarrow> 'b option) \<Rightarrow> 'c store \<Rightarrow> 'u \<times> 'v \<Rightarrow> ('a \<times> 'b) option" where
  "reads_both r q s = (\<lambda>(u, v). case r s u of None \<Rightarrow> None
     | Some a \<Rightarrow> (case q s v of None \<Rightarrow> None | Some b \<Rightarrow> Some (a, b)))"

definition foot_both ::
  "('c store \<Rightarrow> 'u \<Rightarrow> addr set) \<Rightarrow> ('c store \<Rightarrow> 'v \<Rightarrow> addr set) \<Rightarrow> 'c store \<Rightarrow> 'u \<times> 'v \<Rightarrow> addr set" where
  "foot_both f h s = (\<lambda>(u, v). f s u \<union> h s v)"

lemma reads_both_Some:
  "reads_both r q s uv = Some ab \<longleftrightarrow> r s (fst uv) = Some (fst ab) \<and> q s (snd uv) = Some (snd ab)"
  by (cases uv; cases ab) (auto simp: reads_both_def split: option.splits)

lemma deep_copier_both:
  fixes c :: "'u \<Rightarrow> ('c store, 'u) go"
  assumes c: "deep_copier c r f" and d: "deep_copier d q h"
  shows "deep_copier (copy_both c d) (reads_both r q) (foot_both f h)"
proof
  fix s t :: "'c store" and uv ab
  assume *: "reads_both r q s uv = Some ab" "agree (foot_both f h s uv) s t"
  then have "agree (f s (fst uv)) s t" "agree (h s (snd uv)) s t"
    by (auto simp: foot_both_def agree_def split: prod.splits)
  with * show "reads_both r q t uv = Some ab \<and> foot_both f h t uv = foot_both f h s uv"
    using deep_copier.local [OF c, of s "fst uv" "fst ab" t] deep_copier.local [OF d, of s "snd uv" "snd ab" t]
    by (auto simp: reads_both_Some foot_both_def split: prod.splits)
next
  fix s :: "'c store" and uv ab
  assume "reads_both r q s uv = Some ab"
  then show "foot_both f h s uv \<subseteq> dom (cells s)"
    using deep_copier.inside [OF c, of s "fst uv" "fst ab"] deep_copier.inside [OF d, of s "snd uv" "snd ab"]
    by (auto simp: reads_both_Some foot_both_def split: prod.splits)
next
  fix s :: "'c store" and uv ab
  assume wf: "wf_store s" and "reads_both r q s uv = Some ab"
  then obtain u v a b where uv: "uv = (u, v)" "ab = (a, b)" and r: "r s u = Some a" and q: "q s v = Some b"
    by (cases uv; cases ab) (auto simp: reads_both_Some)
  from deep_copier.copiesE [OF c wf r] obtain u' s1 where
    1: "c u s = (Return u', s1)" "wf_store s1" "grows s s1" "r s1 u' = Some a" "f s1 u' \<inter> dom (cells s) = {}" .
  from deep_copier.keeps_reading [OF d q 1(3)] have "q s1 v = Some b" by simp
  from deep_copier.copiesE [OF d 1(2) this] obtain v' s2 where
    2: "d v s1 = (Return v', s2)" "wf_store s2" "grows s1 s2" "q s2 v' = Some b" "h s2 v' \<inter> dom (cells s1) = {}" .
  from deep_copier.keeps_reading [OF c 1(4) 2(3)] have "r s2 u' = Some a" "f s2 u' = f s1 u'" by auto
  moreover have "h s2 v' \<inter> dom (cells s) = {}" using 2(5) grows_dom [OF 1(3)] by blast
  ultimately show "\<exists>v' s'. copy_both c d uv s = (Return v', s') \<and> wf_store s' \<and> grows s s'
      \<and> reads_both r q s' v' = Some ab \<and> foot_both f h s' v' \<inter> dom (cells s) = {}"
    using uv 1 2 grows_trans [OF 1(3) 2(3)]
    by (intro exI [of _ "(u', v')"] exI [of _ s2])
      (auto simp: copy_both_def bindg_run reads_both_Some foot_both_def)
qed

text \<open>A struct is its fields with pointers, in their order, and the rest of it; \<open>*out = *in\<close> gives
  the copy the rest.\<close>

lemma deep_copier_struct:
  fixes copy :: "'v \<Rightarrow> ('c store, 'v) go"
  assumes c: "deep_copier c r f"
    and copy: "\<And>v. copy v = bindg (c (get v)) (\<lambda>u. retg (put u v))"
    and get: "\<And>u v. get (put u v) = u"
    and reads: "\<And>s v. reads s v = map_option (mk v) (r s (get v))"
    and mk: "\<And>u v a. mk (put u v) a = mk v a"
    and foot: "\<And>s v. foot s v = f s (get v)"
  shows "deep_copier copy reads foot"
proof
  fix s t :: "'c store" and v a
  assume "reads s v = Some a" "agree (foot s v) s t"
  then show "reads t v = Some a \<and> foot t v = foot s v"
    using deep_copier.local [OF c, of s "get v" _ t] by (auto simp: reads foot)
next
  fix s :: "'c store" and v a
  assume "reads s v = Some a"
  then obtain b where "r s (get v) = Some b" by (auto simp: reads)
  from deep_copier.inside [OF c this] show "foot s v \<subseteq> dom (cells s)" by (simp add: foot)
next
  fix s :: "'c store" and v a
  assume wf: "wf_store s" and "reads s v = Some a"
  then obtain b where b: "r s (get v) = Some b" "a = mk v b" by (auto simp: reads)
  from deep_copier.copiesE [OF c wf b(1)] obtain u' s' where "c (get v) s = (Return u', s')" "wf_store s'"
    "grows s s'" "r s' u' = Some b" "f s' u' \<inter> dom (cells s) = {}" .
  then show "\<exists>v' s'. copy v s = (Return v', s') \<and> wf_store s' \<and> grows s s'
      \<and> reads s' v' = Some a \<and> foot s' v' \<inter> dom (cells s) = {}"
    by (intro exI [of _ "put u' v"] exI [of _ s']) (simp add: copy bindg_run reads foot get mk b(2))
qed

section \<open>Pointers\<close>

definition new_copy ::
  "('c \<Rightarrow> 'v option) \<Rightarrow> ('v \<Rightarrow> 'c) \<Rightarrow> 'v \<Rightarrow> ('v \<Rightarrow> ('c store, 'v) go) \<Rightarrow> addr option \<Rightarrow> ('c store, addr option) go" where
  \<comment> \<open>nil stays nil; otherwise \<open>out := new(T)\<close>, the zero value, and \<open>*in\<close> is copied into \<open>*out\<close>\<close>
  "new_copy proj wrap zero into ptr = (case ptr of
       None \<Rightarrow> retg None
     | Some p \<Rightarrow> bindg (new_cell (wrap zero)) (\<lambda>out.
         bindg (load_cell proj p) (\<lambda>v. bindg (into v) (\<lambda>v'. bindg (store_cell (wrap v') out) (\<lambda>_. retg (Some out))))))"

definition reads_ptr ::
  "('c \<Rightarrow> 'v option) \<Rightarrow> ('c store \<Rightarrow> 'v \<Rightarrow> 'a option) \<Rightarrow> 'c store \<Rightarrow> addr option \<Rightarrow> 'a option option" where
  "reads_ptr proj r s ptr = (case ptr of None \<Rightarrow> Some None
     | Some p \<Rightarrow> (case Option.bind (cells s p) proj of None \<Rightarrow> None | Some v \<Rightarrow> map_option Some (r s v)))"

definition foot_ptr ::
  "('c \<Rightarrow> 'v option) \<Rightarrow> ('c store \<Rightarrow> 'v \<Rightarrow> addr set) \<Rightarrow> 'c store \<Rightarrow> addr option \<Rightarrow> addr set" where
  "foot_ptr proj f s ptr = (case ptr of None \<Rightarrow> {}
     | Some p \<Rightarrow> insert p (case Option.bind (cells s p) proj of None \<Rightarrow> {} | Some v \<Rightarrow> f s v))"

lemma reads_ptr_SomeE:
  assumes "reads_ptr proj r s ptr = Some oa"
  obtains "ptr = None" "oa = None"
  | p c v a where "ptr = Some p" "oa = Some a" "cells s p = Some c" "proj c = Some v" "r s v = Some a"
  using assms by (auto simp: reads_ptr_def bind_eq_Some_conv split: option.splits)

lemma deep_copier_ptr:
  fixes into :: "'v \<Rightarrow> ('c store, 'v) go"
  assumes into: "deep_copier into r f" and proj: "\<And>v. proj (wrap v) = Some v"
  shows "deep_copier (new_copy proj wrap zero into) (reads_ptr proj r) (foot_ptr proj f)"
proof
  fix s t :: "'c store" and ptr oa
  assume r: "reads_ptr proj r s ptr = Some oa" and "agree (foot_ptr proj f s ptr) s t"
  from r this(1) show "reads_ptr proj r t ptr = Some oa \<and> foot_ptr proj f t ptr = foot_ptr proj f s ptr"
  proof (cases rule: reads_ptr_SomeE)
    case (2 p c v a)
    with \<open>agree _ s t\<close> have "cells t p = Some c" "agree (f s v) s t" by (auto simp: agree_def foot_ptr_def)
    with 2 deep_copier.local [OF into 2(5), of t] show ?thesis by (simp add: reads_ptr_def foot_ptr_def)
  qed (simp add: reads_ptr_def foot_ptr_def)
next
  fix s :: "'c store" and ptr oa
  assume "reads_ptr proj r s ptr = Some oa"
  then show "foot_ptr proj f s ptr \<subseteq> dom (cells s)"
    by (cases rule: reads_ptr_SomeE) (auto simp: foot_ptr_def dest: deep_copier.inside [OF into])
next
  fix s :: "'c store" and ptr oa
  assume wf: "wf_store s" and r: "reads_ptr proj r s ptr = Some oa"
  from r show "\<exists>v' s'. new_copy proj wrap zero into ptr s = (Return v', s') \<and> wf_store s' \<and> grows s s'
      \<and> reads_ptr proj r s' v' = Some oa \<and> foot_ptr proj f s' v' \<inter> dom (cells s) = {}"
  proof (cases rule: reads_ptr_SomeE)
    case 1
    with wf show ?thesis by (simp add: new_copy_def reads_ptr_def foot_ptr_def)
  next
    case (2 p c v a)
    let ?o = "brk s"
    let ?s1 = "s\<lparr>cells := (cells s)(?o \<mapsto> wrap zero), brk := Suc ?o\<rparr>"
    have new: "cells s ?o = None" "p \<noteq> ?o" using brk_fresh_cell [OF wf] 2(3) by auto
    have g1: "grows s ?s1" using grows_alloc [OF wf] by simp
    have ld: "load_cell proj p ?s1 = (Return v, ?s1)" using 2 new(2) by (intro load_cell_run) simp_all
    have "r ?s1 v = Some a" using deep_copier.keeps_reading [OF into 2(5) g1] by simp
    from deep_copier.copiesE [OF into wf_alloc [OF wf] this] obtain v' s2 where
      i: "into v ?s1 = (Return v', s2)" "wf_store s2" "grows ?s1 s2" "r s2 v' = Some a"
        "f s2 v' \<inter> dom (cells ?s1) = {}" by auto
    let ?s3 = "s2\<lparr>cells := (cells s2)(?o \<mapsto> wrap v')\<rparr>"
    have o: "cells s2 ?o = Some (wrap zero)" "?o \<notin> f s2 v'" using i(3,5) by (auto simp: grows_def)
    from deep_copier.write_elsewhere [OF into i(4) o(2)] have r3: "r ?s3 v' = Some a" "f ?s3 v' = f s2 v'" by auto
    have "grows s ?s3" using grows_save [OF grows_trans [OF g1 i(3)] new(1)] .
    moreover have "wf_store ?s3" using wf_save [OF i(2)] o(1) by simp
    moreover have "f s2 v' \<inter> dom (cells s) = {}" using i(5) by auto
    ultimately show ?thesis
      using 2 r3 new(1) ld i(1) proj
      by (intro exI [of _ "Some ?o"] exI [of _ ?s3])
        (auto simp: new_copy_def bindg_run new_cell_run store_cell_run reads_ptr_def foot_ptr_def)
  qed
qed


section \<open>Slices\<close>

definition slice_window :: "slice \<Rightarrow> 'a list \<Rightarrow> 'a list option" where
  \<comment> \<open>the elements, when the window lies in the array\<close>
  "slice_window sl xs = (if sl_off sl + sl_len sl \<le> length xs then Some (take (sl_len sl) (drop (sl_off sl) xs)) else None)"

definition slice_elems :: "('c \<Rightarrow> 'v list option) \<Rightarrow> 'c store \<Rightarrow> slice \<Rightarrow> 'v list option" where
  "slice_elems proj s sl = Option.bind (Option.bind (cells s (sl_arr sl)) proj) (slice_window sl)"

definition reads_slice ::
  "('c \<Rightarrow> 'v list option) \<Rightarrow> ('c store \<Rightarrow> 'v \<Rightarrow> 'a option) \<Rightarrow> 'c store \<Rightarrow> slice option \<Rightarrow> 'a list option option" where
  \<comment> \<open>a nil slice and an empty one are told apart\<close>
  "reads_slice proj r s x = (case x of None \<Rightarrow> Some None
     | Some sl \<Rightarrow> (case slice_elems proj s sl of None \<Rightarrow> None | Some vs \<Rightarrow> map_option Some (those (map (r s) vs))))"

definition foot_slice ::
  "('c \<Rightarrow> 'v list option) \<Rightarrow> ('c store \<Rightarrow> 'v \<Rightarrow> addr set) \<Rightarrow> 'c store \<Rightarrow> slice option \<Rightarrow> addr set" where
  "foot_slice proj f s x = (case x of None \<Rightarrow> {}
     | Some sl \<Rightarrow> insert (sl_arr sl) (case slice_elems proj s sl of None \<Rightarrow> {} | Some vs \<Rightarrow> \<Union>v \<in> set vs. f s v))"

primrec copy_elems ::
  "('c \<Rightarrow> 'v list option) \<Rightarrow> ('v list \<Rightarrow> 'c) \<Rightarrow> ('v \<Rightarrow> ('c store, 'v) go) \<Rightarrow> slice \<Rightarrow> addr \<Rightarrow> nat \<Rightarrow> nat \<Rightarrow>
    ('c store, unit) go" where
  \<comment> \<open>\<open>for i := range *in { (*in)[i].DeepCopyInto(&(*out)[i]) }\<close>, from \<open>i\<close> on\<close>
  "copy_elems proj wrap into sl out i 0 = retg ()"
| "copy_elems proj wrap into sl out i (Suc n) =
     bindg (load_cell proj (sl_arr sl)) (\<lambda>xs. bindg (pureg (slice_at xs (sl_off sl + i))) (\<lambda>x.
     bindg (into x) (\<lambda>x'. bindg (load_cell proj out) (\<lambda>ys.
     bindg (store_cell (wrap (ys[i := x'])) out) (\<lambda>_. copy_elems proj wrap into sl out (Suc i) n)))))"

definition copy_slice ::
  "('c \<Rightarrow> 'v list option) \<Rightarrow> ('v list \<Rightarrow> 'c) \<Rightarrow> 'v \<Rightarrow> ('v \<Rightarrow> ('c store, 'v) go) \<Rightarrow> slice option \<Rightarrow>
    ('c store, slice option) go" where
  \<comment> \<open>\<open>make([]T, len(*in))\<close> and the loop\<close>
  "copy_slice proj wrap zero into x = (case x of
       None \<Rightarrow> retg None
     | Some sl \<Rightarrow> bindg (new_cell (wrap (replicate (sl_len sl) zero))) (\<lambda>out.
         bindg (copy_elems proj wrap into sl out 0 (sl_len sl)) (\<lambda>_.
           retg (Some \<lparr>sl_arr = out, sl_off = 0, sl_len = sl_len sl\<rparr>))))"

definition copy_flat_slice ::
  "('c \<Rightarrow> 'v list option) \<Rightarrow> ('v list \<Rightarrow> 'c) \<Rightarrow> 'v \<Rightarrow> slice option \<Rightarrow> ('c store, slice option) go" where
  \<comment> \<open>\<open>make([]T, len(*in))\<close> and \<open>copy(*out, *in)\<close>\<close>
  "copy_flat_slice proj wrap zero x = (case x of
       None \<Rightarrow> retg None
     | Some sl \<Rightarrow> bindg (new_cell (wrap (replicate (sl_len sl) zero))) (\<lambda>out.
         bindg (load_cell proj (sl_arr sl)) (\<lambda>xs.
         bindg (store_cell (wrap (take (sl_len sl) (drop (sl_off sl) xs))) out) (\<lambda>_.
           retg (Some \<lparr>sl_arr = out, sl_off = 0, sl_len = sl_len sl\<rparr>)))))"

lemma list_all2_left: "list_all2 P xs ys \<Longrightarrow> x \<in> set xs \<Longrightarrow> \<exists>y. P x y"
  by (induction rule: list_all2_induct) auto

lemma slice_elems_SomeE:
  assumes "slice_elems proj s sl = Some vs"
  obtains c xs where "cells s (sl_arr sl) = Some c" "proj c = Some xs"
    "sl_off sl + sl_len sl \<le> length xs" "vs = take (sl_len sl) (drop (sl_off sl) xs)"
  using assms by (auto simp: slice_elems_def slice_window_def bind_eq_Some_conv split: if_splits)

lemma reads_slice_SomeE:
  assumes "reads_slice proj r s x = Some oas"
  obtains "x = None" "oas = None"
  | sl vs as where "x = Some sl" "oas = Some as" "slice_elems proj s sl = Some vs" "list_all2 (\<lambda>v a. r s v = Some a) vs as"
  using assms by (auto simp: reads_slice_def those_map_eq_Some split: option.splits)

lemma slice_elems_agree:
  "slice_elems proj s sl = Some vs \<Longrightarrow> cells t (sl_arr sl) = cells s (sl_arr sl) \<Longrightarrow> slice_elems proj t sl = Some vs"
  by (simp add: slice_elems_def)

lemma reads_slice_local:
  assumes into: "deep_copier into r f"
    and r: "reads_slice proj r s x = Some oas" and ag: "agree (foot_slice proj f s x) s t"
  shows "reads_slice proj r t x = Some oas \<and> foot_slice proj f t x = foot_slice proj f s x"
  using r
proof (cases rule: reads_slice_SomeE)
  case (2 sl vs as)
  from ag 2(1) have "cells t (sl_arr sl) = cells s (sl_arr sl)"
    by (simp add: agree_def foot_slice_def)
  from slice_elems_agree [OF 2(3) this] have el: "slice_elems proj t sl = Some vs" .
  have each: "r t v = Some a \<and> f t v = f s v" if "v \<in> set vs" "r s v = Some a" for v a
  proof (rule deep_copier.local [OF into that(2)])
    show "agree (f s v) s t" using that(1) ag 2 by (auto simp: agree_def foot_slice_def)
  qed
  have "list_all2 (\<lambda>v a. r t v = Some a) vs as"
    by (rule list.rel_mono_strong [OF 2(4)]) (use each in blast)
  moreover have "(\<Union>v \<in> set vs. f t v) = (\<Union>v \<in> set vs. f s v)"
  proof (rule SUP_cong [OF refl])
    fix v assume v: "v \<in> set vs"
    from list_all2_left [OF 2(4) v] obtain a where "r s v = Some a" ..
    with each [OF v] show "f t v = f s v" by simp
  qed
  ultimately show ?thesis using 2 el by (simp add: reads_slice_def foot_slice_def those_map_eq_Some)
qed (simp add: reads_slice_def foot_slice_def)

lemma reads_slice_inside:
  assumes into: "deep_copier into r f" and r: "reads_slice proj r s x = Some oas"
  shows "foot_slice proj f s x \<subseteq> dom (cells s)"
  using r
proof (cases rule: reads_slice_SomeE)
  case (2 sl vs as)
  have "f s v \<subseteq> dom (cells s)" if "v \<in> set vs" for v
    using list_all2_left [OF 2(4) that] deep_copier.inside [OF into] by blast
  moreover have "sl_arr sl \<in> dom (cells s)" using 2(3) by (auto elim: slice_elems_SomeE)
  ultimately show ?thesis using 2 by (auto simp: foot_slice_def)
qed (simp add: foot_slice_def)

lemma copy_elems_spec:
  fixes into :: "'v \<Rightarrow> ('c store, 'v) go"
  assumes into: "deep_copier into r f" and proj: "\<And>vs. proj (wrap vs) = Some vs"
    and el: "slice_elems proj s0 sl = Some vs" and ra: "list_all2 (\<lambda>v a. r s0 v = Some a) vs as"
    and out: "cells s0 out = None"
  shows "wf_store s \<Longrightarrow> grows s0 s \<Longrightarrow> cells s out = Some (wrap ys) \<Longrightarrow> length ys = i + n \<Longrightarrow> i + n = length vs \<Longrightarrow>
    (\<And>j. j < i \<Longrightarrow> r s (ys ! j) = Some (as ! j) \<and> f s (ys ! j) \<inter> insert out (dom (cells s0)) = {}) \<Longrightarrow>
    \<exists>s' ys'. copy_elems proj wrap into sl out i n s = (Return (), s') \<and> wf_store s' \<and> grows s0 s'
      \<and> cells s' out = Some (wrap ys') \<and> length ys' = length vs
      \<and> (\<forall>j < length vs. r s' (ys' ! j) = Some (as ! j) \<and> f s' (ys' ! j) \<inter> insert out (dom (cells s0)) = {})"
proof (induction n arbitrary: s ys i)
  case 0
  then show ?case by auto
next
  case (Suc n)
  from el obtain c xs where xs: "cells s0 (sl_arr sl) = Some c" "proj c = Some xs"
    "sl_off sl + sl_len sl \<le> length xs" "vs = take (sl_len sl) (drop (sl_off sl) xs)"
    by (rule slice_elems_SomeE)
  from Suc.prems(5) xs(3,4) have i: "i < length vs" "sl_off sl + i < length xs" "xs ! (sl_off sl + i) = vs ! i"
    by auto
  have arr: "cells s (sl_arr sl) = Some c" using growsD [OF Suc.prems(2) xs(1)] .
  from ra i(1) have "r s0 (vs ! i) = Some (as ! i)" by (simp add: list_all2_conv_all_nth)
  with deep_copier.keeps_reading [OF into _ Suc.prems(2)] have "r s (vs ! i) = Some (as ! i)" by blast
  from deep_copier.copiesE [OF into Suc.prems(1) this] obtain x' s1 where
    1: "into (vs ! i) s = (Return x', s1)" "wf_store s1" "grows s s1" "r s1 x' = Some (as ! i)"
      "f s1 x' \<inter> dom (cells s) = {}" .
  let ?ys = "ys[i := x']"
  let ?s2 = "s1\<lparr>cells := (cells s1)(out \<mapsto> wrap ?ys)\<rparr>"
  have o1: "cells s1 out = Some (wrap ys)" using growsD [OF 1(3) Suc.prems(3)] .
  have step: "copy_elems proj wrap into sl out i (Suc n) s = copy_elems proj wrap into sl out (Suc i) n ?s2"
    using arr xs(2) i 1(1) o1 proj by (simp add: bindg_run load_cell_run store_cell_run slice_at_def)
  have w2: "wf_store ?s2" using wf_save [OF 1(2)] o1 by simp
  have g2: "grows s0 ?s2" using grows_save [OF grows_trans [OF Suc.prems(2) 1(3)] out] .
  have fresh: "insert out (dom (cells s0)) \<subseteq> dom (cells s)"
    using Suc.prems(3) grows_dom [OF Suc.prems(2)] by auto
  have upto: "r ?s2 (?ys ! j) = Some (as ! j) \<and> f ?s2 (?ys ! j) \<inter> insert out (dom (cells s0)) = {}"
    if "j < Suc i" for j
  proof (cases "j = i")
    case True
    have "out \<notin> f s1 x'" using 1(5) Suc.prems(3) by auto
    moreover have "f s1 x' \<inter> insert out (dom (cells s0)) = {}" using 1(5) fresh by blast
    moreover have "?ys ! j = x'" using True Suc.prems(4) by simp
    ultimately show ?thesis using deep_copier.write_elsewhere [OF into 1(4), of out] True by simp
  next
    case False
    with that have j: "j < i" by simp
    from Suc.prems(6) [OF j] have r: "r s (ys ! j) = Some (as ! j)" and
      d: "f s (ys ! j) \<inter> insert out (dom (cells s0)) = {}" by auto
    from deep_copier.keeps_reading [OF into r 1(3)] have r1: "r s1 (ys ! j) = Some (as ! j)" "f s1 (ys ! j) = f s (ys ! j)"
      by auto
    with d have "out \<notin> f s1 (ys ! j)" by auto
    from deep_copier.write_elsewhere [OF into r1(1) this] r1(2) d False show ?thesis by simp
  qed
  show ?case
    unfolding step
    using Suc.IH [OF w2 g2, of ?ys "Suc i"] Suc.prems(4,5) upto by simp
qed

lemma deep_copier_slice:
  fixes into :: "'v \<Rightarrow> ('c store, 'v) go"
  assumes into: "deep_copier into r f" and proj: "\<And>vs. proj (wrap vs) = Some vs"
  shows "deep_copier (copy_slice proj wrap zero into) (reads_slice proj r) (foot_slice proj f)"
proof
  fix s :: "'c store" and x oas
  assume wf: "wf_store s" and r: "reads_slice proj r s x = Some oas"
  from r show "\<exists>v' s'. copy_slice proj wrap zero into x s = (Return v', s') \<and> wf_store s' \<and> grows s s'
      \<and> reads_slice proj r s' v' = Some oas \<and> foot_slice proj f s' v' \<inter> dom (cells s) = {}"
  proof (cases rule: reads_slice_SomeE)
    case 1
    with wf show ?thesis by (simp add: copy_slice_def reads_slice_def foot_slice_def)
  next
    case (2 sl vs as)
    let ?o = "brk s" and ?z = "replicate (sl_len sl) zero"
    let ?s1 = "s\<lparr>cells := (cells s)(?o \<mapsto> wrap ?z), brk := Suc ?o\<rparr>"
    have n: "length vs = sl_len sl" using 2(3) by (auto elim!: slice_elems_SomeE)
    have "\<exists>s' ys'. copy_elems proj wrap into sl ?o 0 (sl_len sl) ?s1 = (Return (), s') \<and> wf_store s' \<and> grows s s'
      \<and> cells s' ?o = Some (wrap ys') \<and> length ys' = length vs
      \<and> (\<forall>j < length vs. r s' (ys' ! j) = Some (as ! j) \<and> f s' (ys' ! j) \<inter> insert ?o (dom (cells s)) = {})"
      using n grows_alloc [OF wf]
      by (intro copy_elems_spec [where proj = proj and wrap = wrap and ys = ?z, OF into proj 2(3,4) brk_fresh_cell [OF wf] wf_alloc [OF wf]]) auto
    then obtain s2 ys where c: "copy_elems proj wrap into sl ?o 0 (sl_len sl) ?s1 = (Return (), s2)" "wf_store s2"
      "grows s s2" "cells s2 ?o = Some (wrap ys)" "length ys = length vs"
      "\<And>j. j < length vs \<Longrightarrow> r s2 (ys ! j) = Some (as ! j) \<and> f s2 (ys ! j) \<inter> insert ?o (dom (cells s)) = {}"
      by blast
    let ?x = "\<lparr>sl_arr = ?o, sl_off = 0, sl_len = sl_len sl\<rparr>"
    have el: "slice_elems proj s2 ?x = Some ys" using c(4,5) n proj by (simp add: slice_elems_def slice_window_def)
    have "list_all2 (\<lambda>v a. r s2 v = Some a) ys as"
      using c(5,6) 2(4) by (simp add: list_all2_conv_all_nth)
    moreover have "(\<Union>v \<in> set ys. f s2 v) \<inter> dom (cells s) = {}"
      using c(5,6) by (fastforce simp: in_set_conv_nth)
    ultimately show ?thesis
      using 2 c el brk_fresh [OF wf]
      by (intro exI [of _ "Some ?x"] exI [of _ s2])
        (auto simp: copy_slice_def bindg_run new_cell_run reads_slice_def foot_slice_def those_map_eq_Some)
  qed
qed (fact reads_slice_local [OF into] reads_slice_inside [OF into])+

lemma deep_copier_flat_slice:
  fixes proj :: "'c \<Rightarrow> 'v list option"
  assumes proj: "\<And>vs. proj (wrap vs) = Some vs"
  shows "deep_copier (copy_flat_slice proj wrap zero) (reads_slice proj (\<lambda>s v. Some (g v))) (foot_slice proj (\<lambda>s v. {}))"
proof
  fix s :: "'c store" and x oas
  assume wf: "wf_store s" and r: "reads_slice proj (\<lambda>s v. Some (g v)) s x = Some oas"
  from r show "\<exists>v' s'. copy_flat_slice proj wrap zero x s = (Return v', s') \<and> wf_store s' \<and> grows s s'
      \<and> reads_slice proj (\<lambda>s v. Some (g v)) s' v' = Some oas \<and> foot_slice proj (\<lambda>s v. {}) s' v' \<inter> dom (cells s) = {}"
  proof (cases rule: reads_slice_SomeE)
    case 1
    with wf show ?thesis by (simp add: copy_flat_slice_def reads_slice_def foot_slice_def)
  next
    case (2 sl vs as)
    from 2(3) obtain c xs where xs: "cells s (sl_arr sl) = Some c" "proj c = Some xs"
      "sl_off sl + sl_len sl \<le> length xs" "vs = take (sl_len sl) (drop (sl_off sl) xs)" by (rule slice_elems_SomeE)
    let ?o = "brk s" and ?z = "replicate (sl_len sl) zero"
    let ?s1 = "s\<lparr>cells := (cells s)(?o \<mapsto> wrap ?z), brk := Suc ?o\<rparr>"
    let ?s2 = "?s1\<lparr>cells := (cells ?s1)(?o \<mapsto> wrap vs)\<rparr>"
    have "sl_arr sl \<noteq> ?o" using brk_fresh_cell [OF wf] xs(1) by auto
    then have ld: "load_cell proj (sl_arr sl) ?s1 = (Return xs, ?s1)" using xs(1,2) by (intro load_cell_run) auto
    have "wf_store ?s2" by (rule wf_save [OF wf_alloc [OF wf]]) simp
    moreover have "grows s ?s2" using brk_fresh_cell [OF wf] by (auto simp: grows_def)
    moreover have "slice_elems proj ?s2 \<lparr>sl_arr = ?o, sl_off = 0, sl_len = sl_len sl\<rparr> = Some vs"
      using xs(3,4) proj by (simp add: slice_elems_def slice_window_def)
    ultimately show ?thesis
      using 2 ld xs(4) brk_fresh [OF wf]
      by (intro exI [of _ "Some \<lparr>sl_arr = ?o, sl_off = 0, sl_len = sl_len sl\<rparr>"] exI [of _ ?s2])
        (auto simp: copy_flat_slice_def bindg_run new_cell_run store_cell_run reads_slice_def foot_slice_def those_map_eq_Some)
  qed
qed (fact reads_slice_local [OF deep_copier_flat] reads_slice_inside [OF deep_copier_flat])+

section \<open>Maps\<close>

definition copy_entry ::
  "('c \<Rightarrow> gomap option) \<Rightarrow> (gomap \<Rightarrow> 'c) \<Rightarrow> gomap \<Rightarrow> addr \<Rightarrow> string \<Rightarrow> unit \<Rightarrow> ('c store, unit) go" where
  \<comment> \<open>\<open>(*out)[key] = val\<close>\<close>
  "copy_entry proj wrap m out key u =
     bindg (load_cell proj out) (\<lambda>l. store_cell (wrap (fmupd key (the (fmlookup m key)) l)) out)"

definition copy_map ::
  "range_order \<Rightarrow> ('c \<Rightarrow> gomap option) \<Rightarrow> (gomap \<Rightarrow> 'c) \<Rightarrow> addr option \<Rightarrow> ('c store, addr option) go" where
  \<comment> \<open>\<open>make(map[string]string)\<close> and the loop over the original\<close>
  "copy_map ord proj wrap ptr = (case ptr of
       None \<Rightarrow> retg None
     | Some p \<Rightarrow> bindg (new_cell (wrap fmempty)) (\<lambda>out.
         bindg (load_cell proj p) (\<lambda>m.
         bindg (foldg (copy_entry proj wrap m out) (ord m) ()) (\<lambda>_. retg (Some out)))))"

definition reads_map :: "('c \<Rightarrow> gomap option) \<Rightarrow> 'c store \<Rightarrow> addr option \<Rightarrow> gomap option option" where
  "reads_map proj = reads_ptr proj (\<lambda>s m. Some m)"

definition foot_map :: "('c \<Rightarrow> gomap option) \<Rightarrow> 'c store \<Rightarrow> addr option \<Rightarrow> addr set" where
  "foot_map proj = foot_ptr proj (\<lambda>s m. {})"

lemma fold_entries:
  "fmlookup (fold (\<lambda>k. fmupd k (g k)) ks l) x = (if x \<in> set ks then Some (g x) else fmlookup l x)"
  by (induction ks arbitrary: l) auto

lemma fold_entries_range:
  assumes "range_contract ord"
  shows "fold (\<lambda>k. fmupd k (the (fmlookup m k))) (ord m) fmempty = m"
proof (rule fmap_ext)
  fix k
  have "set (ord m) = fset (fmdom m)" using assms by (simp add: range_contract_def)
  then show "fmlookup (fold (\<lambda>k. fmupd k (the (fmlookup m k))) (ord m) fmempty) k = fmlookup m k"
    by (simp add: fold_entries fmlookup_dom_iff)
qed

lemma copy_entries_run:
  assumes proj: "\<And>m. proj (wrap m) = Some m"
  shows "cells s out = Some (wrap l) \<Longrightarrow> foldg (copy_entry proj wrap m out) ks () s =
     (Return (), s\<lparr>cells := (cells s)(out \<mapsto> wrap (fold (\<lambda>k. fmupd k (the (fmlookup m k))) ks l))\<rparr>)"
proof (induction ks arbitrary: s l)
  case Nil
  then show ?case by (simp add: fun_upd_idem)
next
  case (Cons k ks)
  have "copy_entry proj wrap m out k () s =
      (Return (), s\<lparr>cells := (cells s)(out \<mapsto> wrap (fmupd k (the (fmlookup m k)) l))\<rparr>)"
    using Cons.prems proj by (simp add: copy_entry_def bindg_run load_cell_run store_cell_run)
  then show ?case by (simp add: bindg_run Cons.IH fun_upd_def cong: if_cong)
qed

lemma deep_copier_map:
  assumes ord: "range_contract ord" and proj: "\<And>m. proj (wrap m) = Some m"
  shows "deep_copier (copy_map ord proj wrap) (reads_map proj) (foot_map proj)"
proof -
  have flat: "deep_copier (new_copy proj wrap fmempty retg) (reads_map proj) (foot_map proj)"
    unfolding reads_map_def foot_map_def
    by (rule deep_copier_ptr [where wrap = wrap, OF deep_copier_flat proj])
  show ?thesis
  proof
    fix s :: "'a store" and ptr om
    assume wf: "wf_store s" and r: "reads_map proj s ptr = Some om"
    have "copy_map ord proj wrap ptr s = new_copy proj wrap fmempty retg ptr s"
    proof (cases ptr)
      case (Some p)
      with r obtain c m where c: "cells s p = Some c" "proj c = Some m"
        by (auto simp: reads_map_def reads_ptr_def bind_eq_Some_conv split: option.splits)
      let ?s1 = "s\<lparr>cells := (cells s)(brk s \<mapsto> wrap fmempty), brk := Suc (brk s)\<rparr>"
      have "p \<noteq> brk s" using brk_fresh_cell [OF wf] c(1) by auto
      then have "load_cell proj p ?s1 = (Return m, ?s1)" using c by (intro load_cell_run) auto
      then show ?thesis
        using Some copy_entries_run [where wrap = wrap, OF proj, of ?s1 "brk s" fmempty m "ord m"] fold_entries_range [OF ord, of m]
        by (simp add: copy_map_def new_copy_def bindg_run new_cell_run store_cell_run)
    qed (simp add: copy_map_def new_copy_def)
    with deep_copier.copies [OF flat wf r] show "\<exists>v' s'. copy_map ord proj wrap ptr s = (Return v', s')
      \<and> wf_store s' \<and> grows s s' \<and> reads_map proj s' v' = Some om \<and> foot_map proj s' v' \<inter> dom (cells s) = {}"
      by simp
  qed (fact deep_copier.local [OF flat] deep_copier.inside [OF flat])+
qed

end
