(* ===== verification/Deep_Copy.thy ===== *)
theory Deep_Copy
  imports Go_Heap Api_Types
begin

text \<open>
  \<open>api/v1/zz_generated.deepcopy.go\<close>: \<open>DeepCopyInto\<close>, \<open>DeepCopy\<close> and
  \<open>DeepCopyObject\<close> of every type of the API group, over the memory of \<open>Go_Heap\<close>. Here a
  pointer, a slice and a map are what they are in Go, so nil and empty are told apart and what two
  objects share can be stated. A struct is a record whose fields with references have a type of their
  own, \<open>'p\<close>: an address in memory, the contents in the value the object stands for.

  The deep copies of the API machinery (\<open>ObjectMeta\<close>, \<open>ListMeta\<close>, \<open>JSON\<close>,
  \<open>Time\<close>) are not under src/: they are the fields of \<open>library\<close>, and the locale
  \<open>copy_runtime\<close> states what is documented of them.
\<close>

section \<open>The structs\<close>

record type_meta =
  ty_kind :: string
  ty_apiVersion :: string

record 't go_condition =
  kcd_type :: string
  kcd_status :: string
  kcd_lastTransitionTime :: 't
  kcd_reason :: string
  kcd_message :: string

record 'p go_entity_spec =
  ke_identity :: string
  ke_organization :: string
  ke_privileged :: bool
  ke_onSecondary :: bool
  ke_serialNumber :: string
  ke_ordinalIndex :: 'p
  ke_model :: string
  ke_secret :: string
  ke_syncPeriod :: int32
  ke_usage :: string
  ke_decommissioned :: bool

record ('m, 'p, 'j, 't) go_entity_status =
  kes_urls :: 'm
  kes_podName :: string
  kes_conditions :: 'p
  kes_data :: 'j
  kes_lastSyncTime :: 't
  kes_phase :: string
  kes_observedGeneration :: int64

record 'p go_group_spec =
  kg_description :: string
  kg_owner :: string
  kg_contact :: string
  kg_lastTargets :: 'p
  kg_type :: string

record 'p go_group_status =
  kgs_totalEntities :: int
  kgs_conditions :: 'p
  kgs_observedGeneration :: int64
  kgs_phase :: string

record 'p go_model_spec =
  km_modelNumber :: string
  km_description :: string
  km_dockerImage :: string
  km_ingressUrl :: string
  km_statefulSetName :: string
  km_targetReplicas :: 'p
  km_taskEndpoint :: string
  km_ctrlEndpoint :: string
  km_statusEndpoint :: string
  km_defaultSyncPeriod :: int32
  km_enableSecondary :: bool

record ('s, 'p) go_model_status =
  kms_deactiveEntities :: 's
  kms_disconnectedEntities :: 's
  kms_conditions :: 'p
  kms_phase :: string
  kms_currentReplicas :: string
  kms_observedGeneration :: int64

record ('t, 'j, 'p) go_task_spec =
  kt_description :: string
  kt_dockerImage :: string
  kt_schedule :: string
  kt_runTime :: 't
  kt_offset :: int32
  kt_payload :: 'j
  kt_targets :: 'p
  kt_dryRun :: bool
  kt_unConditonalRun :: bool
  kt_persistant :: bool

record ('p, 's, 't) go_task_status =
  kts_conditions :: 'p
  kts_observedGeneration :: int64
  kts_phase :: string
  kts_failedEntities :: 's
  kts_executeTime :: 't
  kts_completedTime :: 't

text \<open>The four resources have one shape, and so have their lists.\<close>

record ('m, 's, 't) go_object =
  ko_type :: type_meta
  ko_meta :: 'm
  ko_spec :: 's
  ko_status :: 't

record ('m, 'i) go_list =
  kl_type :: type_meta
  kl_meta :: 'm
  kl_items :: 'i

text \<open>In memory. \<open>'x\<close> is the type of the library's own structs.\<close>

type_synonym 'x mem_condition = "'x go_condition"
type_synonym mem_entity_spec = "addr option go_entity_spec"
type_synonym 'x mem_entity_status = "(addr option, slice option, 'x, 'x) go_entity_status"
type_synonym mem_group_spec = "addr option go_group_spec"
type_synonym mem_group_status = "slice option go_group_status"
type_synonym mem_model_spec = "addr option go_model_spec"
type_synonym mem_model_status = "(slice option, slice option) go_model_status"
type_synonym 'x mem_task_spec = "(addr option, 'x, addr option) go_task_spec"
type_synonym 'x mem_task_status = "(slice option, slice option, 'x) go_task_status"
type_synonym 'x mem_entity = "('x, mem_entity_spec, 'x mem_entity_status) go_object"
type_synonym 'x mem_group = "('x, mem_group_spec, mem_group_status) go_object"
type_synonym 'x mem_model = "('x, mem_model_spec, mem_model_status) go_object"
type_synonym 'x mem_task = "('x, 'x mem_task_spec, 'x mem_task_status) go_object"
type_synonym 'x mem_list = "('x, slice option) go_list"
type_synonym 'x mem_entity_list = "'x mem_list"
type_synonym 'x mem_group_list = "'x mem_list"
type_synonym 'x mem_model_list = "'x mem_list"
type_synonym 'x mem_task_list = "'x mem_list"

text \<open>As values.\<close>

type_synonym val_condition = "gotime go_condition"
type_synonym conditions = "val_condition list option"
type_synonym names = "string list option"
type_synonym targets = "target_ref list option option"
type_synonym val_entity_spec = "int32 option go_entity_spec"
type_synonym val_entity_status = "(gomap option, conditions, string, gotime) go_entity_status"
type_synonym val_group_spec = "targets go_group_spec"
type_synonym val_group_status = "conditions go_group_status"
type_synonym val_model_spec = "int32 option go_model_spec"
type_synonym val_model_status = "(names, conditions) go_model_status"
type_synonym val_task_spec = "(gotime option, string, targets) go_task_spec"
type_synonym val_task_status = "(conditions, names, gotime) go_task_status"
type_synonym val_entity = "(object_meta, val_entity_spec, val_entity_status) go_object"
type_synonym val_group = "(object_meta, val_group_spec, val_group_status) go_object"
type_synonym val_model = "(object_meta, val_model_spec, val_model_status) go_object"
type_synonym val_task = "(object_meta, val_task_spec, val_task_status) go_object"
type_synonym 'o val_list = "(string, 'o list option) go_list"

text \<open>A cell of memory: what a pointer points to, the array of a slice, or a map.\<close>

datatype 'x cell =
    CInt32 int32
  | CStringMap gomap
  | CStrings "string list"
  | CTargetRefs "target_ref list"
  | CTargetSlice "slice option"
  | CLibrary "'x"
  | CCondition "'x mem_condition"
  | CConditions "'x mem_condition list"
  | CEntitySpec mem_entity_spec
  | CEntityStatus "'x mem_entity_status"
  | CEntity "'x mem_entity"
  | CEntities "'x mem_entity list"
  | CEntityList "'x mem_entity_list"
  | CGroupSpec mem_group_spec
  | CGroupStatus mem_group_status
  | CGroup "'x mem_group"
  | CGroups "'x mem_group list"
  | CGroupList "'x mem_group_list"
  | CModelSpec mem_model_spec
  | CModelStatus mem_model_status
  | CModel "'x mem_model"
  | CModels "'x mem_model list"
  | CModelList "'x mem_model_list"
  | CTaskSpec "'x mem_task_spec"
  | CTaskStatus "'x mem_task_status"
  | CTask "'x mem_task"
  | CTasks "'x mem_task list"
  | CTaskList "'x mem_task_list"
  | CTargetRef target_ref
  | CPodValidator unit

definition at_Int32 :: "'x cell \<Rightarrow> int32 option" where
  "at_Int32 c = (case c of CInt32 v \<Rightarrow> Some v | _ \<Rightarrow> None)"

definition at_StringMap :: "'x cell \<Rightarrow> gomap option" where
  "at_StringMap c = (case c of CStringMap v \<Rightarrow> Some v | _ \<Rightarrow> None)"

definition at_Strings :: "'x cell \<Rightarrow> (string list) option" where
  "at_Strings c = (case c of CStrings v \<Rightarrow> Some v | _ \<Rightarrow> None)"

definition at_TargetRefs :: "'x cell \<Rightarrow> (target_ref list) option" where
  "at_TargetRefs c = (case c of CTargetRefs v \<Rightarrow> Some v | _ \<Rightarrow> None)"

definition at_TargetSlice :: "'x cell \<Rightarrow> (slice option) option" where
  "at_TargetSlice c = (case c of CTargetSlice v \<Rightarrow> Some v | _ \<Rightarrow> None)"

definition at_Library :: "'x cell \<Rightarrow> 'x option" where
  "at_Library c = (case c of CLibrary v \<Rightarrow> Some v | _ \<Rightarrow> None)"

definition at_Condition :: "'x cell \<Rightarrow> ('x mem_condition) option" where
  "at_Condition c = (case c of CCondition v \<Rightarrow> Some v | _ \<Rightarrow> None)"

definition at_Conditions :: "'x cell \<Rightarrow> ('x mem_condition list) option" where
  "at_Conditions c = (case c of CConditions v \<Rightarrow> Some v | _ \<Rightarrow> None)"

definition at_EntitySpec :: "'x cell \<Rightarrow> mem_entity_spec option" where
  "at_EntitySpec c = (case c of CEntitySpec v \<Rightarrow> Some v | _ \<Rightarrow> None)"

definition at_EntityStatus :: "'x cell \<Rightarrow> ('x mem_entity_status) option" where
  "at_EntityStatus c = (case c of CEntityStatus v \<Rightarrow> Some v | _ \<Rightarrow> None)"

definition at_Entity :: "'x cell \<Rightarrow> ('x mem_entity) option" where
  "at_Entity c = (case c of CEntity v \<Rightarrow> Some v | _ \<Rightarrow> None)"

definition at_Entities :: "'x cell \<Rightarrow> ('x mem_entity list) option" where
  "at_Entities c = (case c of CEntities v \<Rightarrow> Some v | _ \<Rightarrow> None)"

definition at_EntityList :: "'x cell \<Rightarrow> ('x mem_entity_list) option" where
  "at_EntityList c = (case c of CEntityList v \<Rightarrow> Some v | _ \<Rightarrow> None)"

definition at_GroupSpec :: "'x cell \<Rightarrow> mem_group_spec option" where
  "at_GroupSpec c = (case c of CGroupSpec v \<Rightarrow> Some v | _ \<Rightarrow> None)"

definition at_GroupStatus :: "'x cell \<Rightarrow> mem_group_status option" where
  "at_GroupStatus c = (case c of CGroupStatus v \<Rightarrow> Some v | _ \<Rightarrow> None)"

definition at_Group :: "'x cell \<Rightarrow> ('x mem_group) option" where
  "at_Group c = (case c of CGroup v \<Rightarrow> Some v | _ \<Rightarrow> None)"

definition at_Groups :: "'x cell \<Rightarrow> ('x mem_group list) option" where
  "at_Groups c = (case c of CGroups v \<Rightarrow> Some v | _ \<Rightarrow> None)"

definition at_GroupList :: "'x cell \<Rightarrow> ('x mem_group_list) option" where
  "at_GroupList c = (case c of CGroupList v \<Rightarrow> Some v | _ \<Rightarrow> None)"

definition at_ModelSpec :: "'x cell \<Rightarrow> mem_model_spec option" where
  "at_ModelSpec c = (case c of CModelSpec v \<Rightarrow> Some v | _ \<Rightarrow> None)"

definition at_ModelStatus :: "'x cell \<Rightarrow> mem_model_status option" where
  "at_ModelStatus c = (case c of CModelStatus v \<Rightarrow> Some v | _ \<Rightarrow> None)"

definition at_Model :: "'x cell \<Rightarrow> ('x mem_model) option" where
  "at_Model c = (case c of CModel v \<Rightarrow> Some v | _ \<Rightarrow> None)"

definition at_Models :: "'x cell \<Rightarrow> ('x mem_model list) option" where
  "at_Models c = (case c of CModels v \<Rightarrow> Some v | _ \<Rightarrow> None)"

definition at_ModelList :: "'x cell \<Rightarrow> ('x mem_model_list) option" where
  "at_ModelList c = (case c of CModelList v \<Rightarrow> Some v | _ \<Rightarrow> None)"

definition at_TaskSpec :: "'x cell \<Rightarrow> ('x mem_task_spec) option" where
  "at_TaskSpec c = (case c of CTaskSpec v \<Rightarrow> Some v | _ \<Rightarrow> None)"

definition at_TaskStatus :: "'x cell \<Rightarrow> ('x mem_task_status) option" where
  "at_TaskStatus c = (case c of CTaskStatus v \<Rightarrow> Some v | _ \<Rightarrow> None)"

definition at_Task :: "'x cell \<Rightarrow> ('x mem_task) option" where
  "at_Task c = (case c of CTask v \<Rightarrow> Some v | _ \<Rightarrow> None)"

definition at_Tasks :: "'x cell \<Rightarrow> ('x mem_task list) option" where
  "at_Tasks c = (case c of CTasks v \<Rightarrow> Some v | _ \<Rightarrow> None)"

definition at_TaskList :: "'x cell \<Rightarrow> ('x mem_task_list) option" where
  "at_TaskList c = (case c of CTaskList v \<Rightarrow> Some v | _ \<Rightarrow> None)"

definition at_TargetRef :: "'x cell \<Rightarrow> target_ref option" where
  "at_TargetRef c = (case c of CTargetRef v \<Rightarrow> Some v | _ \<Rightarrow> None)"

definition at_PodValidator :: "'x cell \<Rightarrow> unit option" where
  "at_PodValidator c = (case c of CPodValidator v \<Rightarrow> Some v | _ \<Rightarrow> None)"

lemmas at_defs =
  at_Int32_def at_StringMap_def at_Strings_def at_TargetRefs_def at_TargetSlice_def at_Library_def
  at_Condition_def at_Conditions_def at_EntitySpec_def at_EntityStatus_def at_Entity_def at_Entities_def
  at_EntityList_def at_GroupSpec_def at_GroupStatus_def at_Group_def at_Groups_def at_GroupList_def
  at_ModelSpec_def at_ModelStatus_def at_Model_def at_Models_def at_ModelList_def at_TaskSpec_def
  at_TaskStatus_def at_Task_def at_Tasks_def at_TaskList_def at_TargetRef_def at_PodValidator_def

lemma at_cell [simp]:
  "at_Int32 (CInt32 v0) = Some v0"
  "at_StringMap (CStringMap v1) = Some v1"
  "at_Strings (CStrings v2) = Some v2"
  "at_TargetRefs (CTargetRefs v3) = Some v3"
  "at_TargetSlice (CTargetSlice v4) = Some v4"
  "at_Library (CLibrary v5) = Some v5"
  "at_Condition (CCondition v6) = Some v6"
  "at_Conditions (CConditions v7) = Some v7"
  "at_EntitySpec (CEntitySpec v8) = Some v8"
  "at_EntityStatus (CEntityStatus v9) = Some v9"
  "at_Entity (CEntity v10) = Some v10"
  "at_Entities (CEntities v11) = Some v11"
  "at_EntityList (CEntityList v12) = Some v12"
  "at_GroupSpec (CGroupSpec v13) = Some v13"
  "at_GroupStatus (CGroupStatus v14) = Some v14"
  "at_Group (CGroup v15) = Some v15"
  "at_Groups (CGroups v16) = Some v16"
  "at_GroupList (CGroupList v17) = Some v17"
  "at_ModelSpec (CModelSpec v18) = Some v18"
  "at_ModelStatus (CModelStatus v19) = Some v19"
  "at_Model (CModel v20) = Some v20"
  "at_Models (CModels v21) = Some v21"
  "at_ModelList (CModelList v22) = Some v22"
  "at_TaskSpec (CTaskSpec v23) = Some v23"
  "at_TaskStatus (CTaskStatus v24) = Some v24"
  "at_Task (CTask v25) = Some v25"
  "at_Tasks (CTasks v26) = Some v26"
  "at_TaskList (CTaskList v27) = Some v27"
  "at_TargetRef (CTargetRef v28) = Some v28"
  "at_PodValidator (CPodValidator v29) = Some v29"
  by (simp_all add: at_defs)

section \<open>The library\<close>

record 'x library =
  lib_ObjectMeta_DeepCopyInto :: "'x \<Rightarrow> ('x cell store, 'x) go"
  lib_ListMeta_DeepCopyInto :: "'x \<Rightarrow> ('x cell store, 'x) go"
  lib_JSON_DeepCopyInto :: "'x \<Rightarrow> ('x cell store, 'x) go"
  lib_Time_DeepCopyInto :: "'x \<Rightarrow> ('x cell store, 'x) go"
  lib_Time_DeepCopy :: "addr \<Rightarrow> ('x cell store, addr option) go"
  lib_zero_meta :: 'x
  lib_zero_list :: 'x
  lib_zero_json :: 'x
  lib_zero_time :: 'x

text \<open>What a struct of the library stands for, and the cells it reaches.\<close>

record 'x library_view =
  view_meta :: "'x cell store \<Rightarrow> 'x \<Rightarrow> object_meta option"
  view_list :: "'x cell store \<Rightarrow> 'x \<Rightarrow> string option"
  view_json :: "'x cell store \<Rightarrow> 'x \<Rightarrow> string option"
  view_time :: "'x cell store \<Rightarrow> 'x \<Rightarrow> gotime option"
  view_foot :: "'x cell store \<Rightarrow> 'x \<Rightarrow> addr set"

definition Time_pointer_copy :: "'x library \<Rightarrow> addr option \<Rightarrow> ('x cell store, addr option) go" where
  \<comment> \<open>\<open>if in.RunTime != nil { *out = (*in).DeepCopy() }\<close>\<close>
  "Time_pointer_copy lib ptr = (case ptr of None \<Rightarrow> retg None | Some p \<Rightarrow> lib_Time_DeepCopy lib p)"

section \<open>DeepCopyInto and DeepCopy\<close>

text \<open>
  \<open>T_DeepCopyInto v\<close> is the struct that \<open>in.DeepCopyInto(out)\<close> leaves in \<open>*out\<close> when
  \<open>*in\<close> is \<open>v\<close>. The zero values are what \<open>new\<close> and \<open>make\<close> give.
\<close>

definition zero_Condition :: "'x library \<Rightarrow> 'x mem_condition" where
  "zero_Condition lib = \<lparr>kcd_type = [], kcd_status = [], kcd_lastTransitionTime = lib_zero_time lib,
     kcd_reason = [], kcd_message = []\<rparr>"

definition Condition_DeepCopyInto :: "'x library \<Rightarrow> 'x mem_condition \<Rightarrow> ('x cell store, 'x mem_condition) go" where
  "Condition_DeepCopyInto lib v =
     bindg (lib_Time_DeepCopyInto lib (kcd_lastTransitionTime v)) (\<lambda>t.
       retg (v\<lparr>kcd_lastTransitionTime := t\<rparr>))"

definition Condition_DeepCopy :: "'x library \<Rightarrow> addr option \<Rightarrow> ('x cell store, addr option) go" where
  "Condition_DeepCopy lib = new_copy at_Condition CCondition (zero_Condition lib) (Condition_DeepCopyInto lib)"

definition Conditions_copy :: "'x library \<Rightarrow> slice option \<Rightarrow> ('x cell store, slice option) go" where
  \<comment> \<open>the loop over \<open>in.Conditions\<close>, the same in every status\<close>
  "Conditions_copy lib = copy_slice at_Conditions CConditions (zero_Condition lib) (Condition_DeepCopyInto lib)"

definition Strings_copy :: "slice option \<Rightarrow> ('x cell store, slice option) go" where
  "Strings_copy = copy_flat_slice at_Strings CStrings []"

definition Int32_copy :: "addr option \<Rightarrow> ('x cell store, addr option) go" where
  \<comment> \<open>\<open>*out = new(int32); **out = **in\<close>\<close>
  "Int32_copy = new_copy at_Int32 CInt32 0 retg"

definition zero_TargetRef :: target_ref where
  "zero_TargetRef = \<lparr>tr_type = [], tr_name = [], tr_action = []\<rparr>"

definition TargetRef_DeepCopyInto :: "target_ref \<Rightarrow> ('x cell store, target_ref) go" where
  "TargetRef_DeepCopyInto v = retg v"

definition TargetRef_DeepCopy :: "addr option \<Rightarrow> ('x cell store, addr option) go" where
  "TargetRef_DeepCopy = new_copy at_TargetRef CTargetRef zero_TargetRef TargetRef_DeepCopyInto"

definition TargetSlice_copy :: "addr option \<Rightarrow> ('x cell store, addr option) go" where
  \<comment> \<open>\<open>*out = new([]TargetRef)\<close>, and the slice behind the pointer when it is not nil\<close>
  "TargetSlice_copy = new_copy at_TargetSlice CTargetSlice None
     (copy_flat_slice at_TargetRefs CTargetRefs zero_TargetRef)"

definition PodValidator_DeepCopyInto :: "unit \<Rightarrow> ('x cell store, unit) go" where
  "PodValidator_DeepCopyInto v = retg v"

definition PodValidator_DeepCopy :: "addr option \<Rightarrow> ('x cell store, addr option) go" where
  "PodValidator_DeepCopy = new_copy at_PodValidator CPodValidator () PodValidator_DeepCopyInto"

subsection \<open>Specs and statuses\<close>

definition zero_EntitySpec :: mem_entity_spec where
  "zero_EntitySpec = \<lparr>ke_identity = [], ke_organization = [], ke_privileged = False, ke_onSecondary = False,
     ke_serialNumber = [], ke_ordinalIndex = None, ke_model = [], ke_secret = [], ke_syncPeriod = 0,
     ke_usage = [], ke_decommissioned = False\<rparr>"

definition EntitySpec_DeepCopyInto :: "mem_entity_spec \<Rightarrow> ('x cell store, mem_entity_spec) go" where
  "EntitySpec_DeepCopyInto v = bindg (Int32_copy (ke_ordinalIndex v)) (\<lambda>i. retg (v\<lparr>ke_ordinalIndex := i\<rparr>))"

definition EntitySpec_DeepCopy :: "addr option \<Rightarrow> ('x cell store, addr option) go" where
  "EntitySpec_DeepCopy = new_copy at_EntitySpec CEntitySpec zero_EntitySpec EntitySpec_DeepCopyInto"

definition zero_EntityStatus :: "'x library \<Rightarrow> 'x mem_entity_status" where
  "zero_EntityStatus lib = \<lparr>kes_urls = None, kes_podName = [], kes_conditions = None,
     kes_data = lib_zero_json lib, kes_lastSyncTime = lib_zero_time lib, kes_phase = [],
     kes_observedGeneration = 0\<rparr>"

definition EntityStatus_DeepCopyInto ::
  "range_order \<Rightarrow> 'x library \<Rightarrow> 'x mem_entity_status \<Rightarrow> ('x cell store, 'x mem_entity_status) go" where
  "EntityStatus_DeepCopyInto ord lib v =
     bindg (copy_map ord at_StringMap CStringMap (kes_urls v)) (\<lambda>urls.
     bindg (Conditions_copy lib (kes_conditions v)) (\<lambda>conds.
     bindg (lib_JSON_DeepCopyInto lib (kes_data v)) (\<lambda>data.
     bindg (lib_Time_DeepCopyInto lib (kes_lastSyncTime v)) (\<lambda>sync.
       retg (v\<lparr>kes_urls := urls, kes_conditions := conds, kes_data := data, kes_lastSyncTime := sync\<rparr>)))))"

definition EntityStatus_DeepCopy ::
  "range_order \<Rightarrow> 'x library \<Rightarrow> addr option \<Rightarrow> ('x cell store, addr option) go" where
  "EntityStatus_DeepCopy ord lib =
     new_copy at_EntityStatus CEntityStatus (zero_EntityStatus lib) (EntityStatus_DeepCopyInto ord lib)"

definition zero_GroupSpec :: mem_group_spec where
  "zero_GroupSpec = \<lparr>kg_description = [], kg_owner = [], kg_contact = [], kg_lastTargets = None, kg_type = []\<rparr>"

definition GroupSpec_DeepCopyInto :: "mem_group_spec \<Rightarrow> ('x cell store, mem_group_spec) go" where
  "GroupSpec_DeepCopyInto v = bindg (TargetSlice_copy (kg_lastTargets v)) (\<lambda>t. retg (v\<lparr>kg_lastTargets := t\<rparr>))"

definition GroupSpec_DeepCopy :: "addr option \<Rightarrow> ('x cell store, addr option) go" where
  "GroupSpec_DeepCopy = new_copy at_GroupSpec CGroupSpec zero_GroupSpec GroupSpec_DeepCopyInto"

definition zero_GroupStatus :: mem_group_status where
  "zero_GroupStatus = \<lparr>kgs_totalEntities = 0, kgs_conditions = None, kgs_observedGeneration = 0, kgs_phase = []\<rparr>"

definition GroupStatus_DeepCopyInto ::
  "'x library \<Rightarrow> mem_group_status \<Rightarrow> ('x cell store, mem_group_status) go" where
  "GroupStatus_DeepCopyInto lib v =
     bindg (Conditions_copy lib (kgs_conditions v)) (\<lambda>conds. retg (v\<lparr>kgs_conditions := conds\<rparr>))"

definition GroupStatus_DeepCopy :: "'x library \<Rightarrow> addr option \<Rightarrow> ('x cell store, addr option) go" where
  "GroupStatus_DeepCopy lib =
     new_copy at_GroupStatus CGroupStatus zero_GroupStatus (GroupStatus_DeepCopyInto lib)"

definition zero_ModelSpec :: mem_model_spec where
  "zero_ModelSpec = \<lparr>km_modelNumber = [], km_description = [], km_dockerImage = [], km_ingressUrl = [],
     km_statefulSetName = [], km_targetReplicas = None, km_taskEndpoint = [], km_ctrlEndpoint = [],
     km_statusEndpoint = [], km_defaultSyncPeriod = 0, km_enableSecondary = False\<rparr>"

definition ModelSpec_DeepCopyInto :: "mem_model_spec \<Rightarrow> ('x cell store, mem_model_spec) go" where
  "ModelSpec_DeepCopyInto v = bindg (Int32_copy (km_targetReplicas v)) (\<lambda>i. retg (v\<lparr>km_targetReplicas := i\<rparr>))"

definition ModelSpec_DeepCopy :: "addr option \<Rightarrow> ('x cell store, addr option) go" where
  "ModelSpec_DeepCopy = new_copy at_ModelSpec CModelSpec zero_ModelSpec ModelSpec_DeepCopyInto"

definition zero_ModelStatus :: mem_model_status where
  "zero_ModelStatus = \<lparr>kms_deactiveEntities = None, kms_disconnectedEntities = None, kms_conditions = None,
     kms_phase = [], kms_currentReplicas = [], kms_observedGeneration = 0\<rparr>"

definition ModelStatus_DeepCopyInto ::
  "'x library \<Rightarrow> mem_model_status \<Rightarrow> ('x cell store, mem_model_status) go" where
  "ModelStatus_DeepCopyInto lib v =
     bindg (Strings_copy (kms_deactiveEntities v)) (\<lambda>deactive.
     bindg (Strings_copy (kms_disconnectedEntities v)) (\<lambda>disconnected.
     bindg (Conditions_copy lib (kms_conditions v)) (\<lambda>conds.
       retg (v\<lparr>kms_deactiveEntities := deactive, kms_disconnectedEntities := disconnected,
               kms_conditions := conds\<rparr>))))"

definition ModelStatus_DeepCopy :: "'x library \<Rightarrow> addr option \<Rightarrow> ('x cell store, addr option) go" where
  "ModelStatus_DeepCopy lib =
     new_copy at_ModelStatus CModelStatus zero_ModelStatus (ModelStatus_DeepCopyInto lib)"

definition zero_TaskSpec :: "'x library \<Rightarrow> 'x mem_task_spec" where
  "zero_TaskSpec lib = \<lparr>kt_description = [], kt_dockerImage = [], kt_schedule = [], kt_runTime = None,
     kt_offset = 0, kt_payload = lib_zero_json lib, kt_targets = None, kt_dryRun = False,
     kt_unConditonalRun = False, kt_persistant = False\<rparr>"

definition TaskSpec_DeepCopyInto :: "'x library \<Rightarrow> 'x mem_task_spec \<Rightarrow> ('x cell store, 'x mem_task_spec) go" where
  "TaskSpec_DeepCopyInto lib v =
     bindg (Time_pointer_copy lib (kt_runTime v)) (\<lambda>run.
     bindg (lib_JSON_DeepCopyInto lib (kt_payload v)) (\<lambda>payload.
     bindg (TargetSlice_copy (kt_targets v)) (\<lambda>targets.
       retg (v\<lparr>kt_runTime := run, kt_payload := payload, kt_targets := targets\<rparr>))))"

definition TaskSpec_DeepCopy :: "'x library \<Rightarrow> addr option \<Rightarrow> ('x cell store, addr option) go" where
  "TaskSpec_DeepCopy lib = new_copy at_TaskSpec CTaskSpec (zero_TaskSpec lib) (TaskSpec_DeepCopyInto lib)"

definition zero_TaskStatus :: "'x library \<Rightarrow> 'x mem_task_status" where
  "zero_TaskStatus lib = \<lparr>kts_conditions = None, kts_observedGeneration = 0, kts_phase = [],
     kts_failedEntities = None, kts_executeTime = lib_zero_time lib, kts_completedTime = lib_zero_time lib\<rparr>"

definition TaskStatus_DeepCopyInto ::
  "'x library \<Rightarrow> 'x mem_task_status \<Rightarrow> ('x cell store, 'x mem_task_status) go" where
  "TaskStatus_DeepCopyInto lib v =
     bindg (Conditions_copy lib (kts_conditions v)) (\<lambda>conds.
     bindg (Strings_copy (kts_failedEntities v)) (\<lambda>failed.
     bindg (lib_Time_DeepCopyInto lib (kts_executeTime v)) (\<lambda>execute.
     bindg (lib_Time_DeepCopyInto lib (kts_completedTime v)) (\<lambda>completed.
       retg (v\<lparr>kts_conditions := conds, kts_failedEntities := failed, kts_executeTime := execute,
               kts_completedTime := completed\<rparr>)))))"

definition TaskStatus_DeepCopy :: "'x library \<Rightarrow> addr option \<Rightarrow> ('x cell store, addr option) go" where
  "TaskStatus_DeepCopy lib =
     new_copy at_TaskStatus CTaskStatus (zero_TaskStatus lib) (TaskStatus_DeepCopyInto lib)"

subsection \<open>The resources and their lists\<close>

definition zero_object :: "'x library \<Rightarrow> 's \<Rightarrow> 't \<Rightarrow> ('x, 's, 't) go_object" where
  "zero_object lib spec status = \<lparr>ko_type = \<lparr>ty_kind = [], ty_apiVersion = []\<rparr>, ko_meta = lib_zero_meta lib,
     ko_spec = spec, ko_status = status\<rparr>"

definition object_DeepCopyInto ::
  "'x library \<Rightarrow> ('s \<Rightarrow> ('x cell store, 's) go) \<Rightarrow> ('t \<Rightarrow> ('x cell store, 't) go) \<Rightarrow> ('x, 's, 't) go_object \<Rightarrow>
    ('x cell store, ('x, 's, 't) go_object) go" where
  \<comment> \<open>the text the four resources share; \<open>out.TypeMeta = in.TypeMeta\<close> repeats \<open>*out = *in\<close>\<close>
  "object_DeepCopyInto lib spec_into status_into v =
     bindg (lib_ObjectMeta_DeepCopyInto lib (ko_meta v)) (\<lambda>meta.
     bindg (spec_into (ko_spec v)) (\<lambda>spec.
     bindg (status_into (ko_status v)) (\<lambda>status.
       retg (v\<lparr>ko_meta := meta, ko_spec := spec, ko_status := status\<rparr>))))"

definition zero_list :: "'x library \<Rightarrow> 'x mem_list" where
  "zero_list lib = \<lparr>kl_type = \<lparr>ty_kind = [], ty_apiVersion = []\<rparr>, kl_meta = lib_zero_list lib, kl_items = None\<rparr>"

definition list_DeepCopyInto ::
  "'x library \<Rightarrow> ('x cell \<Rightarrow> 'o list option) \<Rightarrow> ('o list \<Rightarrow> 'x cell) \<Rightarrow> 'o \<Rightarrow> ('o \<Rightarrow> ('x cell store, 'o) go) \<Rightarrow>
    'x mem_list \<Rightarrow> ('x cell store, 'x mem_list) go" where
  \<comment> \<open>the text the four lists share\<close>
  "list_DeepCopyInto lib proj wrap zero into v =
     bindg (lib_ListMeta_DeepCopyInto lib (kl_meta v)) (\<lambda>meta.
     bindg (copy_slice proj wrap zero into (kl_items v)) (\<lambda>items.
       retg (v\<lparr>kl_meta := meta, kl_items := items\<rparr>)))"

text \<open>What a \<open>runtime.Object\<close> holds when it is not nil: a pointer with its type.\<close>

datatype runtime_object =
    PEntity addr | PEntityList addr
  | PGroup addr | PGroupList addr
  | PModel addr | PModelList addr
  | PTask addr | PTaskList addr

definition object_of :: "(addr \<Rightarrow> runtime_object) \<Rightarrow> ('x cell store, addr option) go \<Rightarrow>
    ('x cell store, runtime_object option) go" where
  \<comment> \<open>\<open>if c := in.DeepCopy(); c != nil { return c }; return nil\<close>\<close>
  "object_of con copy = bindg copy (\<lambda>c. case c of Some p \<Rightarrow> retg (Some (con p)) | None \<Rightarrow> retg None)"

definition zero_Entity :: "'x library \<Rightarrow> 'x mem_entity" where
  "zero_Entity lib = zero_object lib zero_EntitySpec (zero_EntityStatus lib)"

definition Entity_DeepCopyInto :: "range_order \<Rightarrow> 'x library \<Rightarrow> 'x mem_entity \<Rightarrow> ('x cell store, 'x mem_entity) go" where
  "Entity_DeepCopyInto ord lib = object_DeepCopyInto lib EntitySpec_DeepCopyInto (EntityStatus_DeepCopyInto ord lib)"

definition Entity_DeepCopy :: "range_order \<Rightarrow> 'x library \<Rightarrow> addr option \<Rightarrow> ('x cell store, addr option) go" where
  "Entity_DeepCopy ord lib = new_copy at_Entity CEntity (zero_Entity lib) (Entity_DeepCopyInto ord lib)"

definition Entity_DeepCopyObject ::
  "range_order \<Rightarrow> 'x library \<Rightarrow> addr option \<Rightarrow> ('x cell store, runtime_object option) go" where
  "Entity_DeepCopyObject ord lib ptr = object_of PEntity (Entity_DeepCopy ord lib ptr)"

definition EntityList_DeepCopyInto :: "range_order \<Rightarrow> 'x library \<Rightarrow> 'x mem_entity_list \<Rightarrow> ('x cell store, 'x mem_entity_list) go" where
  "EntityList_DeepCopyInto ord lib = list_DeepCopyInto lib at_Entities CEntities (zero_Entity lib) (Entity_DeepCopyInto ord lib)"

definition EntityList_DeepCopy :: "range_order \<Rightarrow> 'x library \<Rightarrow> addr option \<Rightarrow> ('x cell store, addr option) go" where
  "EntityList_DeepCopy ord lib = new_copy at_EntityList CEntityList (zero_list lib) (EntityList_DeepCopyInto ord lib)"

definition EntityList_DeepCopyObject ::
  "range_order \<Rightarrow> 'x library \<Rightarrow> addr option \<Rightarrow> ('x cell store, runtime_object option) go" where
  "EntityList_DeepCopyObject ord lib ptr = object_of PEntityList (EntityList_DeepCopy ord lib ptr)"

definition zero_Group :: "'x library \<Rightarrow> 'x mem_group" where
  "zero_Group lib = zero_object lib zero_GroupSpec zero_GroupStatus"

definition Group_DeepCopyInto :: "'x library \<Rightarrow> 'x mem_group \<Rightarrow> ('x cell store, 'x mem_group) go" where
  "Group_DeepCopyInto lib = object_DeepCopyInto lib GroupSpec_DeepCopyInto (GroupStatus_DeepCopyInto lib)"

definition Group_DeepCopy :: "'x library \<Rightarrow> addr option \<Rightarrow> ('x cell store, addr option) go" where
  "Group_DeepCopy lib = new_copy at_Group CGroup (zero_Group lib) (Group_DeepCopyInto lib)"

definition Group_DeepCopyObject ::
  "'x library \<Rightarrow> addr option \<Rightarrow> ('x cell store, runtime_object option) go" where
  "Group_DeepCopyObject lib ptr = object_of PGroup (Group_DeepCopy lib ptr)"

definition GroupList_DeepCopyInto :: "'x library \<Rightarrow> 'x mem_group_list \<Rightarrow> ('x cell store, 'x mem_group_list) go" where
  "GroupList_DeepCopyInto lib = list_DeepCopyInto lib at_Groups CGroups (zero_Group lib) (Group_DeepCopyInto lib)"

definition GroupList_DeepCopy :: "'x library \<Rightarrow> addr option \<Rightarrow> ('x cell store, addr option) go" where
  "GroupList_DeepCopy lib = new_copy at_GroupList CGroupList (zero_list lib) (GroupList_DeepCopyInto lib)"

definition GroupList_DeepCopyObject ::
  "'x library \<Rightarrow> addr option \<Rightarrow> ('x cell store, runtime_object option) go" where
  "GroupList_DeepCopyObject lib ptr = object_of PGroupList (GroupList_DeepCopy lib ptr)"

definition zero_Model :: "'x library \<Rightarrow> 'x mem_model" where
  "zero_Model lib = zero_object lib zero_ModelSpec zero_ModelStatus"

definition Model_DeepCopyInto :: "'x library \<Rightarrow> 'x mem_model \<Rightarrow> ('x cell store, 'x mem_model) go" where
  "Model_DeepCopyInto lib = object_DeepCopyInto lib ModelSpec_DeepCopyInto (ModelStatus_DeepCopyInto lib)"

definition Model_DeepCopy :: "'x library \<Rightarrow> addr option \<Rightarrow> ('x cell store, addr option) go" where
  "Model_DeepCopy lib = new_copy at_Model CModel (zero_Model lib) (Model_DeepCopyInto lib)"

definition Model_DeepCopyObject ::
  "'x library \<Rightarrow> addr option \<Rightarrow> ('x cell store, runtime_object option) go" where
  "Model_DeepCopyObject lib ptr = object_of PModel (Model_DeepCopy lib ptr)"

definition ModelList_DeepCopyInto :: "'x library \<Rightarrow> 'x mem_model_list \<Rightarrow> ('x cell store, 'x mem_model_list) go" where
  "ModelList_DeepCopyInto lib = list_DeepCopyInto lib at_Models CModels (zero_Model lib) (Model_DeepCopyInto lib)"

definition ModelList_DeepCopy :: "'x library \<Rightarrow> addr option \<Rightarrow> ('x cell store, addr option) go" where
  "ModelList_DeepCopy lib = new_copy at_ModelList CModelList (zero_list lib) (ModelList_DeepCopyInto lib)"

definition ModelList_DeepCopyObject ::
  "'x library \<Rightarrow> addr option \<Rightarrow> ('x cell store, runtime_object option) go" where
  "ModelList_DeepCopyObject lib ptr = object_of PModelList (ModelList_DeepCopy lib ptr)"

definition zero_Task :: "'x library \<Rightarrow> 'x mem_task" where
  "zero_Task lib = zero_object lib (zero_TaskSpec lib) (zero_TaskStatus lib)"

definition Task_DeepCopyInto :: "'x library \<Rightarrow> 'x mem_task \<Rightarrow> ('x cell store, 'x mem_task) go" where
  "Task_DeepCopyInto lib = object_DeepCopyInto lib (TaskSpec_DeepCopyInto lib) (TaskStatus_DeepCopyInto lib)"

definition Task_DeepCopy :: "'x library \<Rightarrow> addr option \<Rightarrow> ('x cell store, addr option) go" where
  "Task_DeepCopy lib = new_copy at_Task CTask (zero_Task lib) (Task_DeepCopyInto lib)"

definition Task_DeepCopyObject ::
  "'x library \<Rightarrow> addr option \<Rightarrow> ('x cell store, runtime_object option) go" where
  "Task_DeepCopyObject lib ptr = object_of PTask (Task_DeepCopy lib ptr)"

definition TaskList_DeepCopyInto :: "'x library \<Rightarrow> 'x mem_task_list \<Rightarrow> ('x cell store, 'x mem_task_list) go" where
  "TaskList_DeepCopyInto lib = list_DeepCopyInto lib at_Tasks CTasks (zero_Task lib) (Task_DeepCopyInto lib)"

definition TaskList_DeepCopy :: "'x library \<Rightarrow> addr option \<Rightarrow> ('x cell store, addr option) go" where
  "TaskList_DeepCopy lib = new_copy at_TaskList CTaskList (zero_list lib) (TaskList_DeepCopyInto lib)"

definition TaskList_DeepCopyObject ::
  "'x library \<Rightarrow> addr option \<Rightarrow> ('x cell store, runtime_object option) go" where
  "TaskList_DeepCopyObject lib ptr = object_of PTaskList (TaskList_DeepCopy lib ptr)"

definition DeepCopyObject ::
  "range_order \<Rightarrow> 'x library \<Rightarrow> runtime_object \<Rightarrow> ('x cell store, runtime_object option) go" where
  \<comment> \<open>the method of the interface\<close>
  "DeepCopyObject ord lib x = (case x of
     PEntity p \<Rightarrow> Entity_DeepCopyObject ord lib (Some p)
   | PEntityList p \<Rightarrow> EntityList_DeepCopyObject ord lib (Some p)
   | PGroup p \<Rightarrow> Group_DeepCopyObject lib (Some p)
   | PGroupList p \<Rightarrow> GroupList_DeepCopyObject lib (Some p)
   | PModel p \<Rightarrow> Model_DeepCopyObject lib (Some p)
   | PModelList p \<Rightarrow> ModelList_DeepCopyObject lib (Some p)
   | PTask p \<Rightarrow> Task_DeepCopyObject lib (Some p)
   | PTaskList p \<Rightarrow> TaskList_DeepCopyObject lib (Some p))"

section \<open>What a struct in memory stands for\<close>

text \<open>
  \<open>T_with v x\<close> is \<open>v\<close> with its references replaced by \<open>x\<close>: by other references, or by
  what they refer to. \<open>T_reads\<close> is the value a struct stands for in a memory, if all it refers to
  is there; \<open>T_foot\<close> is the set of cells it reaches.
\<close>

definition Condition_with :: "'a go_condition \<Rightarrow> 'b \<Rightarrow> 'b go_condition" where
  "Condition_with v x = \<lparr>kcd_type = kcd_type v, kcd_status = kcd_status v, kcd_lastTransitionTime = x,
     kcd_reason = kcd_reason v, kcd_message = kcd_message v\<rparr>"

definition Condition_reads :: "'x library_view \<Rightarrow> 'x cell store \<Rightarrow> 'x mem_condition \<Rightarrow> val_condition option" where
  "Condition_reads view s v = map_option (Condition_with v)
     ((view_time view) s (kcd_lastTransitionTime v))"

definition Condition_foot :: "'x library_view \<Rightarrow> 'x cell store \<Rightarrow> 'x mem_condition \<Rightarrow> addr set" where
  "Condition_foot view s v = (view_foot view) s (kcd_lastTransitionTime v)"

definition Conditions_reads :: "'x library_view \<Rightarrow> 'x cell store \<Rightarrow> slice option \<Rightarrow> conditions option" where
  "Conditions_reads view = reads_slice at_Conditions (Condition_reads view)"

definition Conditions_foot :: "'x library_view \<Rightarrow> 'x cell store \<Rightarrow> slice option \<Rightarrow> addr set" where
  "Conditions_foot view = foot_slice at_Conditions (Condition_foot view)"

definition Strings_reads :: "'x cell store \<Rightarrow> slice option \<Rightarrow> names option" where
  "Strings_reads = reads_slice at_Strings (\<lambda>s v. Some v)"

definition Strings_foot :: "'x cell store \<Rightarrow> slice option \<Rightarrow> addr set" where
  "Strings_foot = foot_slice at_Strings (\<lambda>s v. {})"

definition Int32_reads :: "'x cell store \<Rightarrow> addr option \<Rightarrow> int32 option option" where
  "Int32_reads = reads_ptr at_Int32 (\<lambda>s v. Some v)"

definition Int32_foot :: "'x cell store \<Rightarrow> addr option \<Rightarrow> addr set" where
  "Int32_foot = foot_ptr at_Int32 (\<lambda>s v. {})"

definition TargetSlice_reads :: "'x cell store \<Rightarrow> addr option \<Rightarrow> targets option" where
  "TargetSlice_reads = reads_ptr at_TargetSlice (reads_slice at_TargetRefs (\<lambda>s v. Some v))"

definition TargetSlice_foot :: "'x cell store \<Rightarrow> addr option \<Rightarrow> addr set" where
  "TargetSlice_foot = foot_ptr at_TargetSlice (foot_slice at_TargetRefs (\<lambda>s v. {}))"

definition Time_pointer_reads :: "'x library_view \<Rightarrow> 'x cell store \<Rightarrow> addr option \<Rightarrow> gotime option option" where
  "Time_pointer_reads view = reads_ptr at_Library (view_time view)"

definition Time_pointer_foot :: "'x library_view \<Rightarrow> 'x cell store \<Rightarrow> addr option \<Rightarrow> addr set" where
  "Time_pointer_foot view = foot_ptr at_Library (view_foot view)"

definition EntitySpec_with :: "'a go_entity_spec \<Rightarrow> 'b \<Rightarrow> 'b go_entity_spec" where
  "EntitySpec_with v x = \<lparr>ke_identity = ke_identity v, ke_organization = ke_organization v,
     ke_privileged = ke_privileged v, ke_onSecondary = ke_onSecondary v,
     ke_serialNumber = ke_serialNumber v, ke_ordinalIndex = x, ke_model = ke_model v,
     ke_secret = ke_secret v, ke_syncPeriod = ke_syncPeriod v, ke_usage = ke_usage v,
     ke_decommissioned = ke_decommissioned v\<rparr>"

definition EntitySpec_reads :: "'x cell store \<Rightarrow> mem_entity_spec \<Rightarrow> val_entity_spec option" where
  "EntitySpec_reads s v = map_option (EntitySpec_with v)
     (Int32_reads s (ke_ordinalIndex v))"

definition EntitySpec_foot :: "'x cell store \<Rightarrow> mem_entity_spec \<Rightarrow> addr set" where
  "EntitySpec_foot s v = Int32_foot s (ke_ordinalIndex v)"

definition EntityStatus_with :: "('a, 'b, 'c, 'd) go_entity_status \<Rightarrow> 'e \<times> 'f \<times> 'g \<times> 'h \<Rightarrow> ('e, 'f, 'g, 'h) go_entity_status" where
  "EntityStatus_with v = (\<lambda>(x0, x1, x2, x3). \<lparr>kes_urls = x0, kes_podName = kes_podName v, kes_conditions = x1, kes_data = x2,
     kes_lastSyncTime = x3, kes_phase = kes_phase v,
     kes_observedGeneration = kes_observedGeneration v\<rparr>)"

definition EntityStatus_refs :: "('a, 'b, 'c, 'd) go_entity_status \<Rightarrow> 'a \<times> 'b \<times> 'c \<times> 'd" where
  "EntityStatus_refs v = (kes_urls v, kes_conditions v, kes_data v, kes_lastSyncTime v)"

definition EntityStatus_reads :: "'x library_view \<Rightarrow> 'x cell store \<Rightarrow> 'x mem_entity_status \<Rightarrow> val_entity_status option" where
  "EntityStatus_reads view s v = map_option (EntityStatus_with v)
     ((reads_both (reads_map at_StringMap) (reads_both (Conditions_reads view) (reads_both (view_json view) (view_time view)))) s (EntityStatus_refs v))"

definition EntityStatus_foot :: "'x library_view \<Rightarrow> 'x cell store \<Rightarrow> 'x mem_entity_status \<Rightarrow> addr set" where
  "EntityStatus_foot view s v = (foot_both (foot_map at_StringMap) (foot_both (Conditions_foot view) (foot_both (view_foot view) (view_foot view)))) s (EntityStatus_refs v)"

definition GroupSpec_with :: "'a go_group_spec \<Rightarrow> 'b \<Rightarrow> 'b go_group_spec" where
  "GroupSpec_with v x = \<lparr>kg_description = kg_description v, kg_owner = kg_owner v,
     kg_contact = kg_contact v, kg_lastTargets = x, kg_type = kg_type v\<rparr>"

definition GroupSpec_reads :: "'x cell store \<Rightarrow> mem_group_spec \<Rightarrow> val_group_spec option" where
  "GroupSpec_reads s v = map_option (GroupSpec_with v)
     (TargetSlice_reads s (kg_lastTargets v))"

definition GroupSpec_foot :: "'x cell store \<Rightarrow> mem_group_spec \<Rightarrow> addr set" where
  "GroupSpec_foot s v = TargetSlice_foot s (kg_lastTargets v)"

definition GroupStatus_with :: "'a go_group_status \<Rightarrow> 'b \<Rightarrow> 'b go_group_status" where
  "GroupStatus_with v x = \<lparr>kgs_totalEntities = kgs_totalEntities v, kgs_conditions = x,
     kgs_observedGeneration = kgs_observedGeneration v, kgs_phase = kgs_phase v\<rparr>"

definition GroupStatus_reads :: "'x library_view \<Rightarrow> 'x cell store \<Rightarrow> mem_group_status \<Rightarrow> val_group_status option" where
  "GroupStatus_reads view s v = map_option (GroupStatus_with v)
     ((Conditions_reads view) s (kgs_conditions v))"

definition GroupStatus_foot :: "'x library_view \<Rightarrow> 'x cell store \<Rightarrow> mem_group_status \<Rightarrow> addr set" where
  "GroupStatus_foot view s v = (Conditions_foot view) s (kgs_conditions v)"

definition ModelSpec_with :: "'a go_model_spec \<Rightarrow> 'b \<Rightarrow> 'b go_model_spec" where
  "ModelSpec_with v x = \<lparr>km_modelNumber = km_modelNumber v, km_description = km_description v,
     km_dockerImage = km_dockerImage v, km_ingressUrl = km_ingressUrl v,
     km_statefulSetName = km_statefulSetName v, km_targetReplicas = x,
     km_taskEndpoint = km_taskEndpoint v, km_ctrlEndpoint = km_ctrlEndpoint v,
     km_statusEndpoint = km_statusEndpoint v,
     km_defaultSyncPeriod = km_defaultSyncPeriod v,
     km_enableSecondary = km_enableSecondary v\<rparr>"

definition ModelSpec_reads :: "'x cell store \<Rightarrow> mem_model_spec \<Rightarrow> val_model_spec option" where
  "ModelSpec_reads s v = map_option (ModelSpec_with v)
     (Int32_reads s (km_targetReplicas v))"

definition ModelSpec_foot :: "'x cell store \<Rightarrow> mem_model_spec \<Rightarrow> addr set" where
  "ModelSpec_foot s v = Int32_foot s (km_targetReplicas v)"

definition ModelStatus_with :: "('a, 'b) go_model_status \<Rightarrow> 'c \<times> 'c \<times> 'd \<Rightarrow> ('c, 'd) go_model_status" where
  "ModelStatus_with v = (\<lambda>(x0, x1, x2). \<lparr>kms_deactiveEntities = x0, kms_disconnectedEntities = x1, kms_conditions = x2,
     kms_phase = kms_phase v, kms_currentReplicas = kms_currentReplicas v,
     kms_observedGeneration = kms_observedGeneration v\<rparr>)"

definition ModelStatus_refs :: "('a, 'b) go_model_status \<Rightarrow> 'a \<times> 'a \<times> 'b" where
  "ModelStatus_refs v = (kms_deactiveEntities v, kms_disconnectedEntities v, kms_conditions v)"

definition ModelStatus_reads :: "'x library_view \<Rightarrow> 'x cell store \<Rightarrow> mem_model_status \<Rightarrow> val_model_status option" where
  "ModelStatus_reads view s v = map_option (ModelStatus_with v)
     ((reads_both Strings_reads (reads_both Strings_reads (Conditions_reads view))) s (ModelStatus_refs v))"

definition ModelStatus_foot :: "'x library_view \<Rightarrow> 'x cell store \<Rightarrow> mem_model_status \<Rightarrow> addr set" where
  "ModelStatus_foot view s v = (foot_both Strings_foot (foot_both Strings_foot (Conditions_foot view))) s (ModelStatus_refs v)"

definition TaskSpec_with :: "('a, 'b, 'c) go_task_spec \<Rightarrow> 'd \<times> 'e \<times> 'f \<Rightarrow> ('d, 'e, 'f) go_task_spec" where
  "TaskSpec_with v = (\<lambda>(x0, x1, x2). \<lparr>kt_description = kt_description v, kt_dockerImage = kt_dockerImage v,
     kt_schedule = kt_schedule v, kt_runTime = x0, kt_offset = kt_offset v,
     kt_payload = x1, kt_targets = x2, kt_dryRun = kt_dryRun v,
     kt_unConditonalRun = kt_unConditonalRun v, kt_persistant = kt_persistant v\<rparr>)"

definition TaskSpec_refs :: "('a, 'b, 'c) go_task_spec \<Rightarrow> 'a \<times> 'b \<times> 'c" where
  "TaskSpec_refs v = (kt_runTime v, kt_payload v, kt_targets v)"

definition TaskSpec_reads :: "'x library_view \<Rightarrow> 'x cell store \<Rightarrow> 'x mem_task_spec \<Rightarrow> val_task_spec option" where
  "TaskSpec_reads view s v = map_option (TaskSpec_with v)
     ((reads_both (Time_pointer_reads view) (reads_both (view_json view) TargetSlice_reads)) s (TaskSpec_refs v))"

definition TaskSpec_foot :: "'x library_view \<Rightarrow> 'x cell store \<Rightarrow> 'x mem_task_spec \<Rightarrow> addr set" where
  "TaskSpec_foot view s v = (foot_both (Time_pointer_foot view) (foot_both (view_foot view) TargetSlice_foot)) s (TaskSpec_refs v)"

definition TaskStatus_with :: "('a, 'b, 'c) go_task_status \<Rightarrow> 'd \<times> 'e \<times> 'f \<times> 'f \<Rightarrow> ('d, 'e, 'f) go_task_status" where
  "TaskStatus_with v = (\<lambda>(x0, x1, x2, x3). \<lparr>kts_conditions = x0, kts_observedGeneration = kts_observedGeneration v,
     kts_phase = kts_phase v, kts_failedEntities = x1, kts_executeTime = x2,
     kts_completedTime = x3\<rparr>)"

definition TaskStatus_refs :: "('a, 'b, 'c) go_task_status \<Rightarrow> 'a \<times> 'b \<times> 'c \<times> 'c" where
  "TaskStatus_refs v = (kts_conditions v, kts_failedEntities v, kts_executeTime v, kts_completedTime v)"

definition TaskStatus_reads :: "'x library_view \<Rightarrow> 'x cell store \<Rightarrow> 'x mem_task_status \<Rightarrow> val_task_status option" where
  "TaskStatus_reads view s v = map_option (TaskStatus_with v)
     ((reads_both (Conditions_reads view) (reads_both Strings_reads (reads_both (view_time view) (view_time view)))) s (TaskStatus_refs v))"

definition TaskStatus_foot :: "'x library_view \<Rightarrow> 'x cell store \<Rightarrow> 'x mem_task_status \<Rightarrow> addr set" where
  "TaskStatus_foot view s v = (foot_both (Conditions_foot view) (foot_both Strings_foot (foot_both (view_foot view) (view_foot view)))) s (TaskStatus_refs v)"

text \<open>The resources and their lists.\<close>

definition object_with :: "('m, 's, 't) go_object \<Rightarrow> 'm2 \<times> 's2 \<times> 't2 \<Rightarrow> ('m2, 's2, 't2) go_object" where
  "object_with v = (\<lambda>(m, s, t). \<lparr>ko_type = ko_type v, ko_meta = m, ko_spec = s, ko_status = t\<rparr>)"

definition object_refs :: "('m, 's, 't) go_object \<Rightarrow> 'm \<times> 's \<times> 't" where
  "object_refs v = (ko_meta v, ko_spec v, ko_status v)"

definition object_reads where
  "object_reads view spec status s v = map_option (object_with v)
     (reads_both (view_meta view) (reads_both spec status) s (object_refs v))"

definition object_foot where
  "object_foot view spec status s v =
     foot_both (view_foot view) (foot_both spec status) s (object_refs v)"

definition list_with :: "('m, 'i) go_list \<Rightarrow> 'm2 \<times> 'i2 \<Rightarrow> ('m2, 'i2) go_list" where
  "list_with v = (\<lambda>(m, i). \<lparr>kl_type = kl_type v, kl_meta = m, kl_items = i\<rparr>)"

definition list_refs :: "('m, 'i) go_list \<Rightarrow> 'm \<times> 'i" where
  "list_refs v = (kl_meta v, kl_items v)"

definition list_reads where
  "list_reads view proj r s v = map_option (list_with v)
     (reads_both (view_list view) (reads_slice proj r) s (list_refs v))"

definition list_foot where
  "list_foot view proj f s v = foot_both (view_foot view) (foot_slice proj f) s (list_refs v)"

definition Entity_reads :: "'x library_view \<Rightarrow> 'x cell store \<Rightarrow> 'x mem_entity \<Rightarrow> val_entity option" where
  "Entity_reads view = object_reads view EntitySpec_reads (EntityStatus_reads view)"

definition Entity_foot :: "'x library_view \<Rightarrow> 'x cell store \<Rightarrow> 'x mem_entity \<Rightarrow> addr set" where
  "Entity_foot view = object_foot view EntitySpec_foot (EntityStatus_foot view)"

definition EntityList_reads :: "'x library_view \<Rightarrow> 'x cell store \<Rightarrow> 'x mem_entity_list \<Rightarrow> val_entity val_list option" where
  "EntityList_reads view = list_reads view at_Entities (Entity_reads view)"

definition EntityList_foot :: "'x library_view \<Rightarrow> 'x cell store \<Rightarrow> 'x mem_entity_list \<Rightarrow> addr set" where
  "EntityList_foot view = list_foot view at_Entities (Entity_foot view)"

definition Group_reads :: "'x library_view \<Rightarrow> 'x cell store \<Rightarrow> 'x mem_group \<Rightarrow> val_group option" where
  "Group_reads view = object_reads view GroupSpec_reads (GroupStatus_reads view)"

definition Group_foot :: "'x library_view \<Rightarrow> 'x cell store \<Rightarrow> 'x mem_group \<Rightarrow> addr set" where
  "Group_foot view = object_foot view GroupSpec_foot (GroupStatus_foot view)"

definition GroupList_reads :: "'x library_view \<Rightarrow> 'x cell store \<Rightarrow> 'x mem_group_list \<Rightarrow> val_group val_list option" where
  "GroupList_reads view = list_reads view at_Groups (Group_reads view)"

definition GroupList_foot :: "'x library_view \<Rightarrow> 'x cell store \<Rightarrow> 'x mem_group_list \<Rightarrow> addr set" where
  "GroupList_foot view = list_foot view at_Groups (Group_foot view)"

definition Model_reads :: "'x library_view \<Rightarrow> 'x cell store \<Rightarrow> 'x mem_model \<Rightarrow> val_model option" where
  "Model_reads view = object_reads view ModelSpec_reads (ModelStatus_reads view)"

definition Model_foot :: "'x library_view \<Rightarrow> 'x cell store \<Rightarrow> 'x mem_model \<Rightarrow> addr set" where
  "Model_foot view = object_foot view ModelSpec_foot (ModelStatus_foot view)"

definition ModelList_reads :: "'x library_view \<Rightarrow> 'x cell store \<Rightarrow> 'x mem_model_list \<Rightarrow> val_model val_list option" where
  "ModelList_reads view = list_reads view at_Models (Model_reads view)"

definition ModelList_foot :: "'x library_view \<Rightarrow> 'x cell store \<Rightarrow> 'x mem_model_list \<Rightarrow> addr set" where
  "ModelList_foot view = list_foot view at_Models (Model_foot view)"

definition Task_reads :: "'x library_view \<Rightarrow> 'x cell store \<Rightarrow> 'x mem_task \<Rightarrow> val_task option" where
  "Task_reads view = object_reads view (TaskSpec_reads view) (TaskStatus_reads view)"

definition Task_foot :: "'x library_view \<Rightarrow> 'x cell store \<Rightarrow> 'x mem_task \<Rightarrow> addr set" where
  "Task_foot view = object_foot view (TaskSpec_foot view) (TaskStatus_foot view)"

definition TaskList_reads :: "'x library_view \<Rightarrow> 'x cell store \<Rightarrow> 'x mem_task_list \<Rightarrow> val_task val_list option" where
  "TaskList_reads view = list_reads view at_Tasks (Task_reads view)"

definition TaskList_foot :: "'x library_view \<Rightarrow> 'x cell store \<Rightarrow> 'x mem_task_list \<Rightarrow> addr set" where
  "TaskList_foot view = list_foot view at_Tasks (Task_foot view)"

text \<open>References replaced by references: the struct update of the copy.\<close>

lemma Condition_with_update:
  "Condition_with v x = v\<lparr>kcd_lastTransitionTime := x\<rparr>"
  by (cases v) (simp add: Condition_with_def)

lemma EntitySpec_with_update:
  "EntitySpec_with v x = v\<lparr>ke_ordinalIndex := x\<rparr>"
  by (cases v) (simp add: EntitySpec_with_def)

lemma EntityStatus_with_update:
  "EntityStatus_with v (x0, x1, x2, x3) = v\<lparr>kes_urls := x0, kes_conditions := x1, kes_data := x2, kes_lastSyncTime := x3\<rparr>"
  by (cases v) (simp add: EntityStatus_with_def)

lemma GroupSpec_with_update:
  "GroupSpec_with v x = v\<lparr>kg_lastTargets := x\<rparr>"
  by (cases v) (simp add: GroupSpec_with_def)

lemma GroupStatus_with_update:
  "GroupStatus_with v x = v\<lparr>kgs_conditions := x\<rparr>"
  by (cases v) (simp add: GroupStatus_with_def)

lemma ModelSpec_with_update:
  "ModelSpec_with v x = v\<lparr>km_targetReplicas := x\<rparr>"
  by (cases v) (simp add: ModelSpec_with_def)

lemma ModelStatus_with_update:
  "ModelStatus_with v (x0, x1, x2) = v\<lparr>kms_deactiveEntities := x0, kms_disconnectedEntities := x1, kms_conditions := x2\<rparr>"
  by (cases v) (simp add: ModelStatus_with_def)

lemma TaskSpec_with_update:
  "TaskSpec_with v (x0, x1, x2) = v\<lparr>kt_runTime := x0, kt_payload := x1, kt_targets := x2\<rparr>"
  by (cases v) (simp add: TaskSpec_with_def)

lemma TaskStatus_with_update:
  "TaskStatus_with v (x0, x1, x2, x3) = v\<lparr>kts_conditions := x0, kts_failedEntities := x1, kts_executeTime := x2, kts_completedTime := x3\<rparr>"
  by (cases v) (simp add: TaskStatus_with_def)

lemma object_with_update:
  "object_with v (x0, x1, x2) = v\<lparr>ko_meta := x0, ko_spec := x1, ko_status := x2\<rparr>"
  by (cases v) (simp add: object_with_def)

lemma list_with_update:
  "list_with v (x0, x1) = v\<lparr>kl_meta := x0, kl_items := x1\<rparr>"
  by (cases v) (simp add: list_with_def)

lemma bindg_Pair: "bindg (Pair (Return x)) f = f x"
  by (rule ext) (simp add: bindg_def)

lemmas copy_struct = copy_both_def bindg_assoc bindg_Pair retg_def

section \<open>Every DeepCopyInto is a deep copy\<close>

lemma copier_Strings: "deep_copier Strings_copy Strings_reads Strings_foot"
  unfolding Strings_copy_def Strings_reads_def Strings_foot_def
  by (rule deep_copier_flat_slice) simp

lemma copier_Int32: "deep_copier Int32_copy Int32_reads Int32_foot"
  unfolding Int32_copy_def Int32_reads_def Int32_foot_def
  by (rule deep_copier_ptr [OF deep_copier_flat]) simp

lemma copier_TargetSlice: "deep_copier TargetSlice_copy TargetSlice_reads TargetSlice_foot"
  unfolding TargetSlice_copy_def TargetSlice_reads_def TargetSlice_foot_def
  by (rule deep_copier_ptr [OF deep_copier_flat_slice]) simp_all

locale copy_runtime =
  fixes ord :: range_order
    and lib :: "'x library"
    and view :: "'x library_view"
  assumes ranges: "range_contract ord"
    and meta: "deep_copier (lib_ObjectMeta_DeepCopyInto lib) (view_meta view) (view_foot view)"
    and listmeta: "deep_copier (lib_ListMeta_DeepCopyInto lib) (view_list view) (view_foot view)"
    and json: "deep_copier (lib_JSON_DeepCopyInto lib) (view_json view) (view_foot view)"
    and time: "deep_copier (lib_Time_DeepCopyInto lib) (view_time view) (view_foot view)"
    and time_pointer: "deep_copier (Time_pointer_copy lib) (Time_pointer_reads view) (Time_pointer_foot view)"
begin

lemma copier_Condition: "deep_copier (Condition_DeepCopyInto lib) (Condition_reads view) (Condition_foot view)"
  by (rule deep_copier_struct [where get = kcd_lastTransitionTime and put = "\<lambda>u v. Condition_with v u" and mk = Condition_with, OF time],
      simp add: Condition_DeepCopyInto_def  Condition_with_update copy_struct,
      simp_all add: split_paired_all Condition_reads_def Condition_foot_def  Condition_with_def)

lemma copier_Conditions: "deep_copier (Conditions_copy lib) (Conditions_reads view) (Conditions_foot view)"
  unfolding Conditions_copy_def Conditions_reads_def Conditions_foot_def
  by (rule deep_copier_slice [OF copier_Condition]) simp

lemma copier_StringMap:
  "deep_copier (copy_map ord at_StringMap CStringMap) (reads_map at_StringMap) (foot_map at_StringMap)"
  by (rule deep_copier_map [OF ranges]) simp

lemma copier_EntitySpec: "deep_copier EntitySpec_DeepCopyInto EntitySpec_reads EntitySpec_foot"
  by (rule deep_copier_struct [where get = ke_ordinalIndex and put = "\<lambda>u v. EntitySpec_with v u" and mk = EntitySpec_with, OF copier_Int32],
      simp add: EntitySpec_DeepCopyInto_def  EntitySpec_with_update copy_struct,
      simp_all add: split_paired_all EntitySpec_reads_def EntitySpec_foot_def  EntitySpec_with_def)

lemma copier_EntityStatus: "deep_copier (EntityStatus_DeepCopyInto ord lib) (EntityStatus_reads view) (EntityStatus_foot view)"
  by (rule deep_copier_struct [where get = EntityStatus_refs and put = "\<lambda>u v. EntityStatus_with v u" and mk = EntityStatus_with, OF deep_copier_both [OF copier_StringMap deep_copier_both [OF copier_Conditions deep_copier_both [OF json time]]]],
      simp add: EntityStatus_DeepCopyInto_def EntityStatus_refs_def EntityStatus_with_update copy_struct,
      simp_all add: split_paired_all EntityStatus_reads_def EntityStatus_foot_def EntityStatus_refs_def EntityStatus_with_def)

lemma copier_GroupSpec: "deep_copier GroupSpec_DeepCopyInto GroupSpec_reads GroupSpec_foot"
  by (rule deep_copier_struct [where get = kg_lastTargets and put = "\<lambda>u v. GroupSpec_with v u" and mk = GroupSpec_with, OF copier_TargetSlice],
      simp add: GroupSpec_DeepCopyInto_def  GroupSpec_with_update copy_struct,
      simp_all add: split_paired_all GroupSpec_reads_def GroupSpec_foot_def  GroupSpec_with_def)

lemma copier_GroupStatus: "deep_copier (GroupStatus_DeepCopyInto lib) (GroupStatus_reads view) (GroupStatus_foot view)"
  by (rule deep_copier_struct [where get = kgs_conditions and put = "\<lambda>u v. GroupStatus_with v u" and mk = GroupStatus_with, OF copier_Conditions],
      simp add: GroupStatus_DeepCopyInto_def  GroupStatus_with_update copy_struct,
      simp_all add: split_paired_all GroupStatus_reads_def GroupStatus_foot_def  GroupStatus_with_def)

lemma copier_ModelSpec: "deep_copier ModelSpec_DeepCopyInto ModelSpec_reads ModelSpec_foot"
  by (rule deep_copier_struct [where get = km_targetReplicas and put = "\<lambda>u v. ModelSpec_with v u" and mk = ModelSpec_with, OF copier_Int32],
      simp add: ModelSpec_DeepCopyInto_def  ModelSpec_with_update copy_struct,
      simp_all add: split_paired_all ModelSpec_reads_def ModelSpec_foot_def  ModelSpec_with_def)

lemma copier_ModelStatus: "deep_copier (ModelStatus_DeepCopyInto lib) (ModelStatus_reads view) (ModelStatus_foot view)"
  by (rule deep_copier_struct [where get = ModelStatus_refs and put = "\<lambda>u v. ModelStatus_with v u" and mk = ModelStatus_with, OF deep_copier_both [OF copier_Strings deep_copier_both [OF copier_Strings copier_Conditions]]],
      simp add: ModelStatus_DeepCopyInto_def ModelStatus_refs_def ModelStatus_with_update copy_struct,
      simp_all add: split_paired_all ModelStatus_reads_def ModelStatus_foot_def ModelStatus_refs_def ModelStatus_with_def)

lemma copier_TaskSpec: "deep_copier (TaskSpec_DeepCopyInto lib) (TaskSpec_reads view) (TaskSpec_foot view)"
  by (rule deep_copier_struct [where get = TaskSpec_refs and put = "\<lambda>u v. TaskSpec_with v u" and mk = TaskSpec_with, OF deep_copier_both [OF time_pointer deep_copier_both [OF json copier_TargetSlice]]],
      simp add: TaskSpec_DeepCopyInto_def TaskSpec_refs_def TaskSpec_with_update copy_struct,
      simp_all add: split_paired_all TaskSpec_reads_def TaskSpec_foot_def TaskSpec_refs_def TaskSpec_with_def)

lemma copier_TaskStatus: "deep_copier (TaskStatus_DeepCopyInto lib) (TaskStatus_reads view) (TaskStatus_foot view)"
  by (rule deep_copier_struct [where get = TaskStatus_refs and put = "\<lambda>u v. TaskStatus_with v u" and mk = TaskStatus_with, OF deep_copier_both [OF copier_Conditions deep_copier_both [OF copier_Strings deep_copier_both [OF time time]]]],
      simp add: TaskStatus_DeepCopyInto_def TaskStatus_refs_def TaskStatus_with_update copy_struct,
      simp_all add: split_paired_all TaskStatus_reads_def TaskStatus_foot_def TaskStatus_refs_def TaskStatus_with_def)

end

section \<open>Objects\<close>

datatype object_value =
    VEntity val_entity | VEntityList "val_entity val_list"
  | VGroup val_group | VGroupList "val_group val_list"
  | VModel val_model | VModelList "val_model val_list"
  | VTask val_task | VTaskList "val_task val_list"

definition reads_at ::
  "('c \<Rightarrow> 'v option) \<Rightarrow> ('c store \<Rightarrow> 'v \<Rightarrow> 'a option) \<Rightarrow> 'c store \<Rightarrow> addr \<Rightarrow> 'a option" where
  \<comment> \<open>what a pointer that is not nil stands for\<close>
  "reads_at proj r s p = Option.bind (reads_ptr proj r s (Some p)) (\<lambda>a. a)"

definition runtime_reads :: "'x library_view \<Rightarrow> 'x cell store \<Rightarrow> runtime_object \<Rightarrow> object_value option" where
  "runtime_reads view s x = (case x of
     PEntity p \<Rightarrow> map_option VEntity (reads_at at_Entity (Entity_reads view) s p)
   | PEntityList p \<Rightarrow> map_option VEntityList (reads_at at_EntityList (EntityList_reads view) s p)
   | PGroup p \<Rightarrow> map_option VGroup (reads_at at_Group (Group_reads view) s p)
   | PGroupList p \<Rightarrow> map_option VGroupList (reads_at at_GroupList (GroupList_reads view) s p)
   | PModel p \<Rightarrow> map_option VModel (reads_at at_Model (Model_reads view) s p)
   | PModelList p \<Rightarrow> map_option VModelList (reads_at at_ModelList (ModelList_reads view) s p)
   | PTask p \<Rightarrow> map_option VTask (reads_at at_Task (Task_reads view) s p)
   | PTaskList p \<Rightarrow> map_option VTaskList (reads_at at_TaskList (TaskList_reads view) s p))"

definition runtime_foot :: "'x library_view \<Rightarrow> 'x cell store \<Rightarrow> runtime_object \<Rightarrow> addr set" where
  "runtime_foot view s x = (case x of
     PEntity p \<Rightarrow> foot_ptr at_Entity (Entity_foot view) s (Some p)
   | PEntityList p \<Rightarrow> foot_ptr at_EntityList (EntityList_foot view) s (Some p)
   | PGroup p \<Rightarrow> foot_ptr at_Group (Group_foot view) s (Some p)
   | PGroupList p \<Rightarrow> foot_ptr at_GroupList (GroupList_foot view) s (Some p)
   | PModel p \<Rightarrow> foot_ptr at_Model (Model_foot view) s (Some p)
   | PModelList p \<Rightarrow> foot_ptr at_ModelList (ModelList_foot view) s (Some p)
   | PTask p \<Rightarrow> foot_ptr at_Task (Task_foot view) s (Some p)
   | PTaskList p \<Rightarrow> foot_ptr at_TaskList (TaskList_foot view) s (Some p))"

definition clone :: "range_order \<Rightarrow> 'x library \<Rightarrow> runtime_object \<Rightarrow> ('x cell store, runtime_object) go" where
  \<comment> \<open>a client's call of the method, on an interface that must not be nil\<close>
  "clone ord lib x = bindg (DeepCopyObject ord lib x) (\<lambda>y. pureg (deref y))"

lemma clone_iff: "clone ord lib x s = (Return y, s') \<longleftrightarrow> DeepCopyObject ord lib x s = (Return (Some y), s')"
  by (auto simp: clone_def bindg_run split: prod.splits outcome.splits)

text \<open>A copier of pointers gives a copier of the objects of one kind.\<close>

lemma object_copy:
  assumes dc: "deep_copier copy (reads_ptr proj r) (foot_ptr proj f)"
    and wf: "wf_store s" and a: "reads_at proj r s p = Some a"
  obtains q s' where "object_of con (copy (Some p)) s = (Return (Some (con q)), s')" "wf_store s'" "grows s s'"
    "reads_at proj r s' q = Some a" "foot_ptr proj f s' (Some q) \<inter> dom (cells s) = {}"
proof -
  from a have "reads_ptr proj r s (Some p) = Some (Some a)" by (auto simp: reads_at_def bind_eq_Some_conv)
  from deep_copier.copiesE [OF dc wf this] obtain x s' where c: "copy (Some p) s = (Return x, s')" "wf_store s'"
    "grows s s'" "reads_ptr proj r s' x = Some (Some a)" "foot_ptr proj f s' x \<inter> dom (cells s) = {}" .
  from c(4) obtain q where q: "x = Some q" by (cases x) (auto simp: reads_ptr_def)
  show ?thesis
    by (rule that [of q s']) (use c q in \<open>simp_all add: object_of_def bindg_run reads_at_def\<close>)
qed

lemma object_case:
  assumes dc: "deep_copier copy (reads_ptr proj r) (foot_ptr proj f)" and wf: "wf_store s"
    and x: "x = con p" "DeepCopyObject ord lib x = object_of con (copy (Some p))"
    and reads: "\<And>q s. runtime_reads view s (con q) = map_option V (reads_at proj r s q)"
    and foot: "\<And>q s. runtime_foot view s (con q) = foot_ptr proj f s (Some q)"
    and a: "runtime_reads view s x = Some a"
  shows "\<exists>y s'. clone ord lib x s = (Return y, s') \<and> wf_store s' \<and> grows s s'
      \<and> runtime_reads view s' y = Some a \<and> runtime_foot view s' y \<inter> dom (cells s) = {}"
proof -
  from a x(1) reads obtain b where b: "a = V b" "reads_at proj r s p = Some b" by auto
  from object_copy [OF dc wf b(2)] obtain q s' where "object_of con (copy (Some p)) s = (Return (Some (con q)), s')"
    "wf_store s'" "grows s s'" "reads_at proj r s' q = Some b" "foot_ptr proj f s' (Some q) \<inter> dom (cells s) = {}" .
  then show ?thesis
    by (intro exI [of _ "con q"] exI [of _ s']) (simp add: clone_iff x(2) reads foot b(1))
qed

lemma reads_at_local:
  assumes dc: "deep_copier copy (reads_ptr proj r) (foot_ptr proj f)"
    and a: "reads_at proj r s p = Some a" and ag: "agree (foot_ptr proj f s (Some p)) s t"
  shows "reads_at proj r t p = Some a" and "foot_ptr proj f t (Some p) = foot_ptr proj f s (Some p)"
proof -
  from a have "reads_ptr proj r s (Some p) = Some (Some a)" by (auto simp: reads_at_def bind_eq_Some_conv)
  from deep_copier.local [OF dc this ag] show "reads_at proj r t p = Some a"
    and "foot_ptr proj f t (Some p) = foot_ptr proj f s (Some p)" by (simp_all add: reads_at_def)
qed

lemma reads_at_inside:
  assumes dc: "deep_copier copy (reads_ptr proj r) (foot_ptr proj f)" and a: "reads_at proj r s p = Some a"
  shows "foot_ptr proj f s (Some p) \<subseteq> dom (cells s)"
  using deep_copier.inside [OF dc, of s "Some p"] a by (auto simp: reads_at_def bind_eq_Some_conv)

context copy_runtime
begin

lemma copier_object:
  assumes "deep_copier spec_into r f" and "deep_copier status_into q h"
  shows "deep_copier (object_DeepCopyInto lib spec_into status_into) (object_reads view r q) (object_foot view f h)"
  by (rule deep_copier_struct [where get = object_refs and put = "\<lambda>u v. object_with v u" and mk = object_with,
        OF deep_copier_both [OF meta deep_copier_both [OF assms]]],
      simp add: object_DeepCopyInto_def object_refs_def object_with_update copy_struct,
      simp_all add: split_paired_all object_reads_def object_foot_def object_refs_def object_with_def)

lemma copier_list:
  assumes into: "deep_copier into r f" and proj: "\<And>vs. proj (wrap vs) = Some vs"
  shows "deep_copier (list_DeepCopyInto lib proj wrap zero into) (list_reads view proj r) (list_foot view proj f)"
  by (rule deep_copier_struct [where get = list_refs and put = "\<lambda>u v. list_with v u" and mk = list_with,
        OF deep_copier_both [OF listmeta deep_copier_slice [where wrap = wrap and zero = zero, OF assms]]],
      simp add: list_DeepCopyInto_def list_refs_def list_with_update copy_struct,
      simp_all add: split_paired_all list_reads_def list_foot_def list_refs_def list_with_def)

lemma copier_Entity: "deep_copier (Entity_DeepCopyInto ord lib) (Entity_reads view) (Entity_foot view)"
  unfolding Entity_DeepCopyInto_def Entity_reads_def Entity_foot_def
  by (rule copier_object [OF copier_EntitySpec copier_EntityStatus])

lemma copier_EntityList: "deep_copier (EntityList_DeepCopyInto ord lib) (EntityList_reads view) (EntityList_foot view)"
  unfolding EntityList_DeepCopyInto_def EntityList_reads_def EntityList_foot_def
  by (rule copier_list [OF copier_Entity]) simp

lemma copier_Group: "deep_copier (Group_DeepCopyInto lib) (Group_reads view) (Group_foot view)"
  unfolding Group_DeepCopyInto_def Group_reads_def Group_foot_def
  by (rule copier_object [OF copier_GroupSpec copier_GroupStatus])

lemma copier_GroupList: "deep_copier (GroupList_DeepCopyInto lib) (GroupList_reads view) (GroupList_foot view)"
  unfolding GroupList_DeepCopyInto_def GroupList_reads_def GroupList_foot_def
  by (rule copier_list [OF copier_Group]) simp

lemma copier_Model: "deep_copier (Model_DeepCopyInto lib) (Model_reads view) (Model_foot view)"
  unfolding Model_DeepCopyInto_def Model_reads_def Model_foot_def
  by (rule copier_object [OF copier_ModelSpec copier_ModelStatus])

lemma copier_ModelList: "deep_copier (ModelList_DeepCopyInto lib) (ModelList_reads view) (ModelList_foot view)"
  unfolding ModelList_DeepCopyInto_def ModelList_reads_def ModelList_foot_def
  by (rule copier_list [OF copier_Model]) simp

lemma copier_Task: "deep_copier (Task_DeepCopyInto lib) (Task_reads view) (Task_foot view)"
  unfolding Task_DeepCopyInto_def Task_reads_def Task_foot_def
  by (rule copier_object [OF copier_TaskSpec copier_TaskStatus])

lemma copier_TaskList: "deep_copier (TaskList_DeepCopyInto lib) (TaskList_reads view) (TaskList_foot view)"
  unfolding TaskList_DeepCopyInto_def TaskList_reads_def TaskList_foot_def
  by (rule copier_list [OF copier_Task]) simp

lemmas copiers = copier_Condition copier_EntitySpec copier_EntityStatus copier_GroupSpec copier_GroupStatus
  copier_ModelSpec copier_ModelStatus copier_TaskSpec copier_TaskStatus
  copier_Entity copier_EntityList copier_Group copier_GroupList copier_Model copier_ModelList copier_Task copier_TaskList

lemma pointer_Condition: "deep_copier (Condition_DeepCopy lib) (reads_ptr at_Condition (Condition_reads view))
    (foot_ptr at_Condition (Condition_foot view))"
  unfolding Condition_DeepCopy_def by (rule deep_copier_ptr [OF copier_Condition]) simp

lemma pointer_EntitySpec: "deep_copier EntitySpec_DeepCopy (reads_ptr at_EntitySpec EntitySpec_reads)
    (foot_ptr at_EntitySpec EntitySpec_foot)"
  unfolding EntitySpec_DeepCopy_def by (rule deep_copier_ptr [OF copier_EntitySpec]) simp

lemma pointer_EntityStatus: "deep_copier (EntityStatus_DeepCopy ord lib) (reads_ptr at_EntityStatus (EntityStatus_reads view))
    (foot_ptr at_EntityStatus (EntityStatus_foot view))"
  unfolding EntityStatus_DeepCopy_def by (rule deep_copier_ptr [OF copier_EntityStatus]) simp

lemma pointer_GroupSpec: "deep_copier GroupSpec_DeepCopy (reads_ptr at_GroupSpec GroupSpec_reads)
    (foot_ptr at_GroupSpec GroupSpec_foot)"
  unfolding GroupSpec_DeepCopy_def by (rule deep_copier_ptr [OF copier_GroupSpec]) simp

lemma pointer_GroupStatus: "deep_copier (GroupStatus_DeepCopy lib) (reads_ptr at_GroupStatus (GroupStatus_reads view))
    (foot_ptr at_GroupStatus (GroupStatus_foot view))"
  unfolding GroupStatus_DeepCopy_def by (rule deep_copier_ptr [OF copier_GroupStatus]) simp

lemma pointer_ModelSpec: "deep_copier ModelSpec_DeepCopy (reads_ptr at_ModelSpec ModelSpec_reads)
    (foot_ptr at_ModelSpec ModelSpec_foot)"
  unfolding ModelSpec_DeepCopy_def by (rule deep_copier_ptr [OF copier_ModelSpec]) simp

lemma pointer_ModelStatus: "deep_copier (ModelStatus_DeepCopy lib) (reads_ptr at_ModelStatus (ModelStatus_reads view))
    (foot_ptr at_ModelStatus (ModelStatus_foot view))"
  unfolding ModelStatus_DeepCopy_def by (rule deep_copier_ptr [OF copier_ModelStatus]) simp

lemma pointer_TaskSpec: "deep_copier (TaskSpec_DeepCopy lib) (reads_ptr at_TaskSpec (TaskSpec_reads view))
    (foot_ptr at_TaskSpec (TaskSpec_foot view))"
  unfolding TaskSpec_DeepCopy_def by (rule deep_copier_ptr [OF copier_TaskSpec]) simp

lemma pointer_TaskStatus: "deep_copier (TaskStatus_DeepCopy lib) (reads_ptr at_TaskStatus (TaskStatus_reads view))
    (foot_ptr at_TaskStatus (TaskStatus_foot view))"
  unfolding TaskStatus_DeepCopy_def by (rule deep_copier_ptr [OF copier_TaskStatus]) simp

lemma pointer_Entity: "deep_copier (Entity_DeepCopy ord lib) (reads_ptr at_Entity (Entity_reads view))
    (foot_ptr at_Entity (Entity_foot view))"
  unfolding Entity_DeepCopy_def by (rule deep_copier_ptr [OF copier_Entity]) simp

lemma pointer_EntityList: "deep_copier (EntityList_DeepCopy ord lib) (reads_ptr at_EntityList (EntityList_reads view))
    (foot_ptr at_EntityList (EntityList_foot view))"
  unfolding EntityList_DeepCopy_def by (rule deep_copier_ptr [OF copier_EntityList]) simp

lemma pointer_Group: "deep_copier (Group_DeepCopy lib) (reads_ptr at_Group (Group_reads view))
    (foot_ptr at_Group (Group_foot view))"
  unfolding Group_DeepCopy_def by (rule deep_copier_ptr [OF copier_Group]) simp

lemma pointer_GroupList: "deep_copier (GroupList_DeepCopy lib) (reads_ptr at_GroupList (GroupList_reads view))
    (foot_ptr at_GroupList (GroupList_foot view))"
  unfolding GroupList_DeepCopy_def by (rule deep_copier_ptr [OF copier_GroupList]) simp

lemma pointer_Model: "deep_copier (Model_DeepCopy lib) (reads_ptr at_Model (Model_reads view))
    (foot_ptr at_Model (Model_foot view))"
  unfolding Model_DeepCopy_def by (rule deep_copier_ptr [OF copier_Model]) simp

lemma pointer_ModelList: "deep_copier (ModelList_DeepCopy lib) (reads_ptr at_ModelList (ModelList_reads view))
    (foot_ptr at_ModelList (ModelList_foot view))"
  unfolding ModelList_DeepCopy_def by (rule deep_copier_ptr [OF copier_ModelList]) simp

lemma pointer_Task: "deep_copier (Task_DeepCopy lib) (reads_ptr at_Task (Task_reads view))
    (foot_ptr at_Task (Task_foot view))"
  unfolding Task_DeepCopy_def by (rule deep_copier_ptr [OF copier_Task]) simp

lemma pointer_TaskList: "deep_copier (TaskList_DeepCopy lib) (reads_ptr at_TaskList (TaskList_reads view))
    (foot_ptr at_TaskList (TaskList_foot view))"
  unfolding TaskList_DeepCopy_def by (rule deep_copier_ptr [OF copier_TaskList]) simp

lemma runtime_local:
  assumes *: "runtime_reads view s x = Some a" "agree (runtime_foot view s x) s t"
  shows "runtime_reads view t x = Some a \<and> runtime_foot view t x = runtime_foot view s x"
proof (cases x)

  case (PEntity p)
  with * reads_at_local [OF pointer_Entity, of s p _ t] show ?thesis
    by (auto simp: runtime_reads_def runtime_foot_def)
next
  case (PEntityList p)
  with * reads_at_local [OF pointer_EntityList, of s p _ t] show ?thesis
    by (auto simp: runtime_reads_def runtime_foot_def)
next
  case (PGroup p)
  with * reads_at_local [OF pointer_Group, of s p _ t] show ?thesis
    by (auto simp: runtime_reads_def runtime_foot_def)
next
  case (PGroupList p)
  with * reads_at_local [OF pointer_GroupList, of s p _ t] show ?thesis
    by (auto simp: runtime_reads_def runtime_foot_def)
next
  case (PModel p)
  with * reads_at_local [OF pointer_Model, of s p _ t] show ?thesis
    by (auto simp: runtime_reads_def runtime_foot_def)
next
  case (PModelList p)
  with * reads_at_local [OF pointer_ModelList, of s p _ t] show ?thesis
    by (auto simp: runtime_reads_def runtime_foot_def)
next
  case (PTask p)
  with * reads_at_local [OF pointer_Task, of s p _ t] show ?thesis
    by (auto simp: runtime_reads_def runtime_foot_def)
next
  case (PTaskList p)
  with * reads_at_local [OF pointer_TaskList, of s p _ t] show ?thesis
    by (auto simp: runtime_reads_def runtime_foot_def)
qed

lemma runtime_inside:
  assumes *: "runtime_reads view s x = Some a"
  shows "runtime_foot view s x \<subseteq> dom (cells s)"
proof (cases x)

  case (PEntity p)
  with * reads_at_inside [OF pointer_Entity, of s p] show ?thesis
    by (auto simp only: runtime_reads_def runtime_foot_def runtime_object.case map_option_eq_Some)
next
  case (PEntityList p)
  with * reads_at_inside [OF pointer_EntityList, of s p] show ?thesis
    by (auto simp only: runtime_reads_def runtime_foot_def runtime_object.case map_option_eq_Some)
next
  case (PGroup p)
  with * reads_at_inside [OF pointer_Group, of s p] show ?thesis
    by (auto simp only: runtime_reads_def runtime_foot_def runtime_object.case map_option_eq_Some)
next
  case (PGroupList p)
  with * reads_at_inside [OF pointer_GroupList, of s p] show ?thesis
    by (auto simp only: runtime_reads_def runtime_foot_def runtime_object.case map_option_eq_Some)
next
  case (PModel p)
  with * reads_at_inside [OF pointer_Model, of s p] show ?thesis
    by (auto simp only: runtime_reads_def runtime_foot_def runtime_object.case map_option_eq_Some)
next
  case (PModelList p)
  with * reads_at_inside [OF pointer_ModelList, of s p] show ?thesis
    by (auto simp only: runtime_reads_def runtime_foot_def runtime_object.case map_option_eq_Some)
next
  case (PTask p)
  with * reads_at_inside [OF pointer_Task, of s p] show ?thesis
    by (auto simp only: runtime_reads_def runtime_foot_def runtime_object.case map_option_eq_Some)
next
  case (PTaskList p)
  with * reads_at_inside [OF pointer_TaskList, of s p] show ?thesis
    by (auto simp only: runtime_reads_def runtime_foot_def runtime_object.case map_option_eq_Some)
qed

lemma runtime_copies:
  assumes wf: "wf_store s" and r: "runtime_reads view s x = Some a"
  shows "\<exists>y s'. clone ord lib x s = (Return y, s') \<and> wf_store s' \<and> grows s s'
      \<and> runtime_reads view s' y = Some a \<and> runtime_foot view s' y \<inter> dom (cells s) = {}"
proof (cases x)

  case (PEntity p)
  with r show ?thesis
    by (intro object_case [OF pointer_Entity wf, where con = PEntity and V = VEntity and p = p])
      (simp_all add: DeepCopyObject_def Entity_DeepCopyObject_def runtime_reads_def runtime_foot_def)
next
  case (PEntityList p)
  with r show ?thesis
    by (intro object_case [OF pointer_EntityList wf, where con = PEntityList and V = VEntityList and p = p])
      (simp_all add: DeepCopyObject_def EntityList_DeepCopyObject_def runtime_reads_def runtime_foot_def)
next
  case (PGroup p)
  with r show ?thesis
    by (intro object_case [OF pointer_Group wf, where con = PGroup and V = VGroup and p = p])
      (simp_all add: DeepCopyObject_def Group_DeepCopyObject_def runtime_reads_def runtime_foot_def)
next
  case (PGroupList p)
  with r show ?thesis
    by (intro object_case [OF pointer_GroupList wf, where con = PGroupList and V = VGroupList and p = p])
      (simp_all add: DeepCopyObject_def GroupList_DeepCopyObject_def runtime_reads_def runtime_foot_def)
next
  case (PModel p)
  with r show ?thesis
    by (intro object_case [OF pointer_Model wf, where con = PModel and V = VModel and p = p])
      (simp_all add: DeepCopyObject_def Model_DeepCopyObject_def runtime_reads_def runtime_foot_def)
next
  case (PModelList p)
  with r show ?thesis
    by (intro object_case [OF pointer_ModelList wf, where con = PModelList and V = VModelList and p = p])
      (simp_all add: DeepCopyObject_def ModelList_DeepCopyObject_def runtime_reads_def runtime_foot_def)
next
  case (PTask p)
  with r show ?thesis
    by (intro object_case [OF pointer_Task wf, where con = PTask and V = VTask and p = p])
      (simp_all add: DeepCopyObject_def Task_DeepCopyObject_def runtime_reads_def runtime_foot_def)
next
  case (PTaskList p)
  with r show ?thesis
    by (intro object_case [OF pointer_TaskList wf, where con = PTaskList and V = VTaskList and p = p])
      (simp_all add: DeepCopyObject_def TaskList_DeepCopyObject_def runtime_reads_def runtime_foot_def)
qed

lemma copier_runtime: "deep_copier (clone ord lib) (runtime_reads view) (runtime_foot view)"
  by unfold_locales (fact runtime_local runtime_inside runtime_copies)+

text \<open>So a client may hold to the contract whatever the object is.\<close>

sublocale objects: deep_copier "clone ord lib" "runtime_reads view" "runtime_foot view"
  by (rule copier_runtime)

end

section \<open>What the program may rely on\<close>

text \<open>C10: \<open>DeepCopyObject\<close> of an object of any of the eight kinds gives a new object of the same
  kind that reads as the same value, nil and empty told apart; the original still reads as before, and no
  cell is reached from both.\<close>

theorem deep_copy_object_faithful:
  assumes "copy_runtime ord lib view" and "wf_store s" and "runtime_reads view s x = Some a"
  shows "\<exists>y s'. DeepCopyObject ord lib x s = (Return (Some y), s') \<and> wf_store s'
    \<and> runtime_reads view s' y = Some a \<and> runtime_reads view s' x = Some a
    \<and> runtime_foot view s' x \<inter> runtime_foot view s' y = {}"
proof -
  note dc = copy_runtime.copier_runtime [OF assms(1)]
  from deep_copier.copiesE [OF dc assms(2,3)] obtain y s' where
    c: "clone ord lib x s = (Return y, s')" "wf_store s'" "grows s s'" .
  from deep_copier.independent(1,2) [OF dc assms(2,3) c(1)] deep_copier.keeps_reading [OF dc assms(3) c(3)] c
  show ?thesis by (auto simp: clone_iff)
qed

text \<open>C11: What is written through the copy of an object is not seen through the original, and the
  other way round: whatever is stored in a cell that one of them reaches, the other reads as it did.\<close>

theorem deep_copy_object_independent:
  assumes "copy_runtime ord lib view" and "wf_store s" and "runtime_reads view s x = Some a"
    and "DeepCopyObject ord lib x s = (Return (Some y), s')"
  shows "(\<forall>p \<in> runtime_foot view s' y. \<forall>c. runtime_reads view (s'\<lparr>cells := (cells s')(p := c)\<rparr>) x = Some a)
    \<and> (\<forall>p \<in> runtime_foot view s' x. \<forall>c. runtime_reads view (s'\<lparr>cells := (cells s')(p := c)\<rparr>) y = Some a)"
proof -
  note dc = copy_runtime.copier_runtime [OF assms(1)]
  from assms(4) have c: "clone ord lib x s = (Return y, s')" by (simp add: clone_iff)
  with deep_copier.copies [OF dc assms(2,3)] have "grows s s'" by auto
  from deep_copier.keeps_reading [OF dc assms(3) this] have x: "runtime_reads view s' x = Some a" by simp
  from deep_copier.independent(1,2) [OF dc assms(2,3) c] deep_copier.keeps_reading [OF dc assms(3) \<open>grows s s'\<close>]
  have y: "runtime_reads view s' y = Some a" and d: "runtime_foot view s' x \<inter> runtime_foot view s' y = {}" by auto
  from d show ?thesis
    using deep_copier.write_elsewhere [OF dc x] deep_copier.write_elsewhere [OF dc y] by blast
qed

text \<open>A nil pointer is copied to the nil interface, not to an interface that holds a nil pointer.\<close>

lemma deep_copy_of_nil:
  "Entity_DeepCopyObject ord lib None s = (Return None, s)" "EntityList_DeepCopyObject ord lib None s = (Return None, s)"
  "Group_DeepCopyObject lib None s = (Return None, s)" "GroupList_DeepCopyObject lib None s = (Return None, s)"
  "Model_DeepCopyObject lib None s = (Return None, s)" "ModelList_DeepCopyObject lib None s = (Return None, s)"
  "Task_DeepCopyObject lib None s = (Return None, s)" "TaskList_DeepCopyObject lib None s = (Return None, s)"
  by (simp_all add: Entity_DeepCopyObject_def EntityList_DeepCopyObject_def Group_DeepCopyObject_def
      GroupList_DeepCopyObject_def Model_DeepCopyObject_def ModelList_DeepCopyObject_def Task_DeepCopyObject_def
      TaskList_DeepCopyObject_def Entity_DeepCopy_def EntityList_DeepCopy_def Group_DeepCopy_def GroupList_DeepCopy_def
      Model_DeepCopy_def ModelList_DeepCopy_def Task_DeepCopy_def TaskList_DeepCopy_def object_of_def new_copy_def)

text \<open>
  \<open>entity.Spec = *obj.Spec.DeepCopy()\<close>, as the cluster resource handler updates an entity: the
  index of the spec that was assigned is a cell of its own. Assigned without the copy, the two specs would
  share it.
\<close>

definition write_int32 :: "addr option \<Rightarrow> int32 \<Rightarrow> 'x cell store \<Rightarrow> 'x cell store" where
  \<comment> \<open>\<open>*p = n\<close>\<close>
  "write_int32 ptr n s = (case ptr of None \<Rightarrow> s | Some p \<Rightarrow> s\<lparr>cells := (cells s)(p \<mapsto> CInt32 n)\<rparr>)"

text \<open>After \<open>entity.Spec = *obj.Spec.DeepCopy()\<close> the assigned spec reads as the original, and
  setting its index leaves the original's; had the struct been assigned as it is, setting the index of one
  would have set that of the other.\<close>

theorem entity_spec_copy_unshared:
  assumes wf: "wf_store s" and p: "cells s p = Some (CEntitySpec v)"
    and i: "ke_ordinalIndex v = Some i" "cells s i = Some (CInt32 n)"
  shows "\<exists>q s' v'. EntitySpec_DeepCopy (Some p) s = (Return (Some q), s') \<and> cells s' q = Some (CEntitySpec v')
    \<and> EntitySpec_reads s' v' = EntitySpec_reads s v
    \<and> EntitySpec_reads (write_int32 (ke_ordinalIndex v') m s') v = EntitySpec_reads s v
    \<and> EntitySpec_reads (write_int32 (ke_ordinalIndex v) m s) v = Some (EntitySpec_with v (Some m))"
proof -
  have "p < brk s" "i < brk s" using wf p i(2) by (auto simp: wf_store_def)
  with p i show ?thesis
    by (auto simp: EntitySpec_DeepCopy_def EntitySpec_DeepCopyInto_def Int32_copy_def new_copy_def bindg_run
        new_cell_run store_cell_run load_cell_def write_int32_def EntitySpec_reads_def Int32_reads_def reads_ptr_def
        EntitySpec_with_def)
qed

section \<open>A library\<close>

text \<open>
  A library with the documented behaviour: metadata with its labels in a map, raw JSON in an array,
  times without references. It shows that \<open>copy_runtime\<close> can hold.
\<close>

datatype library_struct = LMeta object_meta "addr option" | LList string | LJson "slice option" | LTime gotime

definition reference_library :: "library_struct library" where
  "reference_library = \<lparr>
     lib_ObjectMeta_DeepCopyInto = (\<lambda>v. case v of
         LMeta m l \<Rightarrow> bindg (copy_map key_order at_StringMap CStringMap l) (\<lambda>l'. retg (LMeta m l')) | _ \<Rightarrow> retg v),
     lib_ListMeta_DeepCopyInto = retg,
     lib_JSON_DeepCopyInto = (\<lambda>v. case v of
         LJson r \<Rightarrow> bindg (Strings_copy r) (\<lambda>r'. retg (LJson r')) | _ \<Rightarrow> retg v),
     lib_Time_DeepCopyInto = retg,
     lib_Time_DeepCopy = (\<lambda>p. new_copy at_Library CLibrary (LTime 0) retg (Some p)),
     lib_zero_meta = LMeta empty_meta None, lib_zero_list = LList [], lib_zero_json = LJson None,
     lib_zero_time = LTime 0\<rparr>"

definition reference_view :: "library_struct library_view" where
  "reference_view = \<lparr>
     view_meta = (\<lambda>s v. case v of
         LMeta m l \<Rightarrow> map_option (\<lambda>l'. m\<lparr>m_labels := l'\<rparr>) (reads_map at_StringMap s l) | _ \<Rightarrow> None),
     view_list = (\<lambda>s v. case v of LList t \<Rightarrow> Some t | _ \<Rightarrow> None),
     view_json = (\<lambda>s v. case v of
         LJson r \<Rightarrow> map_option (\<lambda>b. concat (case b of None \<Rightarrow> [] | Some bs \<Rightarrow> bs)) (Strings_reads s r) | _ \<Rightarrow> None),
     view_time = (\<lambda>s v. case v of LTime t \<Rightarrow> Some t | _ \<Rightarrow> None),
     view_foot = (\<lambda>s v. case v of
         LMeta m l \<Rightarrow> foot_map at_StringMap s l | LJson r \<Rightarrow> Strings_foot s r | _ \<Rightarrow> {})\<rparr>"

lemma deep_copier_variant:
  fixes copy :: "'v \<Rightarrow> ('c store, 'v) go"
  assumes c: "deep_copier c r f"
    and con: "\<And>s v a. reads s v = Some a \<Longrightarrow> \<exists>k u. v = con k u"
    and copy: "\<And>k u. copy (con k u) = bindg (c u) (\<lambda>u'. retg (con k u'))"
    and reads: "\<And>s k u. reads s (con k u) = map_option (g k) (r s u)"
    and foot: "\<And>s k u. foot s (con k u) = f s u"
  shows "deep_copier copy reads foot"
proof
  fix s t :: "'c store" and v a
  assume *: "reads s v = Some a" "agree (foot s v) s t"
  from con [OF *(1)] obtain k u where "v = con k u" by blast
  with * show "reads t v = Some a \<and> foot t v = foot s v"
    using deep_copier.local [OF c, of s u _ t] by (auto simp: reads foot)
next
  fix s :: "'c store" and v a
  assume *: "reads s v = Some a"
  from con [OF *] obtain k u where "v = con k u" by blast
  with * show "foot s v \<subseteq> dom (cells s)"
    using deep_copier.inside [OF c, of s u] by (auto simp: reads foot)
next
  fix s :: "'c store" and v a
  assume wf: "wf_store s" and *: "reads s v = Some a"
  from con [OF *] obtain k u where v: "v = con k u" by blast
  with * obtain b where b: "r s u = Some b" "a = g k b" by (auto simp: reads)
  from deep_copier.copiesE [OF c wf b(1)] obtain u' s' where "c u s = (Return u', s')" "wf_store s'"
    "grows s s'" "r s' u' = Some b" "f s' u' \<inter> dom (cells s) = {}" .
  then show "\<exists>v' s'. copy v s = (Return v', s') \<and> wf_store s' \<and> grows s s'
      \<and> reads s' v' = Some a \<and> foot s' v' \<inter> dom (cells s) = {}"
    by (intro exI [of _ "con k u'"] exI [of _ s']) (simp add: v copy bindg_run reads foot b(2))
qed

interpretation reference: copy_runtime key_order reference_library reference_view
proof (rule copy_runtime.intro)
  show "range_contract key_order" by (rule key_order_contract)
  show "deep_copier (lib_ObjectMeta_DeepCopyInto reference_library) (view_meta reference_view) (view_foot reference_view)"
    by (rule deep_copier_variant [where con = LMeta, OF deep_copier_map [where wrap = CStringMap and ord = key_order]])
      (auto simp: reference_library_def reference_view_def key_order_contract split: library_struct.splits)
  show "deep_copier (lib_ListMeta_DeepCopyInto reference_library) (view_list reference_view) (view_foot reference_view)"
    by (rule deep_copier_variant [where con = "\<lambda>k :: unit. LList" and g = "\<lambda>k t. t", OF deep_copier_flat])
      (auto simp: reference_library_def reference_view_def fun_eq_iff split: library_struct.splits)
  show "deep_copier (lib_JSON_DeepCopyInto reference_library) (view_json reference_view) (view_foot reference_view)"
    by (rule deep_copier_variant [where con = "\<lambda>k :: unit. LJson", OF copier_Strings])
      (auto simp: reference_library_def reference_view_def split: library_struct.splits)
  show t: "deep_copier (lib_Time_DeepCopyInto reference_library) (view_time reference_view) (view_foot reference_view)"
    by (rule deep_copier_variant [where con = "\<lambda>k :: unit. LTime" and g = "\<lambda>k t. t", OF deep_copier_flat])
      (auto simp: reference_library_def reference_view_def fun_eq_iff split: library_struct.splits)
  have "Time_pointer_copy reference_library = new_copy at_Library CLibrary (LTime 0) (lib_Time_DeepCopyInto reference_library)"
    by (rule ext) (simp add: Time_pointer_copy_def reference_library_def new_copy_def split: option.split)
  then show "deep_copier (Time_pointer_copy reference_library) (Time_pointer_reads reference_view)
      (Time_pointer_foot reference_view)"
    using deep_copier_ptr [OF t, of at_Library CLibrary "LTime 0"]
    by (simp add: Time_pointer_reads_def Time_pointer_foot_def)
qed

section \<open>An entity in memory\<close>

definition memory_of :: "'c list \<Rightarrow> 'c store" where
  \<comment> \<open>the cells from address 0 on\<close>
  "memory_of cs = \<lparr>cells = (\<lambda>p. if p < length cs then Some (cs ! p) else None), brk = length cs\<rparr>"

lemma wf_memory_of: "wf_store (memory_of cs)"
  by (auto simp: wf_store_def memory_of_def split: if_splits)

definition sample_memory :: "library_struct cell store" where
  \<comment> \<open>an entity with an index, an address, a condition, empty raw data and a label\<close>
  "sample_memory = memory_of
     [CEntity \<lparr>ko_type = \<lparr>ty_kind = ''Entity'', ty_apiVersion = []\<rparr>, ko_meta = LMeta (empty_meta\<lparr>m_name := ''e''\<rparr>) (Some 1),
        ko_spec = zero_EntitySpec\<lparr>ke_model := ''m'', ke_ordinalIndex := Some 2\<rparr>,
        ko_status = (zero_EntityStatus reference_library)\<lparr>kes_urls := Some 3,
          kes_conditions := Some \<lparr>sl_arr = 4, sl_off = 0, sl_len = 1\<rparr>\<rparr>\<rparr>,
      CStringMap (fmap_of_list [(''k'', ''v'')]), CInt32 7, CStringMap (fmap_of_list [(''u'', ''w'')]),
      CConditions [zero_Condition reference_library]]"

definition sample_value :: val_entity where
  "sample_value = \<lparr>ko_type = \<lparr>ty_kind = ''Entity'', ty_apiVersion = []\<rparr>,
     ko_meta = empty_meta\<lparr>m_name := ''e'', m_labels := Some (fmap_of_list [(''k'', ''v'')])\<rparr>,
     ko_spec = EntitySpec_with (zero_EntitySpec\<lparr>ke_model := ''m''\<rparr>) (Some 7),
     ko_status = EntityStatus_with (zero_EntityStatus reference_library)
       (Some (fmap_of_list [(''u'', ''w'')]), Some [Condition_with (zero_Condition reference_library) 0], [], 0)\<rparr>"

lemmas sample_reads = runtime_reads_def reads_at_def reads_ptr_def Entity_reads_def object_reads_def reads_both_def
  object_refs_def EntitySpec_reads_def Int32_reads_def EntityStatus_reads_def EntityStatus_refs_def reads_map_def
  Conditions_reads_def reads_slice_def slice_elems_def slice_window_def Condition_reads_def Strings_reads_def

lemma sample_entity_reads: "runtime_reads reference_view sample_memory (PEntity 0) = Some (VEntity sample_value)"
  by (simp add: sample_reads sample_memory_def memory_of_def sample_value_def reference_view_def reference_library_def
      zero_EntityStatus_def zero_EntitySpec_def zero_Condition_def object_with_def EntityStatus_with_def
      EntitySpec_with_def Condition_with_def)

theorem deep_copy_object_faithful_witness:
  "\<exists>y s'. DeepCopyObject key_order reference_library (PEntity 0) sample_memory = (Return (Some y), s')
     \<and> runtime_reads reference_view s' y = Some (VEntity sample_value)
     \<and> runtime_foot reference_view s' (PEntity 0) \<inter> runtime_foot reference_view s' y = {}"
  using deep_copy_object_faithful [OF reference.copy_runtime_axioms wf_memory_of
      sample_entity_reads [unfolded sample_memory_def]]
  unfolding sample_memory_def by blast

theorem deep_copy_object_independent_witness:
  "\<exists>y s'. DeepCopyObject key_order reference_library (PEntity 0) sample_memory = (Return (Some y), s')
     \<and> (\<forall>p \<in> runtime_foot reference_view s' y. \<forall>c.
          runtime_reads reference_view (s'\<lparr>cells := (cells s')(p := c)\<rparr>) (PEntity 0) = Some (VEntity sample_value))"
proof -
  have wf: "wf_store sample_memory" by (simp add: sample_memory_def wf_memory_of)
  from deep_copier.copiesE [OF reference.copier_runtime wf sample_entity_reads] obtain y s' where
    "DeepCopyObject key_order reference_library (PEntity 0) sample_memory = (Return (Some y), s')"
    unfolding clone_iff .
  with deep_copy_object_independent [OF reference.copy_runtime_axioms wf sample_entity_reads this] show ?thesis
    by blast
qed

definition sample_spec :: mem_entity_spec where
  "sample_spec = zero_EntitySpec\<lparr>ke_ordinalIndex := Some 1\<rparr>"

definition sample_spec_memory :: "library_struct cell store" where
  "sample_spec_memory = memory_of [CEntitySpec sample_spec, CInt32 7]"

theorem entity_spec_copy_unshared_witness:
  "\<exists>q s' v'. EntitySpec_DeepCopy (Some 0) sample_spec_memory = (Return (Some q), s') \<and> cells s' q = Some (CEntitySpec v')
     \<and> EntitySpec_reads (write_int32 (ke_ordinalIndex v') 5 s') sample_spec = EntitySpec_reads sample_spec_memory sample_spec"
proof -
  have "wf_store sample_spec_memory" "cells sample_spec_memory 0 = Some (CEntitySpec sample_spec)"
    "ke_ordinalIndex sample_spec = Some 1" "cells sample_spec_memory 1 = Some (CInt32 7)"
    by (simp_all only: sample_spec_memory_def wf_memory_of) (simp_all add: memory_of_def sample_spec_def)
  from entity_spec_copy_unshared [OF this, of 5] show ?thesis by blast
qed

end
