(* ===== verification/Roles.thy ===== *)
theory Roles
  imports Cluster_Objects Rkube_Type
begin

text \<open>
  Who may do what in the cluster: the \<open>+kubebuilder:rbac\<close> markers beside the reconcilers, the two
  roles of \<open>config/rbac\<close> that the program runs under, and the names \<open>config/default\<close> deploys
  roles under. A request is allowed when one rule lists its API group, its resource and its verb.
\<close>

section \<open>Rules\<close>

record policy_rule =
  pr_apiGroups :: "string list"
  pr_resources :: "string list"
  pr_verbs :: "string list"

definition allows :: "policy_rule list \<Rightarrow> string \<Rightarrow> string \<Rightarrow> string \<Rightarrow> bool" where
  "allows rules g resource verb =
     list_ex (\<lambda>r. g \<in> set (pr_apiGroups r) \<and> resource \<in> set (pr_resources r)
       \<and> verb \<in> set (pr_verbs r)) rules"

definition rule_for :: "string list \<Rightarrow> string list \<Rightarrow> string list \<Rightarrow> policy_rule" where
  "rule_for groups resources verbs = \<lparr>pr_apiGroups = groups, pr_resources = resources, pr_verbs = verbs\<rparr>"

definition resources_in :: "policy_rule list \<Rightarrow> (string \<times> string) list" where
  \<comment> \<open>resource and group of all that some rule lists\<close>
  "resources_in rules = concat (map (\<lambda>r. concat (map (\<lambda>s. map (Pair s) (pr_apiGroups r)) (pr_resources r))) rules)"

definition verbs_on :: "policy_rule list \<Rightarrow> string \<times> string \<Rightarrow> string list" where
  "verbs_on rules x = concat (map (\<lambda>r. if fst x \<in> set (pr_resources r) \<and> snd x \<in> set (pr_apiGroups r)
     then pr_verbs r else []) rules)"

definition same_verbs :: "policy_rule list \<Rightarrow> policy_rule list \<Rightarrow> string \<times> string \<Rightarrow> bool" where
  "same_verbs rules rules' x =
     (list_all (\<lambda>v. v \<in> set (verbs_on rules' x)) (verbs_on rules x)
      \<and> list_all (\<lambda>v. v \<in> set (verbs_on rules x)) (verbs_on rules' x))"

lemma allows_iff: "allows rules g s v \<longleftrightarrow> v \<in> set (verbs_on rules (s, g))"
  by (auto simp: allows_def verbs_on_def list_ex_iff)

lemma allows_listed: "allows rules g s v \<Longrightarrow> (s, g) \<in> set (resources_in rules)"
  by (auto simp: allows_def resources_in_def list_ex_iff)

lemma same_allowed:
  assumes "list_all (same_verbs rules rules') (resources_in rules)"
    and "list_all (same_verbs rules rules') (resources_in rules')"
  shows "allows rules g s v = allows rules' g s v"
proof -
  have "set (verbs_on rules (s, g)) = set (verbs_on rules' (s, g))" if "(s, g) \<in> set (resources_in rules) \<union> set (resources_in rules')"
    using assms that unfolding list_all_iff same_verbs_def by blast
  then show ?thesis
    using allows_listed [of rules g s v] allows_listed [of rules' g s v] unfolding allows_iff by blast
qed

section \<open>The markers\<close>

definition RoboKubeGroup :: string where "RoboKubeGroup = ''robokube.meliazeng.github.io''"

definition whole :: "string list" where
  "whole = [''get'', ''list'', ''watch'', ''create'', ''update'', ''patch'', ''delete'']"

definition unwatched :: "string list" where
  "unwatched = [''get'', ''list'', ''create'', ''update'', ''patch'', ''delete'']"

definition crd_markers :: "string \<Rightarrow> policy_rule list" where
  \<comment> \<open>the three that every reconciler has for its own resource\<close>
  "crd_markers resource =
     [rule_for [RoboKubeGroup] [resource] whole,
      rule_for [RoboKubeGroup] [resource @ ''/status''] [''get'', ''update'', ''patch''],
      rule_for [RoboKubeGroup] [resource @ ''/finalizers''] [''update'']]"

definition EntityReconciler_rbac :: "policy_rule list" where
  "EntityReconciler_rbac = crd_markers ''entities'' @
     [rule_for [''core''] [''events''] [''create'', ''patch''],
      rule_for [''''] [''pods''] whole,
      rule_for [''''] [''persistentvolumeclaims''] unwatched,
      rule_for [''''] [''persistentvolumes''] unwatched,
      rule_for [''cert-manager.io''] [''certificates''] whole,
      rule_for [''rbac.authorization.k8s.io''] [''rolebindings''] whole]"

definition GroupReconciler_rbac :: "policy_rule list" where
  "GroupReconciler_rbac = crd_markers ''groups'' @
     [rule_for [''networking.k8s.io''] [''networkpolicies''] whole]"

definition ModelReconciler_rbac :: "policy_rule list" where
  "ModelReconciler_rbac = crd_markers ''models'' @
     [rule_for [''apps''] [''statefulsets''] whole,
      rule_for [''apps''] [''statefulsets/status''] [''get'', ''update'', ''patch''],
      rule_for [''core''] [''services''] whole,
      rule_for [''core''] [''serviceaccounts''] whole,
      rule_for [''core''] [''secrets''] whole,
      rule_for [''networking.k8s.io''] [''ingresses''] whole,
      rule_for [''networking.k8s.io''] [''networkpolicies''] whole,
      rule_for [RoboKubeGroup] [''entities''] whole,
      rule_for [''''] [''services''] unwatched,
      rule_for [''''] [''configmaps''] unwatched,
      rule_for [''''] [''namespaces''] [''get'', ''list'', ''update'', ''patch'', ''watch'']]"

definition TaskReconciler_rbac :: "policy_rule list" where
  "TaskReconciler_rbac = crd_markers ''tasks'' @ [rule_for [''core''] [''events''] [''create'', ''patch'']]"

definition rbac_markers :: "policy_rule list" where
  \<comment> \<open>as they are generated from: the group \<open>core\<close> is the empty one\<close>
  "rbac_markers = map (\<lambda>r. r\<lparr>pr_apiGroups := map (\<lambda>g. if g = ''core'' then [] else g) (pr_apiGroups r)\<rparr>)
     (EntityReconciler_rbac @ GroupReconciler_rbac @ ModelReconciler_rbac @ TaskReconciler_rbac)"

section \<open>The roles\<close>

definition manager_role :: "policy_rule list" where
  \<comment> \<open>\<open>role.yaml\<close>\<close>
  "manager_role =
    (let crud = [''create'', ''delete'', ''get'', ''list'', ''patch'', ''update''];
         every = crud @ [''watch''] in
     [rule_for [''''] [''configmaps'', ''persistentvolumeclaims'', ''persistentvolumes'', ''services''] crud,
      rule_for [''''] [''namespaces''] [''get'', ''list'', ''patch'', ''update'', ''watch''],
      rule_for [''''] [''pods''] every,
      rule_for [''apps''] [''statefulsets''] every,
      rule_for [''apps''] [''statefulsets/status''] [''get'', ''patch'', ''update''],
      rule_for [''cert-manager.io''] [''certificates''] every,
      rule_for [''''] [''events''] [''create'', ''patch''],
      rule_for [''''] [''secrets'', ''serviceaccounts'', ''services''] every,
      rule_for [''networking.k8s.io''] [''ingresses'', ''networkpolicies''] every,
      rule_for [''rbac.authorization.k8s.io''] [''rolebindings''] every,
      rule_for [RoboKubeGroup] [''entities'', ''groups'', ''models'', ''tasks''] every,
      rule_for [RoboKubeGroup] [''entities/finalizers'', ''groups/finalizers'', ''models/finalizers'',
        ''tasks/finalizers''] [''update''],
      rule_for [RoboKubeGroup] [''entities/status'', ''groups/status'', ''models/status'', ''tasks/status'']
        [''get'', ''patch'', ''update'']])"

definition task_creator_role :: "policy_rule list" where
  \<comment> \<open>\<open>task_creator_role.yaml\<close>\<close>
  "task_creator_role = [rule_for [RoboKubeGroup] [''tasks''] [''create'']]"

definition rbac_resources :: "string list" where
  \<comment> \<open>the cluster roles of \<open>config/rbac\<close>, by the names in their files\<close>
  "rbac_resources = [''manager-role'', ''metrics-auth-role'', ''metrics-reader'', ''entity-editor-role'',
     ''entity-viewer-role'', ''task-editor-role'', ''task-viewer-role'', ''group-editor-role'', ''group-viewer-role'',
     ''model-editor-role'', ''model-viewer-role'', ''task-creator-role'']"

definition namePrefix :: string where "namePrefix = ''r-''"

definition deployed_roles :: "string list" where
  \<comment> \<open>\<open>config/default\<close> prepends the prefix to the names of all resources\<close>
  "deployed_roles = map (append namePrefix) rbac_resources"

section \<open>What kind is which resource\<close>

fun resource_of :: "kind \<Rightarrow> string \<times> string" where
  "resource_of KEntity = (RoboKubeGroup, ''entities'')"
| "resource_of KGroup = (RoboKubeGroup, ''groups'')"
| "resource_of KModel = (RoboKubeGroup, ''models'')"
| "resource_of KTask = (RoboKubeGroup, ''tasks'')"
| "resource_of KPod = ([], ''pods'')"
| "resource_of KStatefulSet = (''apps'', ''statefulsets'')"
| "resource_of KDeployment = (''apps'', ''deployments'')"
| "resource_of KReplicaSet = (''apps'', ''replicasets'')"
| "resource_of KNamespace = ([], ''namespaces'')"
| "resource_of KService = ([], ''services'')"
| "resource_of KServiceAccount = ([], ''serviceaccounts'')"
| "resource_of KRoleBinding = (''rbac.authorization.k8s.io'', ''rolebindings'')"
| "resource_of KNetworkPolicy = (''networking.k8s.io'', ''networkpolicies'')"
| "resource_of KIngress = (''networking.k8s.io'', ''ingresses'')"
| "resource_of KCertificate = (''cert-manager.io'', ''certificates'')"
| "resource_of KCronJob = (''batch'', ''cronjobs'')"
| "resource_of KSecret = ([], ''secrets'')"

definition may :: "policy_rule list \<Rightarrow> string \<Rightarrow> kind \<Rightarrow> bool" where
  "may rules verb k = allows rules (fst (resource_of k)) (snd (resource_of k)) verb"

definition may_read :: "policy_rule list \<Rightarrow> kind \<Rightarrow> bool" where
  \<comment> \<open>the manager's client reads from a cache, which lists and watches the kind\<close>
  "may_read rules k \<longleftrightarrow> may rules ''get'' k \<and> may rules ''list'' k \<and> may rules ''watch'' k"

definition may_write_status :: "policy_rule list \<Rightarrow> kind \<Rightarrow> bool" where
  "may_write_status rules k = allows rules (fst (resource_of k)) (snd (resource_of k) @ ''/status'') ''update''"

definition may_record :: "policy_rule list \<Rightarrow> bool" where
  \<comment> \<open>events\<close>
  "may_record rules \<longleftrightarrow> allows rules [] ''events'' ''create'' \<and> allows rules [] ''events'' ''patch''"

definition managed :: "kind list" where
  "managed = [KEntity, KGroup, KModel, KTask, KPod, KStatefulSet, KService, KServiceAccount, KRoleBinding,
     KNetworkPolicy, KIngress, KCertificate, KSecret]"

definition touched :: "kind list" where
  \<comment> \<open>those read or written at all\<close>
  "touched = KNamespace # managed"

definition with_status :: "kind list" where
  "with_status = [KEntity, KGroup, KModel, KTask, KStatefulSet]"

section \<open>Properties\<close>

lemma manager_may:
  "list_all (\<lambda>k. may_read manager_role k \<and> list_all (\<lambda>v. may manager_role v k) [''create'', ''update'', ''delete''])
     managed"
  "list_all (may_write_status manager_role) with_status" "may_record manager_role"
  "may_read manager_role KNamespace" "may manager_role ''update'' KNamespace"
  by code_simp+

text \<open>The role of the manager allows exactly what the markers beside the reconcilers ask for: a request
  is allowed by \<open>role.yaml\<close> if and only if some marker lists it.\<close>

theorem manager_role_is_generated:
  "allows manager_role g s v = allows rbac_markers g s v"
  by (rule same_allowed; code_simp)

end
