(* ===== verification/Permissions.thy ===== *)
theory Permissions
  imports Roles Model_Controller Entity_Controller Task_Controller Pod_Webhook Fleet Agent
begin

text \<open>
  What the program does in the cluster against what its roles allow. A set of rules bounds a client when
  a predicate on worlds that every allowed call keeps is kept by all it does; this is shown of the four
  reconcilers and the webhooks for the role of the manager, and of the agent for the role its account
  is bound to. The locale \<open>account\<close> states what the calls of one account keep; \<open>manager\<close> adds
  the documented behaviour of the client.
\<close>

section \<open>Computations that keep a predicate and return values of a kind\<close>

definition within :: "('w \<Rightarrow> bool) \<Rightarrow> ('w, 'a) go \<Rightarrow> ('a \<Rightarrow> bool) \<Rightarrow> bool" where
  "within P m Q \<longleftrightarrow> (\<forall>w. P w \<longrightarrow> P (snd (m w)) \<and> (\<forall>x. fst (m w) = Return x \<longrightarrow> Q x))"

lemma withinD: "within P m Q \<Longrightarrow> P w \<Longrightarrow> P (snd (m w))"
  by (simp add: within_def)

lemma within_retg: "Q x \<Longrightarrow> within P (retg x) Q"
  by (simp add: within_def)

lemma within_panicg: "within P (panicg s) Q"
  by (simp add: within_def)

lemma within_nofuelg: "within P nofuelg Q"
  by (simp add: within_def)

lemma within_pureg: "(\<And>x. r = Return x \<Longrightarrow> Q x) \<Longrightarrow> within P (pureg r) Q"
  by (simp add: within_def)

lemma within_callg: "(\<And>w. P w \<Longrightarrow> P (snd (c w)) \<and> Q (fst (c w))) \<Longrightarrow> within P (callg c) Q"
  by (simp add: within_def)

lemma within_effg: "(\<And>w. P w \<Longrightarrow> P (op w)) \<Longrightarrow> Q () \<Longrightarrow> within P (effg op) Q"
  by (simp add: within_def)

lemma within_weaken: "within P m R \<Longrightarrow> (\<And>x. R x \<Longrightarrow> Q x) \<Longrightarrow> within P m Q"
  by (auto simp: within_def)

lemma within_bindg:
  assumes "within P m R" and "\<And>x. R x \<Longrightarrow> within P (f x) Q"
  shows "within P (bindg m f) Q"
  unfolding within_def
proof (intro allI impI)
  fix w
  assume w: "P w"
  obtain r w1 where m: "m w = (r, w1)" by force
  with assms(1) w have w1: "P w1" and r: "r = Return x \<Longrightarrow> R x" for x
    unfolding within_def by (metis snd_conv, metis fst_conv)
  show "P (snd (bindg m f w)) \<and> (\<forall>x. fst (bindg m f w) = Return x \<longrightarrow> Q x)"
  proof (cases r)
    case (Return x)
    with assms(2) [of x] r w1 m show ?thesis by (auto simp: within_def bindg_def)
  qed (use m w1 in \<open>auto simp: bindg_def\<close>)
qed

lemma within_bindg_retg: "within P (f x) Q \<Longrightarrow> within P (bindg (retg x) f) Q"
  by (simp add: within_def)

lemma within_if: "(c \<Longrightarrow> within P m Q) \<Longrightarrow> (\<not> c \<Longrightarrow> within P n Q) \<Longrightarrow> within P (if c then m else n) Q"
  by simp

lemma within_keeps: "keeps P m \<Longrightarrow> within P m (\<lambda>_. True)"
  by (simp add: within_def keeps_def)

lemmas within_intros = within_retg within_panicg within_nofuelg

lemma within_attempts:
  assumes "\<And>ob. K ob \<Longrightarrow> within P (fn ob) (\<lambda>(e, ob'). K ob')"
  shows "K ob \<Longrightarrow> within P (attempts n fn ob) (\<lambda>(e, ob'). K ob')"
proof (induction n arbitrary: ob)
  case (Suc n)
  show ?case
    unfolding attempts.simps
    by (rule within_bindg, rule assms, rule Suc.prems) (auto intro: within_retg Suc.IH split: option.split)
qed (simp add: assms)

definition edits :: "('w \<Rightarrow> bool) \<Rightarrow> kind \<Rightarrow> 'w modfn \<Rightarrow> bool" where
  \<comment> \<open>an edit of objects of this kind\<close>
  "edits P k f \<longleftrightarrow> (\<forall>ob. kind_of ob = k \<longrightarrow> within P (f ob) (\<lambda>ob'. kind_of ob' = k))"

lemma editsD: "edits P k f \<Longrightarrow> kind_of ob = k \<Longrightarrow> within P (f ob) (\<lambda>ob'. kind_of ob' = k)"
  by (simp add: edits_def)

lemma edits_pure: "(\<And>ob. kind_of (f ob) = kind_of ob) \<Longrightarrow> edits P k (pure_mod f)"
  by (auto simp: edits_def pure_mod_def intro: within_retg)

lemma edits_lift: "(\<And>ob ob'. f ob = Return ob' \<Longrightarrow> kind_of ob' = kind_of ob) \<Longrightarrow> edits P k (lift_mod f)"
  by (auto simp: edits_def lift_mod_def intro: within_pureg)

lemma edits_apply_all:
  "(\<And>f. f \<in> set fs \<Longrightarrow> edits P k f) \<Longrightarrow> kind_of ob = k \<Longrightarrow> within P (apply_all fs ob) (\<lambda>ob'. kind_of ob' = k)"
proof (induction fs arbitrary: ob)
  case (Cons f fs)
  then show ?case by (auto intro: within_bindg [OF editsD])
qed (auto intro: within_retg)

section \<open>What is provisioned\<close>

lemma params_type:
  "cp_ResourceType (group_netpol_params res) = ResourceTypeNetPol"
  "cp_ResourceType (operator_netpol_params res) = ResourceTypeNetPol"
  "cp_ResourceType (model_service_params res) = ResourceTypeService"
  "cp_ResourceType (model_sts_params res) = ResourceTypeStatefulSet"
  "cp_ResourceType (entity_params res i) = ResourceTypeEntity"
  "cp_ResourceType (entity_owned_params res ty suffix t) = ty"
  by (simp_all add: group_netpol_params_def operator_netpol_params_def model_service_params_def
      model_sts_params_def entity_params_def entity_owned_params_def resource_params_def)

lemma type_kinds:
  "empty_object ResourceTypeNetPol = Return KNetworkPolicy"
  "empty_object ResourceTypeService = Return KService"
  "empty_object ResourceTypeStatefulSet = Return KStatefulSet"
  "empty_object ResourceTypeEntity = Return KEntity"
  "empty_object ResourceTypeServiceAccount = Return KServiceAccount"
  "empty_object ResourceTypeRoleBinding = Return KRoleBinding"
  "empty_object ResourceTypeCert = Return KCertificate"
  "empty_object ResourceTypeIngress = Return KIngress"
  by code_simp+

definition template_kinds :: "(string \<times> kind) list" where
  "template_kinds = map (\<lambda>(f, ob). (f, kind_of ob)) manifests"

lemmas manifest_defs = np_group_yml_def np_operator_yml_def srv_yml_def srv_pod_yml_def sts_yml_def entity_yml_def
  sa_yml_def rb_yml_def crt_yml_def ing_pod_yml_def

lemma template_kinds_eq:
  "template_kinds = [(''np-group.yml'', KNetworkPolicy), (''np-operator.yml'', KNetworkPolicy), (''srv.yml'', KService),
     (''srv-pod.yml'', KService), (''sts.yml'', KStatefulSet), (''entity.yml'', KEntity), (''sa.yml'', KServiceAccount),
     (''rb.yml'', KRoleBinding), (''crt.yml'', KCertificate), (''ing-pod.yml'', KIngress)]"
  by (simp add: template_kinds_def manifests_def manifest_defs Let_def)

lemma manifests_decode:
  "decode_manifest (TemplatePath @ ''/'' @ ''np-group.yml'') = Inr np_group_yml"
  "decode_manifest (TemplatePath @ ''/'' @ ''np-operator.yml'') = Inr np_operator_yml"
  "decode_manifest (TemplatePath @ ''/'' @ ''srv.yml'') = Inr srv_yml"
  "decode_manifest (TemplatePath @ ''/'' @ ''srv-pod.yml'') = Inr srv_pod_yml"
  "decode_manifest (TemplatePath @ ''/'' @ ''sts.yml'') = Inr sts_yml"
  "decode_manifest (TemplatePath @ ''/'' @ ''entity.yml'') = Inr entity_yml"
  "decode_manifest (TemplatePath @ ''/'' @ ''sa.yml'') = Inr sa_yml"
  "decode_manifest (TemplatePath @ ''/'' @ ''rb.yml'') = Inr rb_yml"
  "decode_manifest (TemplatePath @ ''/'' @ ''crt.yml'') = Inr crt_yml"
  "decode_manifest (TemplatePath @ ''/'' @ ''ing-pod.yml'') = Inr ing_pod_yml"
  by code_simp+

lemmas param_defs = resource_params_def operator_netpol_params_def model_service_params_def model_sts_params_def
  entity_params_def entity_owned_params_def

section \<open>Accounts\<close>

locale account =
  fixes rules :: "policy_rule list" and env :: "'w env" and P :: "'w \<Rightarrow> bool"
  assumes get_allowed: "may_read rules k \<Longrightarrow> P w \<Longrightarrow> P (snd (c_get env k ns n w))"
    and list_allowed: "may_read rules k \<Longrightarrow> P w \<Longrightarrow> P (snd (c_list env k ns sel w))"
    and create_allowed: "may rules ''create'' (kind_of ob) \<Longrightarrow> P w \<Longrightarrow> P (snd (c_create env ob w))"
    and update_allowed: "may rules ''update'' (kind_of ob) \<Longrightarrow> P w \<Longrightarrow> P (snd (c_update env ob w))"
    and status_allowed: "may_write_status rules (kind_of ob) \<Longrightarrow> P w \<Longrightarrow> P (snd (c_status_update env ob w))"
    and delete_allowed: "may rules ''delete'' (kind_of ob) \<Longrightarrow> P w \<Longrightarrow> P (snd (c_delete env ob w))"
    and event_allowed: "may_record rules \<Longrightarrow> P w \<Longrightarrow> P (c_event env ob ty reason msg w)"
    and elsewhere: "P w \<Longrightarrow> P (snd (c_now env w))" "P w \<Longrightarrow> P (c_sleep env d w)"
      "P w \<Longrightarrow> P (snd (c_uuid env w))" "P w \<Longrightarrow> P (snd (http_do env meth url body w))"

definition list_contract :: "'w env \<Rightarrow> bool" where
  \<comment> \<open>a list holds objects of the kind asked for\<close>
  "list_contract env \<longleftrightarrow> (\<forall>k ns sel w obs w'.
     c_list env k ns sel w = (Inr obs, w') \<longrightarrow> (\<forall>ob \<in> set obs. kind_of ob = k))"

definition templates_contract :: "'w env \<Rightarrow> bool" where
  \<comment> \<open>a template of the repository decodes to an object of the kind it declares\<close>
  "templates_contract env \<longleftrightarrow> (\<forall>f k bytes ob. (f, k) \<in> set template_kinds \<longrightarrow>
     read_file env (TemplatePath @ ''/'' @ f) = Inr bytes \<longrightarrow> decode_object env bytes = Inr ob \<longrightarrow> kind_of ob = k)"

definition client_contracts :: "'w env \<Rightarrow> bool" where
  "client_contracts env \<longleftrightarrow> retry_contract env \<and> get_contract env \<and> list_contract env
     \<and> write_contract (c_update env) \<and> write_contract (c_status_update env) \<and> owner_contract env
     \<and> finalizer_contract env \<and> templates_contract env"

locale manager = account manager_role env P for env :: "'w env" and P +
  assumes contracts: "client_contracts env"
begin

lemma readable: "k \<in> set touched \<Longrightarrow> may_read manager_role k"
  using manager_may by (auto simp: list_all_iff touched_def)

lemma writable:
  "k \<in> set managed \<Longrightarrow> may manager_role ''create'' k" "k \<in> set managed \<Longrightarrow> may manager_role ''delete'' k"
  "k \<in> set touched \<Longrightarrow> may manager_role ''update'' k"
  "k \<in> set with_status \<Longrightarrow> may_write_status manager_role k"
  using manager_may by (auto simp: list_all_iff touched_def)

lemma with_status_touched: "k \<in> set with_status \<Longrightarrow> k \<in> set touched"
  by (auto simp: with_status_def managed_def touched_def)

lemma managed_touched: "k \<in> set managed \<Longrightarrow> k \<in> set touched"
  by (simp add: touched_def)

subsection \<open>Calls\<close>

lemma results:
  "fst (c_get env k ns n w) = Inr ob \<Longrightarrow> kind_of ob = k"
  "fst (c_list env k ns sel w) = Inr obs \<Longrightarrow> ob \<in> set obs \<Longrightarrow> kind_of ob = k"
  "fst (c_update env ob w) = Inr ob' \<Longrightarrow> kind_of ob' = kind_of ob"
  "fst (c_status_update env ob w) = Inr ob' \<Longrightarrow> kind_of ob' = kind_of ob"
  using contracts unfolding client_contracts_def get_contract_def list_contract_def write_contract_def same_key_def
  by (metis prod.collapse)+

lemma get: "k \<in> set touched \<Longrightarrow>
    within P (callg (c_get env k ns n)) (\<lambda>r. \<forall>ob. r = Inr ob \<longrightarrow> kind_of ob = k)"
  by (intro within_callg conjI get_allowed readable) (auto dest: results)

lemma lists: "k \<in> set touched \<Longrightarrow>
    within P (callg (c_list env k ns sel)) (\<lambda>r. \<forall>obs. r = Inr obs \<longrightarrow> (\<forall>ob \<in> set obs. kind_of ob = k))"
  by (intro within_callg conjI list_allowed readable) (auto dest: results)

lemma create: "kind_of ob \<in> set managed \<Longrightarrow> within P (callg (c_create env ob)) (\<lambda>_. True)"
  using create_allowed [OF writable(1)] by (auto intro!: within_callg)

lemma delete: "kind_of ob \<in> set managed \<Longrightarrow> within P (callg (c_delete env ob)) (\<lambda>_. True)"
  using delete_allowed [OF writable(2)] by (auto intro!: within_callg)

lemma update: "kind_of ob = k \<Longrightarrow> k \<in> set touched \<Longrightarrow>
    within P (callg (c_update env ob)) (\<lambda>r. \<forall>ob'. r = Inr ob' \<longrightarrow> kind_of ob' = k)"
  by (intro within_callg conjI update_allowed writable) (auto dest: results)

lemma status: "kind_of ob = k \<Longrightarrow> k \<in> set with_status \<Longrightarrow>
    within P (callg (c_status_update env ob)) (\<lambda>r. \<forall>ob'. r = Inr ob' \<longrightarrow> kind_of ob' = k)"
  by (intro within_callg conjI status_allowed writable) (auto dest: results)

lemma event: "within P (effg (c_event env ob ty reason msg)) (\<lambda>_. True)"
  using event_allowed manager_may(3) by (auto intro!: within_effg)

lemma clock: "within P (callg (c_now env)) (\<lambda>_. True)" "within P (effg (c_sleep env d)) (\<lambda>_. True)"
  using elsewhere by (auto intro!: within_callg within_effg)

lemma http: "within P (callg (http_do env meth url body)) (\<lambda>_. True)"
  using elsewhere(4) by (auto intro!: within_callg)

lemma get_as: "k \<in> set touched \<Longrightarrow> within P (get_as env k proj ns n) (\<lambda>_. True)"
  unfolding get_as_def by (rule within_bindg [OF get]) (auto intro: within_retg)

lemma list_as: "k \<in> set touched \<Longrightarrow> within P (list_as env k proj ns sel) (\<lambda>_. True)"
  unfolding list_as_def by (rule within_bindg [OF lists]) (auto intro: within_retg)

subsection \<open>Read-modify-write\<close>

lemma rmw_attempt:
  assumes k: "k \<in> set touched" "kind_of res = k"
    and wr: "\<And>ob. kind_of ob = k \<Longrightarrow> within P (callg (write ob)) (\<lambda>r. \<forall>ob'. r = Inr ob' \<longrightarrow> kind_of ob' = k)"
    and fns: "\<And>f. f \<in> set fns \<Longrightarrow> edits P k f"
  shows "within P (rmw_attempt env write fns res) (\<lambda>(e, ob). kind_of ob = k)"
  unfolding rmw_attempt_def k(2)
  using k(2)
  by (intro within_bindg [OF get [OF k(1)]])
    (auto intro!: within_retg within_bindg [OF edits_apply_all, OF fns] within_bindg [OF wr] split: sum.split)

lemma retry:
  assumes "kind_of res = k"
    and "\<And>ob. kind_of ob = k \<Longrightarrow> within P (fn ob) (\<lambda>(e, ob'). kind_of ob' = k)"
  shows "within P (c_retry env fn res) (\<lambda>(e, ob'). kind_of ob' = k)"
  unfolding within_def
proof (intro allI impI)
  fix w
  assume w: "P w"
  from contracts obtain n where n: "c_retry env fn res w = attempts n fn res w"
    unfolding client_contracts_def retry_contract_def by blast
  from within_attempts [of "\<lambda>ob. kind_of ob = k" P fn res n, OF assms(2) assms(1)] w
  show "P (snd (c_retry env fn res w)) \<and>
      (\<forall>x. fst (c_retry env fn res w) = Return x \<longrightarrow> (case x of (e, ob') \<Rightarrow> kind_of ob' = k))"
    unfolding n within_def by simp
qed

lemma UpdateStatus:
  assumes "kind_of res = k" "k \<in> set with_status" "\<And>f. f \<in> set fns \<Longrightarrow> edits P k f"
  shows "within P (UpdateStatus env res fns) (\<lambda>(e, ob). kind_of ob = k)"
  unfolding UpdateStatus_def
  by (rule within_bindg [OF retry], rule assms(1),
      rule rmw_attempt [OF with_status_touched [OF assms(2)] _ status [OF _ assms(2)] assms(3)])
    (auto intro: within_retg)

lemma UpdateObj:
  assumes "kind_of res = k" "k \<in> set touched" "\<And>f. Some f \<in> set fns \<Longrightarrow> edits P k f"
  shows "within P (UpdateObj env res fns) (\<lambda>(e, ob). kind_of ob = k)"
proof -
  have e: "\<And>f. f \<in> set (List.map_filter id fns) \<Longrightarrow> edits P k f"
    using assms(3) by (auto simp: List.map_filter_def)
  show ?thesis
    unfolding UpdateObj_def
    by (rule within_bindg [OF retry], rule assms(1), rule rmw_attempt [OF assms(2) _ update [OF _ assms(2)] e])
      (auto intro: within_retg)
qed

subsection \<open>Edits\<close>

lemma edits_phase: "edits P k (updateStatusPhase p)"
  unfolding updateStatusPhase_def by (rule edits_pure) simp

lemma edits_condition: "edits P k (setCondition env r)" "edits P k (setErrorCondition env h reason msg)"
  unfolding setCondition_def setErrorCondition_def append_condition_now_def edits_def
  by (auto intro!: within_bindg [OF clock(1)] within_retg)

lemma edits_data: "edits P k (SetStatusData env r)"
  unfolding SetStatusData_def edits_def Let_def
  by (auto intro!: within_bindg [OF clock(1)] within_retg split: option.split dest!: as_SomeD)

subsection \<open>The handlers and the processor\<close>

lemma ErrorDelegateHandler:
  "kind_of res = k \<Longrightarrow> k \<in> set with_status \<Longrightarrow> within P (ErrorDelegateHandler env res err) (\<lambda>(ret, res'). kind_of res' = k)"
  unfolding ErrorDelegateHandler_def Let_def
  by (rule within_bindg [OF UpdateStatus]) (auto intro!: within_retg edits_phase edits_condition split: prod.split)

lemma delegate:
  "kind_of res \<in> set with_status \<Longrightarrow> within P (delegate env res err) (\<lambda>_. True)"
  unfolding delegate_def
  by (rule within_bindg [OF ErrorDelegateHandler [OF refl]]) (auto intro: within_retg)

lemma ObjectHandler:
  assumes "kind_of ob = k" "oh_IsDelete h \<Longrightarrow> k \<in> set managed" "k \<in> set touched"
    and "pred_option (edits P k) f"
  shows "within P (ObjectHandler_Handle env h ob f) (\<lambda>(_, _, ob'). kind_of ob' = k)"
proof -
  have "within P (if oh_IsDelete h
            then bindg (callg (c_delete env ob)) (\<lambda>internalErr.
              retg (map_option (wrapf ''failed to delete object: '') internalErr, ob))
            else bindg (UpdateObj env ob [f]) (\<lambda>(internalErr, ob').
              retg (map_option (wrapf ''failed to update object: '') internalErr, ob'))) (\<lambda>(_, ob'). kind_of ob' = k)"
    using assms
    by (auto intro!: within_bindg [OF delete] within_bindg [OF UpdateObj] within_retg)
  then show ?thesis
    unfolding ObjectHandler_Handle_def by (rule within_bindg) (auto intro!: within_retg split: option.split)
qed

lemma RequestHandler: "within P (RequestHandler_Handle env p ob f) (\<lambda>(_, _, ob'). ob' = ob)"
  unfolding RequestHandler_Handle_def
  by (intro within_bindg [OF within_pureg, OF TrueI])
    (auto intro!: within_retg within_bindg [OF http] split: prod.split option.split sum.split)

lemma process_other:
  assumes "kind_of res = k" "k \<in> set with_status" "within P (procFn ob f) (\<lambda>_. True)"
    and "pred_option (\<lambda>u. \<forall>r. edits P k (u r)) updateFn"
  shows "within P (process env res False ob f procFn updateFn) (\<lambda>(_, res', _). kind_of res' = k)"
  unfolding process_def Let_def
  by (rule within_bindg [OF assms(3)])
    (use assms in \<open>auto intro!: within_retg within_bindg [OF UpdateStatus, OF assms(1,2)] split: option.split\<close>)

lemma process_self:
  assumes "k \<in> set with_status" "within P (procFn ob f) (\<lambda>(_, _, ob'). kind_of ob' = k)"
    and "pred_option (\<lambda>u. \<forall>r. edits P k (u r)) updateFn"
  shows "within P (process env ob True ob f procFn updateFn) (\<lambda>(_, res', _). kind_of res' = k)"
  unfolding process_def Let_def
  by (rule within_bindg [OF assms(2)])
    (use assms in \<open>auto intro!: within_retg within_bindg [OF UpdateStatus, OF _ assms(1)] split: option.split\<close>)

lemma maybe_edit: "kind_of ob = k \<Longrightarrow> pred_option (edits P k) f \<Longrightarrow>
    within P (maybe_edit f ob) (\<lambda>ob'. kind_of ob' = k)"
  unfolding maybe_edit_def by (auto intro: within_retg editsD split: option.split)

lemma processor_other:
  assumes "kind_of res = k" "k \<in> set with_status" "kind_of ob = j" "pred_option (edits P j) f"
    and "\<And>ob. kind_of ob = j \<Longrightarrow> within P (procFn ob f) (\<lambda>_. True)"
    and "pred_option (\<lambda>u. \<forall>r. edits P k (u r)) updateFn"
  shows "within P (Processor env res (Some ob) build f procFn updateFn) (\<lambda>(_, res', _). kind_of res' = k)"
  unfolding Processor_def
  by (simp, rule within_bindg [OF maybe_edit [OF assms(3,4)]], rule process_other [OF assms(1,2) _ assms(6)], rule assms(5))

lemma processor_self:
  assumes "kind_of res = k" "k \<in> set with_status" "pred_option (edits P k) f"
    and "\<And>ob. kind_of ob = k \<Longrightarrow> within P (procFn ob f) (\<lambda>(_, _, ob'). kind_of ob' = k)"
    and "pred_option (\<lambda>u. \<forall>r. edits P k (u r)) updateFn"
  shows "within P (Processor env res None None f procFn updateFn) (\<lambda>(_, res', _). kind_of res' = k)"
  unfolding Processor_def
  by (simp, rule within_bindg [OF maybe_edit [OF assms(1,3)]], rule process_self [OF assms(2) _ assms(5)], rule assms(4))

lemma processor_built:
  assumes "kind_of res = k" "k \<in> set with_status"
    and "within P (build res f) (\<lambda>b. \<forall>ob. b = Inr ob \<longrightarrow> kind_of ob = j)"
    and "\<And>ob. kind_of ob = j \<Longrightarrow> within P (procFn ob f) (\<lambda>_. True)"
    and "pred_option (\<lambda>u. \<forall>r. edits P k (u r)) updateFn"
  shows "within P (Processor env res None (Some build) f procFn updateFn) (\<lambda>(_, res', _). kind_of res' = k)"
  unfolding Processor_def
  by (simp, rule within_bindg [OF assms(3)])
    (auto intro!: within_retg process_other assms split: sum.split)

subsection \<open>Provisioning\<close>

lemma Build:
  assumes "(ch_TemplateName h, k) \<in> set template_kinds" "edits P k g"
  shows "within P (ClusterResourceHandler_Build env h ob (Some g)) (\<lambda>r. \<forall>ob. r = Inr ob \<longrightarrow> kind_of ob = k)"
proof -
  have "kind_of x = k" if "read_file env (TemplatePath @ ''/'' @ ch_TemplateName h) = Inr bytes"
    "decode_object env bytes = Inr x" for bytes x
    using contracts assms(1) that unfolding client_contracts_def templates_contract_def by blast
  then show ?thesis
    unfolding ClusterResourceHandler_Build_def
    by (auto intro!: within_retg within_bindg [OF editsD [OF assms(2)]] simp: call_fn_def split: sum.split)
qed

lemma handle_attempt:
  assumes "kind_of ob = k" "k \<in> set managed" "ch_InitObject h = k" "\<not> ch_NeedVerify h"
  shows "within P (handle_attempt env h ob) (\<lambda>r. \<forall>ob'. r = Inl ob' \<longrightarrow> kind_of ob' = k)"
proof -
  have verify: "verify_and_finish env h x = retg (Some (ready_result h), None, x)" for x
    using assms(4) by (simp add: verify_and_finish_def)
  have target: "kind_of (target_object h ob) = k"
    using assms(1) by (simp add: target_object_def inject_labels_def split: option.split)
  have owned: "kind_of x = k" if "set_controller_ref env p (target_object h ob) = Inr x" for p x
    using contracts target that unfolding client_contracts_def owner_contract_def by fastforce
  have synced: "kind_of new = k" if "kind_of cur = k" "sync_spec (ch_ResourceType h) (adopt_meta x cur) x = Return (Synced new)"
    for x cur new
    using sync_ok_spec [of "ch_ResourceType h"] that unfolding sync_ok_def by (auto simp: adopt_meta_def)
  have create_target: "within P (create_target env h x) (\<lambda>r. \<forall>ob'. r = Inl ob' \<longrightarrow> kind_of ob' = k)"
    if "kind_of x = k" for x
    unfolding create_target_def verify using that assms(2)
    by (auto intro!: within_bindg [OF create] within_bindg_retg within_retg split: sum.split)
  have update_target: "within P (update_target env h x cur) (\<lambda>r. \<forall>ob'. r = Inl ob' \<longrightarrow> kind_of ob' = k)"
    if "kind_of x = k" "kind_of cur = k" for x cur
    unfolding update_target_def verify
  proof (rule within_bindg [OF within_pureg])
    fix r
    assume "sync_spec (ch_ResourceType h) (adopt_meta x cur) x = Return r"
    then show "\<forall>new. r = Synced new \<longrightarrow> kind_of new = k" using synced [OF that(2)] by blast
  qed (auto intro!: within_bindg [OF update, OF _ managed_touched [OF assms(2)]] within_bindg_retg
      within_retg simp: that split: sync.split sum.split)
  show ?thesis
    unfolding handle_attempt_def Let_def
    by (auto intro!: within_retg within_bindg [OF get, OF managed_touched [OF assms(2)]] create_target update_target
        simp: target assms(1,3) dest: owned split: sum.split if_splits)
qed

lemma ClusterResourceHandler:
  assumes "k \<in> set managed" "ch_InitObject h = k" "\<not> ch_NeedVerify h"
  shows "kind_of ob = k \<Longrightarrow> within P (ClusterResourceHandler_Handle n env h ob f) (\<lambda>_. True)"
proof (induction n arbitrary: ob)
  case (Suc n)
  show ?case
    unfolding ClusterResourceHandler_Handle.simps
    by (rule within_bindg [OF handle_attempt [OF Suc.prems assms]])
      (auto intro!: within_retg Suc.IH split: sum.split)
qed (simp add: within_nofuelg)

lemma handler_made:
  assumes "NewClusterResourceHandler res paras = Return h" "empty_object (cp_ResourceType paras) = Return k"
  shows "ch_InitObject h = k" "ch_TemplateName h = cp_Template paras" "ch_NeedVerify h = cp_NeedVerify paras"
  using assms by (auto simp: NewClusterResourceHandler_def)

lemma cluster_processor:
  assumes "kind_of res = r" "r \<in> set with_status" "NewClusterResourceHandler res paras = Return h"
    and "empty_object (cp_ResourceType paras) = Return k" "(cp_Template paras, k) \<in> set template_kinds"
    and "\<not> cp_NeedVerify paras" "edits P k f"
  shows "within P (Processor env res None (Some (ClusterResourceHandler_Build env h)) (Some f)
      (ClusterResourceHandler_Handle fuel env h) (Some (setCondition env))) (\<lambda>(_, res', _). kind_of res' = r)"
proof -
  note h = handler_made [OF assms(3,4)]
  have "k \<in> set managed"
    using assms(5) by (auto simp: template_kinds_eq managed_def)
  with h assms show ?thesis
    by (intro processor_built Build ClusterResourceHandler) (auto simp: edits_condition)
qed

lemma provision:
  assumes "kind_of res = r" "r \<in> set with_status"
    and "empty_object (cp_ResourceType paras) = Return k" "(cp_Template paras, k) \<in> set template_kinds"
    and "\<not> cp_NeedVerify paras" "edits P k f"
  shows "within P (provision fuel env res paras f) (\<lambda>(_, res'). kind_of res' = r)"
  unfolding provision_def
proof (rule within_bindg [OF within_pureg])
  fix h
  assume "NewClusterResourceHandler res paras = Return h"
  then show "NewClusterResourceHandler res paras = Return h" .
next
  fix h
  assume "NewClusterResourceHandler res paras = Return h"
  then show "within P (bindg (Processor env res None (Some (ClusterResourceHandler_Build env h)) (Some f)
         (ClusterResourceHandler_Handle fuel env h) (Some (setCondition env))) (\<lambda>((_, err), res1, _).
       retg (err, res1))) (\<lambda>(_, res'). kind_of res' = r)"
    by (intro within_bindg [OF cluster_processor [OF assms(1,2) _ assms(3-6)]]) (auto intro: within_retg)
qed

subsection \<open>Deletion\<close>

lemma unlabel_all:
  "k \<in> set touched \<Longrightarrow> (\<And>ob. ob \<in> set obs \<Longrightarrow> kind_of ob = k) \<Longrightarrow> within P (unlabel_all env key obs) (\<lambda>_. True)"
proof (induction obs)
  case (Cons ob obs)
  show ?case
    unfolding unlabel_all.simps
    by (rule within_bindg [OF update, OF _ Cons.prems(1)])
      (use Cons in \<open>auto intro!: within_retg split: sum.split\<close>)
qed (auto intro: within_retg)

lemma unlabel_members: "k \<in> set touched \<Longrightarrow> within P (unlabel_members env k e) (\<lambda>_. True)"
  unfolding unlabel_members_def Let_def
  by (auto intro!: within_retg within_bindg [OF lists] unlabel_all split: sum.split)

lemma delete_netpol: "within P (delete_netpol env e) (\<lambda>_. True)"
  unfolding delete_netpol_def
  by (rule within_bindg [OF get])
    (auto intro!: within_retg delete simp: touched_def managed_def split: sum.split)

lemma cleanups:
  "GetObjectsToDelete env ob = Some fns \<Longrightarrow> fn \<in> set fns \<Longrightarrow> within P fn (\<lambda>_. True)"
  by (cases ob) (auto simp: Entity_GetObjectsToDelete_def Group_GetObjectsToDelete_def Model_GetObjectsToDelete_def
      Task_GetObjectsToDelete_def managed_def touched_def intro!: delete delete_netpol unlabel_members)

lemma run_cleanups: "(\<And>fn. fn \<in> set fns \<Longrightarrow> within P fn (\<lambda>_. True)) \<Longrightarrow> within P (run_cleanups fns) (\<lambda>_. True)"
  by (induction fns) (auto intro!: within_retg within_bindg [where R = "\<lambda>_. True"] split: option.split)

lemma DeletionHandler: "within P (DeletionHandler_Handle env ob f) (\<lambda>(_, _, ob'). ob' = ob)"
  unfolding DeletionHandler_Handle_def
  by (auto intro!: within_retg within_bindg [OF run_cleanups] dest: cleanups split: option.split)

lemma kind_of_finalizers: "kind_of (add_finalizer env x ob) = kind_of ob" "kind_of (remove_finalizer env x ob) = kind_of ob"
  using contracts unfolding client_contracts_def finalizer_contract_def by auto

lemma finalize:
  assumes k: "kind_of res = k" "k \<in> set with_status"
  shows "within P (finalize env res x) (\<lambda>(_, res'). kind_of res' = k)"
  unfolding finalize_def Let_def using k
  by (auto intro!: within_retg within_bindg [OF UpdateStatus, OF k] ErrorDelegateHandler edits_phase
      within_bindg [OF DeletionHandler] within_bindg [OF update [OF _ with_status_touched [OF k(2)]]]
      simp: kind_of_finalizers split: option.split sum.split)

lemma handleFinalizer:
  assumes k: "kind_of res = k" "k \<in> set with_status"
  shows "within P (handleFinalizer env res x) (\<lambda>(_, res'). kind_of res' = k)"
  unfolding handleFinalizer_def Let_def using k with_status_touched [OF k(2)]
  by (auto intro!: finalize ErrorDelegateHandler within_bindg [OF update] simp: kind_of_finalizers split: sum.split)

lemma object_processor:
  assumes "kind_of res = k" "k \<in> set with_status" "kind_of ob = j" "j \<in> set touched" "oh_IsDelete h \<Longrightarrow> j \<in> set managed"
    and "pred_option (edits P j) f"
  shows "within P (Processor env res (Some ob) b f (ObjectHandler_Handle env h) (Some (setCondition env)))
    (\<lambda>(_, res', _). kind_of res' = k)"
  by (rule processor_other [OF assms(1-3,6)], rule within_weaken [OF ObjectHandler [OF _ assms(5,4,6)]])
    (auto simp: edits_condition)

lemma own_processor:
  assumes "kind_of res = k" "k \<in> set with_status" "\<not> oh_IsDelete h" "pred_option (edits P k) f"
  shows "within P (Processor env res None None f (ObjectHandler_Handle env h) (Some (setCondition env)))
    (\<lambda>(_, res', _). kind_of res' = k)"
  using assms(3) by (intro processor_self [OF assms(1,2,4)] ObjectHandler [OF _ _ with_status_touched [OF assms(2)] assms(4)])
    (auto simp: edits_condition)

text \<open>The same as steps of a longer run.\<close>

lemma object_step:
  assumes "kind_of res \<in> set with_status" "kind_of ob \<in> set touched" "oh_IsDelete h \<Longrightarrow> kind_of ob \<in> set managed"
    and "pred_option (edits P (kind_of ob)) f"
    and "\<And>r res' x. kind_of res' = kind_of res \<Longrightarrow> within P (g (r, res', x)) Q"
  shows "within P (bindg (Processor env res (Some ob) b f (ObjectHandler_Handle env h) (Some (setCondition env))) g) Q"
  by (rule within_bindg [OF object_processor [OF refl assms(1) refl assms(2-4)]]) (auto intro: assms(5))

lemma own_step:
  assumes "kind_of res \<in> set with_status" "\<not> oh_IsDelete h" "pred_option (edits P (kind_of res)) f"
    and "\<And>r res' x. kind_of res' = kind_of res \<Longrightarrow> within P (g (r, res', x)) Q"
  shows "within P (bindg (Processor env res None None f (ObjectHandler_Handle env h) (Some (setCondition env))) g) Q"
  by (rule within_bindg [OF own_processor [OF refl assms(1-3)]]) (auto intro: assms(4))

lemma update_step:
  assumes "kind_of res \<in> set with_status" "\<And>f. f \<in> set fns \<Longrightarrow> edits P (kind_of res) f"
    and "\<And>e res'. kind_of res' = kind_of res \<Longrightarrow> within P (g (e, res')) Q"
  shows "within P (bindg (UpdateStatus env res fns) g) Q"
  by (rule within_bindg [OF UpdateStatus [OF refl assms(1,2)]]) (auto intro: assms(3))

lemma delegate_step:
  "kind_of res \<in> set with_status \<Longrightarrow> (\<And>x. within P (g x) Q) \<Longrightarrow> within P (bindg (delegate env res e) g) Q"
  by (rule within_bindg [OF delegate])

lemma get_step:
  "k \<in> set touched \<Longrightarrow> (\<And>e. within P (g (Inl e)) Q) \<Longrightarrow> (\<And>ob. kind_of ob = k \<Longrightarrow> within P (g (Inr ob)) Q) \<Longrightarrow>
    within P (bindg (callg (c_get env k ns n)) g) Q"
  by (rule within_bindg [OF get], assumption) (metis sum.exhaust)

lemma get_as_step: "k \<in> set touched \<Longrightarrow> (\<And>r. within P (g r) Q) \<Longrightarrow> within P (bindg (get_as env k proj ns n) g) Q"
  by (rule within_bindg [OF get_as])

lemma list_as_step: "k \<in> set touched \<Longrightarrow> (\<And>r. within P (g r) Q) \<Longrightarrow> within P (bindg (list_as env k proj ns sel) g) Q"
  by (rule within_bindg [OF list_as])

lemma pure_step: "(\<And>x. r = Return x \<Longrightarrow> within P (g x) Q) \<Longrightarrow> within P (bindg (pureg r) g) Q"
  by (rule within_bindg [OF within_pureg]) auto

lemma clock_step:
  "(\<And>x. within P (g x) Q) \<Longrightarrow> within P (bindg (callg (c_now env)) g) Q"
  "(\<And>x. within P (h x) Q) \<Longrightarrow> within P (bindg (effg (c_sleep env d)) h) Q"
  by (rule within_bindg [OF clock(1)] within_bindg [OF clock(2)], assumption)+

lemma event_step: "(\<And>x. within P (g x) Q) \<Longrightarrow> within P (bindg (effg (c_event env ob ty reason msg)) g) Q"
  by (rule within_bindg [OF event])

lemmas steps = object_step own_step update_step delegate_step get_step get_as_step list_as_step pure_step clock_step
  event_step within_retg delegate

lemmas kind_lists = touched_def managed_def with_status_def

subsection \<open>Groups\<close>

lemma edits_labels: "edits P k (label_edit n e t)"
  unfolding label_edit_def by (rule edits_pure) simp

lemma keepers [simp]: "\<not> oh_IsDelete label_processor"
  by (simp add: label_processor_def NewObjectHandler_def)

lemma label_entity: "kind_of res = KGroup \<Longrightarrow> within P (label_entity env res e t) (\<lambda>(_, res'). kind_of res' = KGroup)"
  unfolding label_entity_def Let_def
  by (auto intro!: steps simp: edits_labels kind_lists split: option.split sum.split)

lemma updateLabelsForEntities:
  "kind_of res = KGroup \<Longrightarrow> within P (updateLabelsForEntities env res es t) (\<lambda>(_, res'). kind_of res' = KGroup)"
  by (induction es arbitrary: res)
    (auto intro!: within_retg within_bindg [OF label_entity] split: option.split)

lemma list_labelled: "within P (list_labelled env ns key) (\<lambda>_. True)"
  unfolding list_labelled_def by (auto intro!: steps simp: kind_lists split: sum.split)

lemma GetEntityListForTarget: "within P (GetEntityListForTarget env ns t) (\<lambda>_. True)"
  unfolding GetEntityListForTarget_def by (auto intro!: steps list_labelled simp: kind_lists split: sum.split)

lemma apply_targets: "kind_of res = KGroup \<Longrightarrow> within P (apply_targets env res ts) (\<lambda>(_, res'). kind_of res' = KGroup)"
  by (induction ts arbitrary: res)
    (auto intro!: within_retg within_bindg [OF GetEntityListForTarget] within_bindg [OF updateLabelsForEntities]
      split: option.split sum.split)

lemma edits_total: "edits P k (pure_mod (set_total n))"
  by (rule edits_pure) (auto simp: set_total_def split: option.split dest!: as_SomeD)

lemma finish_group: "kind_of res = KGroup \<Longrightarrow> within P (finish_group env res) (\<lambda>_. True)"
  unfolding finish_group_def
  by (rule within_bindg [OF apply_targets])
    (auto intro!: steps simp: kind_lists edits_total edits_phase split: option.split sum.split)

lemma edits_netpol: "edits P k (lift_mod (BuildNp key val))"
  by (rule edits_lift) (auto simp: BuildNp_def split: option.splits dest!: as_SomeD as_SomeD_more)

lemma provision_netpol:
  "kind_of res = KGroup \<Longrightarrow> within P (provision_netpol fuel env res) (\<lambda>(_, res'). kind_of res' = KGroup)"
  unfolding provision_netpol_def
  by (rule pure_step, rule within_bindg [OF cluster_processor [where k = KNetworkPolicy and r = KGroup]])
    (auto intro!: steps edits_netpol simp: kind_lists edits_phase template_kinds_eq group_netpol_params_def type_kinds
      split: option.split)

lemma GroupReconciler: "within P (GroupReconciler_Reconcile fuel env ns n) (\<lambda>_. True)"
proof -
  have "within P (reconcile_group fuel env res) (\<lambda>_. True)" if "kind_of res = KGroup" for res
    unfolding reconcile_group_def
    by (rule within_bindg [where R = "\<lambda>(_, res'). kind_of res' = KGroup"])
      (use that in \<open>auto intro!: steps finish_group within_bindg [OF provision_netpol] within_bindg_retg
        simp: kind_lists edits_phase split: option.split\<close>)
  then show ?thesis
    unfolding GroupReconciler_Reconcile_def
    by (auto intro!: steps within_bindg [OF handleFinalizer [where k = KGroup]] simp: kind_lists split: sum.split)
qed

subsection \<open>Tasks\<close>

lemma edits_task: "edits P k (pure_mod (set_failed fs))" "edits P k (pure_mod (set_execute_time t))" "edits P k (complete_now env)"
  "edits P k (pure_mod (AppendCondition c))"
  unfolding complete_now_def
  by (auto simp: edits_def pure_mod_def set_failed_def set_completed_def set_execute_time_def intro!: steps
      split: option.split dest!: as_SomeD)

lemma task_attempts:
  "kind_of res = KTask \<Longrightarrow> within P (task_attempts env d e cs res) (\<lambda>(_, res'). kind_of res' = KTask)"
proof (induction cs arbitrary: res)
  case (Cons c cs)
  have sent: "within P (Processor env res (Some (OEntity e)) None None
         (RequestHandler_Handle env (task_request d res e)) (Some (setCondition env))) (\<lambda>(_, res', _). kind_of res' = KTask)"
    by (rule processor_other [OF Cons.prems _ refl], simp add: kind_lists, simp,
        rule within_weaken [OF RequestHandler]) (auto simp: edits_condition)
  show ?case
    unfolding task_attempts.simps
    by (rule within_bindg [OF sent], clarsimp split del: if_split, rule within_bindg [where R = "\<lambda>_. True"])
      (auto intro!: steps within_bindg [OF Cons.IH] simp: edits_task kind_lists)
qed (simp add: within_retg)

lemma task_entities:
  "kind_of res = KTask \<Longrightarrow> within P (task_entities env d es res) (\<lambda>(_, res'). kind_of res' = KTask)"
proof (induction es arbitrary: res)
  case (Cons e es)
  then show ?case
    by (auto intro!: within_retg within_bindg [OF task_attempts] within_bindg [OF Cons.IH] simp: task_entity_def)
qed (simp add: within_retg)

lemma finish_entities:
  "kind_of res = KTask \<Longrightarrow> within P (finish_entities env fs res) (\<lambda>(_, res'). kind_of res' = KTask)"
proof -
  have "kind_of (set_failed fs res) = kind_of res"
    by (auto simp: set_failed_def split: option.split dest!: as_SomeD)
  then show "kind_of res = KTask \<Longrightarrow> ?thesis"
    unfolding finish_entities_def by (auto intro!: steps simp: edits_task edits_phase kind_lists)
qed

lemma processEntities:
  "kind_of res = KTask \<Longrightarrow> within P (processEntities env sched res es) (\<lambda>(_, res'). kind_of res' = KTask)"
  unfolding processEntities_def by (auto intro!: within_bindg [OF task_entities] finish_entities)

text \<open>Steps that may stop a run.\<close>

definition ran_kind :: "kind \<Rightarrow> run_outcome \<Rightarrow> bool" where
  "ran_kind k x = (case x of Stop _ \<Rightarrow> True | Ran res \<Rightarrow> kind_of res = k)"

lemma ran_simps [simp]: "ran_kind k (Stop r)" "ran_kind k (Ran res) = (kind_of res = k)"
  by (simp_all add: ran_kind_def)

lemma then_run_step:
  "within P m (ran_kind k) \<Longrightarrow> (\<And>res. kind_of res = k \<Longrightarrow> within P (f res) (ran_kind k)) \<Longrightarrow> within P (then_run m f) (ran_kind k)"
  unfolding then_run_def by (erule within_bindg) (auto intro: within_retg split: run_outcome.split)

lemma stop_run_step:
  "within P m (ran_kind k) \<Longrightarrow> (\<And>res. kind_of res = k \<Longrightarrow> within P (f res) (\<lambda>_. True)) \<Longrightarrow> within P (stop_run m f) (\<lambda>_. True)"
  unfolding stop_run_def by (erule within_bindg) (auto intro: within_retg split: run_outcome.split)

lemma or_delegate:
  "within P m (\<lambda>(_, res'). kind_of res' = k) \<Longrightarrow> k \<in> set with_status \<Longrightarrow> within P (or_delegate env m msg) (ran_kind k)"
  unfolding or_delegate_def by (erule within_bindg) (auto intro!: steps split: option.split)

lemma or_return: "within P m (\<lambda>(_, res'). kind_of res' = k) \<Longrightarrow> within P (or_return m) (ran_kind k)"
  unfolding or_return_def by (erule within_bindg) (auto intro!: within_retg split: option.split)

lemma update_or_delegate:
  "kind_of res = k \<Longrightarrow> k \<in> set with_status \<Longrightarrow> (\<And>f. f \<in> set fns \<Longrightarrow> edits P k f) \<Longrightarrow>
    within P (update_or_delegate env res fns msg) (ran_kind k)"
  unfolding update_or_delegate_def by (rule or_delegate [OF UpdateStatus])

lemmas runs = then_run_step stop_run_step update_or_delegate

lemma collect_targets: "within P (collect_targets env ns ts) (\<lambda>_. True)"
proof (induction ts)
  case (Cons t ts)
  then show ?case
    by (auto intro!: within_retg within_bindg [OF GetEntityListForTarget] within_bindg [OF Cons.IH] split: sum.split)
qed (simp add: within_def)

lemma run_task:
  assumes "kind_of res = KTask"
  shows "within P (run_task env sched res ts) (ran_kind KTask)"
  unfolding run_task_def
  by (rule within_bindg [OF collect_targets])
    (use assms in \<open>auto intro!: steps within_bindg [OF update_or_delegate] within_bindg [OF processEntities]
      simp: kind_lists edits_phase split: sum.split option.split run_outcome.split\<close>)

lemma schedule_task: "kind_of res = KTask \<Longrightarrow> within P (schedule_task env res now nxt) (\<lambda>_. True)"
  unfolding schedule_task_def Let_def
  by (auto intro!: within_retg stop_run_step [where k = KTask] update_or_delegate simp: kind_lists edits_phase edits_task
      split: prod.split)

lemma finish_task: "kind_of res = KTask \<Longrightarrow> within P (finish_task env res done) (\<lambda>_. True)"
  unfolding finish_task_def
  by (auto intro!: steps stop_run_step [where k = KTask] update_or_delegate schedule_task simp: kind_lists edits_phase
      split: sum.split prod.split)

lemma reconcile_task: "kind_of res = KTask \<Longrightarrow> within P (reconcile_task env sched res) (\<lambda>_. True)"
  unfolding reconcile_task_def
  by (auto intro!: within_retg stop_run_step [where k = KTask] update_or_delegate run_task finish_task
      simp: kind_lists edits_phase split: option.split)

lemma TaskReconciler: "within P (TaskReconciler_Reconcile env sched ns n) (\<lambda>_. True)"
proof -
  have "within P (bindg (if Task_GetPhase (the_task res) = StatusArchiving
      then bindg (callg (c_delete env res)) (\<lambda>_. retg ()) else retg ()) (\<lambda>_. reconcile_task env sched res)) (\<lambda>_. True)"
    if "kind_of res = KTask" for res
    by (rule within_bindg [where R = "\<lambda>_. True"])
      (use that in \<open>auto intro!: within_retg within_bindg [OF delete] reconcile_task simp: kind_lists\<close>)
  then show ?thesis
    unfolding TaskReconciler_Reconcile_def
    by (intro get_as_step) (auto intro!: steps within_bindg [OF handleFinalizer [where k = KTask]] simp: kind_lists
        split: sum.split split del: if_split intro!: within_if)
qed

subsection \<open>Models\<close>

lemma provision_step:
  assumes "kind_of res = r" "r \<in> set with_status" "empty_object (cp_ResourceType paras) = Return k"
    and "(cp_Template paras, k) \<in> set template_kinds" "\<not> cp_NeedVerify paras" "edits P k f"
  shows "within P (or_return (provision fuel env res paras f)) (ran_kind r)"
    "within P (or_delegate env (provision fuel env res paras f) msg) (ran_kind r)"
  by (rule or_return [OF provision [OF assms]], rule or_delegate [OF provision [OF assms] assms(2)])

lemma edits_none: "edits P k no_edit"
  unfolding no_edit_def by (rule edits_pure) simp

lemma edits_model: "edits P k (lift_mod (edit_model_service n m))" "edits P k (lift_mod (edit_model_sts mo))"
  "edits P k (lift_mod (edit_entity n i))" "edits P k (report_replicas c)"
proof -
  show "edits P k (report_replicas c)"
    unfolding report_replicas_def edits_def
    by (auto intro!: steps split: option.split dest!: as_SomeD)
qed (rule edits_lift; auto simp: edit_model_service_def edit_model_sts_def edit_entity_def Let_def selector_entry_def
    split: option.splits list.splits dest!: as_SomeD as_SomeD_more)+

lemma create_entities:
  "kind_of res = KModel \<Longrightarrow> within P (create_entities fuel env em i t res) (\<lambda>(_, res'). kind_of res' = KModel)"
proof (induction "nat (sint t - sint i)" arbitrary: i res rule: less_induct)
  case less
  have p: "within P (provision fuel env res (entity_params res i) (lift_mod (edit_entity (obj_name res) i)))
      (\<lambda>(_, res'). kind_of res' = KModel)"
    by (rule provision [where k = KEntity])
      (use less in \<open>auto simp: kind_lists param_defs type_kinds template_kinds_eq edits_model\<close>)
  have "within P (create_entities fuel env em (i + 1) t r) (\<lambda>(_, res'). kind_of res' = KModel)"
    if "sint i < sint t" "kind_of r = KModel" for r
    using that by (intro less.hyps) (auto simp: sint_next)
  then show ?case
    by (subst create_entities.simps) (use less.prems in \<open>auto intro!: within_retg within_bindg [OF p] split: option.split\<close>)
qed

lemma deleters: "oh_ResourceType entity_deleter = ResourceTypeEntity" "oh_IsDelete entity_deleter"
  "\<not> oh_IsDelete namespace_labeller" "\<not> oh_IsDelete sts_adopter" "\<not> oh_IsDelete sts_increaser" "\<not> oh_IsDelete entity_owner"
  by (simp_all add: entity_deleter_def namespace_labeller_def sts_adopter_def sts_increaser_def entity_owner_def
      NewObjectHandler_def)

lemma delete_entities:
  "kind_of res = KModel \<Longrightarrow> within P (delete_entities env em i c res) (\<lambda>(_, res'). kind_of res' = KModel)"
proof (induction "nat (sint c - sint i)" arbitrary: i res rule: less_induct)
  case less
  have "within P (delete_entities env em (i + 1) c r) (\<lambda>(_, res'). kind_of res' = KModel)"
    if "sint i < sint c" "kind_of r = KModel" for r
    using that by (intro less.hyps) (auto simp: sint_next)
  then show ?case
    by (subst delete_entities.simps)
      (use less.prems in \<open>auto intro!: steps simp: kind_lists split: option.split\<close>)
qed

lemma manageEntities:
  "kind_of res = KModel \<Longrightarrow> within P (manageEntities fuel env res c t) (\<lambda>(_, res'). kind_of res' = KModel)"
  unfolding manageEntities_def
  by (auto intro!: steps create_entities delete_entities simp: kind_lists split: sum.split)

lemma label_namespace: "kind_of res = KModel \<Longrightarrow> within P (label_namespace env res) (ran_kind KModel)"
  unfolding label_namespace_def
  by (auto intro!: steps or_return edits_pure simp: kind_lists deleters split: sum.split)

lemma model_infrastructure: "kind_of res = KModel \<Longrightarrow> within P (model_infrastructure fuel env res) (ran_kind KModel)"
  unfolding model_infrastructure_def
  by (intro then_run_step label_namespace provision_step(1) [where k = KNetworkPolicy] provision_step(1) [where k = KService])
    (auto simp: kind_lists param_defs type_kinds template_kinds_eq edits_none edits_model)

lemma kind_of_owner: "kind_of (set_owner env m ob) = kind_of ob"
  using contracts unfolding client_contracts_def owner_contract_def set_owner_def by (fastforce split: sum.split)

lemma edits_adopt: "edits P k (adopt_sts env m)"
proof -
  have "kind_of ob = KStatefulSet" if "as_statefulset (set_owner env m ob) = Some s" for ob s
    using that kind_of_owner [of m ob] by (metis as_SomeD(6) kind_of.simps(6))
  then show ?thesis
    unfolding edits_def adopt_sts_def Let_def
    by (auto intro!: steps simp: kind_of_owner split: option.split)
qed

lemma adopt_existing_sts: "kind_of res = KModel \<Longrightarrow> within P (adopt_existing_sts env res) (ran_kind KModel)"
  unfolding adopt_existing_sts_def
  by (auto intro!: steps or_delegate simp: kind_lists deleters edits_adopt split: sum.split)

lemma model_workload: "kind_of res = KModel \<Longrightarrow> within P (model_workload fuel env res) (ran_kind KModel)"
  unfolding model_workload_def
  by (intro within_if adopt_existing_sts provision_step(1) [where k = KStatefulSet])
    (auto simp: kind_lists param_defs type_kinds template_kinds_eq edits_model)

lemma current_replicas: "within P (current_replicas env res) (\<lambda>_. True)"
  unfolding current_replicas_def by (auto intro!: steps simp: kind_lists split: sum.split)

lemma reconcile_model: "kind_of res = KModel \<Longrightarrow> within P (reconcile_model fuel env res) (\<lambda>_. True)"
  unfolding reconcile_model_def reconcile_replicas_def settle_model_def
  by (auto intro!: steps stop_run_step [where k = KModel] then_run_step or_delegate update_or_delegate manageEntities
      model_workload model_infrastructure within_bindg [OF current_replicas] simp: kind_lists edits_phase edits_model
      split: sum.split)

lemma ModelReconciler: "within P (ModelReconciler_Reconcile fuel env ns n) (\<lambda>_. True)"
  unfolding ModelReconciler_Reconcile_def
  by (auto intro!: steps within_bindg [OF handleFinalizer [where k = KModel]] reconcile_model simp: kind_lists
      split: sum.split)

subsection \<open>Entities\<close>

lemma edits_entity: "edits P k (lift_mod (edit_rolebinding res))" "edits P k (lift_mod (edit_certificate res m))"
  "edits P k (lift_mod (edit_pod_service res m))" "edits P k (lift_mod increase_replicas)"
  by (rule edits_lift; auto simp: edit_rolebinding_def edit_certificate_def edit_pod_service_def
      increase_replicas_def split: option.splits dest!: as_SomeD as_SomeD_more)+

lemma edits_lock: "edits P k (lift_mod (lock_edit pod svc))"
  by (rule edits_lift) (simp add: lock_edit_Return)

lemma edits_ingress: "edits P k (lift_mod (edit_ingress res sec m))"
proof (rule edits_lift)
  fix ob ob'
  assume r: "edit_ingress res sec m ob = Return ob'"
  then have "as_ingress ob \<noteq> None" by (cases "as_ingress ob") (simp_all add: edit_ingress_def)
  then have "kind_of ob = KIngress" by (auto dest: as_SomeD_more)
  moreover have "kind_of ob' = KIngress"
    using edit_ingress_Return [of res sec m ob undefined ob'] r by (auto simp: lift_mod_def)
  ultimately show "kind_of ob' = kind_of ob" by simp
qed

lemma sync_entity: "kind_of res = KEntity \<Longrightarrow> within P (sync_entity env res) (\<lambda>_. True)"
proof -
  assume res: "kind_of res = KEntity"
  have sent: "within P (Processor env res None None None (RequestHandler_Handle env (status_request res)) (Some (SetStatusData env)))
      (\<lambda>(_, res', _). kind_of res' = KEntity)"
    by (rule processor_self [OF res]) (auto simp: kind_lists edits_data intro: within_weaken [OF RequestHandler])
  show ?thesis
    unfolding sync_entity_def by (rule within_bindg [OF sent]) (auto intro: within_retg split: option.split)
qed

lemma provision_for_entity:
  assumes "kind_of res = KEntity" "empty_object ty = Return k" "(template, k) \<in> set template_kinds" "edits P k f"
  shows "within P (provision_for_entity fuel env res ty suffix template f msg) (ran_kind KEntity)"
  unfolding provision_for_entity_def
  by (rule provision_step(2)) (use assms in \<open>auto simp: param_defs kind_lists\<close>)

lemma entity_objects:
  assumes "kind_of res = KEntity"
  shows "within P (entity_identity fuel env res) (ran_kind KEntity)" "within P (entity_endpoint fuel env res m) (ran_kind KEntity)"
  unfolding entity_identity_def entity_endpoint_def Let_def using assms
  by (auto intro!: then_run_step within_retg provision_for_entity [OF _ type_kinds(5)] provision_for_entity [OF _ type_kinds(6)]
      provision_for_entity [OF _ type_kinds(7)] provision_for_entity [OF _ type_kinds(2)] provision_for_entity [OF _ type_kinds(8)]
      simp: edits_entity edits_ingress edits_none template_kinds_eq)

lemma ownership: "kind_of res = KEntity \<Longrightarrow> within P (handleOwnershipAndReplicas env res m) (\<lambda>(_, res'). kind_of res' = KEntity)"
proof -
  have own: "within P (own_entity env r m) (\<lambda>(_, res'). kind_of res' = KEntity)" if "kind_of r = KEntity" for r
    unfolding own_entity_def using that
    by (auto intro!: steps edits_pure simp: kind_lists deleters kind_of_owner)
  assume res: "kind_of res = KEntity"
  let ?K = "\<lambda>(_ :: gerror option, res'). kind_of res' = KEntity"
  show ?thesis
    unfolding handleOwnershipAndReplicas_def
    by (rule get_as_step, simp add: kind_lists, clarsimp split: sum.split split del: if_split,
        intro conjI allI impI within_if pure_step within_bindg [where R = ?K])
      (use res in \<open>auto intro!: steps own edits_entity simp: kind_lists deleters split: option.split\<close>)
qed

lemma lockOnPod: "kind_of res = KEntity \<Longrightarrow> within P (lockOnPod env res m) (\<lambda>(_, res'). kind_of res' = KEntity)"
  unfolding lockOnPod_def
  by (auto intro!: steps edits_lock simp: kind_lists split: sum.split option.split)

lemma settle_entity: "kind_of res = KEntity \<Longrightarrow> within P (settle_entity env res m) (ran_kind KEntity)"
  unfolding settle_entity_def lock_entity_def
  by (auto intro!: then_run_step or_delegate update_or_delegate ownership within_retg delegate_step within_bindg [OF lockOnPod]
      simp: kind_lists edits_phase split: option.split)

lemma EntityReconciler: "within P (EntityReconciler_Reconcile fuel env ns n) (\<lambda>_. True)"
proof -
  have "within P (reconcile_entity fuel env res) (\<lambda>_. True)" if "kind_of res = KEntity" for res
    unfolding reconcile_entity_def using that
    by (auto intro!: steps sync_entity stop_run_step [where k = KEntity] then_run_step update_or_delegate entity_objects
        settle_entity simp: kind_lists edits_phase split: sum.split)
  then show ?thesis
    unfolding EntityReconciler_Reconcile_def
    by (auto intro!: steps within_bindg [OF handleFinalizer [where k = KEntity]] simp: kind_lists split: sum.split)
qed

subsection \<open>Webhooks\<close>

lemma entityMutator: "within P (entityMutator_Handle env cod raw) (\<lambda>_. True)"
proof -
  have "within P (default_identity env e) (\<lambda>_. True)" for e
    unfolding default_identity_def using elsewhere(3) by (auto intro!: within_bindg [OF within_callg] within_retg)
  moreover have "within P (default_ordinal env e) (\<lambda>_. True)" for e
    unfolding default_ordinal_def Let_def by (auto intro!: steps simp: kind_lists split: sum.split)
  ultimately show ?thesis
    unfolding entityMutator_Handle_def
    by (auto intro!: steps within_bindg [where R = "\<lambda>_. True" and m = "default_identity env e" for e]
        within_bindg [where R = "\<lambda>_. True" and m = "default_ordinal env e" for e] split: sum.split)
qed

lemma entityValidator: "within P (entityValidator_ValidateCreate env ob) (\<lambda>_. True)"
  unfolding entityValidator_ValidateCreate_def Let_def
  by (auto intro!: steps simp: kind_lists split: sum.split option.split)

lemma podMutator: "within P (podMutator_Handle ord env cod ns raw) (\<lambda>_. True)"
proof -
  have "within P (findEntityForPod env m n) (\<lambda>_. True)" for m n
    unfolding findEntityForPod_def Let_def by (auto intro!: steps simp: kind_lists split: sum.split list.split)
  then show ?thesis
    unfolding podMutator_Handle_def
    by (auto intro!: steps within_bindg [where R = "\<lambda>_. True" and m = "findEntityForPod env m n" for m n]
        simp: kind_lists split: sum.split option.split)
qed

end

section \<open>The reference cluster\<close>

definition foreign :: "kind list \<Rightarrow> mem \<Rightarrow> obj list" where
  "foreign ks w = filter (\<lambda>ob. kind_of ob \<in> set ks) (mem_objs w)"

definition cannot_write :: "policy_rule list \<Rightarrow> kind \<Rightarrow> bool" where
  "cannot_write rules k \<longleftrightarrow> \<not> may rules ''create'' k \<and> \<not> may rules ''update'' k \<and> \<not> may rules ''delete'' k
     \<and> \<not> may_write_status rules k"

lemma foreign_put: "kind_of ob \<notin> set ks \<Longrightarrow> foreign ks (mem_put ob w) = foreign ks w"
proof -
  assume k: "kind_of ob \<notin> set ks"
  have "filter (\<lambda>x. kind_of x \<in> set ks) (map (\<lambda>x. if mem_key_of ob x then ob else x) xs) = filter (\<lambda>x. kind_of x \<in> set ks) xs" for xs
    using k by (induction xs) (auto simp: mem_key_of_def mem_key_def)
  then show ?thesis by (simp add: foreign_def mem_put_def)
qed

lemma foreign_drop: "kind_of ob \<notin> set ks \<Longrightarrow> foreign ks (mem_drop ob w) = foreign ks w"
proof -
  assume k: "kind_of ob \<notin> set ks"
  have "filter (\<lambda>x. kind_of x \<in> set ks) (filter (\<lambda>x. \<not> mem_key_of ob x) xs) = filter (\<lambda>x. kind_of x \<in> set ks) xs" for xs
    using k by (induction xs) (auto simp: mem_key_of_def mem_key_def)
  then show ?thesis by (simp add: foreign_def mem_drop_def)
qed

lemma foreign_write:
  assumes "kind_of ob \<notin> set ks" "\<And>a b. kind_of b = kind_of a \<Longrightarrow> kind_of (merge a b) = kind_of a"
  shows "foreign ks (snd (mem_write merge ob w)) = foreign ks w"
proof -
  have "kind_of cur = kind_of ob" if "find (mem_key_of ob) (mem_objs w) = Some cur" for cur
    using that by (auto simp: find_Some_iff mem_key_of_def mem_key_def)
  with assms show ?thesis
    by (auto simp: mem_write_def Let_def foreign_put foreign_drop bump_version_def split: option.split)
qed

lemma kind_of_with_status_of [simp]: "kind_of (with_status_of a b) = kind_of a"
  by (cases a) (auto simp: with_status_of_def split: option.split)

lemma mem_account:
  assumes "list_all (cannot_write rules) ks"
  shows "account rules repo_env (\<lambda>w. foreign ks w = obs)"
proof
  have w: "kind_of ob \<notin> set ks" if "may rules ''create'' (kind_of ob) \<or> may rules ''update'' (kind_of ob)
      \<or> may rules ''delete'' (kind_of ob) \<or> may_write_status rules (kind_of ob)" for ob
    using assms that by (auto simp: list_all_iff cannot_write_def)
  fix w :: mem and ob :: obj
  assume P: "foreign ks w = obs"
  show "foreign ks (snd (c_create repo_env ob w)) = obs" if "may rules ''create'' (kind_of ob)"
    using w [of ob] that P by (auto simp: mem_env_def mem_create_def Let_def bump_version_def foreign_def split: option.split)
  show "foreign ks (snd (c_update repo_env ob w)) = obs" if "may rules ''update'' (kind_of ob)"
    using w [of ob] that P by (simp add: mem_env_def mem_update_def foreign_write)
  show "foreign ks (snd (c_status_update repo_env ob w)) = obs" if "may_write_status rules (kind_of ob)"
    using w [of ob] that P by (simp add: mem_env_def mem_status_update_def foreign_write)
  have "kind_of cur = kind_of ob" if "find (mem_key_of ob) (mem_objs w) = Some cur" for cur
    using that by (auto simp: find_Some_iff mem_key_of_def mem_key_def)
  then show "foreign ks (snd (c_delete repo_env ob w)) = obs" if "may rules ''delete'' (kind_of ob)"
    using w [of ob] that P
    by (auto simp: mem_env_def mem_delete_def foreign_put foreign_drop bump_version_def split: option.split)
qed (auto simp: repo_env_def mem_env_def mem_get_def mem_list_def foreign_def Let_def split: option.split)

lemma repo_client: "client_contracts repo_env"
proof -
  have "list_contract repo_env" by (auto simp: list_contract_def mem_env_def mem_list_def)
  moreover have "templates_contract repo_env"
    unfolding templates_contract_def template_kinds_eq
    by (auto simp: repo_env_def mem_env_def manifests_decode [simplified] manifest_defs Let_def)
  ultimately show ?thesis using repo_contracts by (simp add: client_contracts_def)
qed

definition unmanaged :: "kind list" where
  "unmanaged = [KDeployment, KReplicaSet, KCronJob]"

interpretation repo_manager: manager repo_env "\<lambda>w. foreign unmanaged w = obs"
proof (intro manager.intro manager_axioms.intro mem_account repo_client)
  show "list_all (cannot_write manager_role) unmanaged" by code_simp
qed

section \<open>Properties\<close>

text \<open>C5: The role of the manager is enough for all it does in the cluster. Whatever holds of the world and is
  kept by every call that \<open>role.yaml\<close> allows (and by those to other than the cluster), is kept by every run of a
  reconciler and of an admission webhook: they make no other calls.\<close>

theorem manager_stays_within_role:
  assumes "account manager_role env P" and "client_contracts env" and "P w"
  shows "P (snd (EntityReconciler_Reconcile fuel env ns name w))
    \<and> P (snd (GroupReconciler_Reconcile fuel env ns name w))
    \<and> P (snd (ModelReconciler_Reconcile fuel env ns name w))
    \<and> P (snd (TaskReconciler_Reconcile env sched ns name w))
    \<and> P (snd (entityMutator_Handle env ecod raw w))
    \<and> P (snd (entityValidator_ValidateCreate env ob w))
    \<and> P (snd (podMutator_Handle ord env pcod ns raw w))"
proof -
  have m: "manager env P" using assms(1,2) by (simp add: manager_def manager_axioms_def)
  note runs = manager.EntityReconciler [OF m] manager.GroupReconciler [OF m] manager.ModelReconciler [OF m]
    manager.TaskReconciler [OF m] manager.entityMutator [OF m] manager.entityValidator [OF m] manager.podMutator [OF m]
  show ?thesis by (intro conjI runs [THEN withinD] assms(3))
qed

text \<open>The witness: deployments, replica sets and cron jobs, which the role does not cover, are as they were.\<close>

theorem manager_stays_within_role_witness:
  "foreign unmanaged (snd (GroupReconciler_Reconcile 1 repo_env ''ns'' ''g'' in_group_world)) = foreign unmanaged in_group_world
   \<and> fst (GroupReconciler_Reconcile 1 repo_env ''ns'' ''g'' in_group_world) = Return (no_requeue, None)"
proof
  show "foreign unmanaged (snd (GroupReconciler_Reconcile 1 repo_env ''ns'' ''g'' in_group_world)) = foreign unmanaged in_group_world"
    using manager_stays_within_role [OF repo_manager.account_axioms repo_client refl, where w = in_group_world
      and fuel = 1 and ns = "''ns''" and name = "''g''"] by blast
  show "fst (GroupReconciler_Reconcile 1 repo_env ''ns'' ''g'' in_group_world) = Return (no_requeue, None)"
    by code_simp
qed

text \<open>C16: All that an agent does in the cluster is to create tasks: whatever is kept by the calls that
  \<open>task_creator_role.yaml\<close> allows and by the agent's own files, is kept by every request it serves.\<close>

theorem agent_stays_within_role:
  assumes "account task_creator_role env P"
    and "\<And>w. P w \<Longrightarrow> P (snd (mkdir_all os w))" "\<And>f w. P w \<Longrightarrow> P (snd (create_file os f w))"
      "\<And>f w. P w \<Longrightarrow> P (snd (copy_file os f w))"
    and "P w"
  shows "P (snd (snd (serve env os rt r (q, w))))"
proof -
  let ?P = "\<lambda>(q :: queue, w). P w"
  have out: "within ?P (outside f) (\<lambda>_. True)" if "\<And>w. P w \<Longrightarrow> P (snd (f w))" for f :: "'a \<Rightarrow> 'b \<times> 'a"
    unfolding within_def outside_def using that by (auto split: prod.split) (metis snd_conv)
  have queue: "within ?P (with_queue f) (\<lambda>_. True)" for f :: "queue \<Rightarrow> 'b \<times> queue"
    by (auto simp: within_def with_queue_def split: prod.split)
  have pure: "within ?P (http_error msg code) (\<lambda>_. True)" "within ?P (send_json os b) (\<lambda>_. True)" for msg code b
    by (auto simp: http_error_def send_json_def intro: within_retg)
  have "may task_creator_role ''create'' KTask" by code_simp
  then have create: "P w \<Longrightarrow> P (snd (c_create env (OTask t) w))" for w t
    using account.create_allowed [OF assms(1)] by simp
  have now: "P w \<Longrightarrow> P (snd (c_now env w))" for w
    using account.elsewhere(1) [OF assms(1)] .
  have made: "within ?P (create_sync_task env os req) (\<lambda>_. True)" for req
    unfolding create_sync_task_def Let_def
    by (auto intro!: within_bindg [OF out] within_bindg [OF pure(1)] within_retg create now split: sum.split)
  have sync: "within ?P (handleSync env os r) (\<lambda>_. True)"
    unfolding handleSync_def
    by (auto intro!: pure within_bindg [OF queue] within_bindg [OF made] within_retg split: sum.split)
  have image: "within ?P (handleImage os r) (\<lambda>_. True)"
    unfolding handleImage_def by (auto intro!: pure within_bindg [OF out] within_retg assms(2-4) split: sum.split)
  have task: "within ?P (handleTask os r) (\<lambda>_. True)"
    unfolding handleTask_def by (auto intro!: pure within_bindg [OF queue] within_retg split: sum.split)
  have status: "within ?P (handleStatus os r) (\<lambda>_. True)"
    unfolding handleStatus_def by (auto intro!: pure within_bindg [OF queue] within_bindg [OF out] split: sum.split)
  have page: "within ?P (handleImageList os r) (\<lambda>_. True)"
    unfolding handleImageList_def by (auto intro!: pure within_bindg [OF out] within_retg split: sum.split)
  have checked: "within ?P (certVerifyMiddleware os h r) (\<lambda>_. True)" if "within ?P (h r) (\<lambda>_. True)" for h
    unfolding certVerifyMiddleware_def using that by (auto intro!: pure split: option.split sum.split)
  have "within ?P (serve env os rt r) (\<lambda>_. True)"
    by (cases rt) (auto simp: serve_def intro!: checked sync image task status page)
  from withinD [OF this, of "(q, w)"] assms(5) show ?thesis by (simp add: split_beta)
qed

text \<open>The witness: a request for a task, after which all but the tasks are as they were.\<close>

definition no_tasks :: "kind list" where
  "no_tasks = [KEntity, KGroup, KModel, KPod, KStatefulSet, KService, KServiceAccount, KRoleBinding, KNetworkPolicy,
     KIngress, KCertificate, KSecret, KNamespace] @ unmanaged"

interpretation repo_agent: account task_creator_role repo_env "\<lambda>w. foreign no_tasks w = obs"
proof (rule mem_account)
  show "list_all (cannot_write task_creator_role) no_tasks" by code_simp
qed

theorem agent_stays_within_role_witness:
  "foreign no_tasks (snd (snd (serve repo_env sample_os RSync (post ''arm-1'') ([], arm_world)))) = foreign no_tasks arm_world
   \<and> length (foreign [KTask] (snd (snd (serve repo_env sample_os RSync (post ''arm-1'') ([], arm_world))))) = 1"
proof
  have f: "snd (mkdir_all sample_os w) = w" "snd (create_file sample_os n w) = w" "snd (copy_file sample_os n w) = w" for n w
    by (simp_all add: sample_os_def)
  show "foreign no_tasks (snd (snd (serve repo_env sample_os RSync (post ''arm-1'') ([], arm_world)))) = foreign no_tasks arm_world"
    by (rule agent_stays_within_role [OF repo_agent.account_axioms]) (simp_all only: f)
  show "length (foreign [KTask] (snd (snd (serve repo_env sample_os RSync (post ''arm-1'') ([], arm_world))))) = 1"
    by code_simp
qed

text \<open>C17: The role binding that is put in place for a privileged entity refers to the cluster role
  \<open>task-creator-role\<close>, but no role of that name is deployed: \<open>config/default\<close> gives it a prefix, which the
  template that the manager reads does not have.\<close>

theorem task_role_is_not_deployed:
  fixes env :: "'w env"
  assumes "retry_contract env" "get_contract env" "write_contract (c_status_update env)" "owner_contract env"
    and decode: "\<And>bytes. read_file env (TemplatePath @ ''/'' @ ''rb.yml'') = Inr bytes \<Longrightarrow> decode_object env bytes = Inr rb_yml"
    and run: "provision_for_entity fuel env res ResourceTypeRoleBinding ''-rb'' ''rb.yml'' (lift_mod (edit_rolebinding res)) msg w
      = (Return (Ran res'), w')"
  shows "\<exists>rb. in_place env ResourceTypeRoleBinding (ORoleBinding rb)
    \<and> rb_subjects rb = [\<lparr>su_kind = ''ServiceAccount'', su_name = obj_name res @ ''-sa'', su_namespace = obj_ns res\<rparr>]
    \<and> rb_roleRef rb = ''ClusterRole '' @ ''task-creator-role''
    \<and> ''task-creator-role'' \<notin> set deployed_roles \<and> namePrefix @ ''task-creator-role'' \<in> set deployed_roles"
proof -
  let ?p = "entity_owned_params res ResourceTypeRoleBinding ''-rb'' ''rb.yml''"
  from run have "provision fuel env res ?p (lift_mod (edit_rolebinding res)) w = (Return (None, res'), w')"
    unfolding provision_for_entity_def by (rule or_delegate_Ran)
  from provision_spec [OF assms(1-4) _ this] have "owns env res ?p (lift_mod (edit_rolebinding res))"
    by (simp add: param_defs)
  then obtain h bytes object built want r and v v1 w1 w2 :: 'w where
    h: "NewClusterResourceHandler res ?p = Return h" and
    src: "read_file env (TemplatePath @ ''/'' @ cp_Template ?p) = Inr bytes" "decode_object env bytes = Inr object" and
    f: "lift_mod (edit_rolebinding res) object v = (Return built, v1)" and
    want: "wanted h built want" "provisioned env h want w1 r w2"
    unfolding owns_def by (elim exE conjE) (rule that)
  from decode src have "object = rb_yml" by (simp add: param_defs)
  with f obtain rb where rb: "built = ORoleBinding rb" "rb_roleRef rb = ''ClusterRole '' @ ''task-creator-role''"
    "rb_subjects rb = [\<lparr>su_kind = ''ServiceAccount'', su_name = obj_name res @ ''-sa'', su_namespace = obj_ns res\<rparr>]"
    by (auto simp: lift_mod_def edit_rolebinding_def rb_yml_def)
  from want(1) obtain g where g: "want = map_meta g built" by (auto simp: wanted_def)
  have "in_place env ResourceTypeRoleBinding want"
    unfolding in_place_def
  proof (intro exI conjI)
    show "provisioned env h want w1 r w2" by (rule want(2))
    show "ch_ResourceType h = ResourceTypeRoleBinding" "empty_object ResourceTypeRoleBinding = Return (ch_InitObject h)"
      using h by (auto simp: NewClusterResourceHandler_def param_defs)
    show "ch_TargetName h = obj_name want" "ch_Namespace h = obj_ns want"
      using want(1) by (auto simp: wanted_def)
  qed
  moreover have "''task-creator-role'' \<notin> set deployed_roles" "namePrefix @ ''task-creator-role'' \<in> set deployed_roles"
    by code_simp+
  ultimately show ?thesis
    using rb by (intro exI [of _ "rb\<lparr>rb_meta := g (rb_meta rb)\<rparr>"]) (simp add: g)
qed

theorem task_role_is_not_deployed_witness:
  "\<exists>rb. in_place repo_env ResourceTypeRoleBinding (ORoleBinding rb) \<and> rb_roleRef rb = ''ClusterRole task-creator-role''
    \<and> \<not> list_ex (\<lambda>n. ''ClusterRole '' @ n = rb_roleRef rb) deployed_roles"
proof -
  have "ends (provision_for_entity 1 repo_env (OEntity fresh_arm) ResourceTypeRoleBinding ''-rb'' ''rb.yml''
      (lift_mod (edit_rolebinding (OEntity fresh_arm))) [] arm_world) (\<lambda>x _. case x of Ran _ \<Rightarrow> True | _ \<Rightarrow> False)"
    by code_simp
  then obtain res' w' where run: "provision_for_entity 1 repo_env (OEntity fresh_arm) ResourceTypeRoleBinding ''-rb'' ''rb.yml''
      (lift_mod (edit_rolebinding (OEntity fresh_arm))) [] arm_world = (Return (Ran res'), w')"
    by (elim endsE) (auto split: run_outcome.splits)
  have "decode_object repo_env bytes = Inr rb_yml" if "read_file repo_env (TemplatePath @ ''/'' @ ''rb.yml'') = Inr bytes" for bytes
    using that manifests_decode(8) by (simp add: repo_env_def mem_env_def)
  from task_role_is_not_deployed [OF repo_contracts(1,2,3,5) this run] show ?thesis
    by (auto simp: list_ex_iff)
qed

end
