(* ===== verification/Spec2Isabelle.thy ===== *)
theory Spec2Isabelle
  imports Entity_Webhook Crd_Webhooks Pod_Webhook Object_Handler Request_Handler Deletion_Handler
    Cluster_Resource_Handler Processor Group_Controller Task_Controller Agent
    Templates Model_Controller Entity_Controller Fleet Cli Startup Registration Task_Goroutines Deep_Copy
    Permissions
begin

text \<open>
  RoboKube is a Kubernetes operator for robots. Four custom resources describe the fleet: a
  \<open>Model\<close> is a kind of robot and owns a stateful set, an \<open>Entity\<close> is one robot and is tied
  to one pod of that set by an ordinal index, a \<open>Group\<close> labels entities and gives them a
  network policy, a \<open>Task\<close> is a payload posted to the pods of some entities. Admission webhooks
  default and validate these resources and mutate the pods; one reconciler for each resource brings
  the cluster to what its spec says; an agent beside each pod takes messages from tasks.

  \<^bold>\<open>The theories, from the bottom up\<close>

  \<^item> \<open>Go_Prelude\<close>: the value of a run of Go code (\<open>outcome\<close>: a result, a panic, or no
    more fuel), the state monad \<open>go\<close> over the outside world, loops, and errors that may wrap an
    API status. \<open>Go_Strings\<close>: \<open>%d\<close>, \<open>strconv.Atoi\<close>, \<open>strings.Split\<close> and the
    like, with the round trip of decimal text.
  \<^item> \<open>Api_Common\<close>, \<open>Rkube_Type\<close>, \<open>Api_Types\<close>: \<open>api/v1/common.go\<close> and the
    \<open>*_types.go\<close> files as records with the source's fields. \<open>rkube_type\<close> is the Go
    interface \<open>RkubeType\<close> as a locale, interpreted on all four resources.
  \<^item> \<open>Cluster_Objects\<close>: the Kubernetes objects the program handles, reduced to the fields it
    reads or writes and a sum type over all kinds (\<open>client.Object\<close>).
  \<^item> \<open>Client_Api\<close>: the record \<open>env\<close> of everything outside the repository (the
    controller-runtime client, retries, clock, selectors, HTTP, files) with the documented behaviour
    that theorems assume as named predicates. \<open>Reference_Cluster\<close>: an in-memory cluster that
    meets all of them, on which every witness runs.
  \<^item> \<open>Index_Allocator\<close>, \<open>Entity_Webhook\<close>: \<open>api/v1/entity_webhook.go\<close>; the search
    for a free ordinal index, and the contract of such a search as a locale.
    \<open>Crd_Webhooks\<close>: \<open>group_webhook.go\<close>, \<open>model_webhook.go\<close>, \<open>task_webhook.go\<close>
    as three instances of one webhook contract. \<open>Pod_Webhook\<close>: \<open>pod_webhook.go\<close>.
  \<^item> \<open>Handler_Api\<close>: the interface of \<open>internal/controller/handler\<close> as a locale, and the
    read-modify-write under \<open>RetryOnConflict\<close>. \<open>Object_Handler\<close>, \<open>Request_Handler\<close>,
    \<open>Deletion_Handler\<close>, \<open>Cluster_Resource_Handler\<close>: its four implementations, each an
    interpretation of that locale.
  \<^item> \<open>Processor\<close>: \<open>processor_handler.go\<close>, generic in the handler it runs.
    \<open>Group_Controller\<close>, \<open>Task_Controller\<close>: the reconcilers of the files of these names.
    \<open>Early_Return\<close>: a step of a reconciler that returns at once when it fails, and which errors
    come out of such steps.
  \<^item> \<open>Provision\<close>: handler, build, edit and write of one owned object, as the model and the
    entity controller repeat it, and what a run of it without an error has put in place.
    \<open>Templates\<close>: the manifests of \<open>internal/controller/template\<close> that they edit, and the
    reference cluster with these manifests. \<open>Model_Controller\<close>: \<open>model_controller.go\<close>, with
    the scaling of entities. \<open>Entity_Controller\<close>: \<open>entity_controller.go\<close>, with the objects
    of an entity, its ownership, its lock on a pod and the fetching of its status.
  \<^item> \<open>Agent\<close>: \<open>cmd/agent/main.go\<close>, with its message queue as a locale and the server as
    an inductive step relation.
  \<^item> \<open>Flags\<close>: command line flags. \<open>Cli\<close>: \<open>cmd/cli/main.go\<close>, its four commands
    and the wait for a task. \<open>Startup\<close>: \<open>cmd/main.go\<close>, the start of the manager as the
    list of its steps. \<open>Registration\<close>: what those steps register, from \<open>groupversion_info.go\<close>,
    the \<open>init\<close> functions, \<open>SetupWebhookWithManager\<close> and \<open>SetupWithManager\<close>: the
    served admission paths against the announced ones, and which changes wake which controller, with
    controller-runtime as a locale.
  \<^item> \<open>Fleet\<close>: the stored entities over time, as an inductive step relation of submissions
    through both webhooks, the controllers' edits and deletions, on an API server that is a locale.
  \<^item> \<open>Task_Goroutines\<close>: the goroutines of \<open>processEntities\<close> as trees of atomic steps on
    what they share, in every interleaving.
  \<^item> \<open>Go_Heap\<close>: pointers, slices and maps of Go on a store of cells, and the laws of a deep
    copy as a locale. \<open>Deep_Copy\<close>: \<open>zz_generated.deepcopy.go\<close>, every function an
    interpretation of that locale, with the copies of Kubernetes types as a parameter.
  \<^item> \<open>Roles\<close>: the rbac markers beside the reconcilers, the roles of \<open>config/rbac\<close> and the
    names they are deployed under. \<open>Permissions\<close>: the calls of the reconcilers, the webhooks and
    the agent against these roles, with an account and what its calls keep as a locale.
  \<^item> This theory: properties of several components together.

  \<^bold>\<open>State and effects\<close>

  A function of the source that talks to the outside takes an \<open>env\<close> and is a function of the
  world \<open>'w\<close>, a type variable: another client may change anything between two calls. A pointer
  argument that a call overwrites (\<open>Get\<close>, \<open>Update\<close>, the retried closures) is returned with
  the result; where two parties hold the same pointer the object is part of the state instead (the shared
  task in \<open>Task_Goroutines\<close>, the store in \<open>Go_Heap\<close>). A nil dereference, an index out of range, a write to a nil map and a failed type
  assertion are panics. Errors are values; \<open>%w\<close> keeps the API status visible, as
  \<open>errors.As\<close> does.

  \<^bold>\<open>Fuel\<close>

  Only \<open>ClusterResourceHandler.Handle\<close> calls itself without a bound, on every write conflict;
  its model takes fuel, and \<open>cluster_handler_returns\<close> shows that any fuel above the number of
  conflicts left in the world is enough and that more changes nothing. The reconcilers pass the fuel
  on. \<open>Task_Goroutines\<close> bounds the attempts of \<open>retry.DefaultRetry\<close> by a number, for any
  value of which its properties hold. The two loops over ordinals in \<open>Model_Controller\<close> count an \<open>int32\<close> up to a bound and
  end by the signed distance to it. The poll of the command line client is outside, with its documented
  behaviour as \<open>poll_contract\<close>. All other loops are structural.

  \<^bold>\<open>What the lemmas show\<close>

  Each component has facts on its single operations, then the properties: admission (which index an
  entity gets, what is accepted, what holds of every stored resource), writes (no lost update, what
  was written when no error is reported, when an error is retried), clean-up (what is gone when a
  finalizer is), the reconcilers (what they guarantee on success, which errors and requeues they
  return, what they do not do although the code reads so), scaling (an entity for every ordinal, one
  replica more for the next entity), the manifests (every edit fits its manifest), the agent (every
  message delivered once and in order), and the commands (what they created when they return, when the
  wait ends), the fleet (indices stay unique, but for updates and submissions at once), the goroutines
  (one request for each entity in every interleaving, and the answer two of them can lose), the
  registrations (paths agree, who is woken by what), the roles (enough for all the program does, and no
  more than tasks for an agent, whose binding misses its role) and the deep copies (equal to the original and
  sharing nothing with it). The properties of this theory tie components together: one label ties an ordinal to its
  entity and pod everywhere, the account of a pod is the one that was made for its entity, and a
  message reaches the agent it is for.

  \<^bold>\<open>Not modelled\<close>

  Logging and printing; the libraries (client, controller-runtime, cobra, net/http), which are
  parameters with named laws; type metadata, outside the deep copies; the static file server of the
  agent; tests, charts, YAML other than the webhook configuration, the roles and the templates, and the manifest
  \<open>ing.yml\<close>, which no code reads. The goroutines of a task are interleaved at their calls and
  edits of an object, not within one. In the runs of \<open>Fleet\<close> submissions do not overlap, and the
  entities that a model's scaling creates, which have an owner and are not validated, are left out.
\<close>

section \<open>Admission and the reconcilers\<close>





text \<open>The webhooks admit a model with no target replicas just as one with any, and its reconciler
  then panics on the nil pointer when it comes to the replicas. The models that the command line client
  creates always have a target, and are admitted when they name a stateful set.\<close>

theorem model_target_is_not_required:
  "Model_ValidateCreate (Model_Default m) = Model_ValidateCreate (Model_Default
      (m\<lparr>mo_spec := (mo_spec m)\<lparr>ms_targetReplicas := t\<rparr>\<rparr>))
   \<and> (ms_targetReplicas (mo_spec m) = None \<longrightarrow>
      reconcile_replicas fuel env (OModel m) current w = (Panic nil_deref, w))
   \<and> ms_targetReplicas (mo_spec (cli_model name ns given)) \<noteq> None
   \<and> (Model_ValidateCreate (Model_Default (cli_model name ns given)) = None \<longleftrightarrow>
      GetString modelFlags given ''sts'' \<noteq> [])"
  by (simp add: Model_ValidateCreate_def Model_Default_def Let_def reconcile_replicas_def cli_model_def
      empty_model_def)

definition untargeted_model :: model where
  "untargeted_model = sample_model\<lparr>mo_spec := (mo_spec sample_model)\<lparr>ms_targetReplicas := None\<rparr>\<rparr>"

theorem model_target_is_not_required_witness:
  "admit_create Model_Default Model_ValidateCreate untargeted_model = Some (Model_Default untargeted_model)
   \<and> reconcile_replicas 1 repo_env (OModel untargeted_model) 0 (sample_world []) = (Panic nil_deref, sample_world [])"
proof -
  have "Model_ValidateCreate (Model_Default (untargeted_model\<lparr>mo_spec := (mo_spec untargeted_model)
      \<lparr>ms_targetReplicas := Some 2\<rparr>\<rparr>)) = None"
    by code_simp
  moreover have "ms_targetReplicas (mo_spec untargeted_model) = None" by (simp add: untargeted_model_def)
  ultimately show ?thesis
    using model_target_is_not_required [of untargeted_model "Some 2" 1 repo_env 0 "sample_world []"]
    by (simp add: admit_create_def Let_def)
qed

section \<open>The templates\<close>

definition template_fits :: "cluster_params \<Rightarrow> (obj \<Rightarrow> obj outcome) \<Rightarrow> bool" where
  \<comment> \<open>the manifest of these parameters is there, of the type they name, and the edit goes through\<close>
  "template_fits paras f \<longleftrightarrow> (\<exists>ob built. decode_manifest (TemplatePath @ ''/'' @ cp_Template paras) = Inr ob
     \<and> f ob = Return built \<and> kind_of built = kind_of ob \<and> empty_object (cp_ResourceType paras) = Return (kind_of ob))"

lemma template_fits_iff:
  "cp_Template paras = t \<Longrightarrow> decode_manifest (TemplatePath @ ''/'' @ t) = Inr ob \<Longrightarrow>
     cp_ResourceType paras = ty \<Longrightarrow> empty_object ty = Return (kind_of ob) \<Longrightarrow>
     template_fits paras f \<longleftrightarrow> (\<exists>built. f ob = Return built \<and> kind_of built = kind_of ob)"
  unfolding template_fits_def by auto

lemma params_template:
  "cp_Template (group_netpol_params res) = ''np-group.yml''"
  "cp_Template (operator_netpol_params res) = ''np-operator.yml''"
  "cp_Template (model_service_params res) = ''srv.yml''"
  "cp_Template (model_sts_params res) = ''sts.yml''"
  "cp_Template (entity_params res i) = ''entity.yml''"
  "cp_Template (entity_owned_params res ty suffix t) = t"
  by (simp_all add: group_netpol_params_def operator_netpol_params_def model_service_params_def
      model_sts_params_def entity_params_def entity_owned_params_def resource_params_def)

text \<open>C34: every edit that the reconcilers of groups, models and entities make fits the manifest it is
  made on: the manifest has the type the handler is told, and no index, nil map, nil pointer or type
  assertion on the way panics. The one exception is the service of an entity with no ordinal index.\<close>

theorem repository_templates_fit:
  "template_fits (group_netpol_params res) (BuildNp key val)
   \<and> template_fits (operator_netpol_params res) Return
   \<and> template_fits (model_service_params res) (edit_model_service n modelName)
   \<and> template_fits (model_sts_params res) (edit_model_sts m)
   \<and> template_fits (entity_params res i) (edit_entity modelName i)
   \<and> template_fits (entity_owned_params res ResourceTypeServiceAccount ''-sa'' ''sa.yml'') Return
   \<and> template_fits (entity_owned_params res ResourceTypeRoleBinding ''-rb'' ''rb.yml'') (edit_rolebinding res)
   \<and> template_fits (entity_owned_params res ResourceTypeCert ''-crt'' ''crt.yml'') (edit_certificate res m)
   \<and> template_fits (entity_owned_params res ResourceTypeIngress ''-ing'' ''ing-pod.yml'') (edit_ingress res s m)
   \<and> (template_fits (entity_owned_params res ResourceTypeService ''-srv'' ''srv-pod.yml'') (edit_pod_service res m)
      \<longleftrightarrow> ordinal_of (the_entity res) \<noteq> None)"
proof -
  have "template_fits (group_netpol_params res) (BuildNp key val)"
    by (subst template_fits_iff [OF params_template(1) manifests_decode(1) params_type(1)])
      (simp_all add: type_kinds np_group_yml_def Let_def BuildNp_def set_peer_key_def)
  moreover have "template_fits (operator_netpol_params res) Return"
    by (subst template_fits_iff [OF params_template(2) manifests_decode(2) params_type(2)])
      (simp_all add: type_kinds np_operator_yml_def)
  moreover have "template_fits (model_service_params res) (edit_model_service n modelName)"
    by (subst template_fits_iff [OF params_template(3) manifests_decode(3) params_type(3)])
      (simp_all add: type_kinds srv_yml_def edit_model_service_def)
  moreover have "template_fits (model_sts_params res) (edit_model_sts m)"
    by (subst template_fits_iff [OF params_template(4) manifests_decode(5) params_type(4)])
      (simp_all add: type_kinds sts_yml_def edit_model_sts_def write_map_def Let_def)
  moreover have "template_fits (entity_params res i) (edit_entity modelName i)"
    by (subst template_fits_iff [OF params_template(5) manifests_decode(6) params_type(5)])
      (simp_all add: type_kinds entity_yml_def edit_entity_def)
  moreover have "template_fits (entity_owned_params res ResourceTypeServiceAccount ''-sa'' ''sa.yml'') Return"
    by (subst template_fits_iff [OF params_template(6) manifests_decode(7) params_type(6)])
      (simp_all add: type_kinds sa_yml_def)
  moreover have "template_fits (entity_owned_params res ResourceTypeRoleBinding ''-rb'' ''rb.yml'') (edit_rolebinding res)"
    by (subst template_fits_iff [OF params_template(6) manifests_decode(8) params_type(6)])
      (simp_all add: type_kinds rb_yml_def edit_rolebinding_def)
  moreover have "template_fits (entity_owned_params res ResourceTypeCert ''-crt'' ''crt.yml'') (edit_certificate res m)"
    by (subst template_fits_iff [OF params_template(6) manifests_decode(9) params_type(6)])
      (simp_all add: type_kinds crt_yml_def edit_certificate_def)
  moreover have "template_fits (entity_owned_params res ResourceTypeIngress ''-ing'' ''ing-pod.yml'') (edit_ingress res s m)"
    by (subst template_fits_iff [OF params_template(6) manifests_decode(10) params_type(6)])
      (simp_all add: type_kinds ing_pod_yml_def edit_ingress_def)
  moreover have "template_fits (entity_owned_params res ResourceTypeService ''-srv'' ''srv-pod.yml'') (edit_pod_service res m)
      \<longleftrightarrow> ordinal_of (the_entity res) \<noteq> None"
    by (subst template_fits_iff [OF params_template(6) manifests_decode(4) params_type(6)])
      (auto simp: type_kinds srv_pod_yml_def edit_pod_service_def)
  ultimately show ?thesis by blast
qed

section \<open>From one agent to another\<close>


definition codec_os :: "mem agent_os" where
  \<comment> \<open>a codec that keeps the sender and the text of a message that is sent at the time 0\<close>
  "codec_os = sample_os
     \<lparr>marshal_message := (\<lambda>m. Inr (qm_Sender m @ CHR ''|'' # qm_Message m)),
      decode_message := (\<lambda>s. Inr \<lparr>qm_Sender = takeWhile (\<lambda>c. c \<noteq> CHR ''|'') s,
        qm_Message = tl (dropWhile (\<lambda>c. c \<noteq> CHR ''|'') s), qm_SentTime = 0\<rparr>)\<rparr>"


end
